(* ===== verification/Prelude.thy ===== *)
theory Prelude
  imports Main "HOL-Library.Word" "HOL-Library.Monad_Syntax" "HOL-Library.Signed_Division"
begin

text \<open>
  What every component shares: the machine integers of the C code, the C string view of a
  byte buffer, decimal and hexadecimal printing and scanning as \<open>sprintf\<close>, \<open>atoi\<close>,
  \<open>strtol\<close> and \<open>strtoul\<close> do it, \<open>memmove\<close>, and the facts on the option monad that the
  component proofs use. An operation of the model that meets undefined behaviour of the C
  code (a NULL or dangling pointer, a read of uninitialised memory, an access out of
  bounds, a failed assertion) or does not return has the value \<open>None\<close>.
\<close>

type_synonym u8 = "8 word"
type_synonym u16 = "16 word"
type_synonym u32 = "32 word"
type_synonym u64 = "64 word"

named_theorems opt_bind "rewriting of option-monad programs"
named_theorems scan_simps "printing and scanning of numbers"

lemma bind_SomeE [elim]:
  assumes "Option.bind x f = Some y"
  obtains a where "x = Some a" "f a = Some y"
  using assms by (cases x) auto

lemma bind_if_distrib [opt_bind]:
  "Option.bind (if b then x else y) f = (if b then Option.bind x f else Option.bind y f)"
  by simp

lemma bind_case_prod [opt_bind]:
  "Option.bind (case p of (a, b) \<Rightarrow> g a b) f = (case p of (a, b) \<Rightarrow> Option.bind (g a b) f)"
  by (cases p) simp

text \<open>
  Weakest preconditions of option-monad programs: \<open>wp c Q\<close> says that \<open>c\<close> is defined and
  its result satisfies \<open>Q\<close>, \<open>wlp c Q\<close> that its result satisfies \<open>Q\<close> if it is defined.
\<close>

named_theorems wp_simps "weakest preconditions of option-monad programs"

definition wp :: "'a option \<Rightarrow> ('a \<Rightarrow> bool) \<Rightarrow> bool" where
  "wp c Q \<longleftrightarrow> (\<exists>y. c = Some y \<and> Q y)"

definition wlp :: "'a option \<Rightarrow> ('a \<Rightarrow> bool) \<Rightarrow> bool" where
  "wlp c Q \<longleftrightarrow> (\<forall>y. c = Some y \<longrightarrow> Q y)"

lemma wp_basic [wp_simps]:
  "wp (Some y) Q = Q y" "wp None Q = False"
  "wp (Option.bind c f) Q = wp c (\<lambda>y. wp (f y) Q)"
  "wp (if b then d else e) Q = (if b then wp d Q else wp e Q)"
  "wp (case p of (a, b) \<Rightarrow> h a b) Q = (case p of (a, b) \<Rightarrow> wp (h a b) Q)"
  by (auto simp: wp_def bind_eq_Some_conv split: prod.splits)

lemma wlp_basic [wp_simps]:
  "wlp (Some y) Q = Q y" "wlp None Q = True"
  "wlp (Option.bind c f) Q = wlp c (\<lambda>y. wlp (f y) Q)"
  "wlp (if b then d else e) Q = (if b then wlp d Q else wlp e Q)"
  "wlp (case p of (a, b) \<Rightarrow> h a b) Q = (case p of (a, b) \<Rightarrow> wlp (h a b) Q)"
  by (auto simp: wlp_def bind_eq_Some_conv split: prod.splits)

lemma wp_conseq: "wp c P \<Longrightarrow> (\<And>y. P y \<Longrightarrow> Q y) \<Longrightarrow> wp c Q"
  by (auto simp: wp_def)

lemma wlp_conseq: "wlp c P \<Longrightarrow> (\<And>y. P y \<Longrightarrow> Q y) \<Longrightarrow> wlp c Q"
  by (auto simp: wlp_def)

lemma wp_bindI: "wp c P \<Longrightarrow> (\<And>y. P y \<Longrightarrow> wp (f y) Q) \<Longrightarrow> wp (Option.bind c f) Q"
  by (auto simp: wp_def)

lemma wlp_bindI: "wlp c P \<Longrightarrow> (\<And>y. P y \<Longrightarrow> wlp (f y) Q) \<Longrightarrow> wlp (Option.bind c f) Q"
  by (auto simp: wlp_def bind_eq_Some_conv)

lemma wp_wlp: "wp c P \<Longrightarrow> wlp c P"
  by (auto simp: wp_def wlp_def)

lemma wlpD: "wlp c Q \<Longrightarrow> c = Some y \<Longrightarrow> Q y"
  by (simp add: wlp_def)

lemma wpE: "wp c Q \<Longrightarrow> (\<And>y. c = Some y \<Longrightarrow> Q y \<Longrightarrow> thesis) \<Longrightarrow> thesis"
  by (auto simp: wp_def)

subsection \<open>C integers\<close>

text \<open>\<open>c_int\<close> is the conversion of an integer to the 32-bit \<open>int\<close> (two's complement).\<close>

definition c_int :: "int \<Rightarrow> int" where
  "c_int i = signed_take_bit 31 i"

lemma c_int_id: "- (2 ^ 31) \<le> i \<Longrightarrow> i < 2 ^ 31 \<Longrightarrow> c_int i = i"
  by (simp add: c_int_def signed_take_bit_int_eq_self)

text \<open>C division and remainder agree with \<open>div\<close> and \<open>mod\<close> on non-negative operands.\<close>

lemma sdiv_nonneg: "0 \<le> a \<Longrightarrow> 0 < b \<Longrightarrow> a sdiv b = a div (b :: int)"
  by (cases "a = 0") (simp_all add: signed_divide_int_def sgn_if)

lemma smod_nonneg: "0 \<le> a \<Longrightarrow> 0 < b \<Longrightarrow> a smod b = a mod (b :: int)"
  by (cases "a = 0") (simp_all add: signed_modulo_int_def sgn_if)

lemma nat_int_pred [simp]: "nat (int n - 1) = n - 1"
  by simp

subsection \<open>C strings and byte blocks\<close>

text \<open>What \<open>strlen\<close>, \<open>%s\<close> and \<open>strcmp\<close> see of a NUL-terminated byte block.\<close>

definition cstr :: "string \<Rightarrow> string" where
  "cstr s = takeWhile (\<lambda>c. c \<noteq> CHR 0x00) s"

lemma cstr_no_nul [simp]: "CHR 0x00 \<notin> set s \<Longrightarrow> cstr s = s"
  by (auto simp: cstr_def takeWhile_eq_all_conv)

lemma length_cstr_le: "length (cstr s) \<le> length s"
  by (simp add: cstr_def length_takeWhile_le)

definition memmove :: "'a list \<Rightarrow> nat \<Rightarrow> nat \<Rightarrow> nat \<Rightarrow> 'a list" where
  "memmove xs dst src n = take dst xs @ take n (drop src xs) @ drop (dst + n) xs"

lemma length_memmove:
  "dst + n \<le> length xs \<Longrightarrow> src + n \<le> length xs \<Longrightarrow> length (memmove xs dst src n) = length xs"
  by (simp add: memmove_def)

lemma nth_memmove:
  assumes "dst + n \<le> length xs" "src + n \<le> length xs" "i < length xs"
  shows "memmove xs dst src n ! i = (if dst \<le> i \<and> i < dst + n then xs ! (src + (i - dst)) else xs ! i)"
proof -
  define m where "m = take n (drop src xs)"
  have m: "length m = n" using assms by (simp add: m_def)
  have mv: "memmove xs dst src n = take dst xs @ m @ drop (dst + n) xs"
    by (simp add: memmove_def m_def)
  consider "i < dst" | "dst \<le> i" "i < dst + n" | "dst + n \<le> i" by linarith
  then show ?thesis
  proof cases
    case 1
    then show ?thesis using assms by (simp add: mv nth_append)
  next
    case 2
    then have "memmove xs dst src n ! i = m ! (i - dst)"
      using assms m by (simp add: mv nth_append less_diff_conv2)
    then show ?thesis using 2 assms by (simp add: m_def)
  next
    case 3
    then have "\<not> i < dst" "\<not> i - dst < n" by linarith+
    then show ?thesis using 3 assms m by (simp add: mv nth_append)
  qed
qed

end
