(* ===== verification/C_Text.thy ===== *)
theory C_Text
  imports Prelude
begin

text \<open>
  Text of numbers, as the C library prints and scans it: \<open>%d\<close>, \<open>%lu\<close>, \<open>%.4x\<close> and \<open>%.8x\<close> of
  the printf family; \<open>strtol\<close>, \<open>strtoul\<close>, \<open>atoi\<close> and the \<open>%x\<close> conversion of \<open>sscanf\<close>
  (glibc, 64-bit \<open>long\<close>: \<open>strtol\<close> and \<open>strtoul\<close> clamp, \<open>atoi\<close> truncates the result of
  \<open>strtol\<close>, \<open>%x\<close> truncates the result of \<open>strtoul\<close>). The lemmas are the round trips between
  the two.
\<close>

definition is_space :: "char \<Rightarrow> bool" where
  "is_space c \<longleftrightarrow> c \<in> {CHR '' '', CHR 0x09, CHR 0x0A, CHR 0x0B, CHR 0x0C, CHR 0x0D}"

definition digit_char :: "nat \<Rightarrow> char" where
  "digit_char d = (if d < 10 then char_of (48 + d) else char_of (87 + d))"

definition digit_val :: "char \<Rightarrow> nat option" where
  "digit_val c = (let n = of_char c :: nat in
     if 48 \<le> n \<and> n \<le> 57 then Some (n - 48)
     else if 97 \<le> n \<and> n \<le> 102 then Some (n - 87)
     else if 65 \<le> n \<and> n \<le> 70 then Some (n - 55) else None)"

text \<open>\<open>c\<close> is a digit in base \<open>b\<close>.\<close>

definition is_digit :: "nat \<Rightarrow> char \<Rightarrow> bool" where
  "is_digit b c = (case digit_val c of None \<Rightarrow> False | Some d \<Rightarrow> d < b)"

fun show_base :: "nat \<Rightarrow> nat \<Rightarrow> string" where
  "show_base b n = (if n < b \<or> b < 2 then [digit_char n]
     else show_base b (n div b) @ [digit_char (n mod b)])"

declare show_base.simps [simp del]

text \<open>\<open>%lu\<close>, \<open>%d\<close> and \<open>%.wx\<close>.\<close>

definition show_nat :: "nat \<Rightarrow> string" where
  "show_nat n = show_base 10 n"

definition show_int :: "int \<Rightarrow> string" where
  "show_int i = (if i < 0 then CHR ''-'' # show_nat (nat (- i)) else show_nat (nat i))"

definition show_hex :: "nat \<Rightarrow> nat \<Rightarrow> string" where
  "show_hex w n = (let s = show_base 16 n in replicate (w - length s) (CHR ''0'') @ s)"

fun scan_digits :: "nat \<Rightarrow> nat \<Rightarrow> string \<Rightarrow> nat \<times> string" where
  "scan_digits b a [] = (a, [])"
| "scan_digits b a (c # cs) =
     (if is_digit b c then scan_digits b (a * b + the (digit_val c)) cs else (a, c # cs))"

definition skip_space :: "string \<Rightarrow> string" where
  "skip_space s = dropWhile is_space s"

text \<open>
  An optional sign, an optional \<open>0x\<close> in base 16, and digits: the sign, the magnitude and
  the unread text, or None when no digit is there.
\<close>

definition scan_sign :: "string \<Rightarrow> bool \<times> string" where
  "scan_sign s = (case s of [] \<Rightarrow> (False, []) | c # cs \<Rightarrow>
     if c = CHR ''-'' then (True, cs) else if c = CHR ''+'' then (False, cs) else (False, s))"

definition skip_0x :: "nat \<Rightarrow> string \<Rightarrow> string" where
  "skip_0x b s = (case s of
     z # x # d # cs \<Rightarrow> if b = 16 \<and> z = CHR ''0'' \<and> (x = CHR ''x'' \<or> x = CHR ''X'') \<and> is_digit 16 d
                     then d # cs else s
   | _ \<Rightarrow> s)"

definition scan_number :: "nat \<Rightarrow> string \<Rightarrow> (bool \<times> nat \<times> string) option" where
  "scan_number b s = (let (neg, r) = scan_sign (skip_space s); r = skip_0x b r in
     (case r of [] \<Rightarrow> None
      | c # cs \<Rightarrow> if is_digit b c then (let (n, r') = scan_digits b 0 r in Some (neg, n, r')) else None))"

definition LONG_MAX :: int where "LONG_MAX = 2 ^ 63 - 1"
definition LONG_MIN :: int where "LONG_MIN = - (2 ^ 63)"

definition strtol :: "nat \<Rightarrow> string \<Rightarrow> int" where
  "strtol b s = (case scan_number b s of None \<Rightarrow> 0
     | Some (neg, n, _) \<Rightarrow> max LONG_MIN (min LONG_MAX (if neg then - int n else int n)))"

definition ulong_of :: "bool \<Rightarrow> nat \<Rightarrow> u64" where
  "ulong_of neg n = (if 2 ^ 64 \<le> n then -1 else if neg then - of_nat n else of_nat n)"

definition strtoul :: "string \<Rightarrow> u64" where
  "strtoul s = (case scan_number 10 s of None \<Rightarrow> 0 | Some (neg, n, _) \<Rightarrow> ulong_of neg n)"

definition atoi :: "string \<Rightarrow> int" where
  "atoi s = c_int (strtol 10 s)"

text \<open>One \<open>%x\<close> conversion of \<open>sscanf\<close>: the 32-bit value and the unread text.\<close>

definition scan_x :: "string \<Rightarrow> (u32 \<times> string) option" where
  "scan_x s = map_option (\<lambda>(neg, n, r). (ucast (ulong_of neg n), r)) (scan_number 16 s)"

subsection \<open>Round trips\<close>

lemma digit_val_char [scan_simps]: "d < 16 \<Longrightarrow> digit_val (digit_char d) = Some d"
  by (auto simp: digit_val_def digit_char_def)

lemma is_digit_char [scan_simps]: "d < b \<Longrightarrow> b \<le> 16 \<Longrightarrow> is_digit b (digit_char d)"
  by (simp add: is_digit_def digit_val_char)

lemma is_digit_0 [scan_simps]: "0 < b \<Longrightarrow> is_digit b (CHR ''0'')"
  by (simp add: is_digit_def digit_val_def)

lemma is_digit_not_space: "is_digit b c \<Longrightarrow> \<not> is_space c"
  by (auto simp: is_digit_def digit_val_def is_space_def)

lemma is_digit_not_sign: "is_digit b c \<Longrightarrow> c \<noteq> CHR ''-'' \<and> c \<noteq> CHR ''+''"
  by (auto simp: is_digit_def digit_val_def)

lemma x_not_digit: "\<not> is_digit b (CHR ''x'')" "\<not> is_digit b (CHR ''X'')"
  by (auto simp: is_digit_def digit_val_def)

lemma show_base_digits: "2 \<le> b \<Longrightarrow> b \<le> 16 \<Longrightarrow> \<forall>c \<in> set (show_base b n). is_digit b c"
  by (induction b n rule: show_base.induct) (subst show_base.simps, auto intro: is_digit_char)

lemma show_base_nonempty [simp]: "show_base b n \<noteq> []"
  by (subst show_base.simps) simp

lemma scan_digits_append:
  "\<forall>c \<in> set ds. is_digit b c \<Longrightarrow>
   scan_digits b a (ds @ r) = scan_digits b (foldl (\<lambda>a c. a * b + the (digit_val c)) a ds) r"
  by (induction ds arbitrary: a) auto

lemma foldl_show_base:
  "2 \<le> b \<Longrightarrow> b \<le> 16 \<Longrightarrow> foldl (\<lambda>a c. a * b + the (digit_val c)) 0 (show_base b n) = n"
proof (induction b n rule: show_base.induct)
  case (1 b n)
  show ?case
  proof (cases "n < b")
    case True
    then show ?thesis using "1.prems" by (subst show_base.simps) (simp add: digit_val_char)
  next
    case False
    moreover from False have "digit_val (digit_char (n mod b)) = Some (n mod b)"
      using "1.prems" by (intro digit_val_char) (meson less_le_trans mod_less_divisor le_trans zero_less_numeral)
    ultimately show ?thesis using "1.IH" "1.prems" by (subst show_base.simps) simp
  qed
qed

lemma foldl_zeros: "foldl (\<lambda>a c. a * b + the (digit_val c)) 0 (replicate k (CHR ''0'')) = 0"
  by (induction k) (simp_all add: digit_val_def)

text \<open>\<open>stops b r\<close>: scanning digits of base \<open>b\<close> stops at \<open>r\<close>.\<close>

definition stops :: "nat \<Rightarrow> string \<Rightarrow> bool" where
  "stops b r = (case r of [] \<Rightarrow> True | c # _ \<Rightarrow> \<not> is_digit b c)"

lemma stops_simps [scan_simps]: "stops b []" "stops b (c # r) = (\<not> is_digit b c)"
  by (simp_all add: stops_def)

lemma scan_digits_stops: "stops b r \<Longrightarrow> scan_digits b a r = (a, r)"
  by (cases r) (auto simp: stops_def)

lemma skip_0x_digits:
  assumes "\<forall>c \<in> set ds. is_digit b c" "ds \<noteq> []" "\<forall>c r'. r = c # r' \<longrightarrow> c \<noteq> CHR ''x'' \<and> c \<noteq> CHR ''X''"
  shows "skip_0x b (ds @ r) = ds @ r"
proof -
  obtain d ds' where ds: "ds = d # ds'" using assms(2) by (cases ds) auto
  show ?thesis
  proof (cases ds')
    case Nil
    then show ?thesis using assms(3) ds by (cases r) (auto simp: skip_0x_def split: list.splits)
  next
    case (Cons e ds'')
    then have "e \<noteq> CHR ''x'' \<and> e \<noteq> CHR ''X''"
      using assms(1) ds x_not_digit by (metis list.set_intros(1,2))
    then show ?thesis using Cons ds by (auto simp: skip_0x_def split: list.splits)
  qed
qed

lemma scan_number_digits:
  assumes "\<forall>c \<in> set ds. is_digit b c" "ds \<noteq> []" "stops b r"
    and "\<forall>c r'. r = c # r' \<longrightarrow> c \<noteq> CHR ''x'' \<and> c \<noteq> CHR ''X''"
  shows "scan_number b (ds @ r) = Some (False, foldl (\<lambda>a c. a * b + the (digit_val c)) 0 ds, r)"
proof -
  obtain d ds' where ds: "ds = d # ds'" using assms(2) by (cases ds) auto
  then have d: "is_digit b d" using assms(1) by simp
  have "skip_space (ds @ r) = ds @ r"
    using ds is_digit_not_space [OF d] by (simp add: skip_space_def)
  moreover have "scan_sign (ds @ r) = (False, ds @ r)"
    using ds is_digit_not_sign [OF d] by (simp add: scan_sign_def)
  moreover have "skip_0x b (ds @ r) = ds @ r" by (rule skip_0x_digits [OF assms(1,2,4)])
  moreover have "scan_digits b 0 (ds @ r) = (foldl (\<lambda>a c. a * b + the (digit_val c)) 0 ds, r)"
    by (simp add: scan_digits_append [OF assms(1)] scan_digits_stops [OF assms(3)])
  ultimately show ?thesis using ds d by (simp add: scan_number_def Let_def)
qed

lemma scan_number_space: "is_space c \<Longrightarrow> scan_number b (c # s) = scan_number b s"
  by (simp add: scan_number_def skip_space_def)

lemma scan_number_show_nat:
  "stops 10 r \<Longrightarrow> \<forall>c r'. r = c # r' \<longrightarrow> c \<noteq> CHR ''x'' \<and> c \<noteq> CHR ''X'' \<Longrightarrow>
   scan_number 10 (show_nat n @ r) = Some (False, n, r)"
  using scan_number_digits [OF show_base_digits, of 10 n r] by (simp add: show_nat_def foldl_show_base)

lemma scan_number_show_hex:
  assumes "stops 16 r" "\<forall>c r'. r = c # r' \<longrightarrow> c \<noteq> CHR ''x'' \<and> c \<noteq> CHR ''X''"
  shows "scan_number 16 (show_hex w n @ r) = Some (False, n, r)"
proof -
  have "\<forall>c \<in> set (show_hex w n). is_digit 16 c"
    using show_base_digits [of 16 n] by (auto simp: show_hex_def Let_def is_digit_0)
  moreover have "show_hex w n \<noteq> []" by (simp add: show_hex_def Let_def)
  moreover have "foldl (\<lambda>a c. a * 16 + the (digit_val c)) 0 (show_hex w n) = n"
    using foldl_show_base [of 16 n] by (simp add: show_hex_def Let_def foldl_zeros)
  ultimately show ?thesis using scan_number_digits [of "show_hex w n" 16 r] assms by simp
qed

lemma scan_x_show_hex:
  "stops 16 r \<Longrightarrow> \<forall>c r'. r = c # r' \<longrightarrow> c \<noteq> CHR ''x'' \<and> c \<noteq> CHR ''X'' \<Longrightarrow> n < 2 ^ 32 \<Longrightarrow>
   scan_x (show_hex w n @ r) = Some (of_nat n, r)"
  by (simp add: scan_x_def scan_number_show_hex ulong_of_def unsigned_of_nat take_bit_nat_eq_self)

lemma atoi_show_nat:
  "stops 10 r \<Longrightarrow> \<forall>c r'. r = c # r' \<longrightarrow> c \<noteq> CHR ''x'' \<and> c \<noteq> CHR ''X'' \<Longrightarrow> n < 2 ^ 31 \<Longrightarrow>
   atoi (show_nat n @ r) = int n"
  by (simp add: atoi_def strtol_def scan_number_show_nat LONG_MAX_def LONG_MIN_def c_int_id)

lemma atoi_space: "is_space c \<Longrightarrow> atoi (c # s) = atoi s"
  by (simp add: atoi_def strtol_def scan_number_space)

lemma strtoul_show_nat:
  "stops 10 r \<Longrightarrow> \<forall>c r'. r = c # r' \<longrightarrow> c \<noteq> CHR ''x'' \<and> c \<noteq> CHR ''X'' \<Longrightarrow> n < 2 ^ 64 \<Longrightarrow>
   strtoul (show_nat n @ r) = of_nat n"
  by (simp add: strtoul_def scan_number_show_nat ulong_of_def)

lemma strtoul_space: "is_space c \<Longrightarrow> strtoul (c # s) = strtoul s"
  by (simp add: strtoul_def scan_number_space)

subsection \<open>Lengths of printed numbers\<close>

lemma length_show_base: "2 \<le> b \<Longrightarrow> n < b ^ k \<Longrightarrow> 0 < k \<Longrightarrow> length (show_base b n) \<le> k"
proof (induction k arbitrary: n)
  case (Suc k)
  show ?case
  proof (cases "n < b")
    case True
    then show ?thesis by (subst show_base.simps) simp
  next
    case False
    then have "k \<noteq> 0" using Suc.prems by (cases k) auto
    moreover have "n div b < b ^ k" using Suc.prems by (simp add: less_mult_imp_div_less mult.commute)
    ultimately have "length (show_base b (n div b)) \<le> k" using Suc by simp
    then show ?thesis using False Suc.prems by (subst show_base.simps) simp
  qed
qed simp

lemma length_show_int:
  assumes "- (2 ^ 31) \<le> i" "i < 2 ^ 31"
  shows "length (show_int i) \<le> 11"
proof -
  have "nat \<bar>i\<bar> < 10 ^ 10" using assms by simp
  then show ?thesis
    using length_show_base [of 10 "nat (- i)" 10] length_show_base [of 10 "nat i" 10] assms
    by (auto simp: show_int_def show_nat_def)
qed

lemma length_show_ulong: "length (show_nat (unat (w :: u64))) \<le> 20"
proof -
  have "unat w < 2 ^ 64" using unsigned_less [of w] by simp
  then have "unat w < 10 ^ 20" by simp
  then show ?thesis using length_show_base [of 10 "unat w" 20] by (simp add: show_nat_def)
qed

lemma length_show_hex: "n < 16 ^ w \<Longrightarrow> 0 < w \<Longrightarrow> length (show_hex w n) = w"
  using length_show_base [of 16 n w] by (simp add: show_hex_def Let_def)

lemma show_nat_1 [simp]: "show_nat (Suc 0) = ''1''"
  by code_simp

end
