(* ===== verification/Mmc_State.thy ===== *)
theory Mmc_State
  imports Complex_Main C_Text "HOL-Library.Multiset" "HOL-Library.List_Lexorder" "HOL-Library.Char_ord"
begin

text \<open>
  The data of php_memcache.h and of the globals of memcache.cpp: servers (\<open>mmc_t\<close>), pools
  (\<open>mmc_pool_t\<close>), the states of the two hash strategies, the module globals, the log record
  of include/logger.h, and the state all operations thread. Servers live on a heap of
  addresses, because pools, hash states, the persistent list and \<open>mmc->proxy\<close> share them.

  The PHP runtime, zlib, lzo, bzip2, the serialisers and the clock are not part of the
  program: they are the fields of \<open>php_env\<close>, an argument of every operation that calls
  them, acting on a world of any type \<open>'w\<close>.
\<close>

unbundle bit_operations_syntax

subsection \<open>Constants of php_memcache.h and logger.h\<close>

definition MMC_BUF_SIZE :: nat where "MMC_BUF_SIZE = 4096"
definition MMC_KEY_MAX_SIZE :: nat where "MMC_KEY_MAX_SIZE = 250"
definition MMC_SERIALIZED :: u32 where "MMC_SERIALIZED = 1"
definition MMC_COMPRESSED :: u32 where "MMC_COMPRESSED = 2"
definition MMC_COMPRESSED_LZO :: u32 where "MMC_COMPRESSED_LZO = 4"
definition MMC_CHKSUM :: u32 where "MMC_CHKSUM = 8"
definition MMC_COMPRESSED_BZIP2 :: u32 where "MMC_COMPRESSED_BZIP2 = 16"
definition MMC_SERIALIZED_IGBINARY :: u32 where "MMC_SERIALIZED_IGBINARY = 32"

definition DI_CHKSUM_UNSUPPORTED :: u8 where "DI_CHKSUM_UNSUPPORTED = 0"
definition DI_CHKSUM_SUPPORTED_OFF :: u8 where "DI_CHKSUM_SUPPORTED_OFF = 1"
definition DI_CHKSUM_CRC :: u8 where "DI_CHKSUM_CRC = 2"
definition DI_CHKSUM_MISMATCH_MCMUX :: u8 where "DI_CHKSUM_MISMATCH_MCMUX = 8"
definition DI_CHKSUM_MISMATCH_MOXI :: u8 where "DI_CHKSUM_MISMATCH_MOXI = 16"
definition DI_CHKSUM_MISMATCH_MB :: u8 where "DI_CHKSUM_MISMATCH_MB = 32"
definition CHKSUM_MISMATCH_DETECTED :: int where "CHKSUM_MISMATCH_DETECTED = - 3"

datatype mmc_status = STATUS_FAILED | STATUS_DISCONNECTED | STATUS_UNKNOWN | STATUS_CONNECTED

fun status_code :: "mmc_status \<Rightarrow> int" where
  "status_code STATUS_FAILED = 0"
| "status_code STATUS_DISCONNECTED = 1"
| "status_code STATUS_UNKNOWN = 2"
| "status_code STATUS_CONNECTED = 3"

subsection \<open>Servers\<close>

text \<open>
  \<open>mmc_inbuf\<close> is the line last read into the 4096-byte buffer, the bytes before the NUL that
  \<open>php_stream_get_line\<close> writes after it. Pointers are addresses, None is NULL.
\<close>

record mmc =
  mmc_stream :: "nat option"
  mmc_inbuf :: string
  mmc_outbuf :: string
  mmc_host :: string
  mmc_proxy_str :: string
  mmc_port :: u16
  mmc_timeout :: int
  mmc_timeoutms :: int
  mmc_connect_timeoutms :: int
  mmc_failed :: int
  mmc_retry_interval :: int
  mmc_persistent :: bool
  mmc_status :: mmc_status
  mmc_index :: nat
  mmc_error :: "string option"
  mmc_errnum :: int
  mmc_failure_callback :: "nat option"
  mmc_in_free :: bool
  mmc_got_options :: bool
  mmc_data_integrity_algo :: u8
  mmc_di_algo_in_use :: u8
  mmc_proxy :: "nat option"

subsection \<open>Hash strategies and pools\<close>

datatype hash_function = HASH_CRC32 | HASH_FNV1A
datatype hash_strategy = STANDARD_HASH | CONSISTENT_HASH

record mmc_standard_state =
  s_num_servers :: nat
  s_buckets :: "nat list"
  s_hash :: hash_function

record mmc_consistent_state =
  c_num_servers :: nat
  c_points :: "(nat \<times> u32) list"
  c_buckets :: "nat list"
  c_buckets_populated :: bool
  c_hash :: hash_function

datatype hash_state = Standard_State mmc_standard_state | Consistent_State mmc_consistent_state

record mmc_pool =
  p_servers :: "nat list"
  p_compress_threshold :: int
  p_proxy_enabled :: bool
  p_min_compress_savings :: rat
  p_in_free :: bool
  p_hash_state :: hash_state
  p_false_on_error :: bool
  p_cas_array :: "string \<rightharpoonup> u64"
  p_enable_checksum :: bool
  p_log_name :: string

definition p_num_servers :: "mmc_pool \<Rightarrow> nat" where
  "p_num_servers p = length (p_servers p)"

subsection \<open>Module globals\<close>

record mmc_globals =
  g_debug_mode :: bool
  g_default_port :: int
  g_num_persistent :: int
  g_compression_level :: int
  g_allow_failover :: bool
  g_chunk_size :: int
  g_max_failover_attempts :: int
  g_hash_strategy :: hash_strategy
  g_hash_function :: hash_function
  g_default_timeout_ms :: int
  g_tcp_nodelay :: bool
  g_proxy_enabled :: bool
  g_false_on_error :: bool
  g_proxy_host :: "string option"
  g_proxy_port :: int
  g_proxy_hostlen :: nat
  g_connection_retry_count :: int
  g_retry_interval :: int
  g_in_multi :: bool
  g_proxy_connect_failed :: bool
  g_integrity_error_retry_count :: int
  g_integrity_algo :: string
  g_lzo_enabled :: bool
  g_log_max_multi_op :: int

subsection \<open>The log record and the result codes of include/logger.h\<close>

abbreviation (input) MC_SUCCESS :: int where "MC_SUCCESS \<equiv> 0"
abbreviation (input) MC_STORED :: int where "MC_STORED \<equiv> 1"
abbreviation (input) MC_UNLOCKED :: int where "MC_UNLOCKED \<equiv> 200"
abbreviation (input) MC_DELETED :: int where "MC_DELETED \<equiv> 201"
abbreviation (input) MC_NOT_STORED :: int where "MC_NOT_STORED \<equiv> 2"
abbreviation (input) MC_NOT_FOUND :: int where "MC_NOT_FOUND \<equiv> 3"
abbreviation (input) MC_EXISTS :: int where "MC_EXISTS \<equiv> 4"
abbreviation (input) MC_TMP_FAIL :: int where "MC_TMP_FAIL \<equiv> 5"
abbreviation (input) MC_SERVER_MEM_ERROR :: int where "MC_SERVER_MEM_ERROR \<equiv> 6"
abbreviation (input) MC_LOCK_ERROR :: int where "MC_LOCK_ERROR \<equiv> 7"
abbreviation (input) MC_ERROR :: int where "MC_ERROR \<equiv> 8"
abbreviation (input) MC_CLNT_ERROR :: int where "MC_CLNT_ERROR \<equiv> 9"
abbreviation (input) MC_SERVER_ERROR :: int where "MC_SERVER_ERROR \<equiv> 16"
abbreviation (input) MC_MALFORMD :: int where "MC_MALFORMD \<equiv> 18"
abbreviation (input) MC_ONLY_END :: int where "MC_ONLY_END \<equiv> 19"
abbreviation (input) MC_NON_NUMERIC_VALUE :: int where "MC_NON_NUMERIC_VALUE \<equiv> 20"
abbreviation (input) INTERNAL_ERROR :: int where "INTERNAL_ERROR \<equiv> 100"
abbreviation (input) PROXY_CONNECT_FAILED :: int where "PROXY_CONNECT_FAILED \<equiv> 101"
abbreviation (input) VERSION_FAILED :: int where "VERSION_FAILED \<equiv> 102"
abbreviation (input) POOL_NT_FOUND :: int where "POOL_NT_FOUND \<equiv> 103"
abbreviation (input) SVR_NT_FOUND :: int where "SVR_NT_FOUND \<equiv> 104"
abbreviation (input) READLINE_FAILED :: int where "READLINE_FAILED \<equiv> 105"
abbreviation (input) SVR_OPN_FAILED :: int where "SVR_OPN_FAILED \<equiv> 106"
abbreviation (input) COMPRESS_FAILED :: int where "COMPRESS_FAILED \<equiv> 107"
abbreviation (input) PARSE_ERROR :: int where "PARSE_ERROR \<equiv> 108"
abbreviation (input) PREPARE_KEY_FAILED :: int where "PREPARE_KEY_FAILED \<equiv> 109"
abbreviation (input) INVALID_CB :: int where "INVALID_CB \<equiv> 110"
abbreviation (input) INVALID_PARAM :: int where "INVALID_PARAM \<equiv> 111"
abbreviation (input) INVALID_CAS :: int where "INVALID_CAS \<equiv> 112"
abbreviation (input) UNLOCKED_FAILED :: int where "UNLOCKED_FAILED \<equiv> 113"
abbreviation (input) FLUSH_FAILED :: int where "FLUSH_FAILED \<equiv> 114"
abbreviation (input) CLOSE_FAILED :: int where "CLOSE_FAILED \<equiv> 115"
abbreviation (input) CMD_FAILED :: int where "CMD_FAILED \<equiv> 116"
abbreviation (input) CONNECT_FAILED :: int where "CONNECT_FAILED \<equiv> 117"
abbreviation (input) CRC_CHKSUM1_FAILED :: int where "CRC_CHKSUM1_FAILED \<equiv> 118"
abbreviation (input) CRC_CHKSUM2_FAILED :: int where "CRC_CHKSUM2_FAILED \<equiv> 119"
abbreviation (input) CRC_CHKSUM3_FAILED :: int where "CRC_CHKSUM3_FAILED \<equiv> 120"
abbreviation (input) CRC_CHKSUM4_FAILED :: int where "CRC_CHKSUM4_FAILED \<equiv> 121"
abbreviation (input) CRC_CHKSUM5_FAILED :: int where "CRC_CHKSUM5_FAILED \<equiv> 122"
abbreviation (input) CRC_CHKSUM6_FAILED :: int where "CRC_CHKSUM6_FAILED \<equiv> 123"
abbreviation (input) CRC_CHKSUM7_FAILED :: int where "CRC_CHKSUM7_FAILED \<equiv> 124"
abbreviation (input) READ_VALUE_FAILED :: int where "READ_VALUE_FAILED \<equiv> 125"
abbreviation (input) UNCOMPRESS_FAILED :: int where "UNCOMPRESS_FAILED \<equiv> 126"
abbreviation (input) PARSE_RESPONSE_FAILED :: int where "PARSE_RESPONSE_FAILED \<equiv> 127"
abbreviation (input) CODE_NOT_USED :: int where "CODE_NOT_USED \<equiv> 128"
abbreviation (input) DI_CHECKSUM_GET_FAILED_GETL :: int where "DI_CHECKSUM_GET_FAILED_GETL \<equiv> 129"
abbreviation (input) DI_CHECKSUM_GET_FAILED_GET :: int where "DI_CHECKSUM_GET_FAILED_GET \<equiv> 130"
abbreviation (input) DI_CHECKSUM_GET_FAILED1 :: int where "DI_CHECKSUM_GET_FAILED1 \<equiv> 131"
abbreviation (input) DI_CHECKSUM_GET_FAILED2 :: int where "DI_CHECKSUM_GET_FAILED2 \<equiv> 132"
abbreviation (input) DI_CHECKSUM_GET_FAILED3 :: int where "DI_CHECKSUM_GET_FAILED3 \<equiv> 133"
abbreviation (input) DI_CHECKSUM_GET_FAILED4 :: int where "DI_CHECKSUM_GET_FAILED4 \<equiv> 134"
abbreviation (input) DI_CHECKSUM_GET_FAILED5 :: int where "DI_CHECKSUM_GET_FAILED5 \<equiv> 134"
abbreviation (input) DI_CHECKSUM_GET_FAILED_MB :: int where "DI_CHECKSUM_GET_FAILED_MB \<equiv> 135"
abbreviation (input) DI_CHECKSUM_GET_FAILED_MCMUX :: int where "DI_CHECKSUM_GET_FAILED_MCMUX \<equiv> 136"
abbreviation (input) DI_CHECKSUM_GET_FAILED_MOXI :: int where "DI_CHECKSUM_GET_FAILED_MOXI \<equiv> 137"
abbreviation (input) DI_CHECKSUM_SET_FAILED :: int where "DI_CHECKSUM_SET_FAILED \<equiv> 138"
abbreviation (input) DI_CHECKSUM_GET_FAILED_BYKEY :: int where "DI_CHECKSUM_GET_FAILED_BYKEY \<equiv> 139"
abbreviation (input) WRITE_TO_SERVER_FAILED :: int where "WRITE_TO_SERVER_FAILED \<equiv> 140"
abbreviation (input) UNSERIALIZE_FAILED :: int where "UNSERIALIZE_FAILED \<equiv> 141"
abbreviation (input) VALUE_NOT_FOUND :: int where "VALUE_NOT_FOUND \<equiv> 142"
abbreviation (input) NOT_STRING_DATA :: int where "NOT_STRING_DATA \<equiv> 143"
abbreviation (input) READ_FROM_SERVER_FAILED :: int where "READ_FROM_SERVER_FAILED \<equiv> 144"

datatype cmd_type = OTHERS | GET | SET

record mc_logger =
  lg_host :: "string option"
  lg_key :: "string option"
  lg_command :: "string option"
  lg_flags :: int
  lg_res_code :: int
  lg_res_len :: int
  lg_expiry :: int
  lg_log_name :: string
  lg_cas :: u64
  lg_ctype :: cmd_type

text \<open>
  A \<open>char *\<close> to a block of the request's heap: NULL, a block already given to \<open>efree\<close>, or
  a live block with its bytes. Reading or freeing a freed block is undefined.
\<close>

datatype buf = Null | Freed | Block string

fun efree :: "buf \<Rightarrow> buf option" where
  "efree (Block v) = Some Freed"
| "efree b = None"

fun buf_read :: "buf \<Rightarrow> string option" where
  "buf_read (Block v) = Some v"
| "buf_read b = None"

text \<open>
  Messages of \<open>php_error_docref\<close> and \<open>php_error\<close>: the level and the format string. An error
  of level \<open>E_ERROR\<close> ends the request with a jump out of the extension: it is \<open>None\<close>.
\<close>

datatype severity = E_WARNING | E_NOTICE

subsection \<open>PHP values\<close>

text \<open>Keys of a PHP array (\<open>HASH_KEY_IS_LONG\<close> and \<open>HASH_KEY_IS_STRING\<close>) and the values.\<close>

datatype hkey = KInt int | KStr string

datatype zval =
    ZNull
  | ZBool bool
  | ZLong int
  | ZDouble nat
  | ZString string
  | ZArray "(hkey \<times> zval) list"
  | ZOther nat

subsection \<open>The state\<close>

text \<open>
  \<open>persistent_list\<close> maps a hash key to the list entry: whether its type is \<open>le_pmemcache\<close>,
  and its pointer. \<open>temp_proxies\<close> is the \<open>std::map\<close> \<open>temp_multiget_proxy_mmc\<close>, kept sorted by
  key. \<open>connection\<close> is the property of that name of the Memcache object: missing, an id that
  is no pool resource, or the id of \<open>pool\<close>. \<open>logger\<close> is the handler's own log record,
  \<open>log_map\<close> the per-key records of a multi command (\<open>LogManager::kl\<close>), \<open>log_cur\<close> the
  record \<open>LogManager::val\<close> points to (None the handler's own), and \<open>logger_saved\<close> counts
  the entries of \<open>loggerStack\<close>.
\<close>

datatype connection = No_Connection | Bad_Connection | Pool_Connection

record 'w st =
  heap :: "nat \<rightharpoonup> mmc"
  next_addr :: nat
  persistent_list :: "string \<rightharpoonup> bool \<times> nat option"
  temp_proxies :: "(string \<times> nat) list"
  glob :: mmc_globals
  pool :: mmc_pool
  connection :: connection
  logger :: mc_logger
  log_map :: "(string \<times> mc_logger) list option"
  log_cur :: "string option"
  logger_saved :: nat
  diags :: "(severity \<times> string) list"
  world :: 'w

subsection \<open>The PHP runtime and the libraries\<close>

type_synonym timeval = "int \<times> int"

datatype zstatus = Z_OK | Z_BUF_ERROR | Z_MEM_ERROR | Z_STREAM_ERROR | Z_DATA_ERROR

text \<open>The results of \<open>BZ2_bzDecompress\<close>: progress, the end of the stream, or an error.\<close>

datatype bzstatus = BZ_OK | BZ_STREAM_END | BZ_ERROR int

text \<open>
  \<open>php_memnstr\<close> finds the first occurrence of a needle in a block. \<open>crc32_step\<close> is the
  macro \<open>CRC32\<close> of ext/standard/crc32.h. \<open>xport_create\<close> connects and gives a stream, or an
  error string and number; \<open>stream_configure\<close> stands for the socket options set on a new
  stream (timeout, buffering, chunk size, TCP_NODELAY). \<open>stream_get_line\<close> returns a line of
  at most one byte less than the given size, or NULL; \<open>stream_read\<close> returns the bytes read,
  none at the end of the stream. The compressors take the input and the room of the output
  buffer. \<open>bz2_init\<close> tells whether \<open>BZ2_bzDecompressInit\<close> succeeds; \<open>bz2_run data rooms\<close> is the last of the
  calls of \<open>BZ2_bzDecompress\<close> on \<open>data\<close> that had the output rooms \<open>rooms\<close>: its result, the bytes it put out and
  the input it left. \<open>is_numeric_long\<close> and \<open>is_numeric_double\<close> are the two outcomes of
  \<open>is_numeric_string\<close>; \<open>symtable_key\<close> is the array key that the \<open>add_assoc\<close> functions use for
  a string (an integer for a decimal integer).
\<close>

record 'w php_env =
  php_memnstr :: "string \<Rightarrow> string \<Rightarrow> nat option"
  crc32_step :: "u32 \<Rightarrow> u8 \<Rightarrow> u32"
  qsort_points :: "(nat \<times> u32) list \<Rightarrow> (nat \<times> u32) list"
  getpid :: int
  time_now :: "'w \<Rightarrow> int \<times> 'w"
  xport_create :: "string \<Rightarrow> string option \<Rightarrow> timeval \<Rightarrow> 'w \<Rightarrow> (nat option \<times> string option \<times> int) \<times> 'w"
  stream_configure :: "nat \<Rightarrow> timeval \<Rightarrow> int \<Rightarrow> bool \<Rightarrow> 'w \<Rightarrow> 'w"
  stream_set_timeout :: "nat \<Rightarrow> timeval \<Rightarrow> 'w \<Rightarrow> 'w"
  stream_write :: "nat \<Rightarrow> string \<Rightarrow> 'w \<Rightarrow> int \<times> 'w"
  stream_get_line :: "nat \<Rightarrow> nat \<Rightarrow> 'w \<Rightarrow> string option \<times> 'w"
  stream_read :: "nat \<Rightarrow> nat \<Rightarrow> 'w \<Rightarrow> string \<times> 'w"
  stream_close :: "nat \<Rightarrow> 'w \<Rightarrow> 'w"
  stream_pclose :: "nat \<Rightarrow> 'w \<Rightarrow> 'w"
  call_user_function :: "nat \<Rightarrow> string \<times> int \<times> int \<times> string option \<times> int \<Rightarrow> 'w \<Rightarrow> 'w"
  z_compress2 :: "string \<Rightarrow> int \<Rightarrow> nat \<Rightarrow> zstatus \<times> string"
  bz2_compress :: "string \<Rightarrow> nat \<Rightarrow> zstatus \<times> string"
  lzo_compress :: "string \<Rightarrow> nat \<Rightarrow> zstatus \<times> string"
  z_uncompress :: "string \<Rightarrow> nat \<Rightarrow> zstatus \<times> string"
  bz2_init :: bool
  bz2_run :: "string \<Rightarrow> nat list \<Rightarrow> bzstatus \<times> string \<times> nat"
  lzo_decompress :: "string \<Rightarrow> nat \<Rightarrow> zstatus \<times> string"
  have_igbinary :: bool
  var_serialize :: "zval \<Rightarrow> string option"
  var_unserialize :: "string \<Rightarrow> zval option"
  igbinary_serialize :: "zval \<Rightarrow> string option"
  igbinary_unserialize :: "string \<Rightarrow> zval option"
  zval_to_string :: "zval \<Rightarrow> string"
  is_callable :: "nat \<Rightarrow> bool"
  is_numeric_long :: "string \<Rightarrow> int option"
  is_numeric_double :: "string \<Rightarrow> bool"
  symtable_key :: "string \<Rightarrow> hkey"

text \<open>The documented behaviour of \<open>php_memnstr\<close> that the properties rely on.\<close>

fun first_occurrence :: "string \<Rightarrow> string \<Rightarrow> nat option" where
  "first_occurrence [] needle = (if needle = [] then Some 0 else None)"
| "first_occurrence (c # cs) needle =
     (if take (length needle) (c # cs) = needle then Some 0
      else map_option Suc (first_occurrence cs needle))"

definition memnstr_ok :: "'w php_env \<Rightarrow> bool" where
  "memnstr_ok env \<longleftrightarrow> (\<forall>h n. php_memnstr env h n = first_occurrence h n)"

text \<open>\<open>qsort\<close> returns a sorted permutation; the order of equal points is not specified.\<close>

definition qsort_ok :: "'w php_env \<Rightarrow> bool" where
  "qsort_ok env \<longleftrightarrow> (\<forall>xs. mset (qsort_points env xs) = mset xs \<and> sorted (map snd (qsort_points env xs)))"

subsection \<open>Access to the state\<close>

text \<open>A write through a pointer; None when it is dangling.\<close>

definition upd :: "nat \<Rightarrow> (mmc \<Rightarrow> mmc) \<Rightarrow> 'w st \<Rightarrow> 'w st option" where
  "upd p f s = (case heap s p of None \<Rightarrow> None | Some m \<Rightarrow> Some (s\<lparr>heap := (heap s)(p \<mapsto> f m)\<rparr>))"

definition php_error :: "severity \<Rightarrow> string \<Rightarrow> 'w st \<Rightarrow> 'w st" where
  "php_error lvl msg s = s\<lparr>diags := diags s @ [(lvl, msg)]\<rparr>"

text \<open>A write through \<open>LogManager::getLogger()\<close>, and through \<open>getLogger(key)\<close>, which falls
  back to the current record when the key has none.\<close>

fun log_map_upd :: "string \<Rightarrow> (mc_logger \<Rightarrow> mc_logger) \<Rightarrow> (string \<times> mc_logger) list \<Rightarrow> (string \<times> mc_logger) list" where
  "log_map_upd k f [] = []"
| "log_map_upd k f ((k', l) # xs) = (if k = k' then (k', f l) # xs else (k', l) # log_map_upd k f xs)"

definition log_upd :: "(mc_logger \<Rightarrow> mc_logger) \<Rightarrow> 'w st \<Rightarrow> 'w st" where
  "log_upd f s = (case (log_cur s, log_map s) of
     (Some k, Some mp) \<Rightarrow> s\<lparr>log_map := Some (log_map_upd k f mp)\<rparr>
   | _ \<Rightarrow> s\<lparr>logger := f (logger s)\<rparr>)"

definition log_upd_key :: "string \<Rightarrow> (mc_logger \<Rightarrow> mc_logger) \<Rightarrow> 'w st \<Rightarrow> 'w st" where
  "log_upd_key k f s = (case log_map s of
     Some mp \<Rightarrow> (case map_of mp (cstr k) of
         Some l \<Rightarrow> s\<lparr>log_map := Some (log_map_upd (cstr k) f mp)\<rparr> | None \<Rightarrow> log_upd f s)
   | None \<Rightarrow> log_upd f s)"

definition setCode :: "int \<Rightarrow> 'w st \<Rightarrow> 'w st" where
  "setCode x s = log_upd (\<lambda>l. l\<lparr>lg_res_code := x\<rparr>) s"

definition setHost :: "string \<Rightarrow> 'w st \<Rightarrow> 'w st" where
  "setHost x s = log_upd (\<lambda>l. l\<lparr>lg_host := Some x\<rparr>) s"

definition setKey :: "string \<Rightarrow> 'w st \<Rightarrow> 'w st" where
  "setKey x s = log_upd (\<lambda>l. l\<lparr>lg_key := Some x\<rparr>) s"

definition setCmd :: "string \<Rightarrow> 'w st \<Rightarrow> 'w st" where
  "setCmd x s = log_upd (\<lambda>l. l\<lparr>lg_command := Some x\<rparr>) s"

definition setFlags :: "int \<Rightarrow> 'w st \<Rightarrow> 'w st" where
  "setFlags x s = log_upd (\<lambda>l. l\<lparr>lg_flags := x\<rparr>) s"

definition setResLen :: "int \<Rightarrow> 'w st \<Rightarrow> 'w st" where
  "setResLen x s = log_upd (\<lambda>l. l\<lparr>lg_res_len := x\<rparr>) s"

definition setExpiry :: "int \<Rightarrow> 'w st \<Rightarrow> 'w st" where
  "setExpiry x s = log_upd (\<lambda>l. l\<lparr>lg_expiry := x\<rparr>) s"

definition setLogName :: "string \<Rightarrow> 'w st \<Rightarrow> 'w st" where
  "setLogName x s = log_upd (\<lambda>l. l\<lparr>lg_log_name := x\<rparr>) s"

definition setCas :: "u64 \<Rightarrow> 'w st \<Rightarrow> 'w st" where
  "setCas x s = log_upd (\<lambda>l. l\<lparr>lg_cas := x\<rparr>) s"

definition setCommandType :: "cmd_type \<Rightarrow> 'w st \<Rightarrow> 'w st" where
  "setCommandType x s = log_upd (\<lambda>l. l\<lparr>lg_ctype := x\<rparr>) s"

text \<open>
  The records of a multi command: \<open>setMultiLogger\<close>, \<open>createLogger\<close> (at most one more than
  \<open>log_max_multi_op\<close>), \<open>setLogger\<close>, and the code of the current record. Without
  \<open>setMultiLogger\<close> the assertion of \<open>createLogger\<close> fails.
\<close>

definition mc_logger_clean :: mc_logger where
  "mc_logger_clean = \<lparr>lg_host = None, lg_key = None, lg_command = None, lg_flags = 0, lg_res_code = 0,
     lg_res_len = 0, lg_expiry = 0, lg_log_name = ''unassigned'', lg_cas = 0, lg_ctype = OTHERS\<rparr>"

definition LogManager_begin :: "'w st \<Rightarrow> 'w st" where
  "LogManager_begin s = s\<lparr>logger := mc_logger_clean, log_map := None, log_cur := None\<rparr>"

definition setMultiLogger :: "'w st \<Rightarrow> 'w st" where
  "setMultiLogger s = s\<lparr>log_map := Some []\<rparr>"

definition createLogger :: "string \<Rightarrow> 'w st \<Rightarrow> 'w st option" where
  "createLogger key s = do {
     mp \<leftarrow> log_map s;
     Some (if map_of mp (cstr key) = None \<and> (int (length mp) \<le> g_log_max_multi_op (glob s)
                                          \<or> g_log_max_multi_op (glob s) < 0)
           then s\<lparr>log_map := Some (insort_key fst (cstr key, mc_logger_clean\<lparr>lg_key := Some (cstr key)\<rparr>) mp)\<rparr>
           else s)
   }"

definition setLogger :: "string \<Rightarrow> 'w st \<Rightarrow> 'w st" where
  "setLogger key s = (case log_map s of
     Some mp \<Rightarrow> if map_of mp (cstr key) \<noteq> None then s\<lparr>log_cur := Some (cstr key)\<rparr> else s
   | None \<Rightarrow> s)"

definition getCode :: "'w st \<Rightarrow> int" where
  "getCode s = (case (log_cur s, log_map s) of
     (Some k, Some mp) \<Rightarrow> (case map_of mp k of Some l \<Rightarrow> lg_res_code l | None \<Rightarrow> lg_res_code (logger s))
   | _ \<Rightarrow> lg_res_code (logger s))"

named_theorems log_defs "definitions of the log record setters and of php_error"
lemmas [log_defs] = log_upd_def log_upd_key_def setCode_def setHost_def setKey_def setCmd_def setFlags_def setResLen_def
  setExpiry_def setLogName_def setCas_def setCommandType_def php_error_def

lemma log_frame [simp]:
  "heap (setCode c s) = heap s" "heap (setHost h s) = heap s" "heap (setKey h s) = heap s"
  "heap (setCmd h s) = heap s" "heap (setFlags f s) = heap s" "heap (setResLen n s) = heap s"
  "heap (setExpiry n s) = heap s" "heap (setLogName h s) = heap s" "heap (setCas w s) = heap s"
  "heap (setCommandType t s) = heap s" "heap (php_error l h s) = heap s"
  "world (setCode c s) = world s" "world (setHost h s) = world s" "world (setKey h s) = world s"
  "world (setCmd h s) = world s" "world (setFlags f s) = world s" "world (setResLen n s) = world s"
  "world (setExpiry n s) = world s" "world (setLogName h s) = world s" "world (setCas w s) = world s"
  "world (setCommandType t s) = world s" "world (php_error l h s) = world s"
  "glob (setCode c s) = glob s" "glob (setHost h s) = glob s" "glob (setKey h s) = glob s"
  "glob (setCmd h s) = glob s" "glob (setFlags f s) = glob s" "glob (setResLen n s) = glob s"
  "glob (setExpiry n s) = glob s" "glob (setLogName h s) = glob s" "glob (setCas w s) = glob s"
  "glob (setCommandType t s) = glob s" "glob (php_error l h s) = glob s"
  "pool (setCode c s) = pool s" "pool (setHost h s) = pool s" "pool (setKey h s) = pool s"
  "pool (setCmd h s) = pool s" "pool (setFlags f s) = pool s" "pool (setResLen n s) = pool s"
  "pool (setExpiry n s) = pool s" "pool (setLogName h s) = pool s" "pool (setCas w s) = pool s"
  "pool (setCommandType t s) = pool s" "pool (php_error l h s) = pool s"
  by (simp_all add: log_defs split: option.splits)

lemma log_upd_frame [simp]:
  "heap (log_upd f s) = heap s" "world (log_upd f s) = world s" "glob (log_upd f s) = glob s"
  "pool (log_upd f s) = pool s" "heap (log_upd_key k f s) = heap s"
  "world (log_upd_key k f s) = world s" "glob (log_upd_key k f s) = glob s"
  "pool (log_upd_key k f s) = pool s"
  by (simp_all add: log_defs split: option.splits)

lemma upd_Some [simp]: "heap s p = Some m \<Longrightarrow> upd p f s = Some (s\<lparr>heap := (heap s)(p \<mapsto> f m)\<rparr>)"
  by (simp add: upd_def)

lemma updE:
  assumes "upd p f s = Some s'"
  obtains m where "heap s p = Some m" "s' = s\<lparr>heap := (heap s)(p \<mapsto> f m)\<rparr>"
  using assms by (auto simp: upd_def split: option.splits)

lemma upd_dom: "upd p f s = Some s' \<Longrightarrow> dom (heap s') = dom (heap s)"
  by (auto elim!: updE split: if_splits)

end
