(* ===== verification/Server.thy ===== *)
theory Server
  imports Mmc_State
begin

text \<open>
  One connection to a memcached server (or to the mcmux proxy): creation, errors, opening,
  closing, marking as failed, sending a command, reading a line, and the persistent list
  (memcache.cpp 746-932, 1792-2142, 3908-3985, 4253-4312). The connection's status is the
  state machine that the failover of the hash strategies and the retry loops of the commands
  rely on.
\<close>

subsection \<open>Small helpers\<close>

text \<open>\<open>secs\<close> and \<open>secs * 1000\<close> are 32-bit ints in the code.\<close>

definition convert_timeoutms_to_ts :: "int \<Rightarrow> timeval" where
  "convert_timeoutms_to_ts msecs =
     (let secs = c_int (msecs sdiv 1000)
      in (secs, ((msecs - c_int (secs * 1000)) * 1000) smod 1000000))"

definition mmc_str_left :: "'w php_env \<Rightarrow> string \<Rightarrow> string \<Rightarrow> nat \<Rightarrow> bool" where
  "mmc_str_left env haystack needle haystack_len =
     (php_memnstr env (take haystack_len haystack) needle = Some 0)"

lemma first_occurrence_0: "first_occurrence h n = Some 0 \<longleftrightarrow> take (length n) h = n"
  by (cases h) auto

lemma mmc_str_left_iff: "memnstr_ok env \<Longrightarrow> mmc_str_left env h n k = (take (length n) (take k h) = n)"
  by (simp add: mmc_str_left_def memnstr_ok_def first_occurrence_0)

definition mmc_str :: "'w php_env \<Rightarrow> string \<Rightarrow> string \<Rightarrow> nat \<Rightarrow> bool" where
  "mmc_str env haystack needle haystack_len =
     (php_memnstr env (take haystack_len haystack) needle \<noteq> None)"

definition CRLF :: string where "CRLF = [CHR 0x0D, CHR 0x0A]"

subsection \<open>Creation and release\<close>

definition mmc_server_new ::
    "string \<Rightarrow> nat \<Rightarrow> u16 \<Rightarrow> bool \<Rightarrow> int \<Rightarrow> int \<Rightarrow> bool \<Rightarrow> 'w st \<Rightarrow> nat \<times> 'w st" where
  "mmc_server_new host host_len port persistent timeout retry_interval use_binary s =
     (let h = cstr (take host_len host);
          m = \<lparr>mmc_stream = None, mmc_inbuf = [], mmc_outbuf = [], mmc_host = h,
               mmc_proxy_str = (if use_binary then CHR ''B'' else CHR ''A'') # '':'' @ cstr host
                 @ '':'' @ show_nat (unat port) @ '' '',
               mmc_port = port, mmc_timeout = timeout, mmc_timeoutms = c_int (timeout * 1000),
               mmc_connect_timeoutms = c_int (timeout * 1000), mmc_failed = 0,
               mmc_retry_interval = retry_interval, mmc_persistent = persistent,
               mmc_status = STATUS_DISCONNECTED, mmc_index = 0, mmc_error = None, mmc_errnum = 0,
               mmc_failure_callback = None, mmc_in_free = False, mmc_got_options = False,
               mmc_data_integrity_algo = DI_CHKSUM_UNSUPPORTED,
               mmc_di_algo_in_use = DI_CHKSUM_UNSUPPORTED, mmc_proxy = None\<rparr>;
          g = (if persistent then (glob s)\<lparr>g_num_persistent := g_num_persistent (glob s) + 1\<rparr>
               else glob s)
      in (next_addr s,
          s\<lparr>heap := (heap s)(next_addr s \<mapsto> m), next_addr := next_addr s + 1, glob := g\<rparr>))"

definition mmc_server_sleep :: "nat \<Rightarrow> 'w st \<Rightarrow> 'w st option" where
  "mmc_server_sleep p s = upd p (\<lambda>m. m\<lparr>mmc_failure_callback := None, mmc_error := None\<rparr>) s"

definition mmc_server_free :: "'w php_env \<Rightarrow> nat \<Rightarrow> 'w st \<Rightarrow> 'w st option" where
  "mmc_server_free env p s = do {
     m \<leftarrow> heap s p;
     if mmc_in_free m then
       None
     else do {
       s \<leftarrow> upd p (\<lambda>m. m\<lparr>mmc_in_free := True\<rparr>) s;
       s \<leftarrow> mmc_server_sleep p s;
       if mmc_persistent m then
         Some (s\<lparr>heap := (heap s)(p := None),
                 glob := (glob s)\<lparr>g_num_persistent := g_num_persistent (glob s) - 1\<rparr>\<rparr>)
       else
         (case mmc_stream m of
            None \<Rightarrow> Some (s\<lparr>heap := (heap s)(p := None)\<rparr>)
          | Some h \<Rightarrow> Some (s\<lparr>heap := (heap s)(p := None), world := stream_close env h (world s)\<rparr>))
     }
   }"

subsection \<open>Errors\<close>

text \<open>\<open>pestrdup\<close> copies the C string.\<close>

definition mmc_server_seterror :: "nat \<Rightarrow> string option \<Rightarrow> int \<Rightarrow> 'w st \<Rightarrow> 'w st option" where
  "mmc_server_seterror p error errnum s =
     (case error of None \<Rightarrow> Some s
      | Some e \<Rightarrow> upd p (\<lambda>m. m\<lparr>mmc_error := Some (cstr e), mmc_errnum := errnum\<rparr>) s)"

text \<open>The NUL written at the end of the response, and the buffer as the new error.\<close>

definition received_error_set :: "nat \<Rightarrow> nat \<Rightarrow> 'w st \<Rightarrow> 'w st option" where
  "received_error_set p response_len s = do {
     s \<leftarrow> upd p (\<lambda>m. m\<lparr>mmc_inbuf := take (if response_len < MMC_BUF_SIZE - 1 then response_len
                          else MMC_BUF_SIZE - 1) (mmc_inbuf m)\<rparr>) s;
     m \<leftarrow> heap s p;
     mmc_server_seterror p (Some (mmc_inbuf m)) 0 s
   }"

definition mmc_server_received_error :: "'w php_env \<Rightarrow> nat \<Rightarrow> nat \<Rightarrow> 'w st \<Rightarrow> 'w st option" where
  "mmc_server_received_error env p response_len s = do {
     m \<leftarrow> heap s p;
     s \<leftarrow> (if mmc_str_left env (mmc_inbuf m) ''ERROR'' response_len
          then received_error_set p response_len s else Some s);
     m \<leftarrow> heap s p;
     s \<leftarrow> (if mmc_str_left env (mmc_inbuf m) ''CLIENT_ERROR'' response_len
          then received_error_set p response_len s else Some s);
     m \<leftarrow> heap s p;
     if mmc_str_left env (mmc_inbuf m) ''SERVER_ERROR'' response_len
     then received_error_set p response_len s
     else if mmc_str_left env (mmc_inbuf m) ''NOT_FOUND'' response_len
     then mmc_server_seterror p
            (Some ''Key does not exist or the Queue specified is not a valid one'') 0 s
     else mmc_server_seterror p (Some ''Received malformed response'') 0 s
   }"

subsection \<open>Closing and failing\<close>

definition mmc_server_disconnect :: "'w php_env \<Rightarrow> nat \<Rightarrow> 'w st \<Rightarrow> 'w st option" where
  "mmc_server_disconnect env p s = do {
     m \<leftarrow> heap s p;
     s \<leftarrow> (case mmc_stream m of
            None \<Rightarrow> Some s
          | Some h \<Rightarrow> upd p (\<lambda>m. m\<lparr>mmc_stream := None\<rparr>)
              (s\<lparr>world := (if mmc_persistent m then stream_pclose env h else stream_close env h)
                           (world s)\<rparr>));
     upd p (\<lambda>m. m\<lparr>mmc_status := STATUS_DISCONNECTED\<rparr>) s
   }"

text \<open>The callback, or a notice when the server has none.\<close>

definition report_failure :: "'w php_env \<Rightarrow> mmc \<Rightarrow> 'w st \<Rightarrow> 'w st" where
  "report_failure env m s = (case mmc_failure_callback m of
     Some cb \<Rightarrow> s\<lparr>world := call_user_function env cb
       (mmc_host m, int (unat (mmc_port m)), 0, mmc_error m, mmc_errnum m) (world s)\<rparr>
   | None \<Rightarrow> php_error E_NOTICE ''Server %s (tcp %d) failed with: %s (%d)'' s)"

definition mmc_server_deactivate :: "'w php_env \<Rightarrow> nat \<Rightarrow> 'w st \<Rightarrow> 'w st option" where
  "mmc_server_deactivate env p s = do {
     s \<leftarrow> mmc_server_disconnect env p s;
     s \<leftarrow> upd p (\<lambda>m. m\<lparr>mmc_status := STATUS_FAILED\<rparr>) s;
     let (now, w) = time_now env (world s);
     s \<leftarrow> upd p (\<lambda>m. m\<lparr>mmc_failed := now\<rparr>) (s\<lparr>world := w\<rparr>);
     m \<leftarrow> heap s p;
     Some (report_failure env m s)
   }"

text \<open>1 for a hard failure, 0 when the request may be retried on the same server.\<close>

definition mmc_server_failure :: "'w php_env \<Rightarrow> nat \<Rightarrow> 'w st \<Rightarrow> (int \<times> 'w st) option" where
  "mmc_server_failure env p s = do {
     m \<leftarrow> heap s p;
     (case mmc_proxy m of
        Some proxy \<Rightarrow> do {
          s \<leftarrow> mmc_server_disconnect env proxy s;
          s \<leftarrow> mmc_server_deactivate env p s;
          Some (1, s)
        }
      | None \<Rightarrow>
          (case mmc_status m of
             STATUS_DISCONNECTED \<Rightarrow> Some (0, s)
           | STATUS_UNKNOWN \<Rightarrow> do {
               s \<leftarrow> upd p (\<lambda>m. m\<lparr>mmc_status := STATUS_DISCONNECTED\<rparr>) s;
               Some (0, s)
             }
           | _ \<Rightarrow> do { s \<leftarrow> mmc_server_deactivate env p s; Some (1, s) }))
   }"

subsection \<open>Sending a command, reading a line\<close>

text \<open>
  The stream a request goes through and the prefix it gets: the proxy's connection and
  \<open>proxy_str\<close>, or the server's own. Reading \<open>stream->abstract\<close> needs an open stream.
\<close>

definition mmc_channel :: "nat \<Rightarrow> 'w st \<Rightarrow> (nat option \<times> string) option" where
  "mmc_channel p s = do {
     m \<leftarrow> heap s p;
     (case mmc_proxy m of
        Some q \<Rightarrow> do { mq \<leftarrow> heap s q; Some (mmc_stream mq, mmc_proxy_str m) }
      | None \<Rightarrow> Some (mmc_stream m, []))
   }"

definition stream_timeout :: "'w php_env \<Rightarrow> nat \<Rightarrow> mmc \<Rightarrow> 'w st \<Rightarrow> 'w st" where
  "stream_timeout env h m s =
     (if 1 < mmc_timeoutms m
      then s\<lparr>world := stream_set_timeout env h (convert_timeoutms_to_ts (mmc_timeoutms m)) (world s)\<rparr>
      else s)"

definition mmc_sendcmd :: "'w php_env \<Rightarrow> nat \<Rightarrow> string \<Rightarrow> 'w st \<Rightarrow> (int \<times> 'w st) option" where
  "mmc_sendcmd env p cmd s = do {
     m \<leftarrow> heap s p;
     (stream, prefix) \<leftarrow> mmc_channel p s;
     h \<leftarrow> stream;
     let command = prefix @ cmd @ CRLF;
     let s = stream_timeout env h m s;
     let (n, w) = stream_write env h command (world s);
     let s = s\<lparr>world := w\<rparr>;
     if n \<noteq> int (length command) then do {
       s \<leftarrow> mmc_server_seterror p (Some ''Failed writing command to stream'') 0 s;
       Some (- 1, s)
     } else Some (1, s)
   }"

text \<open>
  The retry loop of \<open>mmc_readline\<close>: \<open>response == false\<close> compares the returned pointer with
  NULL, so a failed read leaves the loop.
\<close>

fun mmc_readline_loop ::
    "'w php_env \<Rightarrow> nat \<Rightarrow> nat \<Rightarrow> nat \<Rightarrow> 'w st \<Rightarrow> (string option \<times> nat \<times> 'w st)" where
  "mmc_readline_loop env h 0 retry_count s = (None, retry_count + 1, s)"
| "mmc_readline_loop env h (Suc k) retry_count s =
     (let (response, w) = stream_get_line env h MMC_BUF_SIZE (world s); s = s\<lparr>world := w\<rparr> in
      (case response of
         Some line \<Rightarrow> (Some line, retry_count + 1, s)
       | None \<Rightarrow> if response = None then (None, retry_count + 1, s)
                 else mmc_readline_loop env h k (retry_count + 1) s))"

definition mmc_readline :: "'w php_env \<Rightarrow> nat \<Rightarrow> 'w st \<Rightarrow> (int \<times> 'w st) option" where
  "mmc_readline env p s = do {
     (stream, prefix) \<leftarrow> mmc_channel p s;
     (case stream of
        None \<Rightarrow> do {
          s \<leftarrow> mmc_server_seterror p (Some ''Socket is closed'') 0 s;
          Some (- 1, s)
        }
      | Some h \<Rightarrow>
          (case mmc_readline_loop env h 3 0 s of
             (Some line, retry_count, s) \<Rightarrow> do {
               s \<leftarrow> upd p (\<lambda>m. m\<lparr>mmc_inbuf := line\<rparr>) s;
               Some (int (length line), s)
             }
           | (None, retry_count, s) \<Rightarrow> do {
               s \<leftarrow> mmc_server_seterror p
                 (Some (''Failed reeading line from stream. Retry count '' @ show_nat retry_count)) 0 s;
               Some (- 1, s)
             }))
   }"

text \<open>
  The version is copied between the prefix and the CRLF; a shorter line makes the copied
  length negative. The error text is built in a block with no room for a terminating NUL, so
  duplicating it as a C string stays inside the block only if the response holds a NUL.
\<close>

definition mmc_get_version :: "'w php_env \<Rightarrow> nat \<Rightarrow> 'w st \<Rightarrow> (string option \<times> 'w st) option" where
  "mmc_get_version env p s = do {
     (r, s) \<leftarrow> mmc_sendcmd env p ''version'' s;
     if r < 0 then Some (None, s)
     else do {
       (response_len, s) \<leftarrow> mmc_readline env p s;
       if response_len < 0 then Some (None, s)
       else do {
         m \<leftarrow> heap s p;
         if mmc_str_left env (mmc_inbuf m) ''VERSION '' (nat response_len)
         then (if response_len < 10 then None
               else Some (Some (take (nat (response_len - 8 - 2)) (drop 8 (mmc_inbuf m))), s))
         else do {
           let version_str = ''Malformed version string :'' @ take (min (nat response_len) 256) (mmc_inbuf m);
           if CHR 0x00 \<notin> set version_str then None
           else do {
             s \<leftarrow> mmc_server_seterror p (Some version_str) 0 s;
             Some (None, s)
           }
         }
       }
     }
   }"

subsection \<open>Opening\<close>

text \<open>
  The connection attempts: at least one, and up to \<open>connection_retry_count\<close> more while no
  stream is there. \<open>ntries\<close> counts down; the last error string and number are kept.
\<close>

function open_attempts ::
    "'w php_env \<Rightarrow> string \<Rightarrow> string option \<Rightarrow> timeval \<Rightarrow> int \<Rightarrow> 'w st \<Rightarrow>
     (nat option \<times> string option \<times> int) \<times> 'w st" where
  "open_attempts env hostname hash_key tv ntries s =
     (let s = (if ntries < g_connection_retry_count (glob s)
               then php_error E_WARNING
                 ''Server %s (tcp %d) failed with: Connection Error. Retry attempt #%d'' s
               else s);
          ((stream, errstr, err), w) = xport_create env hostname hash_key tv (world s);
          s = s\<lparr>world := w\<rparr>
      in if stream = None \<and> 0 < ntries then open_attempts env hostname hash_key tv (ntries - 1) s
         else ((stream, errstr, err), s))"
  by pat_completeness auto
termination
  by (relation "measure (\<lambda>(env, hostname, hash_key, tv, ntries, s). nat ntries)") auto

declare open_attempts.simps [simp del]

definition connect_timeout :: "mmc \<Rightarrow> timeval" where
  "connect_timeout m = (if 0 < mmc_connect_timeoutms m
     then convert_timeoutms_to_ts (mmc_connect_timeoutms m) else (mmc_timeout m, 0))"

definition connect_hostname :: "mmc \<Rightarrow> string" where
  "connect_hostname m = (if mmc_port m \<noteq> 0
     then mmc_host m @ '':'' @ show_nat (unat (mmc_port m)) else mmc_host m)"

text \<open>
  The end of \<open>_mmc_open\<close>: 1 or 0, and the error string and number for the caller.
\<close>

definition open_result ::
    "'w php_env \<Rightarrow> nat \<Rightarrow> timeval \<Rightarrow> nat option \<times> string option \<times> int \<Rightarrow> 'w st \<Rightarrow>
     ((int \<times> string option \<times> int) \<times> 'w st) option" where
  "open_result env p tv r s = do {
     let (stream, errstr, err) = r;
     s \<leftarrow> upd p (\<lambda>m. m\<lparr>mmc_stream := stream\<rparr>) s;
     (case stream of
        None \<Rightarrow> do {
          s \<leftarrow> mmc_server_seterror p
            (Some (case errstr of Some e \<Rightarrow> e | None \<Rightarrow> ''Connection failed'')) err s;
          s \<leftarrow> mmc_server_deactivate env p s;
          Some ((0, errstr, err), s)
        }
      | Some h \<Rightarrow> do {
          let s = s\<lparr>world := stream_configure env h tv (g_chunk_size (glob s))
                               (g_tcp_nodelay (glob s)) (world s)\<rparr>;
          s \<leftarrow> upd p (\<lambda>m. m\<lparr>mmc_status := STATUS_CONNECTED, mmc_got_options := False,
                           mmc_error := None\<rparr>) s;
          Some ((1, None, 0), s)
        })
   }"

definition mmc_open_conn :: "'w php_env \<Rightarrow> nat \<Rightarrow> 'w st \<Rightarrow> ((int \<times> string option \<times> int) \<times> 'w st) option" where
  "mmc_open_conn env p s = do {
     m \<leftarrow> heap s p;
     s \<leftarrow> (if mmc_stream m \<noteq> None then mmc_server_disconnect env p s else Some s);
     let tv = connect_timeout m;
     let hostname = connect_hostname m;
     let hash_key = (if mmc_persistent m
       then Some (''memcache:'' @ show_int (getpid env) @ '':'' @ hostname) else None);
     let (r, s) = open_attempts env hostname hash_key tv (g_connection_retry_count (glob s)) s;
     open_result env p tv r s
   }"

definition mmc_open :: "'w php_env \<Rightarrow> nat \<Rightarrow> bool \<Rightarrow> 'w st \<Rightarrow> ((int \<times> string option \<times> int) \<times> 'w st) option" where
  "mmc_open env p force_connect s = do {
     m \<leftarrow> heap s p;
     (case mmc_status m of
        STATUS_DISCONNECTED \<Rightarrow> mmc_open_conn env p s
      | STATUS_CONNECTED \<Rightarrow> Some ((1, None, 0), s)
      | STATUS_UNKNOWN \<Rightarrow>
          if force_connect then do {
            (version, s) \<leftarrow> mmc_get_version env p s;
            if version = None then do {
              ((ok, err), s) \<leftarrow> mmc_open_conn env p s;
              if ok = 0 then Some ((0, err), s)
              else do {
                s \<leftarrow> upd p (\<lambda>m. m\<lparr>mmc_status := STATUS_CONNECTED\<rparr>) s;
                Some ((1, err), s)
              }
            } else do {
              s \<leftarrow> upd p (\<lambda>m. m\<lparr>mmc_status := STATUS_CONNECTED\<rparr>) s;
              Some ((1, None, 0), s)
            }
          } else Some ((1, None, 0), s)
      | STATUS_FAILED \<Rightarrow>
          if 0 \<le> mmc_retry_interval m then do {
            let (now, w) = time_now env (world s);
            let s = s\<lparr>world := w\<rparr>;
            if mmc_failed m + mmc_retry_interval m \<le> now then mmc_open_conn env p s
            else Some ((0, None, 0), s)
          } else Some ((0, None, 0), s))
   }"

subsection \<open>The persistent list\<close>

definition persistent_key :: "'w php_env \<Rightarrow> string \<Rightarrow> int \<Rightarrow> string" where
  "persistent_key env host port =
     ''mmc_connect___'' @ show_int (getpid env) @ '':'' @ cstr host @ '':'' @ show_int port"

definition mmc_find_persistent ::
    "'w php_env \<Rightarrow> string \<Rightarrow> nat \<Rightarrow> int \<Rightarrow> int \<Rightarrow> int \<Rightarrow> bool \<Rightarrow> 'w st \<Rightarrow> (nat \<times> 'w st) option" where
  "mmc_find_persistent env host host_len port timeout retry_interval use_binary s =
     (let hash_key = persistent_key env host port;
          create = (\<lambda>s. let (mmc, s) = mmc_server_new host host_len (word_of_int port) True timeout
                                          retry_interval use_binary s
                        in Some (mmc, s\<lparr>persistent_list := (persistent_list s)(hash_key \<mapsto> (True, Some mmc))\<rparr>))
      in case persistent_list s hash_key of
           None \<Rightarrow> create s
         | Some (type_ok, ptr) \<Rightarrow>
             (case (type_ok, ptr) of
                (True, Some mmc) \<Rightarrow> do {
                  s \<leftarrow> upd mmc (\<lambda>m. m\<lparr>mmc_timeout := timeout, mmc_retry_interval := retry_interval,
                      mmc_status := (if mmc_status m = STATUS_CONNECTED then STATUS_UNKNOWN
                                     else mmc_status m)\<rparr>) s;
                  Some (mmc, s)
                }
              | _ \<Rightarrow> create (s\<lparr>persistent_list := (persistent_list s)(hash_key := None)\<rparr>)))"

subsection \<open>The mcmux proxy\<close>

definition get_proxy_for_multi :: "'w php_env \<Rightarrow> nat \<Rightarrow> 'w st \<Rightarrow> (nat option \<times> 'w st) option" where
  "get_proxy_for_multi env p s = do {
     let g = glob s;
     if g_proxy_connect_failed g then Some (None, s)
     else do {
       m \<leftarrow> heap s p;
       let skey = mmc_proxy_str m;
       (case map_of (temp_proxies s) skey of
          Some proxy \<Rightarrow> Some (Some proxy, s)
        | None \<Rightarrow> do {
            host \<leftarrow> g_proxy_host g;
            let (proxy_mmc, s) = mmc_server_new host (g_proxy_hostlen g) (word_of_int (g_proxy_port g))
                                   False 1000 0 False s;
            ((ok, err), s) \<leftarrow> mmc_open env proxy_mmc True s;
            if ok = 0 then do {
              let s = php_error E_WARNING ''Can't connect to mc proxy: %s:%ld, %s (%d)'' s;
              s \<leftarrow> mmc_server_sleep proxy_mmc s;
              let s = s\<lparr>glob := (glob s)\<lparr>g_proxy_connect_failed := True\<rparr>\<rparr>;
              s \<leftarrow> mmc_server_free env proxy_mmc s;
              Some (None, s)
            } else
              Some (Some proxy_mmc,
                    s\<lparr>temp_proxies := insort_key fst (skey, proxy_mmc) (temp_proxies s)\<rparr>)
          })
     }
   }"

definition mmc_get_proxy :: "'w php_env \<Rightarrow> nat \<Rightarrow> 'w st \<Rightarrow> (nat option \<times> 'w st) option" where
  "mmc_get_proxy env p s = do {
     let g = glob s;
     (case g_proxy_host g of
        None \<Rightarrow> Some (None, s)
      | Some host \<Rightarrow>
          if g_in_multi g then get_proxy_for_multi env p s
          else do {
            (proxy_mmc, s) \<leftarrow> mmc_find_persistent env host (g_proxy_hostlen g) (g_proxy_port g) 1000 0 False s;
            ((ok, err), s) \<leftarrow> mmc_open env proxy_mmc True s;
            if ok = 0 then do {
              let s = php_error E_WARNING ''Can't connect to mc proxy: %s:%ld, %s (%d)'' s;
              s \<leftarrow> mmc_server_sleep proxy_mmc s;
              Some (None, s)
            } else Some (Some proxy_mmc, s)
          })
   }"

text \<open>\<open>mmc_init_multi\<close> and \<open>mmc_free_multi\<close>: per-command proxy connections.\<close>

definition mmc_init_multi :: "'w st \<Rightarrow> 'w st" where
  "mmc_init_multi s = s\<lparr>glob := (glob s)\<lparr>g_in_multi := True\<rparr>\<rparr>"

fun mmc_free_multi_loop :: "'w php_env \<Rightarrow> (string \<times> nat) list \<Rightarrow> 'w st \<Rightarrow> 'w st option" where
  "mmc_free_multi_loop env [] s = Some s"
| "mmc_free_multi_loop env ((k, mmc) # xs) s = do {
     s \<leftarrow> mmc_server_free env mmc s;
     mmc_free_multi_loop env xs (s\<lparr>temp_proxies := xs\<rparr>)
   }"

definition mmc_free_multi :: "'w php_env \<Rightarrow> 'w st \<Rightarrow> 'w st option" where
  "mmc_free_multi env s = do {
     s \<leftarrow> mmc_free_multi_loop env (temp_proxies s) s;
     Some (s\<lparr>glob := (glob s)\<lparr>g_in_multi := False\<rparr>\<rparr>)
   }"

end
