(* ===== verification/Example.thy ===== *)
theory Example
  imports Mmc_State
begin

text \<open>
  A concrete runtime for the witnesses: a scripted network. Connecting succeeds while
  \<open>wr_up\<close> holds and gives fresh stream numbers; every line or body read takes the next
  string of the script, and everything written is logged. The clock stands still,
  compression is run-length coding with a marker, and CRC-32 is the bitwise algorithm.
\<close>

record wire =
  wr_in :: "string list"
  wr_out :: "(nat \<times> string) list"
  wr_next :: nat
  wr_up :: bool

fun crc32_shift :: "nat \<Rightarrow> u32 \<Rightarrow> u32" where
  "crc32_shift 0 c = c"
| "crc32_shift (Suc n) c = crc32_shift n (if bit c 0 then drop_bit 1 c XOR 0xEDB88320 else drop_bit 1 c)"

definition ex_crc32_step :: "u32 \<Rightarrow> u8 \<Rightarrow> u32" where
  "ex_crc32_step crc b = drop_bit 8 crc XOR crc32_shift 8 ((crc XOR ucast b) AND 0xff)"

definition ex_connect :: "wire \<Rightarrow> (nat option \<times> string option \<times> int) \<times> wire" where
  "ex_connect w = (if wr_up w then ((Some (wr_next w), None, 0), w\<lparr>wr_next := wr_next w + 1\<rparr>)
                   else ((None, Some ''Connection refused'', 111), w))"

definition ex_write :: "nat \<Rightarrow> string \<Rightarrow> wire \<Rightarrow> int \<times> wire" where
  "ex_write h x w = (int (length x), w\<lparr>wr_out := wr_out w @ [(h, x)]\<rparr>)"

definition ex_read :: "wire \<Rightarrow> string option \<times> wire" where
  "ex_read w = (case wr_in w of [] \<Rightarrow> (None, w) | x # xs \<Rightarrow> (Some x, w\<lparr>wr_in := xs\<rparr>))"

definition ex_body :: "nat \<Rightarrow> wire \<Rightarrow> string \<times> wire" where
  "ex_body n w = (case wr_in w of [] \<Rightarrow> ([], w) | x # xs \<Rightarrow> (take n x, w\<lparr>wr_in := xs\<rparr>))"

definition ex_pack :: "string \<Rightarrow> nat \<Rightarrow> zstatus \<times> string" where
  "ex_pack x room = (let y = (if 4 \<le> length x \<and> length x < 256 \<and> x = replicate (length x) (hd x)
       then [CHR ''R'', hd x, char_of (length x)] else CHR ''#'' # x)
     in if length y \<le> room then (Z_OK, y) else (Z_BUF_ERROR, []))"

definition ex_unpack :: "string \<Rightarrow> nat \<Rightarrow> zstatus \<times> string" where
  "ex_unpack x room = (case x of
     [] \<Rightarrow> (Z_DATA_ERROR, [])
   | k # y \<Rightarrow>
       if k = CHR ''R'' then
         (case y of
            [c, n] \<Rightarrow> if of_char n \<le> room then (Z_OK, replicate (of_char n) c) else (Z_BUF_ERROR, [])
          | _ \<Rightarrow> (Z_DATA_ERROR, []))
       else if k = CHR ''#'' then (if length y \<le> room then (Z_OK, y) else (Z_BUF_ERROR, []))
       else (Z_DATA_ERROR, []))"

text \<open>The same as a stream: each call continues where the rooms of the calls before it ended.\<close>

definition ex_bz2_run :: "string \<Rightarrow> nat list \<Rightarrow> bzstatus \<times> string \<times> nat" where
  "ex_bz2_run data rooms = (case ex_unpack data (256 + length data) of
     (Z_OK, x) \<Rightarrow> (let n = sum_list (butlast rooms); room = last rooms
       in if n + room < length x then (BZ_OK, take room (drop n x), 1) else (BZ_STREAM_END, take room (drop n x), 0))
   | _ \<Rightarrow> (BZ_ERROR (- 5), [], 0))"

definition ex_numeric :: "string \<Rightarrow> int option" where
  "ex_numeric x = (if x \<noteq> [] \<and> (\<forall>c \<in> set x. is_digit 10 c) \<and> (hd x \<noteq> CHR ''0'' \<or> x = ''0'')
     then Some (int (fst (scan_digits 10 0 x))) else None)"

definition ex_env :: "wire php_env" where
  "ex_env = \<lparr>php_memnstr = first_occurrence, crc32_step = ex_crc32_step, qsort_points = sort_key snd,
     getpid = 7, time_now = (\<lambda>w. (1000, w)), xport_create = (\<lambda>_ _ _. ex_connect),
     stream_configure = (\<lambda>_ _ _ _ w. w), stream_set_timeout = (\<lambda>_ _ w. w), stream_write = ex_write,
     stream_get_line = (\<lambda>_ _. ex_read), stream_read = (\<lambda>_. ex_body), stream_close = (\<lambda>_ w. w),
     stream_pclose = (\<lambda>_ w. w), call_user_function = (\<lambda>_ _ w. w), z_compress2 = (\<lambda>x _. ex_pack x),
     bz2_compress = ex_pack, lzo_compress = ex_pack, z_uncompress = ex_unpack, bz2_init = True, bz2_run = ex_bz2_run,
     lzo_decompress = ex_unpack, have_igbinary = False, var_serialize = (\<lambda>_. Some ''a:0:{}''),
     var_unserialize = (\<lambda>x. if x = ''a:0:{}'' then Some (ZArray []) else None),
     igbinary_serialize = (\<lambda>_. None), igbinary_unserialize = (\<lambda>_. None), zval_to_string = (\<lambda>_. ''1''),
     is_callable = (\<lambda>_. True), is_numeric_long = ex_numeric,
     is_numeric_double = (\<lambda>_. False),
     symtable_key = (\<lambda>x. case ex_numeric x of Some i \<Rightarrow> KInt i | None \<Rightarrow> KStr x)\<rparr>"

lemma ex_env_simps:
  "php_memnstr ex_env = first_occurrence"
  "crc32_step ex_env = ex_crc32_step"
  "qsort_points ex_env = sort_key snd"
  "getpid ex_env = 7"
  "time_now ex_env = (\<lambda>w. (1000, w))"
  "xport_create ex_env = (\<lambda>_ _ _. ex_connect)"
  "stream_configure ex_env = (\<lambda>_ _ _ _ w. w)"
  "stream_set_timeout ex_env = (\<lambda>_ _ w. w)"
  "stream_write ex_env = ex_write"
  "stream_get_line ex_env = (\<lambda>_ _. ex_read)"
  "stream_read ex_env = (\<lambda>_. ex_body)"
  "stream_close ex_env = (\<lambda>_ w. w)"
  "stream_pclose ex_env = (\<lambda>_ w. w)"
  "call_user_function ex_env = (\<lambda>_ _ w. w)"
  "z_compress2 ex_env = (\<lambda>x _. ex_pack x)"
  "bz2_compress ex_env = ex_pack"
  "lzo_compress ex_env = ex_pack"
  "z_uncompress ex_env = ex_unpack"
  "bz2_init ex_env"
  "bz2_run ex_env = ex_bz2_run"
  "lzo_decompress ex_env = ex_unpack"
  "have_igbinary ex_env = False"
  "var_serialize ex_env = (\<lambda>_. Some ''a:0:{}'')"
  "var_unserialize ex_env = (\<lambda>x. if x = ''a:0:{}'' then Some (ZArray []) else None)"
  "igbinary_serialize ex_env = (\<lambda>_. None)"
  "igbinary_unserialize ex_env = (\<lambda>_. None)"
  "zval_to_string ex_env = (\<lambda>_. ''1'')"
  "is_callable ex_env = (\<lambda>_. True)"
  "is_numeric_long ex_env = ex_numeric"
  "is_numeric_double ex_env = (\<lambda>_. False)"
  "symtable_key ex_env = (\<lambda>x. case ex_numeric x of Some i \<Rightarrow> KInt i | None \<Rightarrow> KStr x)"
  by (simp_all add: ex_env_def)

lemma ex_env_ok: "qsort_ok ex_env" "memnstr_ok ex_env"
  by (simp_all add: ex_env_def qsort_ok_def memnstr_ok_def)

lemma ex_unpack_pack: "ex_pack x room = (Z_OK, y) \<Longrightarrow>
  ex_unpack y room' = (if length x \<le> room' then (Z_OK, x) else (Z_BUF_ERROR, []))"
  by (auto simp: ex_pack_def ex_unpack_def Let_def split: if_splits)

definition ex_glob :: mmc_globals where
  "ex_glob = \<lparr>g_debug_mode = False, g_default_port = 11211, g_num_persistent = 0, g_compression_level = 0,
     g_allow_failover = True, g_chunk_size = 8192, g_max_failover_attempts = 2,
     g_hash_strategy = STANDARD_HASH, g_hash_function = HASH_FNV1A, g_default_timeout_ms = 1000,
     g_tcp_nodelay = False, g_proxy_enabled = False, g_false_on_error = False, g_proxy_host = None,
     g_proxy_port = 0, g_proxy_hostlen = 0, g_connection_retry_count = 0, g_retry_interval = 15,
     g_in_multi = False, g_proxy_connect_failed = False, g_integrity_error_retry_count = 1,
     g_integrity_algo = ''crc32'', g_lzo_enabled = True, g_log_max_multi_op = 10\<rparr>"

definition ex_server :: "mmc_status \<Rightarrow> nat option \<Rightarrow> mmc" where
  "ex_server x st = \<lparr>mmc_stream = st, mmc_inbuf = [], mmc_outbuf = [], mmc_host = ''db1'',
     mmc_proxy_str = ''A:db1:11211 '', mmc_port = 11211, mmc_timeout = 1, mmc_timeoutms = 1000,
     mmc_connect_timeoutms = 1000, mmc_failed = 0, mmc_retry_interval = - 1, mmc_persistent = False,
     mmc_status = x, mmc_index = 0, mmc_error = None, mmc_errnum = 0, mmc_failure_callback = None,
     mmc_in_free = False, mmc_got_options = True, mmc_data_integrity_algo = 0, mmc_di_algo_in_use = 0,
     mmc_proxy = None\<rparr>"

text \<open>A pool of the servers 1 and 2, with the given scripts of the network.\<close>

definition ex_pool :: mmc_pool where
  "ex_pool = \<lparr>p_servers = [1, 2], p_compress_threshold = 0, p_proxy_enabled = False,
     p_min_compress_savings = 1 / 5, p_in_free = False,
     p_hash_state = Standard_State \<lparr>s_num_servers = 2, s_buckets = [1, 2], s_hash = HASH_FNV1A\<rparr>,
     p_false_on_error = False, p_cas_array = (\<lambda>_. None), p_enable_checksum = False,
     p_log_name = ''default''\<rparr>"

definition ex_state :: "(nat \<rightharpoonup> mmc) \<Rightarrow> string list \<Rightarrow> wire st" where
  "ex_state h script = \<lparr>heap = h, next_addr = 10, persistent_list = (\<lambda>_. None), temp_proxies = [],
     glob = ex_glob, pool = ex_pool, connection = Pool_Connection, logger = mc_logger_clean,
     log_map = None, log_cur = None, logger_saved = 0, diags = [],
     world = \<lparr>wr_in = script, wr_out = [], wr_next = 100, wr_up = True\<rparr>\<rparr>"

definition ex_heap :: "mmc_status \<Rightarrow> nat option \<Rightarrow> nat \<rightharpoonup> mmc" where
  "ex_heap x st = [1 \<mapsto> ex_server x st, 2 \<mapsto> ex_server x st]"

lemma ex_simps:
  "heap (ex_state h xs) = h" "pool (ex_state h xs) = ex_pool" "glob (ex_state h xs) = ex_glob"
  "ex_heap x st 1 = Some (ex_server x st)" "ex_heap x st (Suc 0) = Some (ex_server x st)" "ex_heap x st 2 = Some (ex_server x st)"
  "mmc_di_algo_in_use (ex_server x st) = 0" "mmc_status (ex_server x st) = x" "mmc_stream (ex_server x st) = st"
  "mmc_proxy (ex_server x st) = None"
  by (simp_all add: ex_state_def ex_heap_def ex_server_def)

end
