(* ===== verification/Hashing.thy ===== *)
theory Hashing
  imports Server Example
begin

text \<open>
  The key hash functions (memcache.cpp 1161-1186), the checksums (1325-1354) and the two
  hash strategies: memcache_standard_hash.c (a bucket per unit of weight) and
  memcache_consistent_hash.c (160 points per unit of weight on a 32-bit ring, 1024
  precomputed buckets found by binary search).
\<close>

subsection \<open>Hash functions and checksums\<close>

definition char_u8 :: "char \<Rightarrow> u8" where
  "char_u8 c = of_char c"

text \<open>\<open>(unsigned int)key[i]\<close> of a signed \<open>char\<close>.\<close>

definition char_sext :: "char \<Rightarrow> u32" where
  "char_sext c = scast (char_u8 c)"

definition FNV_32_PRIME :: u32 where "FNV_32_PRIME = 0x01000193"
definition FNV_32_INIT :: u32 where "FNV_32_INIT = 0x811c9dc5"

definition mmc_hash_crc32 :: "'w php_env \<Rightarrow> string \<Rightarrow> u32" where
  "mmc_hash_crc32 env key = NOT (foldl (\<lambda>crc c. crc32_step env crc (char_u8 c)) (NOT 0) key)"

definition mmc_hash_fnv1a :: "string \<Rightarrow> u32" where
  "mmc_hash_fnv1a key = foldl (\<lambda>hval c. (hval XOR char_sext c) * FNV_32_PRIME) FNV_32_INIT key"

fun hash_apply :: "'w php_env \<Rightarrow> hash_function \<Rightarrow> string \<Rightarrow> u32" where
  "hash_apply env HASH_CRC32 key = mmc_hash_crc32 env key"
| "hash_apply env HASH_FNV1A key = mmc_hash_fnv1a key"

definition checksum_crc32 :: "'w php_env \<Rightarrow> string list \<Rightarrow> u32" where
  "checksum_crc32 env ss =
     NOT (foldl (\<lambda>crc s. foldl (\<lambda>crc c. crc32_step env crc (char_u8 c)) crc s) (NOT 0) ss)"

text \<open>The four bytes of the \<open>int\<close> flags in memory, little endian.\<close>

definition flag_bytes :: "u32 \<Rightarrow> string" where
  "flag_bytes flags = map (\<lambda>i. char_of (unat (take_bit 8 (drop_bit (8 * i) flags)))) [0, 1, 2, 3]"

definition get_checksum_extra :: "'w php_env \<Rightarrow> string \<Rightarrow> u32 \<Rightarrow> u32" where
  "get_checksum_extra env value flags = checksum_crc32 env [flag_bytes flags, value]"

definition get_checksum :: "'w php_env \<Rightarrow> string \<Rightarrow> u32" where
  "get_checksum env value = checksum_crc32 env [value]"

subsection \<open>Failover, the same static function in both strategy files\<close>

definition should_failover :: "'w php_env \<Rightarrow> nat \<Rightarrow> nat option \<Rightarrow> 'w st \<Rightarrow> (bool \<times> 'w st) option" where
  "should_failover env mmc proxy s =
     (case proxy of
        None \<Rightarrow> do { ((ok, _), s) \<leftarrow> mmc_open env mmc False s; Some (ok = 0, s) }
      | Some _ \<Rightarrow> do {
          m \<leftarrow> heap s mmc;
          if mmc_status m = STATUS_FAILED then
            (if 0 \<le> mmc_retry_interval m then do {
               let (now, w) = time_now env (world s);
               let s = s\<lparr>world := w\<rparr>;
               if mmc_failed m + mmc_retry_interval m \<le> now then do {
                 s \<leftarrow> upd mmc (\<lambda>m. m\<lparr>mmc_status := STATUS_UNKNOWN\<rparr>) s;
                 Some (False, s)
               } else Some (True, s)
             } else Some (True, s))
          else Some (False, s)
        })"

text \<open>
  The failover loop of both \<open>find_server\<close> functions, over the strategy's own step
  \<open>next i hash\<close> that computes the new hash and server; \<open>k\<close> is what is left of
  \<open>max_failover_attempts\<close>.
\<close>

fun failover_loop ::
    "'w php_env \<Rightarrow> (nat \<Rightarrow> u32 \<Rightarrow> (u32 \<times> nat) option) \<Rightarrow> nat option \<Rightarrow> nat \<Rightarrow> nat \<Rightarrow> u32 \<Rightarrow> nat \<Rightarrow> 'w st \<Rightarrow>
     (nat \<times> 'w st) option" where
  "failover_loop env next proxy 0 i hash mmc s = do {
     (fail, s) \<leftarrow> should_failover env mmc proxy s;
     Some (mmc, s)
   }"
| "failover_loop env next proxy (Suc k) i hash mmc s = do {
     (fail, s) \<leftarrow> should_failover env mmc proxy s;
     if fail \<and> g_allow_failover (glob s) then do {
       (hash, mmc) \<leftarrow> next i hash;
       failover_loop env next proxy k (i + 1) hash mmc s
     } else Some (mmc, s)
   }"

text \<open>The end of both \<open>find_server\<close> functions: attach the proxy, or clear it.\<close>

definition attach_proxy :: "'w php_env \<Rightarrow> nat \<Rightarrow> nat option \<Rightarrow> 'w st \<Rightarrow> 'w st option" where
  "attach_proxy env mmc proxy s = do {
     m \<leftarrow> heap s mmc;
     if proxy \<noteq> None \<and> mmc_status m \<noteq> STATUS_FAILED then do {
       s \<leftarrow> mmc_server_disconnect env mmc s;
       upd mmc (\<lambda>m. m\<lparr>mmc_proxy := proxy\<rparr>) s
     } else upd mmc (\<lambda>m. m\<lparr>mmc_proxy := None\<rparr>) s
   }"

subsection \<open>The standard strategy\<close>

definition mmc_standard_create_state :: "hash_function \<Rightarrow> mmc_standard_state" where
  "mmc_standard_create_state hash = \<lparr>s_num_servers = 0, s_buckets = [], s_hash = hash\<rparr>"

definition mmc_hash :: "'w php_env \<Rightarrow> mmc_standard_state \<Rightarrow> string \<Rightarrow> u32" where
  "mmc_hash env state key =
     (let hash = drop_bit 16 (hash_apply env (s_hash state) key) AND 0x7fff
      in if hash \<noteq> 0 then hash else 1)"

text \<open>\<open>state->buckets[hash % state->num_buckets]\<close>; dividing by zero is undefined.\<close>

definition standard_bucket :: "mmc_standard_state \<Rightarrow> u32 \<Rightarrow> nat option" where
  "standard_bucket state hash = (if s_buckets state = [] then None
     else Some (s_buckets state ! (unat hash mod length (s_buckets state))))"

definition standard_next :: "'w php_env \<Rightarrow> mmc_standard_state \<Rightarrow> string \<Rightarrow> nat \<Rightarrow> u32 \<Rightarrow> (u32 \<times> nat) option" where
  "standard_next env state key i hash = do {
     let next_key = show_nat (i + 1) @ cstr key;
     let hash = hash + mmc_hash env state next_key;
     mmc \<leftarrow> standard_bucket state hash;
     Some (hash, mmc)
   }"

text \<open>A NULL result is None inside the option of the monad.\<close>

definition mmc_standard_find_server ::
    "'w php_env \<Rightarrow> mmc_standard_state \<Rightarrow> string \<Rightarrow> bool \<Rightarrow> 'w st \<Rightarrow> (nat option \<times> 'w st) option" where
  "mmc_standard_find_server env state key use_proxy s =
     (if 1 < s_num_servers state then do {
        let hash = mmc_hash env state key;
        mmc \<leftarrow> standard_bucket state hash;
        (proxy, s) \<leftarrow> (if use_proxy then mmc_get_proxy env mmc s else Some (None, s));
        if use_proxy \<and> proxy = None then Some (None, s)
        else do {
          (mmc, s) \<leftarrow> failover_loop env (standard_next env state key) proxy
                       (nat (g_max_failover_attempts (glob s))) 0 hash mmc s;
          s \<leftarrow> attach_proxy env mmc proxy s;
          Some (Some mmc, s)
        }
      } else do {
        mmc \<leftarrow> (case s_buckets state of [] \<Rightarrow> None | b # _ \<Rightarrow> Some b);
        (proxy, s) \<leftarrow> (if use_proxy then mmc_get_proxy env mmc s else Some (None, s));
        if use_proxy \<and> proxy = None then Some (None, s)
        else do {
          (fail, s) \<leftarrow> (case proxy of
             None \<Rightarrow> do { (_, s) \<leftarrow> mmc_open env mmc False s; Some (False, s) }
           | Some _ \<Rightarrow> should_failover env mmc proxy s);
          if fail then Some (None, s)
          else do {
            s \<leftarrow> attach_proxy env mmc proxy s;
            Some (Some mmc, s)
          }
        }
      })"

definition mmc_standard_add_server :: "mmc_standard_state \<Rightarrow> nat \<Rightarrow> nat \<Rightarrow> mmc_standard_state" where
  "mmc_standard_add_server state mmc weight =
     state\<lparr>s_buckets := s_buckets state @ replicate weight mmc,
           s_num_servers := s_num_servers state + 1\<rparr>"

subsection \<open>The consistent strategy\<close>

definition MMC_CONSISTENT_POINTS :: nat where "MMC_CONSISTENT_POINTS = 160"
definition MMC_CONSISTENT_BUCKETS :: nat where "MMC_CONSISTENT_BUCKETS = 1024"

definition mmc_consistent_create_state :: "hash_function \<Rightarrow> mmc_consistent_state" where
  "mmc_consistent_create_state hash =
     \<lparr>c_num_servers = 0, c_points = [], c_buckets = [], c_buckets_populated = False, c_hash = hash\<rparr>"

text \<open>The three-way result of \<open>mmc_consistent_compare\<close>.\<close>

definition mmc_consistent_compare :: "nat \<times> u32 \<Rightarrow> nat \<times> u32 \<Rightarrow> int" where
  "mmc_consistent_compare a b = (if snd a < snd b then - 1 else if snd b < snd a then 1 else 0)"

text \<open>\<open>state->points[i]\<close> at an \<open>int\<close> index; outside the block it is undefined.\<close>

definition point_at :: "(nat \<times> u32) list \<Rightarrow> int \<Rightarrow> (nat \<times> u32) option" where
  "point_at points i = (if 0 \<le> i \<and> i < int (length points) then Some (points ! nat i) else None)"

partial_function (option) consistent_find_loop ::
    "(nat \<times> u32) list \<Rightarrow> u32 \<Rightarrow> int \<Rightarrow> int \<Rightarrow> nat option" where
  "consistent_find_loop points point lo hi = do {
     plo \<leftarrow> point_at points lo;
     out \<leftarrow> (if point \<le> snd plo then Some True
            else do { phi \<leftarrow> point_at points hi; Some (snd phi < point) });
     if out then Some (fst plo)
     else do {
       let mid = lo + (hi - lo) sdiv 2;
       pmid \<leftarrow> point_at points mid;
       below \<leftarrow> (if point \<le> snd pmid
                then (if mid \<noteq> 0 then do { p \<leftarrow> point_at points (mid - 1); Some (snd p < point) }
                      else Some (0 < point))
                else Some False);
       if below then Some (fst pmid)
       else if snd pmid < point then consistent_find_loop points point (mid + 1) hi
       else consistent_find_loop points point lo (mid - 1)
     }
   }"

declare consistent_find_loop.simps [code]

definition mmc_consistent_find :: "(nat \<times> u32) list \<Rightarrow> u32 \<Rightarrow> nat option" where
  "mmc_consistent_find points point =
     consistent_find_loop points point 0 (int (length points) - 1)"

fun populate_loop :: "(nat \<times> u32) list \<Rightarrow> u32 \<Rightarrow> u32 list \<Rightarrow> nat list option" where
  "populate_loop points step [] = Some []"
| "populate_loop points step (i # is) = do {
     b \<leftarrow> mmc_consistent_find points (step * i);
     bs \<leftarrow> populate_loop points step is;
     Some (b # bs)
   }"

definition mmc_consistent_populate_buckets ::
    "'w php_env \<Rightarrow> mmc_consistent_state \<Rightarrow> mmc_consistent_state option" where
  "mmc_consistent_populate_buckets env state = do {
     let step = 0xffffffff div 1024;
     let points = qsort_points env (c_points state);
     buckets \<leftarrow> populate_loop points step (map of_nat [0..<MMC_CONSISTENT_BUCKETS]);
     Some (state\<lparr>c_points := points, c_buckets := buckets, c_buckets_populated := True\<rparr>)
   }"

definition consistent_bucket :: "mmc_consistent_state \<Rightarrow> u32 \<Rightarrow> nat option" where
  "consistent_bucket state hash =
     (let k = unat hash mod MMC_CONSISTENT_BUCKETS
      in if k < length (c_buckets state) then Some (c_buckets state ! k) else None)"

definition consistent_next ::
    "'w php_env \<Rightarrow> mmc_consistent_state \<Rightarrow> string \<Rightarrow> nat \<Rightarrow> u32 \<Rightarrow> (u32 \<times> nat) option" where
  "consistent_next env state key i hash = do {
     let next_key = cstr key @ ''-'' @ show_nat i;
     let hash = hash_apply env (c_hash state) next_key;
     mmc \<leftarrow> consistent_bucket state hash;
     Some (hash, mmc)
   }"

definition consistent_result :: "nat \<Rightarrow> 'w st \<Rightarrow> (nat option \<times> 'w st) option" where
  "consistent_result mmc s = do {
     m \<leftarrow> heap s mmc;
     Some (if mmc_status m \<noteq> STATUS_FAILED then Some mmc else None, s)
   }"

definition mmc_consistent_find_server ::
    "'w php_env \<Rightarrow> mmc_consistent_state \<Rightarrow> string \<Rightarrow> bool \<Rightarrow> 'w st \<Rightarrow>
     ((nat option \<times> mmc_consistent_state) \<times> 'w st) option" where
  "mmc_consistent_find_server env state key use_proxy s =
     (if 1 < c_num_servers state then do {
        let hash = hash_apply env (c_hash state) key;
        state \<leftarrow> (if \<not> c_buckets_populated state then mmc_consistent_populate_buckets env state
                 else Some state);
        mmc \<leftarrow> consistent_bucket state hash;
        (proxy, s) \<leftarrow> (if use_proxy then mmc_get_proxy env mmc s else Some (None, s));
        if use_proxy \<and> proxy = None then Some ((None, state), s)
        else do {
          (mmc, s) \<leftarrow> failover_loop env (consistent_next env state key) proxy
                       (nat (g_max_failover_attempts (glob s))) 0 hash mmc s;
          s \<leftarrow> attach_proxy env mmc proxy s;
          (r, s) \<leftarrow> consistent_result mmc s;
          Some ((r, state), s)
        }
      } else do {
        mmc \<leftarrow> (case c_points state of [] \<Rightarrow> None | pt # _ \<Rightarrow> Some (fst pt));
        (proxy, s) \<leftarrow> (if use_proxy then mmc_get_proxy env mmc s else Some (None, s));
        if use_proxy \<and> proxy = None then Some ((None, state), s)
        else do {
          (fail, s) \<leftarrow> (case proxy of
             None \<Rightarrow> do { (_, s) \<leftarrow> mmc_open env mmc False s; Some (False, s) }
           | Some _ \<Rightarrow> should_failover env mmc proxy s);
          if fail then Some ((None, state), s)
          else do {
            s \<leftarrow> attach_proxy env mmc proxy s;
            (r, s) \<leftarrow> consistent_result mmc s;
            Some ((r, state), s)
          }
        }
      })"

definition mmc_consistent_add_server ::
    "'w php_env \<Rightarrow> mmc_consistent_state \<Rightarrow> nat \<Rightarrow> nat \<Rightarrow> 'w st \<Rightarrow> mmc_consistent_state option" where
  "mmc_consistent_add_server env state mmc weight s = do {
     m \<leftarrow> heap s mmc;
     let points = weight * MMC_CONSISTENT_POINTS;
     let new = map (\<lambda>i. (mmc, hash_apply env (c_hash state)
                  (mmc_host m @ '':'' @ show_nat (unat (mmc_port m)) @ ''-'' @ show_nat i))) [0..<points];
     Some (state\<lparr>c_points := c_points state @ new, c_num_servers := c_num_servers state + 1,
                 c_buckets_populated := False\<rparr>)
   }"

subsection \<open>The binary search on the ring\<close>

text \<open>The point a hash belongs to: the first one not below it, or the first of all.\<close>

definition ring_successor :: "(nat \<times> u32) list \<Rightarrow> u32 \<Rightarrow> nat" where
  "ring_successor points x = (case find (\<lambda>p. x \<le> snd p) points of
     Some p \<Rightarrow> fst p | None \<Rightarrow> fst (hd points))"

lemma point_at_nth: "0 \<le> i \<Longrightarrow> i < int (length points) \<Longrightarrow> point_at points i = Some (points ! nat i)"
  by (simp add: point_at_def)

lemma consistent_find_loop_finds:
  assumes sorted: "sorted (map snd points)"
    and bounds: "0 \<le> lo" "lo \<le> hi" "hi < int (length points)"
    and below: "\<forall>i < nat lo. snd (points ! i) < x"
    and above: "x \<le> snd (points ! nat hi)"
  shows "\<exists>k < length points. consistent_find_loop points x lo hi = Some (fst (points ! k)) \<and>
           x \<le> snd (points ! k) \<and> (\<forall>i < k. snd (points ! i) < x)"
  using bounds below above
proof (induction "nat (hi - lo)" arbitrary: lo hi rule: less_induct)
  case less
  define mid where "mid = lo + (hi - lo) sdiv 2"
  have mid: "lo \<le> mid" "mid \<le> hi" using less.prems by (simp_all add: mid_def sdiv_nonneg)
  have at: "point_at points lo = Some (points ! nat lo)" "point_at points hi = Some (points ! nat hi)"
    "point_at points mid = Some (points ! nat mid)"
    using less.prems mid by (auto intro: point_at_nth)
  have mono: "snd (points ! i) \<le> snd (points ! j)" if "i \<le> j" "j < length points" for i j
    using sorted that by (simp add: sorted_iff_nth_mono)
  show ?case
  proof (cases "x \<le> snd (points ! nat lo)")
    case True
    then show ?thesis using less.prems at
      by (intro exI [of _ "nat lo"]) (subst consistent_find_loop.simps, auto)
  next
    case nlo: False
    have unfold: "consistent_find_loop points x lo hi = do {
       below \<leftarrow> (if x \<le> snd (points ! nat mid)
                then (if mid \<noteq> 0 then do { p \<leftarrow> point_at points (mid - 1); Some (snd p < x) }
                      else Some (0 < x))
                else Some False);
       if below then Some (fst (points ! nat mid))
       else if snd (points ! nat mid) < x then consistent_find_loop points x (mid + 1) hi
       else consistent_find_loop points x lo (mid - 1)}"
    proof -
      have "\<not> snd (points ! nat hi) < x" using less.prems(5) by (simp add: not_less)
      then show ?thesis using nlo at
        by (subst consistent_find_loop.simps) (simp only: mid_def [symmetric] Let_def bind.simps if_False snd_conv)
    qed
    show ?thesis
    proof (cases "x \<le> snd (points ! nat mid)")
      case True
      then have "mid \<noteq> lo" using nlo by auto
      then have m: "lo < mid" using mid by simp
      then have am: "point_at points (mid - 1) = Some (points ! nat (mid - 1))"
        using less.prems mid by (intro point_at_nth) auto
      show ?thesis
      proof (cases "snd (points ! nat (mid - 1)) < x")
        case lt: True
        have "\<forall>i < nat mid. snd (points ! i) < x"
        proof (intro allI impI)
          fix i assume "i < nat mid"
          then have "i \<le> nat (mid - 1)" "nat (mid - 1) < length points" using mid less.prems by linarith+
          then show "snd (points ! i) < x" using mono lt by (meson le_less_trans)
        qed
        then show ?thesis using True m lt am less.prems mid
          by (intro exI [of _ "nat mid"]) (auto simp: unfold)
      next
        case False
        then have "mid - 1 \<noteq> lo" using nlo by auto
        then show ?thesis using less.hyps [of "mid - 1" lo] less.prems True False m am mid
          by (auto simp: unfold not_less)
      qed
    next
      case False
      then have "mid \<noteq> hi" using less.prems by auto
      moreover have "\<forall>i < nat (mid + 1). snd (points ! i) < x"
      proof (intro allI impI)
        fix i assume "i < nat (mid + 1)"
        then have "i \<le> nat mid" "nat mid < length points" using mid less.prems by linarith+
        then show "snd (points ! i) < x" using mono False by (meson le_less_trans not_le)
      qed
      moreover have "consistent_find_loop points x lo hi = consistent_find_loop points x (mid + 1) hi"
        using False False [unfolded not_le] by (simp add: unfold)
      ultimately show ?thesis using less.hyps [of hi "mid + 1"] less.prems mid by auto
    qed
  qed
qed

lemma find_first_nth:
  "k < length xs \<Longrightarrow> P (xs ! k) \<Longrightarrow> \<forall>i < k. \<not> P (xs ! i) \<Longrightarrow> find P xs = Some (xs ! k)"
  by (auto simp: find_Some_iff)

lemma consistent_find_ok:
  assumes "sorted (map snd points)" "points \<noteq> []"
  shows "mmc_consistent_find points x = Some (ring_successor points x)"
proof (cases "x \<le> snd (last points)")
  case True
  then obtain k where "k < length points" "mmc_consistent_find points x = Some (fst (points ! k))"
    "x \<le> snd (points ! k)" "\<forall>i < k. snd (points ! i) < x"
    using consistent_find_loop_finds [of points 0 "int (length points) - 1" x] assms
    by (auto simp: mmc_consistent_find_def last_conv_nth nat_diff_distrib)
  then show ?thesis
    using find_first_nth [of k points "\<lambda>p. x \<le> snd p"] by (simp add: ring_successor_def not_le)
next
  case False
  then have lt: "snd (points ! (length points - 1)) < x" using assms by (simp add: last_conv_nth not_le)
  have all: "snd p < x" if "p \<in> set points" for p
  proof -
    obtain i where i: "i < length points" "p = points ! i" using \<open>p \<in> set points\<close> by (auto simp: in_set_conv_nth)
    then have "snd (points ! i) \<le> snd (points ! (length points - 1))"
      using assms(1) by (simp add: sorted_iff_nth_mono)
    then show ?thesis using lt i by simp
  qed
  then have "find (\<lambda>p. x \<le> snd p) points = None" by (auto simp: find_None_iff not_le)
  moreover have "mmc_consistent_find points x = Some (fst (hd points))"
    using assms lt all [of "points ! 0"]
    by (simp add: mmc_consistent_find_def, subst consistent_find_loop.simps)
       (simp add: point_at_def hd_conv_nth not_le)
  ultimately show ?thesis by (simp add: ring_successor_def)
qed

subsection \<open>Hash values\<close>

lemma mmc_hash_bounds: "1 \<le> unat (mmc_hash env st key)" "unat (mmc_hash env st key) \<le> 0x7fff"
proof -
  let ?h = "drop_bit 16 (hash_apply env (s_hash st) key) AND (0x7fff :: u32)"
  have "unat ?h \<le> 0x7fff"
    using word_and_le1 [of "drop_bit 16 (hash_apply env (s_hash st) key)" "0x7fff :: u32"]
    by (simp add: word_le_nat_alt and.commute)
  then show "unat (mmc_hash env st key) \<le> 0x7fff" "1 \<le> unat (mmc_hash env st key)"
    by (auto simp: mmc_hash_def Let_def unat_gt_0 Suc_leI)
qed

text \<open>FNV-1a as its authors define it, over unsigned bytes.\<close>

definition fnv1a_reference :: "string \<Rightarrow> u32" where
  "fnv1a_reference key = foldl (\<lambda>hval c. (hval XOR ucast (char_u8 c)) * FNV_32_PRIME) FNV_32_INIT key"

lemma char_u8_of_nat: "char_u8 c = word_of_nat (of_char c)"
  by (simp add: char_u8_def of_nat_of_char)

lemma bit_char_u8: "bit (char_u8 c) 7 \<longleftrightarrow> 128 \<le> (of_char c :: nat)"
  by (cases c) (auto simp: char_u8_def of_char_Char bit_horner_sum_bit_word_iff)

lemma char_sext_ascii: "of_char c < (128 :: nat) \<Longrightarrow> char_sext c = ucast (char_u8 c)"
  by (simp add: char_sext_def char_u8_of_nat signed_of_nat unsigned_of_nat
      signed_take_bit_int_eq_self take_bit_nat_eq_self)

lemma char_sext_high:
  assumes "128 \<le> (of_char c :: nat)"
  shows "char_sext c \<noteq> ucast (char_u8 c)"
proof
  assume "char_sext c = ucast (char_u8 c)"
  then have "bit (char_sext c) 31 = bit (ucast (char_u8 c) :: u32) 31" by simp
  then show False using assms bit_char_u8 [of c]
    by (auto simp: char_sext_def bit_signed_iff bit_unsigned_iff dest: bit_imp_le_length)
qed

lemma fnv_prime_inverse: "a * FNV_32_PRIME = b * FNV_32_PRIME \<Longrightarrow> a = b"
proof -
  assume "a * FNV_32_PRIME = b * FNV_32_PRIME"
  then have "a * (FNV_32_PRIME * 0x359C449B) = b * (FNV_32_PRIME * 0x359C449B)"
    by (simp only: mult.assoc [symmetric])
  moreover have "FNV_32_PRIME * 0x359C449B = 1" by (simp add: FNV_32_PRIME_def)
  ultimately show "a = b" by simp
qed

lemma checksum_crc32_concat: "checksum_crc32 env ss = mmc_hash_crc32 env (concat ss)"
proof -
  have "foldl (\<lambda>crc s. foldl (\<lambda>crc c. crc32_step env crc (char_u8 c)) crc s) a ss =
        foldl (\<lambda>crc c. crc32_step env crc (char_u8 c)) a (concat ss)" for a
    by (induction ss arbitrary: a) auto
  then show ?thesis by (simp add: checksum_crc32_def mmc_hash_crc32_def)
qed

subsection \<open>What the pool relies on, of either strategy\<close>

text \<open>
  A strategy starts empty, \<open>add\<close> registers a server with a weight, and \<open>pick\<close> gives the
  server of a hash value. \<open>ok\<close> is what the strategy asks of its surroundings.
\<close>

locale strategy =
  fixes empty :: 'h
    and add :: "'h \<Rightarrow> nat \<times> nat \<Rightarrow> 'h option"
    and members :: "'h \<Rightarrow> nat set"
    and pick :: "'h \<Rightarrow> u32 \<Rightarrow> nat option"
    and ok :: bool
  assumes members_empty: "members empty = {}"
    and members_add: "add h (p, w) = Some h' \<Longrightarrow> 0 < w \<Longrightarrow> members h' = insert p (members h)"
    and pick_total: "ok \<Longrightarrow> members h \<noteq> {} \<Longrightarrow> \<exists>p. pick h x = Some p"
    and pick_member: "ok \<Longrightarrow> pick h x = Some p \<Longrightarrow> p \<in> members h"
begin

fun add_all :: "'h \<Rightarrow> (nat \<times> nat) list \<Rightarrow> 'h option" where
  "add_all h [] = Some h"
| "add_all h (pw # pws) = do { h \<leftarrow> add h pw; add_all h pws }"

lemma members_add_all:
  assumes "add_all h pws = Some h'" "\<forall>pw \<in> set pws. 0 < snd pw"
  shows "members h' = fst ` set pws \<union> members h"
  using assms
proof (induction pws arbitrary: h)
  case (Cons pw pws)
  obtain p w where pw: "pw = (p, w)" by (cases pw)
  from Cons.prems(1) obtain h1 where h1: "add h pw = Some h1" "add_all h1 pws = Some h'"
    by (auto simp: bind_eq_Some_conv)
  then have "members h1 = insert p (members h)" using members_add Cons.prems(2) pw by simp
  then show ?case using Cons.IH [OF h1(2)] Cons.prems(2) pw by auto
qed simp

lemma picks_added:
  assumes "ok" "add_all empty pws = Some h" "\<forall>pw \<in> set pws. 0 < snd pw" "pws \<noteq> []"
  shows "\<exists>p \<in> fst ` set pws. pick h x = Some p"
proof -
  have "members h = fst ` set pws" using members_add_all [OF assms(2,3)] members_empty by simp
  then show ?thesis using pick_total [of h x] pick_member [of h x] assms(1,4) by (cases pws) auto
qed

end


subsection \<open>The standard strategy keeps the contract\<close>

definition standard_add :: "mmc_standard_state \<Rightarrow> nat \<times> nat \<Rightarrow> mmc_standard_state option" where
  "standard_add st pw = Some (mmc_standard_add_server st (fst pw) (snd pw))"

interpretation std: strategy "mmc_standard_create_state hf" standard_add "\<lambda>st. set (s_buckets st)" standard_bucket True
  for hf
proof unfold_locales
  fix st :: mmc_standard_state and x :: u32 and p
  assume "standard_bucket st x = Some p"
  then show "p \<in> set (s_buckets st)"
    by (auto simp: standard_bucket_def split: if_splits)
qed (auto simp: standard_add_def mmc_standard_add_server_def mmc_standard_create_state_def standard_bucket_def)

lemma s_buckets_add_all:
  "std.add_all st pws = Some st' \<Longrightarrow>
   s_buckets st' = s_buckets st @ concat (map (\<lambda>(p, w). replicate w p) pws)"
  by (induction pws arbitrary: st) (auto simp: standard_add_def mmc_standard_add_server_def)

subsection \<open>The consistent strategy keeps the contract\<close>

lemma populate_loop_ok:
  assumes "sorted (map snd points)" "points \<noteq> []"
  shows "populate_loop points step is = Some (map (\<lambda>i. ring_successor points (step * i)) is)"
  by (induction "is") (simp_all add: consistent_find_ok [OF assms])

lemma ring_successor_member:
  assumes "points \<noteq> []"
  shows "ring_successor points x \<in> fst ` set points"
proof (cases "find (\<lambda>p. x \<le> snd p) points")
  case None
  then show ?thesis using assms by (simp add: ring_successor_def)
next
  case (Some p)
  then have "p \<in> set points" by (auto simp: find_Some_iff)
  then show ?thesis using Some by (simp add: ring_successor_def)
qed

lemma qsort_points_set: "qsort_ok env \<Longrightarrow> set (qsort_points env xs) = set xs"
  by (metis qsort_ok_def set_mset_mset)

lemma qsort_points_sorted: "qsort_ok env \<Longrightarrow> sorted (map snd (qsort_points env xs))"
  by (simp add: qsort_ok_def)

lemma populate_ok:
  assumes "qsort_ok env" "c_points st \<noteq> []"
  shows "mmc_consistent_populate_buckets env st = Some (st\<lparr>c_points := qsort_points env (c_points st),
     c_buckets := map (\<lambda>i. ring_successor (qsort_points env (c_points st)) (0x3fffff * of_nat i))
                    [0..<MMC_CONSISTENT_BUCKETS],
     c_buckets_populated := True\<rparr>)"
proof -
  have "qsort_points env (c_points st) \<noteq> []"
    using qsort_points_set [OF assms(1), of "c_points st"] assms(2) by (metis set_empty)
  then show ?thesis
    by (simp add: mmc_consistent_populate_buckets_def Let_def populate_loop_ok qsort_points_sorted [OF assms(1)])
qed

definition consistent_pick :: "'w php_env \<Rightarrow> mmc_consistent_state \<Rightarrow> u32 \<Rightarrow> nat option" where
  "consistent_pick env st x = do {
     st \<leftarrow> mmc_consistent_populate_buckets env st;
     consistent_bucket st x
   }"

definition consistent_add ::
    "'w php_env \<Rightarrow> 'w st \<Rightarrow> mmc_consistent_state \<Rightarrow> nat \<times> nat \<Rightarrow> mmc_consistent_state option" where
  "consistent_add env s st pw = mmc_consistent_add_server env st (fst pw) (snd pw) s"

lemma consistent_pick_ok:
  assumes "qsort_ok env" "c_points st \<noteq> []"
  shows "consistent_pick env st x = Some (ring_successor (qsort_points env (c_points st))
           (0x3fffff * of_nat (unat x mod MMC_CONSISTENT_BUCKETS)))"
proof -
  have "unat x mod MMC_CONSISTENT_BUCKETS < MMC_CONSISTENT_BUCKETS"
    by (simp add: MMC_CONSISTENT_BUCKETS_def)
  then show ?thesis
    by (simp add: consistent_pick_def populate_ok [OF assms] consistent_bucket_def Let_def)
qed

lemma populate_empty: "c_points st = [] \<Longrightarrow> qsort_ok env \<Longrightarrow> mmc_consistent_populate_buckets env st = None"
proof -
  assume a: "c_points st = []" "qsort_ok env"
  then have "qsort_points env [] = []" using qsort_points_set [of env "[]"] by simp
  moreover have "mmc_consistent_find [] x = None" for x
    by (simp add: mmc_consistent_find_def, subst consistent_find_loop.simps) (simp add: point_at_def)
  moreover have "[0..<MMC_CONSISTENT_BUCKETS] = 0 # [Suc 0..<MMC_CONSISTENT_BUCKETS]"
    by (rule upt_conv_Cons) (simp add: MMC_CONSISTENT_BUCKETS_def)
  ultimately show ?thesis using a
    by (simp add: mmc_consistent_populate_buckets_def Let_def)
qed

lemma consistent_add_points:
  assumes "consistent_add env s st (p, w) = Some st'"
  obtains new where "c_points st' = c_points st @ new" "length new = w * MMC_CONSISTENT_POINTS"
    "\<forall>x \<in> set new. fst x = p"
  using assms that
  by (auto simp: consistent_add_def mmc_consistent_add_server_def bind_eq_Some_conv Let_def)

lemma consistent_add_members:
  assumes "consistent_add env s st (p, w) = Some st'" "0 < w"
  shows "fst ` set (c_points st') = insert p (fst ` set (c_points st))"
proof -
  from assms(1) obtain new where new: "c_points st' = c_points st @ new"
    "length new = w * MMC_CONSISTENT_POINTS" "\<forall>x \<in> set new. fst x = p"
    by (rule consistent_add_points)
  then have "new \<noteq> []" using assms(2) by (auto simp: MMC_CONSISTENT_POINTS_def)
  then have "fst ` set new = {p}" using new(3) by (cases new) auto
  then show ?thesis by (auto simp: new(1))
qed

interpretation cons: strategy "mmc_consistent_create_state hf" "consistent_add env s"
  "\<lambda>st. fst ` set (c_points st)" "consistent_pick env" "qsort_ok env"
  for env :: "'w php_env" and s :: "'w st" and hf
proof unfold_locales
  fix st x p
  assume that: "qsort_ok env" and pick: "consistent_pick env st x = Some p"
  then have ne: "c_points st \<noteq> []"
    using populate_empty [OF _ that] by (auto simp: consistent_pick_def)
  then have "qsort_points env (c_points st) \<noteq> []"
    using qsort_points_set [OF that, of "c_points st"] by (metis set_empty)
  then show "p \<in> fst ` set (c_points st)"
    using pick ring_successor_member [OF \<open>qsort_points env (c_points st) \<noteq> []\<close>]
    by (auto simp: consistent_pick_ok [OF that ne] qsort_points_set [OF that])
next
  fix st :: mmc_consistent_state and x
  assume "qsort_ok env" "fst ` set (c_points st) \<noteq> {}"
  then show "\<exists>p. consistent_pick env st x = Some p" by (simp add: consistent_pick_ok)
qed (simp_all add: consistent_add_members mmc_consistent_create_state_def)

subsection \<open>Properties\<close>

lemma flag_bytes_inj: "flag_bytes a = flag_bytes b \<Longrightarrow> a = b"
proof -
  assume a: "flag_bytes a = flag_bytes b"
  have byte: "take_bit 8 (drop_bit (8 * i) a) = take_bit 8 (drop_bit (8 * i) b)" if "i \<in> {0, 1, 2, 3}" for i
  proof -
    have "unat (take_bit 8 (drop_bit (8 * i) x)) < 256" for x :: u32
      using take_bit_nat_less_exp [of 8 "unat (drop_bit (8 * i) x)"] by (simp add: unsigned_take_bit_eq)
    moreover have "char_of (unat (take_bit 8 (drop_bit (8 * i) a))) = (char_of (unat (take_bit 8 (drop_bit (8 * i) b))) :: char)"
      using a that by (auto simp: flag_bytes_def)
    ultimately have "unat (take_bit 8 (drop_bit (8 * i) a)) = unat (take_bit 8 (drop_bit (8 * i) b))"
      by (metis char_of_eq_iff of_char_of take_bit_nat_eq_self mod_less)
    then show ?thesis by (simp only: word_unat_eq_iff)
  qed
  show "a = b"
  proof (rule bit_word_eqI)
    fix n assume n: "n < LENGTH(32)"
    define i where "i = n div 8"
    have i: "i \<in> {0, 1, 2, 3}" "n = 8 * i + n mod 8" using n by (auto simp: i_def)
    have "bit (take_bit 8 (drop_bit (8 * i) a)) (n mod 8) = bit (take_bit 8 (drop_bit (8 * i) b)) (n mod 8)"
      using byte [OF i(1)] by simp
    then show "bit a n = bit b n" using i(2) by (simp add: bit_take_bit_iff bit_drop_bit_eq)
  qed
qed

lemma xor_cancel_left: "a XOR b = a XOR c \<Longrightarrow> b = (c :: u32)"
  by (auto simp: bit_eq_iff bit_xor_iff)

lemma count_list_replicate_if: "count_list (replicate n x) y = (if x = y then n else 0)"
  by (induction n) auto

text \<open>C15. The binary search of \<open>mmc_consistent_find\<close> on a sorted ring returns, without reading
  outside the points, the server of the first point that is not below the given one, or of
  the first point of all when every point is below it.\<close>
theorem mmc_consistent_find_correct:
  assumes "sorted (map snd points)" "points \<noteq> []"
  shows "\<exists>k < length points. mmc_consistent_find points x = Some (fst (points ! k)) \<and>
    (x \<le> snd (points ! k) \<and> (\<forall>i < k. snd (points ! i) < x) \<or> k = 0 \<and> (\<forall>p \<in> set points. snd p < x))"
proof (cases "find (\<lambda>p. x \<le> snd p) points")
  case None
  then have "mmc_consistent_find points x = Some (fst (points ! 0))"
    using assms by (simp add: consistent_find_ok ring_successor_def hd_conv_nth)
  moreover have "\<forall>p \<in> set points. snd p < x" using None by (auto simp: find_None_iff not_le)
  ultimately show ?thesis using assms(2) by (intro exI [of _ 0]) simp
next
  case (Some p)
  then obtain k where "k < length points" "p = points ! k" "x \<le> snd p" "\<forall>i < k. \<not> x \<le> snd (points ! i)"
    by (auto simp: find_Some_iff)
  then show ?thesis using assms Some
    by (intro exI [of _ k]) (auto simp: consistent_find_ok ring_successor_def not_le)
qed

lemma mmc_consistent_find_correct_witness:
  "let ps = [(1, 10), (2, 20), (1, 30)]; x = 15 in
    \<exists>k < length ps. mmc_consistent_find ps x = Some (fst (ps ! k)) \<and>
      (x \<le> snd (ps ! k) \<and> (\<forall>i < k. snd (ps ! i) < x) \<or> k = 0 \<and> (\<forall>p \<in> set ps. snd p < x))"
  unfolding Let_def by (rule mmc_consistent_find_correct) simp_all

text \<open>C28. Populating the buckets of a ring with at least one point gives, for every hash, the
  server of the ring successor of the bucket's first point; sorting neither adds nor drops a
  point.\<close>
theorem mmc_consistent_populate_correct:
  assumes "qsort_ok env" "c_points st \<noteq> []"
  shows "\<exists>st'. mmc_consistent_populate_buckets env st = Some st' \<and> mset (c_points st') = mset (c_points st) \<and>
    sorted (map snd (c_points st')) \<and> c_buckets_populated st' \<and>
    (\<forall>h. consistent_bucket st' h = Some (ring_successor (c_points st') (0x3fffff * of_nat (unat h mod 1024))))"
proof -
  have k: "unat h mod 1024 < 1024" for h :: u32 by simp
  show ?thesis
    using assms(1) by (auto simp: populate_ok [OF assms] consistent_bucket_def Let_def qsort_ok_def
        MMC_CONSISTENT_BUCKETS_def k)
qed

lemma mmc_consistent_populate_correct_witness:
  "\<exists>st'. mmc_consistent_populate_buckets ex_env
      ((mmc_consistent_create_state HASH_FNV1A)\<lparr>c_points := [(1, 30), (2, 7)]\<rparr>) = Some st' \<and>
    c_buckets_populated st' \<and> (\<exists>p. consistent_bucket st' 5 = Some p)"
  using mmc_consistent_populate_correct [OF ex_env_ok(1),
      of "(mmc_consistent_create_state HASH_FNV1A)\<lparr>c_points := [(1, 30), (2, 7)]\<rparr>"] by auto



text \<open>C30. In the standard strategy every server holds as many buckets as the weights it was
  added with sum up to, in a table that exists as soon as one weight is positive.\<close>
theorem standard_shares:
  assumes "std.add_all (mmc_standard_create_state hf) pws = Some st"
  shows "count_list (s_buckets st) p = sum_list (map snd (filter (\<lambda>(q, w). q = p) pws)) \<and>
    length (s_buckets st) = sum_list (map snd pws) \<and>
    (0 < sum_list (map snd pws) \<longrightarrow> (\<exists>q. standard_bucket st h = Some q))"
proof -
  have b: "s_buckets st = concat (map (\<lambda>(p, w). replicate w p) pws)"
    using s_buckets_add_all [OF assms] by (simp add: mmc_standard_create_state_def)
  have l: "length (s_buckets st) = sum_list (map snd pws)" unfolding b by (induction pws) auto
  have "count_list (s_buckets st) p = sum_list (map snd (filter (\<lambda>(q, w). q = p) pws))"
    unfolding b by (induction pws) (auto simp: count_list_replicate_if)
  moreover have "0 < length (s_buckets st) \<longrightarrow> (\<exists>q. standard_bucket st h = Some q)"
    by (simp add: standard_bucket_def)
  ultimately show ?thesis using l by simp
qed

lemma standard_shares_witness:
  "let st = \<lparr>s_num_servers = 2, s_buckets = [1, 2, 2, 2], s_hash = HASH_CRC32\<rparr> in
    count_list (s_buckets st) 2 = sum_list (map snd (filter (\<lambda>(q, w). q = 2) [(1 :: nat, 1), (2, 3)])) \<and>
    length (s_buckets st) = sum_list (map snd [(1 :: nat, 1), (2, 3)]) \<and>
    (0 < sum_list (map snd [(1 :: nat, 1 :: nat), (2, 3)]) \<longrightarrow> (\<exists>q. standard_bucket st 9 = Some q))"
  unfolding Let_def
  by (rule standard_shares [of HASH_CRC32])
     (simp add: standard_add_def mmc_standard_add_server_def mmc_standard_create_state_def numeral_3_eq_3)

text \<open>C40. The FNV-1a hash of the code is the published one on keys of ASCII bytes, and
  differs from it on every one-byte key from 128 on, because the code extends the sign.\<close>
theorem mmc_hash_fnv1a_ascii:
  "((\<forall>c \<in> set key. of_char c < (128 :: nat)) \<longrightarrow> mmc_hash_fnv1a key = fnv1a_reference key) \<and>
   ((128 :: nat) \<le> of_char d \<longrightarrow> mmc_hash_fnv1a [d] \<noteq> fnv1a_reference [d])"
proof (intro conjI impI)
  assume a: "\<forall>c \<in> set key. of_char c < (128 :: nat)"
  have "foldl (\<lambda>hval c. (hval XOR char_sext c) * FNV_32_PRIME) h key =
        foldl (\<lambda>hval c. (hval XOR ucast (char_u8 c)) * FNV_32_PRIME) h key" for h
    using a by (induction key arbitrary: h) (simp_all add: char_sext_ascii)
  then show "mmc_hash_fnv1a key = fnv1a_reference key" by (simp add: mmc_hash_fnv1a_def fnv1a_reference_def)
next
  assume a: "(128 :: nat) \<le> of_char d"
  have "FNV_32_INIT XOR char_sext d \<noteq> FNV_32_INIT XOR ucast (char_u8 d)"
    using char_sext_high [OF a] xor_cancel_left by blast
  then show "mmc_hash_fnv1a [d] \<noteq> fnv1a_reference [d]"
    using fnv_prime_inverse by (auto simp: mmc_hash_fnv1a_def fnv1a_reference_def)
qed

lemma mmc_hash_fnv1a_ascii_witness:
  "mmc_hash_fnv1a ''foo'' = fnv1a_reference ''foo'' \<and> mmc_hash_fnv1a [CHR 0xE9] \<noteq> fnv1a_reference [CHR 0xE9]"
  using mmc_hash_fnv1a_ascii [of "''foo''" "CHR 0xE9"] by (simp add: of_char_Char)

text \<open>The checksum with flags is the CRC-32 of the four flag bytes followed by the value,
  and flags that differ have different bytes, so the flags are covered by it.\<close>
theorem get_checksum_extra_covers_flags:
  "get_checksum_extra env value flags = mmc_hash_crc32 env (flag_bytes flags @ value) \<and>
   get_checksum env value = mmc_hash_crc32 env value \<and>
   (flag_bytes flags = flag_bytes flags' \<longleftrightarrow> flags = flags')"
  using flag_bytes_inj by (auto simp: get_checksum_extra_def get_checksum_def checksum_crc32_concat)
end
