(* ===== verification/Pool.thy ===== *)
theory Pool
  imports Hashing
begin

text \<open>
  The pool of servers (memcache.cpp 1188-1322), the dispatch on the hash strategy, the
  options exchange that negotiates the data-integrity algorithm (935-989) and the lookup of
  the server for a key, \<open>mmc_pool_find\<close> (991-1031), which every command starts with.
\<close>

definition mmc_pool_init_hash :: "mmc_globals \<Rightarrow> hash_state" where
  "mmc_pool_init_hash g = (case g_hash_strategy g of
     CONSISTENT_HASH \<Rightarrow> Consistent_State (mmc_consistent_create_state (g_hash_function g))
   | STANDARD_HASH \<Rightarrow> Standard_State (mmc_standard_create_state (g_hash_function g)))"

text \<open>\<open>MMC_DEFAULT_SAVINGS\<close> is the double 0.2; the model computes with the rational.\<close>

definition mmc_pool_new :: "mmc_globals \<Rightarrow> mmc_pool" where
  "mmc_pool_new g = \<lparr>p_servers = [], p_compress_threshold = 0, p_proxy_enabled = g_proxy_enabled g,
     p_min_compress_savings = 1 / 5, p_in_free = False, p_hash_state = mmc_pool_init_hash g,
     p_false_on_error = g_false_on_error g, p_cas_array = Map.empty, p_enable_checksum = False,
     p_log_name = ''default''\<rparr>"

text \<open>What \<open>mmc_pool_free\<close> and \<open>mmc_pool_close\<close> do with each server.\<close>

fun release_servers :: "'w php_env \<Rightarrow> nat list \<Rightarrow> 'w st \<Rightarrow> 'w st option" where
  "release_servers env [] s = Some s"
| "release_servers env (p # ps) s = do {
     m \<leftarrow> heap s p;
     s \<leftarrow> (if \<not> mmc_persistent m then mmc_server_free env p s else mmc_server_sleep p s);
     release_servers env ps s
   }"

text \<open>The freed pool is gone from the state's reach: no server and no stored CAS is left.\<close>

definition mmc_pool_free :: "'w php_env \<Rightarrow> 'w st \<Rightarrow> 'w st option" where
  "mmc_pool_free env s =
     (if p_in_free (pool s) then
        None
      else do {
        let s = s\<lparr>pool := (pool s)\<lparr>p_in_free := True\<rparr>\<rparr>;
        s \<leftarrow> release_servers env (p_servers (pool s)) s;
        Some (s\<lparr>pool := (pool s)\<lparr>p_servers := [], p_cas_array := Map.empty\<rparr>\<rparr>)
      })"

definition strategy_add_server ::
    "'w php_env \<Rightarrow> hash_state \<Rightarrow> nat \<Rightarrow> nat \<Rightarrow> 'w st \<Rightarrow> hash_state option" where
  "strategy_add_server env hs mmc weight s = (case hs of
     Standard_State st \<Rightarrow> Some (Standard_State (mmc_standard_add_server st mmc weight))
   | Consistent_State st \<Rightarrow> map_option Consistent_State (mmc_consistent_add_server env st mmc weight s))"

definition mmc_pool_add :: "'w php_env \<Rightarrow> nat \<Rightarrow> nat \<Rightarrow> 'w st \<Rightarrow> 'w st option" where
  "mmc_pool_add env mmc weight s = do {
     let s = s\<lparr>pool := (pool s)\<lparr>p_servers := p_servers (pool s) @ [mmc]\<rparr>\<rparr>;
     hs \<leftarrow> strategy_add_server env (p_hash_state (pool s)) mmc weight s;
     Some (s\<lparr>pool := (pool s)\<lparr>p_hash_state := hs\<rparr>\<rparr>)
   }"

definition mmc_pool_close :: "'w php_env \<Rightarrow> 'w st \<Rightarrow> (int \<times> 'w st) option" where
  "mmc_pool_close env s =
     (if p_servers (pool s) \<noteq> [] then do {
        s \<leftarrow> release_servers env (p_servers (pool s)) s;
        Some (1, s\<lparr>pool := (pool s)\<lparr>p_servers := [], p_hash_state := mmc_pool_init_hash (glob s)\<rparr>\<rparr>)
      } else Some (1, s))"

text \<open>\<open>mmc_get_pool\<close>, on the object whose \<open>connection\<close> property the state holds.\<close>

definition mmc_get_pool :: "'w st \<Rightarrow> bool \<times> 'w st" where
  "mmc_get_pool s = (case connection s of
     No_Connection \<Rightarrow> (False, php_error E_WARNING ''No servers added to memcache connection'' s)
   | Bad_Connection \<Rightarrow> (False, php_error E_WARNING ''Invalid Memcache->connection member variable'' s)
   | Pool_Connection \<Rightarrow> (True, s))"

subsection \<open>Finding the server of a key\<close>

definition strategy_find_server ::
    "'w php_env \<Rightarrow> string \<Rightarrow> bool \<Rightarrow> 'w st \<Rightarrow> (nat option \<times> 'w st) option" where
  "strategy_find_server env key use_proxy s = (case p_hash_state (pool s) of
     Standard_State st \<Rightarrow> mmc_standard_find_server env st key use_proxy s
   | Consistent_State st \<Rightarrow> do {
       ((r, st), s) \<leftarrow> mmc_consistent_find_server env st key use_proxy s;
       Some (r, s\<lparr>pool := (pool s)\<lparr>p_hash_state := Consistent_State st\<rparr>\<rparr>)
     })"

definition MAX_OPTIONS_LEN :: nat where "MAX_OPTIONS_LEN = 256"

definition options_command :: "mmc_pool \<Rightarrow> mmc_globals \<Rightarrow> string" where
  "options_command pl g = ''options '' @ ''version=2.5.0.7 DIAlgo='' @
     (if p_enable_checksum pl then cstr (g_integrity_algo g) else ''none'') @ CRLF"

text \<open>
  The request through the proxy or directly, as \<open>get_options\<close> and \<open>mmc_server_store\<close> send
  it: the proxy prefix in a write of its own, then the request. The result tells which
  write failed.
\<close>

datatype send_result = Sent | Proxy_Write_Failed | Request_Write_Failed

definition send_request :: "'w php_env \<Rightarrow> nat \<Rightarrow> string \<Rightarrow> 'w st \<Rightarrow> (send_result \<times> 'w st) option" where
  "send_request env p request s = do {
     m \<leftarrow> heap s p;
     (stream, prefix) \<leftarrow> mmc_channel p s;
     h \<leftarrow> stream;
     let (n, w) = (if mmc_proxy m \<noteq> None then stream_write env h prefix (world s)
                   else (int (length prefix), world s));
     let s = s\<lparr>world := w\<rparr>;
     if n \<noteq> int (length prefix) then do {
       s \<leftarrow> mmc_server_seterror p (Some ''Failed sending proxy string'') 0 s;
       Some (Proxy_Write_Failed, s)
     } else do {
       let s = stream_timeout env h m s;
       let (n, w) = stream_write env h request (world s);
       let s = s\<lparr>world := w\<rparr>;
       if n \<noteq> int (length request) then do {
         s \<leftarrow> mmc_server_seterror p (Some ''Failed sending command and value to stream'') 0 s;
         Some (Request_Write_Failed, s)
       } else Some (Sent, s)
     }
   }"

text \<open>
  The algorithm a reply to \<open>options\<close> announces: \<open>crc32\<close> somewhere after the first \<open>=\<close> that
  follows \<open>DIAlgo\<close>, all before the CRLF.
\<close>

definition di_algo_of_reply :: "'w php_env \<Rightarrow> string \<Rightarrow> nat \<Rightarrow> u8" where
  "di_algo_of_reply env inbuf response_len =
     (if mmc_str_left env inbuf ''options'' response_len then
        (let opts = take (response_len - 2) inbuf in
         case php_memnstr env opts ''DIAlgo'' of
           None \<Rightarrow> DI_CHKSUM_UNSUPPORTED
         | Some i \<Rightarrow>
             (let di = drop i opts in
              case php_memnstr env di ''='' of
                None \<Rightarrow> DI_CHKSUM_UNSUPPORTED OR DI_CHKSUM_SUPPORTED_OFF
              | Some j \<Rightarrow> if php_memnstr env (drop j di) ''crc32'' \<noteq> None
                          then DI_CHKSUM_UNSUPPORTED OR DI_CHKSUM_CRC
                          else DI_CHKSUM_UNSUPPORTED OR DI_CHKSUM_SUPPORTED_OFF))
      else DI_CHKSUM_UNSUPPORTED)"

text \<open>The request is printed into a block of \<open>MAX_OPTIONS_LEN\<close> bytes.\<close>

definition get_options :: "'w php_env \<Rightarrow> nat \<Rightarrow> 'w st \<Rightarrow> (int \<times> 'w st) option" where
  "get_options env p s = do {
     let options = options_command (pool s) (glob s);
     if MAX_OPTIONS_LEN \<le> length options then None
     else do {
       (r, s) \<leftarrow> send_request env p options s;
       if r \<noteq> Sent then Some (- 1, s)
       else do {
         (response_len, s) \<leftarrow> mmc_readline env p s;
         if response_len < 0 then Some (- 1, s)
         else do {
           m \<leftarrow> heap s p;
           if mmc_str_left env (mmc_inbuf m) ''SERVER_ERROR'' (nat response_len) then Some (- 1, s)
           else do {
             s \<leftarrow> upd p (\<lambda>m. m\<lparr>mmc_data_integrity_algo :=
                              di_algo_of_reply env (mmc_inbuf m) (nat response_len)\<rparr>) s;
             Some (0, s)
           }
         }
       }
     }
   }"

text \<open>Sending the options once per connection.\<close>

definition negotiate_options :: "'w php_env \<Rightarrow> nat \<Rightarrow> 'w st \<Rightarrow> 'w st option" where
  "negotiate_options env p s = do {
     m \<leftarrow> heap s p;
     proxy_missing \<leftarrow> (if \<not> mmc_got_options m then Some True
       else if p_proxy_enabled (pool s) then do {
         q \<leftarrow> mmc_proxy m;
         mq \<leftarrow> heap s q;
         Some (\<not> mmc_got_options mq)
       } else Some False);
     if proxy_missing then do {
       (r, s) \<leftarrow> get_options env p s;
       if 0 \<le> r then do {
         s \<leftarrow> upd p (\<lambda>m. m\<lparr>mmc_got_options := True\<rparr>) s;
         if p_proxy_enabled (pool s) then do {
           m \<leftarrow> heap s p;
           q \<leftarrow> mmc_proxy m;
           upd q (\<lambda>m. m\<lparr>mmc_got_options := True\<rparr>) s
         } else Some s
       } else do {
         (_, s) \<leftarrow> mmc_server_failure env p s;
         Some s
       }
     } else Some s
   }"

definition algo_in_use :: "bool \<Rightarrow> u8 \<Rightarrow> u8" where
  "algo_in_use enable_checksum algo =
     (if enable_checksum then algo
      else if algo = DI_CHKSUM_UNSUPPORTED then DI_CHKSUM_UNSUPPORTED
      else DI_CHKSUM_SUPPORTED_OFF)"

definition mmc_pool_find :: "'w php_env \<Rightarrow> string \<Rightarrow> 'w st \<Rightarrow> (nat option \<times> 'w st) option" where
  "mmc_pool_find env key s = do {
     (r, s) \<leftarrow> strategy_find_server env key (p_proxy_enabled (pool s)) s;
     (case r of
        None \<Rightarrow> Some (None, s)
      | Some p \<Rightarrow> do {
          m \<leftarrow> heap s p;
          if mmc_status m = STATUS_FAILED \<or> (p_proxy_enabled (pool s) \<and> mmc_proxy m = None)
          then Some (Some p, s)
          else do {
            s \<leftarrow> negotiate_options env p s;
            s \<leftarrow> upd p (\<lambda>m. m\<lparr>mmc_di_algo_in_use :=
                   algo_in_use (p_enable_checksum (pool s)) (mmc_data_integrity_algo m)\<rparr>) s;
            Some (Some p, s)
          }
        })
   }"

text \<open>A server a command may be sent to: found, and not failed.\<close>

definition usable :: "nat option \<Rightarrow> 'w st \<Rightarrow> bool option" where
  "usable r s = (case r of None \<Rightarrow> Some False
     | Some p \<Rightarrow> do { m \<leftarrow> heap s p; Some (mmc_status m \<noteq> STATUS_FAILED) })"

end
