(* ===== verification/Protocol.thy ===== *)
theory Protocol
  imports Pool
begin

text \<open>
  The text protocol: keys (memcache.cpp 1119-1158), the \<open>VALUE\<close> header (2145-2219), the
  command tokenizer (2634-2686), and turning a fetched value into a PHP value (2222-2278).
\<close>

subsection \<open>Keys\<close>

text \<open>
  The result block has \<open>cap\<close> bytes (\<open>MMC_KEY_MAX_SIZE\<close> in every caller); the terminating NUL
  is written at index \<open>min(key_len, 250)\<close>.
\<close>

definition MMC_OK :: int where "MMC_OK = 0"
definition MMC_REQUEST_FAILURE :: int where "MMC_REQUEST_FAILURE = - 1"

definition key_char :: "char \<Rightarrow> char" where
  "key_char c = (if CHR '' '' < c then c else CHR ''_'')"

definition mmc_prepare_key_ex :: "nat \<Rightarrow> string \<Rightarrow> 'w st \<Rightarrow> ((int \<times> string) \<times> 'w st) option" where
  "mmc_prepare_key_ex cap key s =
     (if key = [] then Some ((MMC_REQUEST_FAILURE, []), php_error E_WARNING ''Key cannot be empty'' s)
      else (let result_len = (if length key < MMC_KEY_MAX_SIZE then length key else MMC_KEY_MAX_SIZE)
            in if cap \<le> result_len then None
               else Some ((MMC_OK, map key_char (take result_len key)), s)))"

definition mmc_prepare_key :: "'w php_env \<Rightarrow> nat \<Rightarrow> zval \<Rightarrow> 'w st \<Rightarrow> ((int \<times> string) \<times> 'w st) option" where
  "mmc_prepare_key env cap key s = (case key of
     ZString k \<Rightarrow> mmc_prepare_key_ex cap k s
   | _ \<Rightarrow> mmc_prepare_key_ex cap (zval_to_string env key) s)"

subsection \<open>The header of a value\<close>

text \<open>
  The variables of the caller that \<open>mmc_parse_response\<close> writes through pointers; \<open>h_cas\<close> is
  None while the variable is not initialised.
\<close>

record header =
  h_key :: "string option"
  h_flags :: u32
  h_cas :: "u64 option"
  h_chksum :: "string option"
  h_value_len :: int

definition find_spaces :: "string \<Rightarrow> nat \<Rightarrow> nat \<Rightarrow> nat list" where
  "find_spaces response response_len nspaces =
     take nspaces (filter (\<lambda>i. response ! i = CHR '' '') [0..<response_len])"

definition header_fields :: "bool \<Rightarrow> bool \<Rightarrow> bool \<Rightarrow> string \<Rightarrow> nat list \<Rightarrow> header \<Rightarrow> header" where
  "header_fields want_key want_cas with_chksum response sp h =
     (let h = (if want_key
               then h\<lparr>h_key := Some (take (sp ! 1 - sp ! 0 - 1) (drop (sp ! 0 + 1) response))\<rparr> else h);
          h = h\<lparr>h_flags := word_of_int (atoi (drop (sp ! 1) response)),
                h_value_len := atoi (drop (sp ! 2) response)\<rparr>
      in if with_chksum
         then (let h = h\<lparr>h_chksum := Some (drop (sp ! 3 + 1) response)\<rparr>
               in if want_cas then h\<lparr>h_cas := Some (strtoul (drop (sp ! 4) response))\<rparr> else h)
         else (let h = h\<lparr>h_chksum := None\<rparr>
               in if want_cas then h\<lparr>h_cas := Some (strtoul (drop (sp ! 3) response))\<rparr> else h))"

definition mmc_parse_response ::
    "'w php_env \<Rightarrow> nat \<Rightarrow> nat \<Rightarrow> bool \<Rightarrow> bool \<Rightarrow> header \<Rightarrow> 'w st \<Rightarrow> ((int \<times> header) \<times> 'w st) option" where
  "mmc_parse_response env p response_len want_key want_cas h s =
     (if response_len = 0 then do {
        s \<leftarrow> mmc_server_seterror p (Some ''Empty response'') 0 s;
        Some ((- 1, h), s)
      } else do {
        m \<leftarrow> heap s p;
        let response = mmc_inbuf m;
        let with_chksum = (mmc_di_algo_in_use m \<noteq> DI_CHKSUM_UNSUPPORTED);
        let nspaces = (if want_cas then 4 else 3) + (if with_chksum then 1 else 0);
        if response_len < 6 \<or> take 6 response \<noteq> ''VALUE '' then do {
          s \<leftarrow> mmc_server_received_error env p response_len s;
          Some ((- 1, h), s)
        } else (let sp = find_spaces response response_len nspaces in
          if length sp < nspaces then do {
            s \<leftarrow> mmc_server_seterror p (Some ''Malformed VALUE header'') 0 s;
            Some ((- 1, h), s)
          } else (let h = header_fields want_key want_cas with_chksum response sp h in
            if sint (h_flags h) < 0 \<or> h_value_len h < 0 then do {
              s \<leftarrow> mmc_server_seterror p (Some ''Malformed VALUE header'') 0 s;
              Some ((- 1, h), s)
            } else Some ((1, h), s)))
      })"

subsection \<open>The tokenizer\<close>

text \<open>
  \<open>tokenize_command\<close> walks the command with the token start \<open>s\<close> and the cursor \<open>e\<close>; the
  list argument is the text from the cursor on, \<open>cur\<close> the characters between \<open>s\<close> and \<open>e\<close>,
  \<open>k\<close> the number of tokens that still fit. The result is the tokens and the terminal
  token's value: None, or the text left when the token table is full.
\<close>

fun tokenize_loop :: "string \<Rightarrow> nat \<Rightarrow> string \<Rightarrow> string list \<times> string option" where
  "tokenize_loop cur 0 e = ([], if e = [] then None else Some e)"
| "tokenize_loop cur (Suc k) [] = (if cur \<noteq> [] then ([cur], None) else ([], None))"
| "tokenize_loop cur (Suc k) (c # e) =
     (if c = CHR '' '' then
        (if cur \<noteq> [] then (let (ts, r) = tokenize_loop [] k e in (cur # ts, r))
         else tokenize_loop [] (Suc k) e)
      else tokenize_loop (cur @ [c]) (Suc k) e)"

definition tokenize_command :: "string \<Rightarrow> nat \<Rightarrow> (string list \<times> string option) option" where
  "tokenize_command command max_tokens =
     (if max_tokens \<le> 1 then None else Some (tokenize_loop [] (max_tokens - 1) (cstr command)))"

definition MAX_TOKENS :: nat where "MAX_TOKENS = 1024"

text \<open>The command as a C string after it was tokenized: a NUL is written behind its first token.\<close>

definition tokenized :: "string \<Rightarrow> string" where
  "tokenized line = (let line = cstr line in
     takeWhile (\<lambda>c. c = CHR '' '') line @ takeWhile (\<lambda>c. c \<noteq> CHR '' '') (dropWhile (\<lambda>c. c = CHR '' '') line))"

text \<open>A PHP array by string keys: the entries in order, an update keeps the position.\<close>

fun assoc_add :: "'k \<Rightarrow> 'v \<Rightarrow> ('k \<times> 'v) list \<Rightarrow> ('k \<times> 'v) list" where
  "assoc_add k v [] = [(k, v)]"
| "assoc_add k v ((k', v') # xs) = (if k = k' then (k, v) # xs else (k', v') # assoc_add k v xs)"

text \<open>
  Every token but the first is marked false. The terminal token carries the text left over
  with length 0: its entry is added under the first byte as the array's key, so the key is
  not NUL-terminated; the model has it under the empty string.
\<close>

fun mark_tokens :: "string list \<Rightarrow> int \<Rightarrow> (string \<times> zval) list \<Rightarrow> 'w st \<Rightarrow> (string \<times> zval) list \<times> 'w st" where
  "mark_tokens [] code arr s = (arr, s)"
| "mark_tokens (t # ts) code arr s =
     mark_tokens ts code (assoc_add t (ZBool False) arr)
       (log_upd_key t (\<lambda>l. l\<lparr>lg_res_code := code\<rparr>) s)"

definition update_result_array ::
    "(string \<times> zval) list option \<Rightarrow> string \<Rightarrow> int \<Rightarrow> 'w st \<Rightarrow> ((string \<times> zval) list option \<times> 'w st) option" where
  "update_result_array status_array line res_code s =
     (case status_array of
        None \<Rightarrow> Some (None, s)
      | Some arr \<Rightarrow> do {
          (ts, rest) \<leftarrow> tokenize_command line MAX_TOKENS;
          let (arr, s) = mark_tokens (drop 1 ts) res_code arr s;
          (case rest of
             None \<Rightarrow> Some (Some arr, s)
           | Some r \<Rightarrow> Some (Some (assoc_add [] (ZBool False) arr),
                             log_upd_key r (\<lambda>l. l\<lparr>lg_res_code := res_code\<rparr>) s))
        })"

subsection \<open>From the value to a PHP value\<close>

definition saveLogger :: "'w st \<Rightarrow> 'w st" where
  "saveLogger s = s\<lparr>logger_saved := logger_saved s + 1\<rparr>"

definition restoreLogger :: "'w st \<Rightarrow> 'w st option" where
  "restoreLogger s = (if logger_saved s = 0 then None
     else Some (s\<lparr>logger_saved := logger_saved s - 1\<rparr>))"

text \<open>
  The block \<open>value\<close> is freed on every path; \<open>rv\<close> is the PHP value to fill. One case for the
  two serializers: the failure message, and the value after it.
\<close>

definition unserialize_with ::
    "(string \<Rightarrow> zval option) \<Rightarrow> string \<Rightarrow> string \<Rightarrow> 'w st \<Rightarrow> ((int \<times> zval) \<times> 'w st) option" where
  "unserialize_with f what value s =
     (let s = saveLogger s in
      case f value of
        None \<Rightarrow>
          if \<not> g_debug_mode (glob s)
          then Some ((0, ZBool False), php_error E_NOTICE (''unable to '' @ what @ '' data for key=%s, server=%s'') s)
          else do {
            s \<leftarrow> restoreLogger (php_error E_NOTICE (''unable to '' @ what @
              '' data for key=%s, server=%s, raw value returned as zval string'') s);
            Some ((1, ZString value), s)
          }
      | Some z \<Rightarrow> do {
          s \<leftarrow> restoreLogger s;
          Some ((1, z), s)
        })"

definition mmc_postprocess_value ::
    "'w php_env \<Rightarrow> u32 \<Rightarrow> zval \<Rightarrow> string \<Rightarrow> 'w st \<Rightarrow> ((int \<times> zval) \<times> 'w st) option" where
  "mmc_postprocess_value env flags rv value s =
     (if flags AND MMC_SERIALIZED \<noteq> 0 then unserialize_with (var_unserialize env) ''unserialize'' value s
      else if flags AND MMC_SERIALIZED_IGBINARY \<noteq> 0 then
        (if have_igbinary env
         then unserialize_with (igbinary_unserialize env) ''igbinary_unserialize'' value s
         else Some ((0, rv), php_error E_WARNING ''Missing igbinary support (key=%s)'' s))
      else Some ((1, rv), s))"

subsection \<open>Keys are sanitised\<close>

lemma key_char_idem [simp]: "key_char (key_char c) = key_char c"
  by (simp add: key_char_def)

lemma key_char_printable: "CHR '' '' < key_char c"
  by (simp add: key_char_def less_char_def)

text \<open>C36. Into a key buffer of 250 bytes as every caller has it, a non-empty key shorter than
  that is copied with every byte up to the space replaced, so that it stays one word of the
  protocol, and preparing the result again changes nothing; a key of 250 bytes or more makes
  the terminating NUL overflow the buffer.\<close>
theorem mmc_prepare_key_ex_sanitises:
  assumes "key \<noteq> []"
  shows "(if length key < MMC_KEY_MAX_SIZE
      then \<exists>k. mmc_prepare_key_ex MMC_KEY_MAX_SIZE key s = Some ((MMC_OK, k), s) \<and> length k = length key \<and>
        (\<forall>c \<in> set k. CHR '' '' < c) \<and>
        (\<forall>i < length key. k ! i = (if CHR '' '' < key ! i then key ! i else CHR ''_'')) \<and>
        mmc_prepare_key_ex MMC_KEY_MAX_SIZE k s = Some ((MMC_OK, k), s)
      else mmc_prepare_key_ex MMC_KEY_MAX_SIZE key s = None)"
  using assms by (auto simp: mmc_prepare_key_ex_def key_char_printable) (simp_all add: key_char_def)

lemma mmc_prepare_key_ex_sanitises_witness:
  "\<exists>k. mmc_prepare_key_ex MMC_KEY_MAX_SIZE ''a b'' (ex_state Map.empty []) = Some ((MMC_OK, k), ex_state Map.empty []) \<and>
     length k = 3 \<and> (\<forall>c \<in> set k. CHR '' '' < c)"
  using mmc_prepare_key_ex_sanitises [of "''a b''" "ex_state Map.empty []"] by (auto simp: MMC_KEY_MAX_SIZE_def)

subsection \<open>Headers round-trip\<close>

lemma filter_shift: "filter (\<lambda>i. P i) [a..<a + n] = map (\<lambda>i. a + i) (filter (\<lambda>i. P (a + i)) [0..<n])"
proof -
  have "[a..<a + n] = map (\<lambda>i. a + i) [0..<n]" by (induction n) simp_all
  then show ?thesis by (simp add: filter_map o_def)
qed

definition spaces :: "string \<Rightarrow> nat list" where
  "spaces x = filter (\<lambda>i. x ! i = CHR '' '') [0..<length x]"

lemma spaces_none: "CHR '' '' \<notin> set x \<Longrightarrow> spaces x = []"
  by (auto simp: spaces_def filter_empty_conv in_set_conv_nth)

lemma spaces_word:
  assumes "CHR '' '' \<notin> set w"
  shows "spaces (w @ CHR '' '' # r) = length w # map (\<lambda>i. length w + 1 + i) (spaces r)"
proof -
  let ?x = "w @ CHR '' '' # r" and ?n = "length w"
  have split: "[0..<length ?x] = [0..<?n] @ [?n] @ [?n + 1..<?n + 1 + length r]"
    using upt_add_eq_append [of 0 "?n + 1" "length r"] by simp
  have "filter (\<lambda>i. ?x ! i = CHR '' '') [0..<?n] = []"
    using assms by (auto simp: filter_empty_conv nth_append) (metis nth_mem)
  moreover have "filter (\<lambda>i. ?x ! i = CHR '' '') [?n + 1..<?n + 1 + length r] = map (\<lambda>i. ?n + 1 + i) (spaces r)"
    using filter_shift [of "\<lambda>i. ?x ! i = CHR '' ''" "?n + 1" "length r"] by (simp add: spaces_def nth_append)
  ultimately show ?thesis unfolding spaces_def split by simp
qed

lemma find_spaces_eq: "find_spaces x (length x) n = take n (spaces x)"
  by (simp add: find_spaces_def spaces_def)

text \<open>The header line a server sends.\<close>

definition value_header :: "string \<Rightarrow> nat \<Rightarrow> nat \<Rightarrow> string option \<Rightarrow> nat option \<Rightarrow> string" where
  "value_header key flags len chk cas = ''VALUE '' @ key @ CHR '' '' # show_nat flags @ CHR '' '' # show_nat len @
     (case chk of None \<Rightarrow> [] | Some c \<Rightarrow> CHR '' '' # c) @
     (case cas of None \<Rightarrow> [] | Some n \<Rightarrow> CHR '' '' # show_nat n) @ CRLF"

lemma show_nat_no_space: "CHR '' '' \<notin> set (show_nat n)"
  using show_base_digits [of 10 n] is_digit_not_space by (fastforce simp: show_nat_def is_space_def)

lemma show_nat_stops: "stops 10 (CHR '' '' # r)" "stops 10 (CRLF @ r)" "stops 10 CRLF"
  by (simp_all add: stops_def is_digit_def digit_val_def CRLF_def)

lemma atoi_field: "n < 2 ^ 31 \<Longrightarrow> atoi (CHR '' '' # show_nat n @ CHR '' '' # r) = int n"
  "n < 2 ^ 31 \<Longrightarrow> atoi (CHR '' '' # show_nat n @ CRLF) = int n"
  using atoi_show_nat [OF show_nat_stops(1)] atoi_show_nat [OF show_nat_stops(3)]
  by (auto simp: atoi_space is_space_def CRLF_def)

lemma strtoul_field: "n < 2 ^ 64 \<Longrightarrow> strtoul (CHR '' '' # show_nat n @ CRLF) = of_nat n"
  using strtoul_show_nat [OF show_nat_stops(3)] by (auto simp: strtoul_space is_space_def CRLF_def)

lemma find_spaces_header:
  assumes "CHR '' '' \<notin> set key"
  shows "spaces (value_header key flags len chk cas) =
    5 # (6 + length key) # (7 + length key + length (show_nat flags)) #
    map (\<lambda>i. 8 + length key + length (show_nat flags) + i)
      (spaces (show_nat len @ (case chk of None \<Rightarrow> [] | Some c \<Rightarrow> CHR '' '' # c) @
         (case cas of None \<Rightarrow> [] | Some n \<Rightarrow> CHR '' '' # show_nat n) @ CRLF))"
proof -
  have v: "value_header key flags len chk cas = ''VALUE'' @ CHR '' '' # key @ CHR '' '' # show_nat flags @ CHR '' '' #
     show_nat len @ (case chk of None \<Rightarrow> [] | Some c \<Rightarrow> CHR '' '' # c) @
     (case cas of None \<Rightarrow> [] | Some n \<Rightarrow> CHR '' '' # show_nat n) @ CRLF"
    by (simp add: value_header_def)
  show ?thesis
    unfolding v
    by (subst spaces_word, simp)+ (simp_all add: assms show_nat_no_space spaces_word)
qed

lemma header_word: "sint (of_nat n :: u32) = int n" if "n < 2 ^ 31"
  using that by (simp add: signed_of_nat signed_take_bit_int_eq_self)

lemma spaces_tail:
  "spaces (show_nat len @ (case chk of None \<Rightarrow> [] | Some c \<Rightarrow> CHR '' '' # c) @
      (case cas of None \<Rightarrow> [] | Some n \<Rightarrow> CHR '' '' # show_nat n) @ CRLF) =
   (case chk of None \<Rightarrow> (case cas of None \<Rightarrow> [] | Some _ \<Rightarrow> [length (show_nat len)])
    | Some c \<Rightarrow> length (show_nat len) # (case cas of None \<Rightarrow> [] | Some _ \<Rightarrow> [length (show_nat len) + 1 + length c]))"
  if "\<And>c. chk = Some c \<Longrightarrow> CHR '' '' \<notin> set c"
proof -
  have e: "spaces (show_nat n @ CRLF) = []" for n
    by (rule spaces_none) (simp add: show_nat_no_space CRLF_def)
  have c: "spaces (x @ CRLF) = []" if "CHR '' '' \<notin> set x" for x
    by (rule spaces_none) (simp add: that CRLF_def)
  show ?thesis
    using that e c by (auto simp: spaces_word show_nat_no_space split: option.split)
qed

lemma drop_step: "drop n x = w @ r \<Longrightarrow> drop (n + length w) x = r"
  using drop_drop [of "length w" n x] by (simp add: add.commute)

lemma parse_response_ok:
  assumes "heap s p = Some m" "mmc_inbuf m = x" "x \<noteq> []" "6 \<le> length x" "take 6 x = ''VALUE ''"
    "n = (if want_cas then 4 else 3) + (if mmc_di_algo_in_use m \<noteq> DI_CHKSUM_UNSUPPORTED then 1 else 0)"
    "take n (spaces x) = sp" "length sp = n"
    "header_fields key want_cas (mmc_di_algo_in_use m \<noteq> DI_CHKSUM_UNSUPPORTED) x sp h = h'"
    "0 \<le> sint (h_flags h')" "0 \<le> h_value_len h'"
  shows "mmc_parse_response env p (length x) key want_cas h s = Some ((1, h'), s)"
  using assms by (simp add: mmc_parse_response_def Let_def find_spaces_eq)

text \<open>What follows the length in a header, and the header's text at each field.\<close>

abbreviation header_tail :: "string option \<Rightarrow> nat option \<Rightarrow> string" where
  "header_tail chk cas \<equiv> (case chk of None \<Rightarrow> [] | Some c \<Rightarrow> CHR '' '' # c) @
     (case cas of None \<Rightarrow> [] | Some n \<Rightarrow> CHR '' '' # show_nat n) @ CRLF"

lemma header_at:
  "take (length key) (drop 6 (value_header key fl len chk cas)) = key"
  "drop (6 + length key) (value_header key fl len chk cas) = CHR '' '' # show_nat fl @ CHR '' '' # show_nat len @ header_tail chk cas"
  "drop (7 + length key + length (show_nat fl)) (value_header key fl len chk cas) = CHR '' '' # show_nat len @ header_tail chk cas"
  "drop (8 + length key + length (show_nat fl) + length (show_nat len)) (value_header key fl len chk cas) = header_tail chk cas"
proof -
  let ?x = "value_header key fl len chk cas" and ?t = "header_tail chk cas"
  have d: "drop 6 ?x = key @ (CHR '' '' # show_nat fl @ CHR '' '' # show_nat len @ ?t)"
    by (simp add: value_header_def)
  then show "take (length key) (drop 6 ?x) = key" by simp
  from drop_step [OF d] show d1: "drop (6 + length key) ?x = CHR '' '' # show_nat fl @ CHR '' '' # show_nat len @ ?t" .
  then have "drop (6 + length key) ?x = (CHR '' '' # show_nat fl) @ (CHR '' '' # show_nat len @ ?t)" by simp
  from drop_step [OF this] show d2: "drop (7 + length key + length (show_nat fl)) ?x = CHR '' '' # show_nat len @ ?t"
    by (simp add: add_ac)
  then have "drop (7 + length key + length (show_nat fl)) ?x = (CHR '' '' # show_nat len) @ ?t" by simp
  from drop_step [OF this] show "drop (8 + length key + length (show_nat fl) + length (show_nat len)) ?x = ?t"
    by (simp add: add_ac)
qed

definition header_marks :: "string \<Rightarrow> nat \<Rightarrow> nat \<Rightarrow> string option \<Rightarrow> nat option \<Rightarrow> nat list" where
  "header_marks key fl len chk cas = 5 # (6 + length key) # (7 + length key + length (show_nat fl)) #
     map (\<lambda>i. 8 + length key + length (show_nat fl) + i)
       (case chk of None \<Rightarrow> (case cas of None \<Rightarrow> [] | Some _ \<Rightarrow> [length (show_nat len)])
        | Some c \<Rightarrow> length (show_nat len) # (case cas of None \<Rightarrow> [] | Some _ \<Rightarrow> [length (show_nat len) + 1 + length c]))"

lemma spaces_header:
  assumes "CHR '' '' \<notin> set key" "\<forall>c. chk = Some c \<longrightarrow> CHR '' '' \<notin> set c"
  shows "spaces (value_header key fl len chk cas) = header_marks key fl len chk cas"
  using find_spaces_header [OF assms(1), of fl len chk cas] spaces_tail [of chk len cas] assms(2)
  by (auto simp: header_marks_def)

lemma header_marks_nth:
  "header_marks key fl len chk cas ! 0 = 5" "header_marks key fl len chk cas ! 1 = 6 + length key"
  "header_marks key fl len chk cas ! 2 = 7 + length key + length (show_nat fl)"
  "header_marks key fl len None (Some n) ! 3 = 8 + length key + length (show_nat fl) + length (show_nat len)"
  "header_marks key fl len (Some c) cas ! 3 = 8 + length key + length (show_nat fl) + length (show_nat len)"
  "header_marks key fl len (Some c) (Some n) ! 4 = 8 + length key + length (show_nat fl) + length (show_nat len) + 1 + length c"
  by (simp_all add: header_marks_def eval_nat_numeral)

lemma header_marks_length:
  "length (header_marks key fl len chk cas) = (if cas = None then 3 else 4) + (if chk = None then 0 else 1)"
  by (simp add: header_marks_def split: option.split)

lemma header_fields_get:
  assumes "fl < 2 ^ 31" "len < 2 ^ 31" "\<forall>n. cas = Some n \<longrightarrow> n < 2 ^ 64"
    and h': "h' = header_fields True (cas \<noteq> None) (chk \<noteq> None) (value_header key fl len chk cas) (header_marks key fl len chk cas) h"
  shows "h_key h' = Some key" "h_flags h' = of_nat fl" "h_value_len h' = int len"
    "case cas of None \<Rightarrow> h_cas h' = h_cas h | Some n \<Rightarrow> h_cas h' = Some (of_nat n)"
    "case chk of None \<Rightarrow> h_chksum h' = None | Some c \<Rightarrow> \<exists>r. h_chksum h' = Some (c @ r) \<and> hd r \<in> {CHR '' '', CHR 0x0D}"
proof -
  let ?x = "value_header key fl len chk cas" and ?sp = "header_marks key fl len chk cas"
  let ?e = "8 + length key + length (show_nat fl) + length (show_nat len)"
  have f: "take (?sp ! 1 - ?sp ! 0 - 1) (drop (?sp ! 0 + 1) ?x) = key"
    "atoi (drop (?sp ! 1) ?x) = int fl" "atoi (drop (?sp ! 2) ?x) = int len"
    unfolding header_marks_nth using header_at(1) [of key fl len chk cas] atoi_field [OF assms(1)] atoi_field [OF assms(2)]
    by (auto simp: header_at(2,3) split: option.split)
  have c: "\<exists>r. drop (?sp ! 3 + 1) ?x = c @ r \<and> hd r \<in> {CHR '' '', CHR 0x0D}" if "chk = Some c" for c
  proof -
    have "drop ?e ?x = '' '' @ (c @ (case cas of None \<Rightarrow> [] | Some n \<Rightarrow> CHR '' '' # show_nat n) @ CRLF)"
      using header_at(4) [of key fl len chk cas] that by simp
    from drop_step [OF this] show ?thesis unfolding that header_marks_nth
      by (simp add: CRLF_def split: option.split)
  qed
  have n: "strtoul (drop (?sp ! (if chk = None then 3 else 4)) ?x) = of_nat n" if "cas = Some n" for n
  proof (cases chk)
    case None
    then show ?thesis using that header_at(4) [of key fl len None "Some n"] strtoul_field assms(3)
      by (simp add: header_marks_nth)
  next
    case (Some c)
    have "drop ?e ?x = ('' '' @ c) @ (CHR '' '' # show_nat n @ CRLF)"
      using header_at(4) [of key fl len chk cas] that Some by simp
    from drop_step [OF this] show ?thesis using that Some strtoul_field assms(3)
      by (simp add: header_marks_nth add_ac)
  qed
  show "h_key h' = Some key" "h_flags h' = of_nat fl" "h_value_len h' = int len"
    unfolding h' header_fields_def Let_def using f by (simp_all split del: if_split add: if_distrib [of h_key] if_distrib [of h_flags] if_distrib [of h_value_len] cong: if_cong)
  show "case cas of None \<Rightarrow> h_cas h' = h_cas h | Some n \<Rightarrow> h_cas h' = Some (of_nat n)"
    unfolding h' header_fields_def Let_def using n by (cases cas; cases chk) simp_all
  show "case chk of None \<Rightarrow> h_chksum h' = None | Some c \<Rightarrow> \<exists>r. h_chksum h' = Some (c @ r) \<and> hd r \<in> {CHR '' '', CHR 0x0D}"
    unfolding h' header_fields_def Let_def using c by (cases cas; cases chk) simp_all
qed

text \<open>C9. Reading back a header that a server printed: from a line \<open>VALUE <key> <flags>
  <bytes> [<checksum>] [<cas>]\<close> with a checksum exactly when the connection uses one,
  \<open>mmc_parse_response\<close> gets the key, the flags, the length and the CAS, and the checksum field
  starts at its first character.\<close>
theorem mmc_parse_response_roundtrip:
  assumes "heap s p = Some m" "mmc_inbuf m = value_header key fl len chk cas" "CHR '' '' \<notin> set key"
    "fl < 2 ^ 31" "len < 2 ^ 31" "chk = None \<longleftrightarrow> mmc_di_algo_in_use m = DI_CHKSUM_UNSUPPORTED"
    "\<forall>c. chk = Some c \<longrightarrow> CHR '' '' \<notin> set c" "\<forall>n. cas = Some n \<longrightarrow> n < 2 ^ 64"
  shows "\<exists>h'. mmc_parse_response env p (length (mmc_inbuf m)) True (cas \<noteq> None) h s = Some ((1, h'), s) \<and>
    h_key h' = Some key \<and> h_flags h' = of_nat fl \<and> h_value_len h' = int len \<and>
    (case cas of None \<Rightarrow> h_cas h' = h_cas h | Some n \<Rightarrow> h_cas h' = Some (of_nat n)) \<and>
    (case chk of None \<Rightarrow> h_chksum h' = None | Some c \<Rightarrow> \<exists>r. h_chksum h' = Some (c @ r) \<and> hd r \<in> {CHR '' '', CHR 0x0D})"
proof -
  define x where "x = value_header key fl len chk cas"
  define sp where "sp = header_marks key fl len chk cas"
  define h' where "h' = header_fields True (cas \<noteq> None) (chk \<noteq> None) x sp h"
  note got = header_fields_get [OF assms(4,5,8) h'_def [unfolded x_def sp_def]]
  have x: "x \<noteq> []" "6 \<le> length x" "take 6 x = ''VALUE ''" by (simp_all add: x_def value_header_def)
  have "spaces x = sp" unfolding x_def sp_def by (rule spaces_header [OF assms(3,7)])
  then have sp: "take (length sp) (spaces x) = sp" by simp
  have n: "length sp = (if cas \<noteq> None then 4 else 3) + (if mmc_di_algo_in_use m \<noteq> DI_CHKSUM_UNSUPPORTED then 1 else 0)"
    using assms(6) by (simp add: sp_def header_marks_length)
  have eq: "(mmc_di_algo_in_use m \<noteq> DI_CHKSUM_UNSUPPORTED) = (chk \<noteq> None)" using assms(6) by simp
  have pos: "0 \<le> sint (h_flags h')" "0 \<le> h_value_len h'"
    unfolding got(2,3) using header_word [OF assms(4)] by simp_all
  have "mmc_parse_response env p (length x) True (cas \<noteq> None) h s = Some ((1, h'), s)"
    by (rule parse_response_ok [OF assms(1) assms(2) [folded x_def] x n sp refl _ pos]) (simp add: eq h'_def)
  with got show ?thesis unfolding assms(2) x_def [symmetric] by blast
qed

lemma mmc_parse_response_roundtrip_witness:
  "let m = (ex_server STATUS_CONNECTED (Some 3))\<lparr>mmc_inbuf := value_header ''foo'' 2 10 None (Some 77)\<rparr>;
       h = \<lparr>h_key = None, h_flags = 0, h_cas = None, h_chksum = None, h_value_len = 0\<rparr>;
       s = ex_state [1 \<mapsto> m] []
   in \<exists>h'. mmc_parse_response ex_env 1 (length (mmc_inbuf m)) True (Some (77 :: nat) \<noteq> None) h s = Some ((1, h'), s) \<and>
     h_key h' = Some ''foo'' \<and> h_flags h' = 2 \<and> h_value_len h' = 10 \<and> h_cas h' = Some 77"
  unfolding Let_def
  using mmc_parse_response_roundtrip [of
      "ex_state [1 \<mapsto> (ex_server STATUS_CONNECTED (Some 3))\<lparr>mmc_inbuf := value_header ''foo'' 2 10 None (Some 77)\<rparr>] []"
      1 "(ex_server STATUS_CONNECTED (Some 3))\<lparr>mmc_inbuf := value_header ''foo'' 2 10 None (Some 77)\<rparr>"
      "''foo''" 2 10 None "Some 77" ex_env "\<lparr>h_key = None, h_flags = 0, h_cas = None, h_chksum = None, h_value_len = 0\<rparr>"]
  by (simp add: ex_state_def ex_server_def DI_CHKSUM_UNSUPPORTED_def) blast

subsection \<open>The tokenizer\<close>

lemma tokenize_word:
  "CHR '' '' \<notin> set w \<Longrightarrow> tokenize_loop cur (Suc k) (w @ e) = tokenize_loop (cur @ w) (Suc k) e"
  by (induction w arbitrary: cur) auto

text \<open>The command line of a multi-get: a command word and the keys scheduled for a server.\<close>

definition words_of :: "string \<Rightarrow> string list \<Rightarrow> string" where
  "words_of cmd keys = cmd @ concat (map (\<lambda>k. CHR '' '' # k) keys)"

lemma tokenize_words:
  assumes "\<forall>w \<in> set (w # ws). w \<noteq> [] \<and> CHR '' '' \<notin> set w" "length ws < k"
  shows "tokenize_loop [] k (words_of w ws) = (w # ws, None)"
  using assms
proof (induction ws arbitrary: w k)
  case Nil
  then obtain j where "k = Suc j" by (cases k) auto
  then show ?case using Nil tokenize_word [of w "[]" j "[]"] by (simp add: words_of_def)
next
  case (Cons v ws)
  then obtain j where k: "k = Suc j" "length ws < j" by (cases k) auto
  have "tokenize_loop [] j (words_of v ws) = (v # ws, None)" using Cons.IH [of v j] Cons.prems k by simp
  then show ?case using Cons.prems k tokenize_word [of w "[]" j "CHR '' '' # words_of v ws"]
    by (simp add: words_of_def Let_def)
qed

lemma map_of_assoc_add: "map_of (assoc_add k v xs) = (map_of xs)(k \<mapsto> v)"
  by (induction xs) auto

lemma mark_tokens_map:
  "map_of (fst (mark_tokens ts code arr s)) k = (if k \<in> set ts then Some (ZBool False) else map_of arr k)"
  by (induction ts arbitrary: arr s) (auto simp: map_of_assoc_add)

text \<open>C37. When a server of a multi-get fails, \<open>update_result_array\<close> applied to the command line
  sent to it marks exactly the keys scheduled for that server, as long as the command has at
  most 1022 of them.\<close>
theorem update_result_array_marks:
  assumes "\<forall>w \<in> set (cmd # keys). w \<noteq> [] \<and> CHR '' '' \<notin> set w \<and> CHR 0x00 \<notin> set w" "length keys < MAX_TOKENS - 1"
  shows "\<exists>arr' s'. update_result_array (Some arr) (words_of cmd keys) code s = Some (Some arr', s') \<and>
    (\<forall>k. map_of arr' k = (if k \<in> set keys then Some (ZBool False) else map_of arr k))"
proof -
  have "CHR 0x00 \<notin> set (words_of cmd keys)" using assms(1) by (auto simp: words_of_def)
  moreover have "tokenize_loop [] (MAX_TOKENS - 1) (words_of cmd keys) = (cmd # keys, None)"
    using assms by (intro tokenize_words) auto
  ultimately have "tokenize_command (words_of cmd keys) MAX_TOKENS = Some (cmd # keys, None)"
    by (simp add: tokenize_command_def MAX_TOKENS_def)
  then show ?thesis using mark_tokens_map [of keys code arr s]
    by (auto simp: update_result_array_def Let_def split: prod.split)
qed

lemma update_result_array_marks_witness:
  "\<exists>arr' s'. update_result_array (Some [(''x'', ZBool True)]) (words_of ''get'' [''x'', ''y'']) 140 (ex_state Map.empty []) =
      Some (Some arr', s') \<and>
    (\<forall>k. map_of arr' k = (if k \<in> set [''x'', ''y''] then Some (ZBool False) else map_of [(''x'', ZBool True)] k))"
  by (rule update_result_array_marks) (simp_all add: MAX_TOKENS_def)

text \<open>Turning a value into a PHP value restores the log record it saved, except when the
  serializer rejects the value outside debug mode: then the saved record stays on the stack.\<close>
theorem mmc_postprocess_value_logger:
  assumes "mmc_postprocess_value env flags rv value s = Some ((r, z), s')"
  shows "logger_saved s' = logger_saved s + (if r = 0 \<and> z = ZBool False \<and>
      (flags AND MMC_SERIALIZED \<noteq> 0 \<or> flags AND MMC_SERIALIZED_IGBINARY \<noteq> 0 \<and> have_igbinary env) then 1 else 0)"
  using assms
  by (auto simp: mmc_postprocess_value_def unserialize_with_def Let_def restoreLogger_def saveLogger_def php_error_def
      split: if_splits option.splits)

lemma mmc_postprocess_value_logger_witness:
  "\<exists>s'. mmc_postprocess_value ex_env 1 ZNull ''?'' (ex_state Map.empty []) = Some ((0, ZBool False), s') \<and> logger_saved s' = 1"
proof -
  obtain s' where s': "mmc_postprocess_value ex_env 1 ZNull ''?'' (ex_state Map.empty []) = Some ((0, ZBool False), s')"
    by (simp add: mmc_postprocess_value_def unserialize_with_def Let_def MMC_SERIALIZED_def saveLogger_def
        ex_env_def ex_state_def ex_glob_def php_error_def)
  from mmc_postprocess_value_logger [OF this] show ?thesis using s'
    by (simp add: ex_state_def MMC_SERIALIZED_def)
qed
end
