(* ===== verification/Read_Value.thy ===== *)
theory Read_Value
  imports Protocol
begin

text \<open>
  Reading one value from the stream, \<open>mmc_read_value\<close> (memcache.cpp 2944-3276): the header
  line, the body, the old checksum in front of the data, the new checksum in the header
  line, decompression (1677-1768) and the verification of both checksums.
\<close>

definition COMPRESSED_MASK :: u32 where
  "COMPRESSED_MASK = MMC_COMPRESSED OR MMC_COMPRESSED_LZO OR MMC_COMPRESSED_BZIP2"

abbreviation compressed :: "u32 \<Rightarrow> bool" where
  "compressed flags \<equiv> flags AND COMPRESSED_MASK \<noteq> 0"

subsection \<open>The key in the input buffer\<close>

text \<open>
  \<open>get_key\<close> skips to the first space, then ends the key with a NUL written into the buffer,
  at the next space or newline or after 1024 characters. The first character after the
  space is never examined.
\<close>

definition get_key_end :: "string \<Rightarrow> nat option" where
  "get_key_end inbuf =
     (let a = length (takeWhile (\<lambda>c. c \<noteq> CHR '' '') inbuf);
          t = length (takeWhile (\<lambda>c. c \<noteq> CHR '' '' \<and> c \<noteq> CHR 0x0A) (drop (a + 2) inbuf));
          e = a + 2 + min t 1024
      in if e < length inbuf then Some e else None)"

definition get_key :: "nat \<Rightarrow> 'w st \<Rightarrow> 'w st option" where
  "get_key p s = do {
     m \<leftarrow> heap s p;
     e \<leftarrow> get_key_end (mmc_inbuf m);
     upd p (\<lambda>m. m\<lparr>mmc_inbuf := (mmc_inbuf m)[e := CHR 0x00]\<rparr>) s
   }"

subsection \<open>The body\<close>

text \<open>
  \<open>n\<close> bytes are still to come; the inner None is a failed read. The library never returns
  more bytes than asked for.
\<close>

function read_body ::
    "'w php_env \<Rightarrow> nat \<Rightarrow> nat \<Rightarrow> string \<Rightarrow> 'w \<Rightarrow> (string option \<times> 'w) option" where
  "read_body env h n acc w =
     (if n = 0 then Some (Some acc, w)
      else (let (r, w) = stream_read env h n w in
        if r = [] then Some (None, w)
        else if n < length r then None
        else read_body env h (n - length r) (acc @ r) w))"
  by pat_completeness auto
termination
  by (relation "measure (\<lambda>(env, h, n, acc, w). n)") auto

declare read_body.simps [simp del]

subsection \<open>The checksum in front of the data\<close>

definition MMC_CHKSUM_LEN :: nat where "MMC_CHKSUM_LEN = 50"

definition crc_text :: "string \<Rightarrow> nat \<Rightarrow> string" where
  "crc_text data i = takeWhile (\<lambda>c. c \<noteq> CHR 0x0D) (take MMC_CHKSUM_LEN (drop i data))"

text \<open>
  \<open>strtol\<close> on the 50-byte buffer: with 50 characters copied no NUL is left, and a number
  that fills the buffer makes the scan leave it.
\<close>

definition crc_strtol :: "string \<Rightarrow> int option" where
  "crc_strtol t =
     (if length t < MMC_CHKSUM_LEN then Some (strtol 16 t)
      else if snd (scan_digits 16 0 (skip_0x 16 (snd (scan_sign (skip_space t))))) = [] then None
      else Some (strtol 16 t))"

text \<open>A checksum that cannot be read: the code logged, if any; or the values and the length.\<close>

datatype old_checksum = Old_Bad "int option" | Old_Good int int nat

definition old_second :: "string \<Rightarrow> int \<Rightarrow> nat \<Rightarrow> old_checksum option" where
  "old_second data crc_value i =
     (let t = crc_text data i; i = i + length t in
      if i = length data then Some (Old_Bad (Some CRC_CHKSUM3_FAILED))
      else if i + 2 < length data \<and> data ! i = CHR 0x0D \<and> data ! (i + 1) = CHR 0x0A then do {
        v \<leftarrow> crc_strtol t;
        if v = LONG_MAX \<or> v = LONG_MIN then Some (Old_Bad None)
        else Some (Old_Good crc_value v (i + 2))
      } else Some (Old_Bad (Some CRC_CHKSUM4_FAILED)))"

definition old_checksum_of :: "u32 \<Rightarrow> string \<Rightarrow> old_checksum option" where
  "old_checksum_of flags data =
     (if compressed flags then
        (let t = crc_text data 0; i = length t in
         if i = length data then Some (Old_Bad (Some CRC_CHKSUM1_FAILED))
         else if data ! i = CHR 0x0D then do {
           v \<leftarrow> crc_strtol t;
           if v = LONG_MAX \<or> v = LONG_MIN then Some (Old_Bad None)
           else old_second data v (i + 1)
         } else Some (Old_Bad (Some CRC_CHKSUM2_FAILED)))
      else old_second data 0 0)"

subsection \<open>The checksum in the header line\<close>

text \<open>\<open>sscanf\<close> with \<open>k\<close> conversions \<open>%x\<close> separated by colons: the values assigned.\<close>

fun sscanf_x :: "nat \<Rightarrow> string \<Rightarrow> u32 list" where
  "sscanf_x 0 s = []"
| "sscanf_x (Suc k) s = (case scan_x s of
     None \<Rightarrow> []
   | Some (v, r) \<Rightarrow> v # (case r of [] \<Rightarrow> [] | c # r' \<Rightarrow> if c = CHR '':'' then sscanf_x k r' else []))"

definition DI_u32 :: "u8 \<Rightarrow> u32" where
  "DI_u32 a = ucast a"

definition error_flags :: u32 where
  "error_flags = DI_u32 (DI_CHKSUM_MISMATCH_MCMUX OR DI_CHKSUM_MISMATCH_MOXI OR DI_CHKSUM_MISMATCH_MB)"

definition downstream_code :: "u32 \<Rightarrow> int option" where
  "downstream_code e =
     (if e = DI_u32 DI_CHKSUM_MISMATCH_MCMUX then Some DI_CHECKSUM_GET_FAILED_MCMUX
      else if e = DI_u32 DI_CHKSUM_MISMATCH_MB then Some DI_CHECKSUM_GET_FAILED_MB
      else if e = DI_u32 DI_CHKSUM_MISMATCH_MOXI then Some DI_CHECKSUM_GET_FAILED_MOXI
      else None)"

text \<open>A verification error (message and code), or the two values to compare with; 0 is none.\<close>

type_synonym new_checksum = "(string \<times> int option) + (int \<times> int)"

definition downstream_check :: "u32 \<Rightarrow> int \<Rightarrow> int \<Rightarrow> new_checksum" where
  "downstream_check metadata crc_value uncrc_value =
     (if metadata AND error_flags \<noteq> 0
      then Inl (''Data Integrity verification failed, ckecksum mismatch detected downstream'',
                downstream_code (metadata AND error_flags))
      else Inr (crc_value, uncrc_value))"

definition new_checksum_of :: "u8 \<Rightarrow> u32 \<Rightarrow> string option \<Rightarrow> new_checksum" where
  "new_checksum_of di_algo flags chksum = (case chksum of
     None \<Rightarrow> Inl (''Data Integrity verification failed, no checksum in header'', Some DI_CHECKSUM_GET_FAILED1)
   | Some text \<Rightarrow>
       (case sscanf_x 1 text of
          [] \<Rightarrow> Inl (''Data Integrity verification failed, incorrect checksum format for metadata'',
                    Some DI_CHECKSUM_GET_FAILED2)
        | metadata # _ \<Rightarrow>
            if di_algo AND DI_CHKSUM_SUPPORTED_OFF = 0 \<and> metadata AND DI_u32 DI_CHKSUM_SUPPORTED_OFF = 0 then
              (let fields = sscanf_x (if compressed flags then 3 else 2) text;
                   bad = (''Cannot verify checksum, mismatch in checksum algorithm'',
                          Some DI_CHECKSUM_GET_FAILED4)
               in if compressed flags then
                    (case fields of
                       [metadata, crc, uncrc] \<Rightarrow>
                         if metadata AND DI_u32 di_algo = 0 then Inl bad
                         else downstream_check metadata (int (unat crc)) (int (unat uncrc))
                     | _ \<Rightarrow> Inl (''Data Integrity verification failed, incorrect checksum format for compressed data'',
                                Some DI_CHECKSUM_GET_FAILED3))
                  else
                    (case fields of
                       [metadata, uncrc] \<Rightarrow>
                         if metadata AND DI_u32 di_algo = 0 then Inl bad
                         else downstream_check metadata 0 (int (unat uncrc))
                     | _ \<Rightarrow> Inl (''Data Integrity verification failed, incorrect checksum format'',
                                Some DI_CHECKSUM_GET_FAILED4)))
            else downstream_check metadata 0 0))"

subsection \<open>Decompression\<close>

text \<open>
  The number of bytes put out, as the code computes it from the two halves that libbz2 counts: the
  arithmetic is that of \<open>unsigned int\<close>, so it is right below 4 GiB only.
\<close>

definition bz2_size :: "nat \<Rightarrow> nat" where
  "bz2_size written = unat (word_of_nat (written div 2 ^ 32) * (- 1) + word_of_nat written :: u32)"

text \<open>
  The loop over \<open>BZ2_bzDecompress\<close>: while there is input left, the block is reallocated with room for
  \<open>data_len\<close> more bytes and the output goes on at \<open>size\<close>. \<open>buf\<close> holds the bytes written so far.
\<close>

partial_function (option) bz2_loop ::
    "(nat list \<Rightarrow> bzstatus \<times> string \<times> nat) \<Rightarrow> nat \<Rightarrow> nat list \<Rightarrow> nat \<Rightarrow> string \<Rightarrow> (bzstatus \<times> nat \<times> string) option" where
  "bz2_loop run data_len rooms written buf =
     (case run rooms of (error, out, avail_in) \<Rightarrow>
        if error = BZ_OK \<and> 0 < avail_in
        then bz2_loop run data_len (rooms @ [data_len]) (written + length out)
               (take (bz2_size (written + length out)) (buf @ out))
        else Some (error, written + length out, buf @ out))"

declare bz2_loop.simps [code]

text \<open>
  A failed initialisation returns 0, which the caller takes for \<open>Z_OK\<close>: it delivers a block that was never
  written, hence None. When the input ends before the stream does, the result is \<open>BZ_OK\<close> and counts as success.
\<close>

definition bz2_decompress_safe :: "'w php_env \<Rightarrow> string \<Rightarrow> nat \<Rightarrow> 'w st \<Rightarrow> ((zstatus \<times> string) \<times> 'w st) option" where
  "bz2_decompress_safe env data result_len s =
     (if \<not> bz2_init env then None
      else do {
        (error, written, result) \<leftarrow> bz2_loop (bz2_run env data) (length data) [result_len] 0 [];
        if error = BZ_STREAM_END \<or> error = BZ_OK then
          (let size = bz2_size written in if size \<le> length result then Some ((Z_OK, take size result), s) else None)
        else Some ((Z_DATA_ERROR, []), php_error E_WARNING ''BZ2_bzDecompress() failed'' s)
      })"

definition uncompress_step ::
    "'w php_env \<Rightarrow> string \<Rightarrow> u32 \<Rightarrow> nat \<Rightarrow> 'w st \<Rightarrow> ((zstatus \<times> string) \<times> 'w st) option" where
  "uncompress_step env data flags room s =
     (if flags AND MMC_COMPRESSED \<noteq> 0 then Some (z_uncompress env data room, s)
      else if flags AND MMC_COMPRESSED_BZIP2 \<noteq> 0 then bz2_decompress_safe env data room s
      else Some (lzo_decompress env data room, s))"

text \<open>
  The output block starts at twice the input and doubles while it is too small; \<open>k\<close> is the
  number of attempts left after this one (\<open>factor\<close> goes from 1 to 15).
\<close>

fun uncompress_loop ::
    "(nat \<Rightarrow> 'w st \<Rightarrow> ((zstatus \<times> string) \<times> 'w st) option) \<Rightarrow> nat \<Rightarrow> nat \<Rightarrow> nat \<Rightarrow> 'w st \<Rightarrow>
     ((zstatus \<times> string) \<times> 'w st) option" where
  "uncompress_loop step data_len factor 0 s = step (data_len * 2 ^ factor) s"
| "uncompress_loop step data_len factor (Suc k) s = do {
     ((status, result), s) \<leftarrow> step (data_len * 2 ^ factor) s;
     if status = Z_BUF_ERROR then uncompress_loop step data_len (factor + 1) k s else Some ((status, result), s)
   }"

definition mmc_uncompress :: "'w php_env \<Rightarrow> string \<Rightarrow> u32 \<Rightarrow> 'w st \<Rightarrow> (string option \<times> 'w st) option" where
  "mmc_uncompress env data flags s = do {
     ((status, result), s) \<leftarrow> uncompress_loop (uncompress_step env data flags) (length data) 1 14 s;
     Some (if status = Z_OK then Some result else None, s)
   }"

subsection \<open>One value\<close>

text \<open>The variables of the caller that \<open>mmc_read_value\<close> writes through pointers.\<close>

record read_out =
  o_header :: header
  o_value :: buf
  o_value_len :: int

definition mismatch ::
    "nat \<Rightarrow> string \<Rightarrow> int option \<Rightarrow> string \<Rightarrow> read_out \<Rightarrow> 'w st \<Rightarrow> ((int \<times> read_out) \<times> 'w st) option" where
  "mismatch p msg code value ro s = do {
     s \<leftarrow> get_key p s;
     let s = php_error E_WARNING msg s;
     let s = (case code of Some c \<Rightarrow> setCode c s | None \<Rightarrow> s);
     Some ((CHKSUM_MISMATCH_DETECTED, ro\<lparr>o_value := Block value, o_value_len := int (length value)\<rparr>), s)
   }"

text \<open>
  The end of the function, with the checksums known: \<open>data\<close> is the block read, the value
  starts \<open>hdr_len\<close> bytes into it, \<open>fresh\<close> says the checksum came from the header line.
\<close>

definition value_crc :: "'w php_env \<Rightarrow> bool \<Rightarrow> string \<Rightarrow> u32 \<Rightarrow> int" where
  "value_crc env fresh value flags =
     int (unat (if fresh then get_checksum_extra env value flags else get_checksum env value))"

definition verify_value ::
    "'w php_env \<Rightarrow> nat \<Rightarrow> string \<Rightarrow> nat \<Rightarrow> bool \<Rightarrow> bool \<Rightarrow> int \<Rightarrow> int \<Rightarrow> read_out \<Rightarrow> 'w st \<Rightarrow>
     ((int \<times> read_out) \<times> 'w st) option" where
  "verify_value env p data hdr_len has_chksum fresh crc_value uncrc_value ro s =
     (let flags = h_flags (o_header ro); hp = drop hdr_len data in
      if compressed flags then
        (if crc_value \<noteq> 0 \<and> value_crc env fresh hp flags \<noteq> crc_value
         then mismatch p ''Data Integrity verification failed on compressed data''
                (Some CRC_CHKSUM5_FAILED) data ro s
         else do {
           (uncompressed, s) \<leftarrow> mmc_uncompress env hp flags s;
           (case uncompressed of
           None \<Rightarrow> do {
             s \<leftarrow> mmc_server_seterror p (Some ''Failed to uncompress data'') 0 s;
             let s = php_error E_NOTICE ''unable to uncompress data from server=%s'' s;
             Some ((- 2, ro), setCode UNCOMPRESS_FAILED s)
           }
         | Some result \<Rightarrow>
             if uncrc_value \<noteq> 0 \<and> int (unat (get_checksum env result)) \<noteq> uncrc_value
             then mismatch p ''Data Integrity verification failed on uncompressed data''
                    (Some CRC_CHKSUM6_FAILED) result ro s
             else Some ((1, ro\<lparr>o_value := Block result, o_value_len := int (length result)\<rparr>), s))
         })
      else if has_chksum then
        (if uncrc_value \<noteq> 0 \<and> value_crc env fresh hp flags \<noteq> uncrc_value
         then mismatch p ''Data Integrity verification failed on data''
                (Some CRC_CHKSUM7_FAILED) data ro s
         else Some ((1, ro\<lparr>o_value := Block hp, o_value_len := int (length hp)\<rparr>), s))
      else Some ((1, ro\<lparr>o_value := Block data, o_value_len := int (length data)\<rparr>), s))"

definition check_value ::
    "'w php_env \<Rightarrow> nat \<Rightarrow> string \<Rightarrow> read_out \<Rightarrow> 'w st \<Rightarrow> ((int \<times> read_out) \<times> 'w st) option" where
  "check_value env p data ro s = do {
     m \<leftarrow> heap s p;
     let flags = h_flags (o_header ro);
     if flags AND MMC_CHKSUM \<noteq> 0 then do {
       oc \<leftarrow> old_checksum_of flags data;
       (case oc of
          Old_Bad code \<Rightarrow> do {
            s \<leftarrow> get_key p s;
            let s = php_error E_NOTICE (if code = None then ''overflow or undeflow happend with crc checksum''
                                       else ''CRC checking failed Invalid format'') s;
            Some ((- 2, ro), (case code of Some c \<Rightarrow> setCode c s | None \<Rightarrow> s))
          }
        | Old_Good crc_value uncrc_value hdr_len \<Rightarrow>
            verify_value env p data hdr_len True False crc_value uncrc_value ro s)
     } else if mmc_di_algo_in_use m \<noteq> DI_CHKSUM_UNSUPPORTED then
       (case new_checksum_of (mmc_di_algo_in_use m) flags (h_chksum (o_header ro)) of
          Inl (msg, code) \<Rightarrow> mismatch p msg code data ro s
        | Inr (crc_value, uncrc_value) \<Rightarrow> verify_value env p data 0 True True crc_value uncrc_value ro s)
     else verify_value env p data 0 False False 0 0 ro s
   }"

text \<open>
  The block is \<open>data_len + 3\<close> bytes, computed in \<open>int\<close>; \<open>want_cas\<close> says the caller passes a
  variable for the CAS value. 1 is a value, 0 the end of the data, -1 and -2 failures.
\<close>

definition mmc_read_value ::
    "'w php_env \<Rightarrow> nat \<Rightarrow> bool \<Rightarrow> bool \<Rightarrow> read_out \<Rightarrow> 'w st \<Rightarrow> ((int \<times> read_out) \<times> 'w st) option" where
  "mmc_read_value env p want_key want_cas ro s = do {
     (stream, _) \<leftarrow> mmc_channel p s;
     (response_len, s) \<leftarrow> mmc_readline env p s;
     if response_len < 0 then Some ((- 1, ro), setCode READLINE_FAILED s)
     else do {
       m \<leftarrow> heap s p;
       if mmc_str_left env (mmc_inbuf m) ''END'' (nat response_len)
       then Some ((0, ro), if \<not> g_in_multi (glob s) then setCode MC_ONLY_END s else s)
       else do {
         ((r, h), s) \<leftarrow> mmc_parse_response env p (nat response_len) want_key want_cas (o_header ro) s;
         let ro = ro\<lparr>o_header := h\<rparr>;
         if r < 0 then Some ((- 1, ro), setCode PARSE_RESPONSE_FAILED s)
         else do {
           let data_len = h_value_len h;
           if 2 ^ 31 \<le> data_len + 3 then None
           else do {
             let s = setResLen data_len s;
             h' \<leftarrow> stream;
             (body, w) \<leftarrow> read_body env h' (nat data_len + 2) [] (world s);
             let s = s\<lparr>world := w\<rparr>;
             (case body of
                None \<Rightarrow> do {
                  s \<leftarrow> mmc_server_seterror p (Some ''Failed reading value response body'') 0 s;
                  Some ((- 1, ro), setCode READ_VALUE_FAILED s)
                }
              | Some block \<Rightarrow>
                  (let data = take (nat data_len) block in
                   if \<not> g_lzo_enabled (glob s) \<and> h_flags h AND MMC_COMPRESSED_LZO \<noteq> 0 \<and> 0 < data_len
                   then do {
                     s \<leftarrow> mmc_server_seterror p
                       (Some ''Failed to uncompress data - lzo init failed'') 0 s;
                     let s = php_error E_NOTICE ''unable to uncompress data from server=%s - lzo init failed'' s;
                     Some ((- 2, ro), setCode UNCOMPRESS_FAILED s)
                   } else check_value env p data ro s))
           }
         }
       }
     }
   }"

end
