(* ===== verification/Store.thy ===== *)
theory Store
  imports Read_Value
begin

text \<open>
  Storing a value: \<open>mmc_server_store\<close> (memcache.cpp 1034-1116), \<open>mmc_compress\<close> (1610-1675),
  \<open>mmc_pool_store\<close> (1356-1608) in the stages of its loop body, and \<open>php_mmc_store\<close>
  (3594-3731).
\<close>

subsection \<open>One request to one server\<close>

abbreviation reply :: "'w php_env \<Rightarrow> mmc \<Rightarrow> nat \<Rightarrow> string \<Rightarrow> bool" where
  "reply env m n text \<equiv> mmc_str_left env (mmc_inbuf m) text n"

text \<open>
  -1 is a failure that ends in \<open>mmc_server_failure\<close>, -2 a checksum failure at the server, 0 a
  refusal, 1 success with the new CAS value.
\<close>

definition store_reply ::
    "'w php_env \<Rightarrow> nat \<Rightarrow> nat \<Rightarrow> u64 \<Rightarrow> 'w st \<Rightarrow> ((int \<times> u64) \<times> 'w st) option" where
  "store_reply env p n cas s = do {
     m \<leftarrow> heap s p;
     if reply env m n ''STORED''
     then Some ((1, strtoul (drop 7 (mmc_inbuf m))), setCode MC_STORED s)
     else if reply env m n ''NOT_STORED'' then Some ((0, cas), setCode MC_NOT_STORED s)
     else if reply env m n ''NOT_FOUND'' then Some ((0, cas), setCode MC_NOT_FOUND s)
     else if reply env m n ''EXISTS'' then Some ((0, cas), setCode MC_EXISTS s)
     else if mmc_str env (mmc_inbuf m) ''temporary failure'' n
     then Some ((0, cas), php_error E_WARNING
       ''Failed to perform operation, temporary failure. Item may be locked or server out of memory''
       (setCode MC_TMP_FAIL s))
     else if reply env m n ''SERVER_ERROR out of memory'' \<or> reply env m n ''SERVER_ERROR object too large''
     then Some ((0, cas), setCode MC_SERVER_MEM_ERROR s)
     else if reply env m n ''LOCK_ERROR'' then Some ((0, cas), setCode MC_LOCK_ERROR s)
     else if reply env m n ''SERVER_ERROR checksum failed'' then Some ((- 2, cas), s)
     else do {
       s \<leftarrow> mmc_server_received_error env p n s;
       Some ((- 1, cas), s)
     }
   }"

definition mmc_server_store ::
    "'w php_env \<Rightarrow> nat \<Rightarrow> string \<Rightarrow> u64 \<Rightarrow> 'w st \<Rightarrow> ((int \<times> u64) \<times> 'w st) option" where
  "mmc_server_store env p request cas s = do {
     m \<leftarrow> heap s p;
     let s = setHost (mmc_host m) s;
     (r, s) \<leftarrow> send_request env p request s;
     if r \<noteq> Sent then Some ((- 1, cas), s)
     else do {
       (response_len, s) \<leftarrow> mmc_readline env p s;
       if response_len < 0 then Some ((- 1, cas), s)
       else store_reply env p (nat response_len) cas s
     }
   }"

subsection \<open>Compression\<close>

definition compress_room :: "nat \<Rightarrow> nat" where
  "compress_room data_len = data_len + data_len div 16 + 64 + 3"

definition compress_with :: "'w php_env \<Rightarrow> int \<Rightarrow> string \<Rightarrow> u32 \<Rightarrow> zstatus \<times> string" where
  "compress_with env level data flags =
     (let room = compress_room (length data) in
      if flags AND MMC_COMPRESSED \<noteq> 0 then
        (let level = (if level = 0 then 6 else level)
         in z_compress2 env data (if 0 \<le> level then level else - 1) room)
      else if flags AND MMC_COMPRESSED_BZIP2 \<noteq> 0 then
        (let (status, out) = bz2_compress env data room
         in (if status = Z_OK then Z_OK else Z_DATA_ERROR, out))
      else lzo_compress env data room)"

definition compress_message :: "zstatus \<Rightarrow> string" where
  "compress_message status =
     (if status = Z_MEM_ERROR then ''Not enough memory to perform compression''
      else if status = Z_BUF_ERROR then ''Not enough room in the output buffer to perform compression''
      else if status = Z_STREAM_ERROR then ''Invalid compression level''
      else ''Unknown error during compression'')"

definition mmc_compress :: "'w php_env \<Rightarrow> string \<Rightarrow> u32 \<Rightarrow> 'w st \<Rightarrow> string option \<times> 'w st" where
  "mmc_compress env data flags s =
     (let (status, out) = compress_with env (g_compression_level (glob s)) data flags
      in if status = Z_OK then (Some out, s)
         else (None, php_error E_WARNING (compress_message status) s))"

subsection \<open>The variables of the store loop\<close>

text \<open>
  What \<open>mmc_pool_store\<close> keeps across the iterations of its loop. \<open>v_key_copy\<close> and
  \<open>v_shard_copy\<close> are the truncated copies (the key points to its copy once there is one),
  \<open>v_data\<close> the compressed block, which the value points to when it is not NULL; freeing a
  block frees what points to it. \<open>v_hdr\<close> is \<open>crc_in_hdr\<close>.
\<close>

record store_vars =
  v_key :: buf
  v_key_copy :: buf
  v_shard :: buf
  v_shard_copy :: buf
  v_flags :: u32
  v_value :: buf
  v_value_len :: nat
  v_data :: buf
  v_crc32 :: u32
  v_uncrc32 :: u32
  v_hdr :: string
  v_cas :: u64
  v_retry :: int
  v_val_len :: "int option"

definition truncate_key :: "buf \<Rightarrow> buf \<Rightarrow> (buf \<times> buf) option" where
  "truncate_key key copy = do {
     k \<leftarrow> buf_read key;
     Some (if MMC_KEY_MAX_SIZE < length k
           then (Block (take MMC_KEY_MAX_SIZE k), Block (take MMC_KEY_MAX_SIZE k)) else (key, copy))
   }"

definition free_copy :: "buf \<Rightarrow> buf \<Rightarrow> (buf \<times> buf) option" where
  "free_copy copy target = (case copy of Null \<Rightarrow> Some (target, Null)
     | _ \<Rightarrow> do { copy \<leftarrow> efree copy; Some (copy, copy) })"

subsection \<open>Flags and compression of the value\<close>

definition store_flags :: "string \<Rightarrow> int \<Rightarrow> int \<Rightarrow> nat \<Rightarrow> u32 \<Rightarrow> u32" where
  "store_flags command threshold level value_len flags =
     (if take (length command) ''append'' = command \<or> take (length command) ''prepend'' = command then 0
      else if threshold \<noteq> 0 \<and> threshold \<le> int value_len \<and> flags AND COMPRESSED_MASK = 0
      then flags OR (if 0 < level then MMC_COMPRESSED else MMC_COMPRESSED_LZO)
      else flags)"

definition lzo_fallback :: "bool \<Rightarrow> u32 \<Rightarrow> u32" where
  "lzo_fallback lzo_enabled flags =
     (if lzo_enabled then flags
      else (let flags = flags AND NOT MMC_COMPRESSED_LZO in
            if flags AND MMC_COMPRESSED_BZIP2 = 0 then flags OR MMC_COMPRESSED else flags))"

definition worth_compressing :: "nat \<Rightarrow> nat \<Rightarrow> rat \<Rightarrow> bool" where
  "worth_compressing data_len value_len savings \<longleftrightarrow> rat_of_nat data_len < rat_of_nat value_len * (1 - savings)"

text \<open>The inner None is the early \<open>return -1\<close>.\<close>

definition store_compress ::
    "'w php_env \<Rightarrow> bool \<Rightarrow> bool \<Rightarrow> store_vars \<Rightarrow> 'w st \<Rightarrow> (store_vars option \<times> 'w st) option" where
  "store_compress env add_new_crc calc_crc v s =
     (if \<not> compressed (v_flags v) then Some (Some v, s)
      else do {
        let flags = lzo_fallback (g_lzo_enabled (glob s)) (v_flags v);
        value \<leftarrow> buf_read (v_value v);
        let (r, s) = mmc_compress env value flags s;
        (case r of
           None \<Rightarrow> Some (None, setCode COMPRESS_FAILED s)
         | Some data \<Rightarrow>
             if worth_compressing (length data) (v_value_len v) (p_min_compress_savings (pool s))
             then (let v = (if calc_crc then v\<lparr>v_uncrc32 := get_checksum env value,
                       v_crc32 := (if add_new_crc then get_checksum_extra env data flags
                                   else get_checksum env data)\<rparr> else v)
                   in Some (Some (v\<lparr>v_flags := flags, v_data := Block data, v_value := Block data,
                                    v_value_len := length data\<rparr>), s))
             else Some (Some (v\<lparr>v_flags := flags AND NOT COMPRESSED_MASK, v_data := Null\<rparr>), s))
      })"

definition store_crc :: "'w php_env \<Rightarrow> bool \<Rightarrow> bool \<Rightarrow> store_vars \<Rightarrow> store_vars option" where
  "store_crc env add_new_crc calc_crc v =
     (if calc_crc \<and> v_uncrc32 v = 0 then do {
        value \<leftarrow> buf_read (v_value v);
        Some (v\<lparr>v_uncrc32 := (if add_new_crc then get_checksum_extra env value (v_flags v)
                             else get_checksum env value)\<rparr>)
      } else Some v)"

definition crc_header :: "u8 \<Rightarrow> u32 \<Rightarrow> u32 \<Rightarrow> string" where
  "crc_header algo crc uncrc =
     (let meta = show_hex 4 (unat algo) in
      if algo AND DI_CHKSUM_SUPPORTED_OFF \<noteq> 0 then meta @ '':''
      else if crc \<noteq> 0 then meta @ '':'' @ show_hex 8 (unat crc) @ '':'' @ show_hex 8 (unat uncrc)
      else meta @ '':'' @ show_hex 8 (unat uncrc))"

definition store_hdr :: "bool \<Rightarrow> u8 \<Rightarrow> store_vars \<Rightarrow> store_vars" where
  "store_hdr add_new_crc algo v =
     (if add_new_crc then v\<lparr>v_hdr := crc_header algo (v_crc32 v) (v_uncrc32 v)\<rparr> else v)"

subsection \<open>CAS lookup and the request\<close>

text \<open>
  The stored CAS is looked up under the concatenated key of a by-key command, and deleted
  under the key alone.
\<close>

definition store_cas ::
    "string \<Rightarrow> string \<Rightarrow> string \<Rightarrow> store_vars \<Rightarrow> 'w st \<Rightarrow> store_vars \<times> 'w st" where
  "store_cas command key cas_key v s =
     (if take 1 command = ''s'' then
        (case p_cas_array (pool s) (cstr cas_key) of
           Some c \<Rightarrow> (v\<lparr>v_cas := c\<rparr>,
                      s\<lparr>pool := (pool s)\<lparr>p_cas_array := (p_cas_array (pool s))(key := None)\<rparr>\<rparr>)
         | None \<Rightarrow> (v, s))
      else (v, s))"

definition MAX_LENGTH_OF_LONG :: nat where "MAX_LENGTH_OF_LONG = 20"

definition request_capacity :: "string \<Rightarrow> string \<Rightarrow> u64 \<Rightarrow> nat \<Rightarrow> string \<Rightarrow> nat" where
  "request_capacity command key cas value_len hdr =
     length command + 1 + length key + 1 + MAX_LENGTH_OF_LONG + 1 + MAX_LENGTH_OF_LONG + 1
     + MAX_LENGTH_OF_LONG + 1 + (if cas \<noteq> 0 then MAX_LENGTH_OF_LONG + 1 else 0)
     + 2 + value_len + 2 + 1 + length hdr"

definition request_head ::
    "string \<Rightarrow> string \<Rightarrow> u32 \<Rightarrow> int \<Rightarrow> nat \<Rightarrow> string \<Rightarrow> u64 \<Rightarrow> string" where
  "request_head command key flags expire value_len hdr cas =
     (if cas \<noteq> 0
      then ''cas '' @ cstr key @ '' '' @ show_int (sint flags) @ '' '' @ show_int expire @ '' ''
             @ show_int (int value_len) @ '' '' @ hdr @ '' '' @ show_nat (unat cas) @ '' returncas'' @ CRLF
      else command @ '' '' @ cstr key @ '' '' @ show_int (sint flags) @ '' '' @ show_int expire @ '' ''
             @ show_int (int value_len) @ '' '' @ hdr @ CRLF)"

text \<open>The request, or None when it and its NUL do not fit the block allocated for it.\<close>

definition build_request :: "string \<Rightarrow> int \<Rightarrow> string \<Rightarrow> string \<Rightarrow> store_vars \<Rightarrow> string option" where
  "build_request command expire key value v =
     (let request = request_head command key (v_flags v) expire (v_value_len v) (v_hdr v) (v_cas v)
                    @ value @ CRLF
      in if length request + 1 \<le> request_capacity command key (v_cas v) (v_value_len v) (v_hdr v)
         then Some request else None)"

subsection \<open>Sending, with the retries after checksum errors\<close>

text \<open>\<open>limit\<close> is \<open>integrity_error_retry_count\<close>, which no operation changes.\<close>

function store_send ::
    "'w php_env \<Rightarrow> int \<Rightarrow> nat \<Rightarrow> string \<Rightarrow> u64 \<Rightarrow> int \<Rightarrow> 'w st \<Rightarrow> ((int \<times> u64 \<times> int) \<times> 'w st) option" where
  "store_send env limit p request cas retry_count s =
     (case mmc_server_store env p request cas s of
        None \<Rightarrow> None
      | Some ((result, cas), s) \<Rightarrow>
          if result = - 2 then
            (if retry_count + 1 < limit
             then store_send env limit p request cas (retry_count + 1) s
             else Some ((result, cas, retry_count + 1), s))
          else Some ((result, cas, retry_count), s))"
  by pat_completeness auto
termination
  by (relation "measure (\<lambda>(env, limit, p, request, cas, retry_count, s). nat (limit - retry_count))") auto

declare store_send.simps [simp del]

subsection \<open>The loop\<close>

text \<open>The copies and the compressed block freed at the end of an iteration.\<close>

definition store_free :: "store_vars \<Rightarrow> store_vars option" where
  "store_free v = do {
     (key, key_copy) \<leftarrow> free_copy (v_key_copy v) (v_key v);
     (shard, shard_copy) \<leftarrow> free_copy (v_shard_copy v) (v_shard v);
     (value, data) \<leftarrow> free_copy (v_data v) (v_value v);
     Some (v\<lparr>v_key := key, v_key_copy := key_copy, v_shard := shard, v_shard_copy := shard_copy,
             v_value := value, v_data := data\<rparr>)
   }"

text \<open>
  The rest of an iteration once the server is found: the result is None for the early return
  when compression fails, or the result of sending.
\<close>

definition store_to ::
    "'w php_env \<Rightarrow> string \<Rightarrow> int \<Rightarrow> bool \<Rightarrow> nat \<Rightarrow> store_vars \<Rightarrow> 'w st \<Rightarrow>
     ((int option \<times> store_vars) \<times> 'w st) option" where
  "store_to env command expire by_key p v s = do {
     (key, key_copy) \<leftarrow> truncate_key (v_key v) (v_key_copy v);
     (shard, shard_copy) \<leftarrow> (if by_key then truncate_key (v_shard v) (v_shard_copy v)
                            else Some (v_shard v, v_shard_copy v));
     let v = v\<lparr>v_key := key, v_key_copy := key_copy, v_shard := shard, v_shard_copy := shard_copy\<rparr>;
     k \<leftarrow> buf_read key;
     cas_key \<leftarrow> (if by_key then do { sk \<leftarrow> buf_read shard; Some (k @ sk) } else Some k);
     let v = v\<lparr>v_flags := store_flags command (p_compress_threshold (pool s))
                 (g_compression_level (glob s)) (v_value_len v) (v_flags v)\<rparr>;
     m \<leftarrow> heap s p;
     let algo = mmc_di_algo_in_use m;
     let add_new_crc = (algo AND DI_CHKSUM_CRC \<noteq> 0 \<or> algo AND DI_CHKSUM_SUPPORTED_OFF \<noteq> 0);
     let calc_crc = (algo AND DI_CHKSUM_CRC \<noteq> 0);
     (r, s) \<leftarrow> store_compress env add_new_crc calc_crc v s;
     (case r of
        None \<Rightarrow> Some ((None, v), s)
      | Some v \<Rightarrow> do {
          v \<leftarrow> store_crc env add_new_crc calc_crc v;
          let v = store_hdr add_new_crc algo v;
          let (v, s) = store_cas command k cas_key v s;
          value \<leftarrow> buf_read (v_value v);
          request \<leftarrow> build_request command expire k value v;
          let s = setCas (v_cas v) s;
          let v = v\<lparr>v_val_len := Some (int (v_value_len v))\<rparr>;
          ((result, cas, retry), s) \<leftarrow> store_send env (g_integrity_error_retry_count (glob s)) p request
                                       (v_cas v) (v_retry v) s;
          let v = v\<lparr>v_cas := cas, v_retry := retry\<rparr>;
          (result, s) \<leftarrow> (if result = - 2
             then Some (0, php_error E_WARNING ''Data Integrity verification failed for key %s, did not set the value''
                          (setCode DI_CHECKSUM_SET_FAILED s))
             else if result < 0 then do { (_, s) \<leftarrow> mmc_server_failure env p s; Some (result, s) }
             else Some (result, s));
          v \<leftarrow> store_free v;
          Some ((Some result, v), s)
        })
   }"

text \<open>After the loop: the log record gets the host and, for a failed server, the code.\<close>

definition log_outcome :: "nat option \<Rightarrow> 'w st \<Rightarrow> 'w st option" where
  "log_outcome mmc s = (case mmc of
     None \<Rightarrow> Some (setCode CONNECT_FAILED (setHost ''proxy'' s))
   | Some p \<Rightarrow> do {
       m \<leftarrow> heap s p;
       let s = (if mmc_status m = STATUS_FAILED then setCode CONNECT_FAILED s else s);
       Some (setHost (mmc_host m) s)
     })"

definition store_done ::
    "int \<Rightarrow> nat option \<Rightarrow> store_vars \<Rightarrow> 'w st \<Rightarrow> ((int \<times> u64 \<times> int option) \<times> 'w st) option" where
  "store_done result mmc v s = do {
     s \<leftarrow> log_outcome mmc s;
     Some ((result, v_cas v, v_val_len v), setResLen (int (v_value_len v)) s)
   }"

partial_function (option) store_loop ::
    "'w php_env \<Rightarrow> string \<Rightarrow> int \<Rightarrow> bool \<Rightarrow> store_vars \<Rightarrow> 'w st \<Rightarrow>
     ((int \<times> u64 \<times> int option) \<times> 'w st) option" where
  "store_loop env command expire by_key v s = do {
     find_key \<leftarrow> buf_read (if by_key then v_shard v else v_key v);
     (mmc, s) \<leftarrow> mmc_pool_find env find_key s;
     ok \<leftarrow> usable mmc s;
     if \<not> ok then store_done (- 1) mmc v (setCode CONNECT_FAILED s)
     else do {
       p \<leftarrow> mmc;
       ((r, v), s) \<leftarrow> store_to env command expire by_key p v s;
       (case r of
          None \<Rightarrow> Some ((- 1, v_cas v, v_val_len v), s)
        | Some result \<Rightarrow> if result < 0 then store_loop env command expire by_key v s
                         else store_done result mmc v s)
     }
   }"

declare store_loop.simps [code]

definition store_init :: "string \<Rightarrow> string \<Rightarrow> u32 \<Rightarrow> u64 \<Rightarrow> string \<Rightarrow> store_vars" where
  "store_init key shard_key flags cas value =
     \<lparr>v_key = Block key, v_key_copy = Null, v_shard = Block shard_key, v_shard_copy = Null,
      v_flags = flags, v_value = Block value, v_value_len = length value, v_data = Null,
      v_crc32 = 0, v_uncrc32 = 0, v_hdr = [], v_cas = cas, v_retry = 0, v_val_len = None\<rparr>"

definition mmc_pool_store ::
    "'w php_env \<Rightarrow> string \<Rightarrow> string \<Rightarrow> u32 \<Rightarrow> int \<Rightarrow> u64 \<Rightarrow> string \<Rightarrow> bool \<Rightarrow> string \<Rightarrow> 'w st \<Rightarrow>
     ((int \<times> u64 \<times> int option) \<times> 'w st) option" where
  "mmc_pool_store env command key flags expire cas value by_key shard_key s =
     store_loop env command expire by_key (store_init key shard_key flags cas value) s"

text \<open>The wrapper passes \<open>cas\<close> by value: the new CAS is dropped.\<close>

definition mmc_pool_store_wrapper ::
    "'w php_env \<Rightarrow> string \<Rightarrow> string \<Rightarrow> u32 \<Rightarrow> int \<Rightarrow> u64 \<Rightarrow> string \<Rightarrow> bool \<Rightarrow> string \<Rightarrow> 'w st \<Rightarrow>
     ((int \<times> int option) \<times> 'w st) option" where
  "mmc_pool_store_wrapper env command key flags expire cas value by_key shard_key s = do {
     ((result, _, val_len), s) \<leftarrow> mmc_pool_store env command key flags expire cas value by_key shard_key s;
     Some ((result, val_len), s)
   }"

subsection \<open>Storing a PHP value\<close>

text \<open>
  How the value becomes bytes and flags: scalars as strings, everything else serialized. A
  failed serialization returns with the log record still saved.
\<close>

definition serialize_value ::
    "'w php_env \<Rightarrow> zval \<Rightarrow> u32 \<Rightarrow> 'w st \<Rightarrow> ((string \<times> u32) option \<times> 'w st) option" where
  "serialize_value env value flags s =
     (let plain = flags AND NOT MMC_SERIALIZED_IGBINARY in
      case value of
        ZString v \<Rightarrow> Some (Some (v, plain), s)
      | ZLong _ \<Rightarrow> Some (Some (zval_to_string env value, plain), s)
      | ZDouble _ \<Rightarrow> Some (Some (zval_to_string env value, plain), s)
      | ZBool _ \<Rightarrow> Some (Some (zval_to_string env value, plain), s)
      | _ \<Rightarrow>
          (let s = saveLogger s in
           if flags AND MMC_SERIALIZED_IGBINARY \<noteq> 0 then
             (if have_igbinary env then
                (case igbinary_serialize env value of
                   None \<Rightarrow> Some (None, php_error E_WARNING ''Failed to igbinary_serialize value'' s)
                 | Some b \<Rightarrow> do { s \<leftarrow> restoreLogger s; Some (Some (b, flags OR MMC_SERIALIZED_IGBINARY), s) })
              else Some (None, php_error E_WARNING ''Missing igbinary support'' s))
           else
             (case var_serialize env value of
                None \<Rightarrow> Some (None, php_error E_WARNING ''Failed to serialize value'' s)
              | Some b \<Rightarrow> do { s \<leftarrow> restoreLogger s; Some (Some (b, flags OR MMC_SERIALIZED), s) })))"

definition php_mmc_store ::
    "'w php_env \<Rightarrow> string \<Rightarrow> zval \<Rightarrow> u32 \<Rightarrow> int \<Rightarrow> u64 \<Rightarrow> string \<Rightarrow> string \<Rightarrow> bool \<Rightarrow> 'w st \<Rightarrow>
     ((int \<times> u64 \<times> int option) \<times> 'w st) option" where
  "php_mmc_store env key value flags expire cas shard_key command by_key s = do {
     ((r, shard_tmp), s) \<leftarrow> (if by_key then mmc_prepare_key_ex MMC_KEY_MAX_SIZE shard_key s
                            else Some ((MMC_OK, []), s));
     if r \<noteq> MMC_OK then Some ((0, cas, None), setCode PREPARE_KEY_FAILED s)
     else do {
       ((r, key_tmp), s) \<leftarrow> mmc_prepare_key_ex MMC_KEY_MAX_SIZE key s;
       if r \<noteq> MMC_OK then Some ((0, cas, None), setCode PREPARE_KEY_FAILED s)
       else do {
         let s = setKey (cstr key) s;
         let (ok, s) = mmc_get_pool s;
         if \<not> ok \<or> p_num_servers (pool s) = 0 then Some ((0, cas, None), setCode POOL_NT_FOUND s)
         else do {
           let s = setLogName (p_log_name (pool s)) s;
           if cas = 0 \<and> take 1 command = ''c'' then do {
             (mmc, s) \<leftarrow> mmc_pool_find env (if by_key then shard_key else key) s;
             s \<leftarrow> (case mmc of None \<Rightarrow> Some s
                  | Some p \<Rightarrow> do { m \<leftarrow> heap s p; Some (setHost (mmc_host m) s) });
             Some ((0, cas, None), setCode INVALID_CAS s)
           } else do {
             (b, s) \<leftarrow> serialize_value env value flags s;
             (case b of
                None \<Rightarrow> Some ((0, cas, None), s)
              | Some (bytes, flags) \<Rightarrow> do {
                  ((result, cas, val_len), s) \<leftarrow>
                    mmc_pool_store env command key_tmp flags expire cas bytes by_key shard_tmp s;
                  Some ((if 0 < result then 1 else 0, cas, val_len), s)
                })
           }
         }
       }
     }
   }"

subsection \<open>The request fits its block\<close>

lemma length_show_long:
  assumes "- (2 ^ 63) \<le> i" "i < 2 ^ 63"
  shows "length (show_int i) \<le> 20"
proof -
  have "nat \<bar>i\<bar> < 10 ^ 19" using assms by simp
  then show ?thesis
    using length_show_base [of 10 "nat (- i)" 19] length_show_base [of 10 "nat i" 19] assms
    by (auto simp: show_int_def show_nat_def)
qed

lemma length_show_flags: "length (show_int (sint (flags :: u32))) \<le> 11"
  by (rule length_show_int) (use sint_greater_eq [of flags] sint_less [of flags] in simp_all)

lemma request_head_length:
  assumes "- (2 ^ 63) \<le> expire" "expire < 2 ^ 63" "value_len < 2 ^ 31"
  shows "length (request_head command key flags expire value_len hdr cas) \<le>
    (if cas \<noteq> 0 then 4 + 10 + 21 else length command + 1) + length key + 11 + 20 + 11 + 4 + length hdr + 2"
proof -
  have "length (cstr key) \<le> length key" by (rule length_cstr_le)
  moreover have "length (show_int (int value_len)) \<le> 11" using length_show_int [of "int value_len"] assms(3) by simp
  ultimately show ?thesis
    using length_show_long [OF assms(1,2)] length_show_flags [of flags] length_show_ulong [of cas]
    by (simp add: request_head_def CRLF_def)
qed

text \<open>C22. \<open>mmc_pool_store\<close> computes the size of the block for a request before printing into it
  with \<open>sprintf\<close>; the request and its NUL always fit, whatever the command, the key, the flags,
  the expiry, the CAS and the checksum header, as long as the length of the value is an \<open>int\<close>.\<close>
theorem build_request_fits:
  assumes "- (2 ^ 63) \<le> expire" "expire < 2 ^ 63" "v_value_len v < 2 ^ 31" "length value = v_value_len v"
  shows "build_request command expire key value v =
    Some (request_head command key (v_flags v) expire (v_value_len v) (v_hdr v) (v_cas v) @ value @ CRLF)"
  using request_head_length [OF assms(1-3), of command key "v_flags v" "v_hdr v" "v_cas v"] assms(4)
  by (auto simp: build_request_def Let_def request_capacity_def MAX_LENGTH_OF_LONG_def CRLF_def split: if_splits)

lemma build_request_fits_witness:
  "build_request ''set'' 60 ''k'' ''hello'' (store_init ''k'' [] 0 7 ''hello'') =
    Some (request_head ''set'' ''k'' 0 60 (length ''hello'') [] 7 @ ''hello'' @ CRLF)"
  using build_request_fits [of 60 "store_init ''k'' [] 0 7 ''hello''" "''hello''" "''set''" "''k''"]
  by (simp add: store_init_def)

subsection \<open>The checksum header, written and read\<close>

lemma scan_x_field:
  assumes "r = [] \<or> hd r \<in> {CHR '' '', CHR 0x0D, CHR '':''}"
  shows "scan_x (show_hex w (unat (n :: u32)) @ r) = Some (n, r)"
proof -
  have "stops 16 r" using assms by (cases r) (auto simp: stops_def is_digit_def digit_val_def)
  moreover have "\<forall>c r'. r = c # r' \<longrightarrow> c \<noteq> CHR ''x'' \<and> c \<noteq> CHR ''X''" using assms by auto
  moreover have "unat n < 2 ^ 32" using unsigned_less [of n] by simp
  ultimately show ?thesis using scan_x_show_hex [of r "unat n" w] by simp
qed

lemma sscanf_x_field:
  "sscanf_x (Suc k) (show_hex w (unat (n :: u32)) @ CHR '':'' # r) = n # sscanf_x k r"
  "r = [] \<or> hd r \<in> {CHR '' '', CHR 0x0D} \<Longrightarrow> sscanf_x (Suc k) (show_hex w (unat (n :: u32)) @ r) = [n]"
  using scan_x_field [of "CHR '':'' # r"] scan_x_field [of r] by (auto split: list.split)

lemma show_hex_algo: "show_hex w (unat (a :: u8)) = show_hex w (unat (ucast a :: u32))"
  by (simp add: unsigned_ucast_eq take_bit_nat_eq_self unsigned_less [THEN less_le_trans])

text \<open>C24. The checksum field that a store writes into its header is read back by a get on a
  connection with the same algorithm: the checksums of the compressed and of the uncompressed
  value, or only the latter for a value stored uncompressed. The exception is a compressed value
  whose checksum is 0: its field has one checksum only and the value cannot be read back.\<close>
theorem crc_header_roundtrip:
  assumes "r = [] \<or> hd r \<in> {CHR '' '', CHR 0x0D}"
  shows "new_checksum_of DI_CHKSUM_CRC flags (Some (crc_header DI_CHKSUM_CRC crc uncrc @ r)) =
    (if compressed flags \<and> crc = 0
     then Inl (''Data Integrity verification failed, incorrect checksum format for compressed data'',
               Some DI_CHECKSUM_GET_FAILED3)
     else if \<not> compressed flags \<and> crc \<noteq> 0 then Inr (0, int (unat crc))
     else Inr (int (unat crc), int (unat uncrc)))"
proof -
  let ?x = "\<lambda>n w. show_hex w (unat (n :: u32))"
  have m: "show_hex 4 (unat DI_CHKSUM_CRC) = ?x (DI_u32 DI_CHKSUM_CRC) 4"
    by (simp add: DI_u32_def show_hex_algo)
  have h: "crc_header DI_CHKSUM_CRC crc uncrc @ r = ?x (DI_u32 DI_CHKSUM_CRC) 4 @ CHR '':'' #
      (if crc \<noteq> 0 then ?x crc 8 @ CHR '':'' # (?x uncrc 8 @ r) else ?x uncrc 8 @ r)"
    by (simp add: crc_header_def Let_def m [symmetric]) (simp add: DI_CHKSUM_CRC_def DI_CHKSUM_SUPPORTED_OFF_def)
  have s1: "sscanf_x 1 (crc_header DI_CHKSUM_CRC crc uncrc @ r) = [DI_u32 DI_CHKSUM_CRC]"
    unfolding h using sscanf_x_field(1) [of 0] by simp
  have s2: "sscanf_x 2 (crc_header DI_CHKSUM_CRC crc uncrc @ r) =
      [DI_u32 DI_CHKSUM_CRC, if crc \<noteq> 0 then crc else uncrc]"
    unfolding h using sscanf_x_field(1) [of 1] sscanf_x_field(1) [of 0] sscanf_x_field(2) [OF assms, of 0]
    by (simp add: numeral_2_eq_2)
  have s3: "sscanf_x 3 (crc_header DI_CHKSUM_CRC crc uncrc @ r) =
      DI_u32 DI_CHKSUM_CRC # (if crc \<noteq> 0 then [crc, uncrc] else [uncrc])"
    unfolding h using sscanf_x_field(1) [of 2] sscanf_x_field(1) [of 1] sscanf_x_field(2) [OF assms, of 1]
      sscanf_x_field(2) [OF assms, of 0]
    by (simp add: numeral_3_eq_3 numeral_2_eq_2)
  have c: "DI_CHKSUM_CRC AND DI_CHKSUM_SUPPORTED_OFF = 0" "DI_u32 DI_CHKSUM_CRC AND DI_u32 DI_CHKSUM_SUPPORTED_OFF = 0"
    "DI_u32 DI_CHKSUM_CRC AND DI_u32 DI_CHKSUM_CRC \<noteq> 0" "DI_u32 DI_CHKSUM_CRC AND error_flags = 0"
    by (simp_all add: DI_u32_def DI_CHKSUM_CRC_def DI_CHKSUM_SUPPORTED_OFF_def error_flags_def
        DI_CHKSUM_MISMATCH_MCMUX_def DI_CHKSUM_MISMATCH_MOXI_def DI_CHKSUM_MISMATCH_MB_def)
  show ?thesis
    unfolding new_checksum_of_def option.case s1 using c s2 s3 by (cases "crc = 0"; cases "compressed flags") (simp_all add: Let_def downstream_check_def)
qed

lemma crc_header_roundtrip_witness:
  "new_checksum_of DI_CHKSUM_CRC 0 (Some (crc_header DI_CHKSUM_CRC 0 7 @ CRLF)) = Inr (0, 7)"
  using crc_header_roundtrip [of CRLF 0 0 7] by (simp add: CRLF_def)

subsection \<open>Compression and decompression\<close>

text \<open>The documented behaviour of the compressors: a block they produce is decompressed to the
  original when the output room suffices, and is refused with \<open>Z_BUF_ERROR\<close> otherwise.\<close>

definition inverse_codec :: "(string \<Rightarrow> nat \<Rightarrow> zstatus \<times> string) \<Rightarrow> (string \<Rightarrow> nat \<Rightarrow> zstatus \<times> string) \<Rightarrow> bool" where
  "inverse_codec pack unpack \<longleftrightarrow> (\<forall>x room y room'. pack x room = (Z_OK, y) \<longrightarrow>
     unpack y room' = (if length x \<le> room' then (Z_OK, x) else (Z_BUF_ERROR, [])))"

text \<open>libbz2 serves a stream piece by piece: each call fills its room with the bytes that follow those of the
  calls before it, and reports the end of the stream or, with the room full, that it went well; as long as
  output is pending it has not consumed all of its input.\<close>

definition bz2_serves :: "string \<Rightarrow> nat \<Rightarrow> nat \<Rightarrow> bzstatus \<times> string \<times> nat \<Rightarrow> bool" where
  "bz2_serves x n room = (\<lambda>(error, out, avail_in). out = take room (drop n x) \<and>
     (error = BZ_STREAM_END \<and> length x \<le> n + room \<or>
      error = BZ_OK \<and> n + room \<le> length x \<and> (avail_in = 0 \<longrightarrow> n + room = length x)))"

definition bz2_ok :: "'w php_env \<Rightarrow> bool" where
  "bz2_ok env \<longleftrightarrow> bz2_init env \<and> (\<forall>x room y. bz2_compress env x room = (Z_OK, y) \<longrightarrow> y \<noteq> [] \<and>
     (\<forall>rooms room. bz2_serves x (sum_list rooms) room (bz2_run env y (rooms @ [room]))))"

definition codec_ok :: "'w php_env \<Rightarrow> bool" where
  "codec_ok env \<longleftrightarrow> (\<forall>level. inverse_codec (\<lambda>x. z_compress2 env x level) (z_uncompress env)) \<and>
     inverse_codec (lzo_compress env) (lzo_decompress env) \<and> bz2_ok env"

lemma ex_codec_ok: "codec_ok ex_env"
proof -
  have "bz2_serves x (sum_list rooms) room (ex_bz2_run y (rooms @ [room]))" if "ex_pack x n = (Z_OK, y)" for x n y rooms room
  proof -
    have "length x \<le> 256 + length y" using that by (auto simp: ex_pack_def Let_def split: if_splits)
    then show ?thesis using ex_unpack_pack [OF that, of "256 + length y"]
      by (simp add: ex_bz2_run_def bz2_serves_def Let_def)
  qed
  moreover have "y \<noteq> []" if "ex_pack x n = (Z_OK, y)" for x n y
    using that by (auto simp: ex_pack_def Let_def split: if_splits)
  ultimately show ?thesis
    by (simp add: codec_ok_def bz2_ok_def inverse_codec_def ex_env_def ex_unpack_pack)
qed

lemma inverse_codecD:
  "inverse_codec pack unpack \<Longrightarrow> pack x room = (Z_OK, y) \<Longrightarrow>
   unpack y room' = (if length x \<le> room' then (Z_OK, x) else (Z_BUF_ERROR, []))"
  by (simp add: inverse_codec_def)

lemma bz2_size_below: "n < 2 ^ 32 \<Longrightarrow> bz2_size n = n"
  by (simp add: bz2_size_def unat_of_nat take_bit_nat_eq_self)

lemma bz2_loop_serves:
  assumes "\<And>rooms room. bz2_serves x (sum_list rooms) room (run (rooms @ [room]))" "0 < l" "length x < 2 ^ 32"
  shows "0 < room \<Longrightarrow> sum_list rooms \<le> length x \<Longrightarrow>
    \<exists>error. bz2_loop run l (rooms @ [room]) (sum_list rooms) (take (sum_list rooms) x) = Some (error, length x, x) \<and>
      (error = BZ_STREAM_END \<or> error = BZ_OK)"
proof (induction "length x - sum_list rooms" arbitrary: rooms room rule: less_induct)
  case less
  let ?n = "sum_list rooms"
  obtain error out avail_in where r: "run (rooms @ [room]) = (error, out, avail_in)" by (cases "run (rooms @ [room])")
  with assms(1) [of rooms room] have s: "out = take room (drop ?n x)"
    "error = BZ_STREAM_END \<and> length x \<le> ?n + room \<or>
     error = BZ_OK \<and> ?n + room \<le> length x \<and> (avail_in = 0 \<longrightarrow> ?n + room = length x)"
    by (simp_all add: bz2_serves_def)
  have buf: "take ?n x @ out = take (?n + room) x" by (simp add: s(1) take_add)
  show ?case
  proof (cases "error = BZ_OK \<and> 0 < avail_in")
    case True
    with s(2) have len: "?n + room \<le> length x" by auto
    then have total: "?n + length out = ?n + room" "bz2_size (?n + room) = ?n + room"
      using assms(3) by (simp_all add: s(1) bz2_size_below)
    have "length x - sum_list (rooms @ [room]) < length x - ?n" using len less.prems by simp
    from less.hyps [OF this assms(2)] len True show ?thesis
      by (subst bz2_loop.simps) (simp add: r total buf)
  next
    case False
    with s(2) less.prems have "?n + length out = length x" "take ?n x @ out = x" unfolding buf by (auto simp: s(1))
    with False s(2) show ?thesis by (subst bz2_loop.simps) (auto simp: r)
  qed
qed

lemma bz2_roundtrip:
  assumes "bz2_ok env" "bz2_compress env x room = (Z_OK, y)" "0 < room'" "length x < 2 ^ 32"
  shows "bz2_decompress_safe env y room' s = Some ((Z_OK, x), s)"
proof -
  from assms(1,2) have init: "bz2_init env" and y: "0 < length y"
    and serves: "\<And>rooms room. bz2_serves x (sum_list rooms) room (bz2_run env y (rooms @ [room]))"
    by (auto simp: bz2_ok_def)
  from bz2_loop_serves [OF serves y assms(4,3), of "[]"] init assms(4) show ?thesis
    by (auto simp: bz2_decompress_safe_def bz2_size_below)
qed

text \<open>A stream that ends too early is delivered as far as it goes.\<close>

lemma bz2_truncated:
  assumes "bz2_init env" "bz2_run env data [room] = (BZ_OK, out, 0)" "length out < 2 ^ 32"
  shows "bz2_decompress_safe env data room s = Some ((Z_OK, out), s)"
  using assms by (simp add: bz2_decompress_safe_def bz2_loop.simps bz2_size_below)

lemma bz2_step_quiet: "bz2_decompress_safe env data room s = Some ((Z_OK, x), s') \<Longrightarrow> s' = s"
  by (auto simp: bz2_decompress_safe_def Let_def split: if_splits option.splits simp: bind_eq_Some_conv)

lemma bz2_no_retry: "bz2_decompress_safe env data room s \<noteq> Some ((Z_BUF_ERROR, x), s')"
  by (auto simp: bz2_decompress_safe_def Let_def split: if_splits option.splits simp: bind_eq_Some_conv)

lemma uncompress_loop_quiet:
  assumes "\<And>room s x s'. step room s = Some ((Z_OK, x), s') \<Longrightarrow> s' = s"
    "\<And>room s x s'. step room s = Some ((Z_BUF_ERROR, x), s') \<Longrightarrow> s' = s"
    "uncompress_loop step l f k s = Some ((Z_OK, x), s')"
  shows "s' = s"
  using assms(3)
proof (induction k arbitrary: f s)
  case 0
  then show ?case by (auto dest: assms(1))
next
  case (Suc k)
  then show ?case by (auto simp: bind_eq_Some_conv split: if_splits dest: assms(1,2))
qed

lemma uncompressed_quiet: "mmc_uncompress env data flags s = Some (Some x, s') \<Longrightarrow> s' = s"
  by (auto simp: mmc_uncompress_def uncompress_step_def bz2_no_retry bind_eq_Some_conv
      split: if_splits dest!: uncompress_loop_quiet [rotated 2] dest: bz2_step_quiet)

lemma uncompress_loop_grows:
  assumes "\<And>room. step room s = Some (if n \<le> room then (Z_OK, x) else (Z_BUF_ERROR, []), s)" "n \<le> l * 2 ^ (f + k)"
  shows "uncompress_loop step l f k s = Some ((Z_OK, x), s)"
  using assms(2)
proof (induction k arbitrary: f)
  case 0
  then show ?case by (simp add: assms(1))
next
  case (Suc k)
  then show ?case by (simp add: assms(1))
qed

lemma uncompress_loop_first: "step (l * 2 ^ f) s = Some ((Z_OK, x), s) \<Longrightarrow> uncompress_loop step l f k s = Some ((Z_OK, x), s)"
  by (cases k) simp_all

lemma compress_with_inverse:
  assumes "codec_ok env" "compress_with env level data flags = (Z_OK, out)" "length data \<le> length out * 2 ^ 15" "length data < 2 ^ 32"
  shows "uncompress_loop (uncompress_step env out flags) (length out) 1 14 s = Some ((Z_OK, data), s)"
proof -
  from assms(1) have codecs: "\<And>level. inverse_codec (\<lambda>x. z_compress2 env x level) (z_uncompress env)"
    "inverse_codec (lzo_compress env) (lzo_decompress env)" "bz2_ok env"
    by (simp_all add: codec_ok_def)
  show ?thesis
  proof (cases "flags AND MMC_COMPRESSED = 0 \<and> flags AND MMC_COMPRESSED_BZIP2 \<noteq> 0")
    case True
    with assms(2) have bz: "bz2_compress env data (compress_room (length data)) = (Z_OK, out)"
      by (auto simp: compress_with_def Let_def split: prod.splits if_splits)
    with codecs(3) have "0 < length out * 2 ^ 1" by (auto simp: bz2_ok_def)
    from bz2_roundtrip [OF codecs(3) bz this assms(4)] True show ?thesis
      by (intro uncompress_loop_first) (simp add: uncompress_step_def)
  next
    case False
    then have "uncompress_step env out flags room s = Some (if length data \<le> room then (Z_OK, data) else (Z_BUF_ERROR, []), s)" for room
      using assms(2) inverse_codecD [OF codecs(1)] inverse_codecD [OF codecs(2)]
      by (auto simp: uncompress_step_def compress_with_def Let_def split: prod.splits if_splits)
    then show ?thesis by (rule uncompress_loop_grows) (use assms(3) in simp)
  qed
qed

lemma mmc_compress_ok: "mmc_compress env data flags s = (Some out, s') \<Longrightarrow>
  compress_with env (g_compression_level (glob s)) data flags = (Z_OK, out)"
  by (auto simp: mmc_compress_def split: prod.splits if_splits)

text \<open>C25. What \<open>mmc_compress\<close> produced, \<open>mmc_uncompress\<close> turns back into the value for every
  compressor and level: it doubles its output block up to fifteen times, which is enough for a
  value of up to \<open>2 ^ 15\<close> times the compressed size; with bzip2 the output is gathered from pieces, whose
  sizes are counted with 32 bits.\<close>
theorem mmc_compress_roundtrip:
  assumes "codec_ok env" "mmc_compress env data flags s = (Some out, s')" "length data \<le> length out * 2 ^ 15" "length data < 2 ^ 32"
  shows "mmc_uncompress env out flags s'' = Some (Some data, s'')"
  using compress_with_inverse [OF assms(1) mmc_compress_ok [OF assms(2)] assms(3,4)] by (simp add: mmc_uncompress_def)

lemma mmc_compress_roundtrip_witness:
  "mmc_uncompress ex_env [CHR ''R'', CHR ''a'', char_of (64 :: nat)] MMC_COMPRESSED_BZIP2 (ex_state Map.empty []) =
    Some (Some (replicate 64 (CHR ''a'')), ex_state Map.empty [])"
proof -
  have "mmc_compress ex_env (replicate 64 (CHR ''a'')) MMC_COMPRESSED_BZIP2 (ex_state Map.empty []) =
      (Some [CHR ''R'', CHR ''a'', char_of (64 :: nat)], ex_state Map.empty [])"
    by (simp add: mmc_compress_def compress_with_def Let_def ex_env_def ex_pack_def MMC_COMPRESSED_def
        MMC_COMPRESSED_BZIP2_def compress_room_def)
  then show ?thesis by (rule mmc_compress_roundtrip [OF ex_codec_ok]) simp_all
qed

subsection \<open>A checksummed value survives storing and reading, and a changed one is noticed\<close>

lemma compressed_lzo_fallback: "compressed flags \<Longrightarrow> compressed (lzo_fallback enabled flags)"
proof -
  assume c: "compressed flags"
  have m: "COMPRESSED_MASK AND MMC_COMPRESSED = MMC_COMPRESSED" "MMC_COMPRESSED \<noteq> 0"
    "COMPRESSED_MASK AND MMC_COMPRESSED_BZIP2 = MMC_COMPRESSED_BZIP2"
    by (simp_all add: COMPRESSED_MASK_def MMC_COMPRESSED_def MMC_COMPRESSED_LZO_def MMC_COMPRESSED_BZIP2_def)
  have bz: "compressed x" if x: "x AND MMC_COMPRESSED_BZIP2 \<noteq> 0" for x :: u32
  proof
    assume "x AND COMPRESSED_MASK = 0"
    then have "(x AND COMPRESSED_MASK) AND MMC_COMPRESSED_BZIP2 = 0" by simp
    then show False using x by (simp add: and.assoc m(3))
  qed
  have z: "compressed (x OR MMC_COMPRESSED)" for x :: u32
  proof
    assume z: "(x OR MMC_COMPRESSED) AND COMPRESSED_MASK = 0"
    have "(x OR MMC_COMPRESSED) AND MMC_COMPRESSED = MMC_COMPRESSED" by (rule bit_eqI) (auto simp: bit_simps)
    then have "((x OR MMC_COMPRESSED) AND COMPRESSED_MASK) AND MMC_COMPRESSED = MMC_COMPRESSED"
      by (simp add: and.assoc m(1))
    then show False using z m(2) by simp
  qed
  show ?thesis using c bz z by (auto simp: lzo_fallback_def Let_def)
qed

lemma foldl_const_0: "foldl (\<lambda>_ _. 0) c xs = (if xs = [] then c else 0)"
  by (induction xs arbitrary: c) auto

lemma verify_value_cases:
  assumes "verify_value env p data hdr_len has_chksum fresh crc_value uncrc_value ro s = Some ((1, ro'), s')"
  shows "s' = s" "if compressed (h_flags (o_header ro)) then
      (crc_value = 0 \<or> value_crc env fresh (drop hdr_len data) (h_flags (o_header ro)) = crc_value) \<and>
      (\<exists>x. mmc_uncompress env (drop hdr_len data) (h_flags (o_header ro)) s = Some (Some x, s) \<and> o_value ro' = Block x \<and>
         (uncrc_value = 0 \<or> int (unat (get_checksum env x)) = uncrc_value))
    else if has_chksum then
      (uncrc_value = 0 \<or> value_crc env fresh (drop hdr_len data) (h_flags (o_header ro)) = uncrc_value) \<and>
      o_value ro' = Block (drop hdr_len data)
    else o_value ro' = Block data"
proof -
  let ?flags = "h_flags (o_header ro)" and ?hp = "drop hdr_len data"
  have "s' = s \<and> (crc_value = 0 \<or> value_crc env fresh ?hp ?flags = crc_value) \<and>
      (\<exists>x. mmc_uncompress env ?hp ?flags s = Some (Some x, s) \<and> o_value ro' = Block x \<and>
         (uncrc_value = 0 \<or> int (unat (get_checksum env x)) = uncrc_value))" if c: "compressed ?flags"
  proof -
    from assms c have crc: "crc_value = 0 \<or> value_crc env fresh ?hp ?flags = crc_value"
      by (auto simp: verify_value_def Let_def mismatch_def CHKSUM_MISMATCH_DETECTED_def bind_eq_Some_conv split: if_splits)
    then obtain u s1 where u: "mmc_uncompress env ?hp ?flags s = Some (u, s1)"
      using assms c by (auto simp: verify_value_def Let_def bind_eq_Some_conv)
    obtain x where x: "u = Some x"
      using assms c crc by (cases u) (auto simp: verify_value_def Let_def u bind_eq_Some_conv)
    with u have "s1 = s" by (auto dest: uncompressed_quiet)
    then show ?thesis using assms c crc
      by (auto simp: verify_value_def Let_def u x mismatch_def CHKSUM_MISMATCH_DETECTED_def bind_eq_Some_conv split: if_splits)
  qed
  moreover have "s' = s \<and> (if has_chksum then
      (uncrc_value = 0 \<or> value_crc env fresh ?hp ?flags = uncrc_value) \<and> o_value ro' = Block ?hp
    else o_value ro' = Block data)" if "\<not> compressed ?flags"
    using assms that by (auto simp: verify_value_def Let_def mismatch_def CHKSUM_MISMATCH_DETECTED_def bind_eq_Some_conv split: if_splits)
  ultimately show "s' = s" and "if compressed ?flags then
      (crc_value = 0 \<or> value_crc env fresh ?hp ?flags = crc_value) \<and>
      (\<exists>x. mmc_uncompress env ?hp ?flags s = Some (Some x, s) \<and> o_value ro' = Block x \<and>
         (uncrc_value = 0 \<or> int (unat (get_checksum env x)) = uncrc_value))
    else if has_chksum then
      (uncrc_value = 0 \<or> value_crc env fresh ?hp ?flags = uncrc_value) \<and> o_value ro' = Block ?hp
    else o_value ro' = Block data" by auto
qed



text \<open>C3. Storing and reading a value on connections with CRC checksums gives the value back:
  the compression decision, the checksums and the header that \<open>mmc_pool_store\<close> computes for a
  fresh value are accepted by \<open>mmc_read_value\<close>, and the PHP side gets the original bytes. It needs
  working compressors, a value of at most \<open>2 ^ 15\<close> times its compressed size and, when it is
  compressed, checksums that are not 0 (0 means "not computed" to the code).\<close>
theorem stored_value_reads_back:
  assumes "codec_ok env" "v_value v = Block value" "v_value_len v = length value" "v_crc32 v = 0" "v_uncrc32 v = 0"
    and store: "store_compress env True True v s0 = Some (Some v1, s1)" "store_crc env True True v1 = Some v2"
      "v_value v2 = Block body"
    and nonzero: "compressed (v_flags v2) \<longrightarrow> v_crc32 v2 \<noteq> 0 \<and> get_checksum env value \<noteq> 0"
    and "length value \<le> length body * 2 ^ 15" "length value < 2 ^ 32"
    and conn: "heap s p = Some m" "mmc_di_algo_in_use m = DI_CHKSUM_CRC" "v_flags v2 AND MMC_CHKSUM = 0"
    and hdr: "h_flags (o_header ro) = v_flags v2" "r = [] \<or> hd r \<in> {CHR '' '', CHR 0x0D}"
      "h_chksum (o_header ro) = Some (crc_header DI_CHKSUM_CRC (v_crc32 v2) (v_uncrc32 v2) @ r)"
  shows "check_value env p body ro s = Some ((1, ro\<lparr>o_value := Block value, o_value_len := int (length value)\<rparr>), s)"
proof -
  have plain: ?thesis if "v_flags v2 AND COMPRESSED_MASK = 0" "body = value" "v_crc32 v2 = 0"
    "v_uncrc32 v2 = get_checksum_extra env value (v_flags v2)"
  proof -
    have "new_checksum_of DI_CHKSUM_CRC (v_flags v2) (h_chksum (o_header ro)) = Inr (0, int (unat (v_uncrc32 v2)))"
      unfolding hdr(3) using crc_header_roundtrip [OF hdr(2)] that by simp
    then show ?thesis using that hdr(1) conn
      by (simp add: check_value_def verify_value_def Let_def value_crc_def DI_CHKSUM_CRC_def DI_CHKSUM_UNSUPPORTED_def)
  qed
  show ?thesis
  proof (cases "compressed (v_flags v)")
    case False
    then have "v1 = v" using store(1) by (simp add: store_compress_def)
    then show ?thesis using store(2,3) assms(2-5) False by (intro plain) (auto simp: store_crc_def)
  next
    case True
    define flags where "flags = lzo_fallback (g_lzo_enabled (glob s0)) (v_flags v)"
    from True have c: "compressed flags" unfolding flags_def by (rule compressed_lzo_fallback)
    from store(1) True assms(2) obtain data where d: "mmc_compress env value flags s0 = (Some data, s1)"
      and v1: "v1 = (if worth_compressing (length data) (length value) (p_min_compress_savings (pool s1))
        then v\<lparr>v_uncrc32 := get_checksum env value, v_crc32 := get_checksum_extra env data flags, v_flags := flags,
               v_data := Block data, v_value := Block data, v_value_len := length data\<rparr>
        else v\<lparr>v_flags := flags AND NOT COMPRESSED_MASK, v_data := Null\<rparr>)"
      by (auto simp: store_compress_def Let_def flags_def [symmetric] assms(3) split: prod.splits option.splits if_splits)
    show ?thesis
    proof (cases "worth_compressing (length data) (length value) (p_min_compress_savings (pool s1))")
      case False
      then show ?thesis using v1 store(2,3) assms(2-5)
        by (intro plain) (auto simp: store_crc_def and.assoc)
    next
      case True
      with v1 have fl: "v_flags v1 = flags" "v_uncrc32 v1 = get_checksum env value" "v_value v1 = Block data"
        "v_crc32 v1 = get_checksum_extra env data flags" by simp_all
      have f2: "v_flags v2 = v_flags v1" using store(2) by (auto simp: store_crc_def split: if_splits)
      with nonzero c fl have nz: "get_checksum env value \<noteq> 0" "v_crc32 v2 \<noteq> 0" by simp_all
      then have v2: "v2 = v1" using store(2) fl by (simp add: store_crc_def)
      with store(3) fl have body: "body = data" by simp
      have "mmc_uncompress env data flags s = Some (Some value, s)"
        using compress_with_inverse [OF assms(1) mmc_compress_ok [OF d]] assms(10,11) body
        by (simp add: mmc_uncompress_def)
      moreover have "new_checksum_of DI_CHKSUM_CRC flags (h_chksum (o_header ro)) =
          Inr (int (unat (get_checksum_extra env data flags)), int (unat (get_checksum env value)))"
        unfolding hdr(3) v2 fl using crc_header_roundtrip [OF hdr(2)] nz(2) c by (simp add: v2 fl)
      ultimately show ?thesis using hdr(1) conn c nz
        by (simp add: check_value_def verify_value_def Let_def value_crc_def DI_CHKSUM_CRC_def DI_CHKSUM_UNSUPPORTED_def
            v2 fl body)
    qed
  qed
qed

lemma stored_value_reads_back_witness:
  "let env = ex_env\<lparr>crc32_step := (\<lambda>_ _. 0)\<rparr>; m = (ex_server STATUS_CONNECTED (Some 3))\<lparr>mmc_di_algo_in_use := 2\<rparr>;
       value = replicate 64 (CHR ''a''); body = [CHR ''R'', CHR ''a'', char_of (64 :: nat)];
       ro = \<lparr>o_header = \<lparr>h_key = None, h_flags = MMC_COMPRESSED, h_cas = None,
               h_chksum = Some (crc_header DI_CHKSUM_CRC (-1) (-1) @ CRLF), h_value_len = 5\<rparr>, o_value = Null, o_value_len = 0\<rparr>;
       s = ex_state [1 \<mapsto> m] []
   in check_value env 1 body ro s = Some ((1, ro\<lparr>o_value := Block value, o_value_len := int (length value)\<rparr>), s)"
proof -
  let ?env = "ex_env\<lparr>crc32_step := (\<lambda>_ _. 0)\<rparr>" and ?v = "replicate 64 (CHR ''a'')"
    and ?b = "[CHR ''R'', CHR ''a'', char_of (64 :: nat)]" and ?s = "ex_state Map.empty []"
  have crc: "get_checksum ?env ?v = -1" "get_checksum_extra ?env ?b MMC_COMPRESSED = -1"
    by (simp_all add: get_checksum_def get_checksum_extra_def checksum_crc32_def foldl_const_0)
  have codec: "codec_ok ?env" using ex_codec_ok by (simp add: codec_ok_def bz2_ok_def)
  let ?old = "store_init ''k'' [] MMC_COMPRESSED 0 ?v"
  let ?new = "?old\<lparr>v_uncrc32 := -1, v_crc32 := -1, v_data := Block ?b, v_value := Block ?b, v_value_len := 3\<rparr>"
  have comp: "mmc_compress ?env ?v MMC_COMPRESSED ?s = (Some ?b, ?s)"
    by (simp add: mmc_compress_def compress_with_def Let_def ex_env_def ex_pack_def MMC_COMPRESSED_def compress_room_def)
  have store: "store_compress ?env True True ?old ?s = Some (Some ?new, ?s)"
    using comp crc by (simp add: store_compress_def store_init_def lzo_fallback_def ex_state_def ex_glob_def ex_pool_def
        worth_compressing_def COMPRESSED_MASK_def MMC_COMPRESSED_def MMC_COMPRESSED_LZO_def MMC_COMPRESSED_BZIP2_def)
  show ?thesis unfolding Let_def
    by (rule stored_value_reads_back [OF codec _ _ _ _ store, where ?v2.0 = ?new and m = "(ex_server STATUS_CONNECTED (Some 3))\<lparr>mmc_di_algo_in_use := 2\<rparr>"])
      (simp_all add: store_init_def store_crc_def crc ex_state_def ex_server_def DI_CHKSUM_CRC_def CRLF_def MMC_CHKSUM_def MMC_COMPRESSED_def)
qed

subsection \<open>The retries after checksum errors\<close>

text \<open>The outcome of the attempt number \<open>k\<close>, the attempts before it answered with a checksum error.\<close>

fun store_tries :: "'w php_env \<Rightarrow> nat \<Rightarrow> string \<Rightarrow> nat \<Rightarrow> u64 \<Rightarrow> 'w st \<Rightarrow> ((int \<times> u64) \<times> 'w st) option" where
  "store_tries env p request 0 cas s = mmc_server_store env p request cas s"
| "store_tries env p request (Suc k) cas s = do {
     ((result, cas), s) \<leftarrow> mmc_server_store env p request cas s;
     if result = - 2 then store_tries env p request k cas s else None
   }"

lemmas store_send_unfold = store_send.simps

lemma store_send_step:
  "mmc_server_store env p request cas s = Some ((r, c), s1) \<Longrightarrow> store_send env limit p request cas retry s =
     (if r = - 2 \<and> retry + 1 < limit then store_send env limit p request c (retry + 1) s1
      else Some ((r, c, if r = - 2 then retry + 1 else retry), s1))"
  by (subst store_send.simps) auto


subsection \<open>A retried store of a compressed value\<close>

lemma store_crc_value: "store_crc env a c v = Some v' \<Longrightarrow> v_value v' = v_value v \<and> v_data v' = v_data v"
  by (auto simp: store_crc_def split: if_splits)

lemma store_compress_value:
  assumes "store_compress env a c v s = Some (Some v', s')"
  shows "v_value v' = v_value v \<and> v_data v' \<in> {v_data v, Null} \<or> (\<exists>d. v_value v' = Block d \<and> v_data v' = Block d)"
  using assms by (auto simp: store_compress_def Let_def elim!: bind_SomeE split: if_splits prod.splits option.splits)

lemma store_compress_freed: "v_value v = Freed \<Longrightarrow> store_compress env a c v s = Some (Some v', s') \<Longrightarrow> v_value v' = Freed"
  by (auto simp: store_compress_def Let_def split: if_splits prod.splits option.splits)

lemma store_cas_value: "v_value (fst (store_cas command key cas_key v s)) = v_value v"
  "v_data (fst (store_cas command key cas_key v s)) = v_data v"
  by (auto simp: store_cas_def split: if_splits option.splits)

text \<open>The steps of an iteration that sent its request.\<close>

lemma store_to_parts:
  assumes "store_to env command expire by_key p v s = Some ((Some r, v'), s')"
  obtains k kc sh shc ck va vb vc vx algo a c s1 s2 x request res cas retry s3 where
    "truncate_key (v_key v) (v_key_copy v) = Some (Block k, kc)"
    "if by_key then truncate_key (v_shard v) (v_shard_copy v) = Some (Block sh, shc) \<and> ck = k @ sh else ck = k"
    "v_value va = v_value v" "v_data va = v_data v" "v_cas va = v_cas v"
    "store_compress env a c va s = Some (Some vb, s1)" "store_crc env a c vb = Some vc"
    "store_cas command k ck (store_hdr a algo vc) s1 = (vx, s2)" "buf_read (v_value vx) = Some x"
    "build_request command expire k x vx = Some request"
    "store_send env (g_integrity_error_retry_count (glob s2)) p request (v_cas vx) (v_retry vx) (setCas (v_cas vx) s2) =
       Some ((res, cas, retry), s3)"
    "s' = s3 \<or> s' = php_error E_WARNING ''Data Integrity verification failed for key %s, did not set the value''
        (setCode DI_CHECKSUM_SET_FAILED s3) \<or> (\<exists>f. mmc_server_failure env p s3 = Some (f, s'))"
    "store_free (vx\<lparr>v_val_len := Some (int (v_value_len vx)), v_cas := cas, v_retry := retry\<rparr>) = Some v'"
  using assms unfolding store_to_def Let_def
  apply (elim bind_SomeE)
  apply (simp only: split_paired_all prod.case)
  apply (elim bind_SomeE)
  apply (simp only: split_paired_all prod.case)
  apply (elim bind_SomeE)
  apply (simp only: split_paired_all prod.case split: option.splits)
   apply simp
  apply (elim bind_SomeE)
  apply (simp only: prod.case split: prod.splits)
  apply (elim bind_SomeE)
  apply (simp only: split_paired_all prod.case)
  apply (elim bind_SomeE)
  apply (simp only: split_paired_all prod.case)
  apply (elim bind_SomeE)
  subgoal premises prems for key kc shard shc k ck m ro s1 vb vc vx s2 x request res cas retry s3 r2 s4 vf
  proof -
    have key: "key = Block k" using prems(4) by (cases key) simp_all
    obtain sh where sh: "if by_key then shard = Block sh \<and> ck = k @ sh else ck = k"
      using prems(5) by (cases shard) (auto split: if_splits)
    show ?thesis
      by (rule prems(1) [OF _ _ _ _ _ prems(7) prems(9) prems(10)]) (use prems key sh in \<open>auto split: if_splits elim!: bind_SomeE\<close>)
  qed
  done

lemma store_free_value:
  "store_free v = Some v' \<Longrightarrow> v_value v' = (if v_data v = Null then v_value v else Freed) \<and> v_data v' = (if v_data v = Null then Null else Freed)"
  by (cases "v_data v") (auto simp: store_free_def free_copy_def elim!: bind_SomeE split: buf.splits)

lemma store_freed_stuck:
  assumes "v_value v = Freed"
  shows "store_to env command expire by_key p v s \<noteq> Some ((Some r, v'), s')"
proof
  assume "store_to env command expire by_key p v s = Some ((Some r, v'), s')"
  then show False
  proof (rule store_to_parts)
    fix va vb vc vx a c s1 k ck algo s2 x
    assume "v_value va = v_value v" "store_compress env a c va s = Some (Some vb, s1)" "store_crc env a c vb = Some vc"
      "store_cas command k ck (store_hdr a algo vc) s1 = (vx, s2)" "buf_read (v_value vx) = Some x"
    then have "v_value vb = Freed" "v_value vc = v_value vb" "v_value vx = v_value (store_hdr a algo vc)"
      using store_compress_freed assms store_crc_value store_cas_value(1) by (metis, metis, metis fst_conv)
    with \<open>buf_read (v_value vx) = Some x\<close> show False by (simp add: store_hdr_def split: if_splits)
  qed
qed


text \<open>A run of one attempt: the server closes the connection instead of answering.\<close>

lemma ex_build_request:
  assumes "v_value_len v < 2 ^ 31" "length x = v_value_len v"
  shows "\<exists>r. build_request ''set'' 0 ''k'' x v = Some r"
  using assms request_head_length [of 0 "v_value_len v" "''set''" "''k''" "v_flags v" "v_hdr v" "v_cas v"]
  by (auto simp: build_request_def Let_def request_capacity_def MAX_LENGTH_OF_LONG_def CRLF_def split: if_splits)

lemma ex_compress: "mmc_compress ex_env (replicate 64 (CHR ''a'')) MMC_COMPRESSED s = (Some [CHR ''R'', CHR ''a'', char_of (64 :: nat)], s)"
  by (simp add: mmc_compress_def compress_with_def Let_def ex_env_def ex_pack_def MMC_COMPRESSED_def compress_room_def)

lemma ex_store_compress:
  "store_compress ex_env False False (store_init ''k'' [] MMC_COMPRESSED 0 (replicate 64 (CHR ''a''))) (ex_state h xs) =
   Some (Some ((store_init ''k'' [] MMC_COMPRESSED 0 (replicate 64 (CHR ''a'')))\<lparr>v_data := Block [CHR ''R'', CHR ''a'', char_of (64 :: nat)],
     v_value := Block [CHR ''R'', CHR ''a'', char_of (64 :: nat)], v_value_len := 3\<rparr>), ex_state h xs)"
  by (simp add: store_compress_def store_init_def lzo_fallback_def ex_state_def ex_glob_def ex_pool_def
        worth_compressing_def COMPRESSED_MASK_def MMC_COMPRESSED_def MMC_COMPRESSED_LZO_def MMC_COMPRESSED_BZIP2_def ex_compress [unfolded MMC_COMPRESSED_def])

lemmas ex_run_defs = send_request_def mmc_channel_def ex_state_def ex_heap_def ex_server_def ex_pool_def ex_glob_def log_defs ex_env_simps
  ex_write_def ex_read_def stream_timeout_def mmc_readline_def mmc_server_seterror_def upd_def
  mmc_server_failure_def mmc_server_deactivate_def mmc_server_disconnect_def report_failure_def

lemma ex_store_to:
  "\<exists>v' s'. store_to ex_env ''set'' 0 False 1 (store_init ''k'' [] MMC_COMPRESSED 0 (replicate 64 (CHR ''a'')))
     (ex_state (ex_heap STATUS_CONNECTED (Some 3)) []) = Some ((Some (- 1), v'), s') \<and> v_value v' = Freed"
proof -
  let ?s = "ex_state (ex_heap STATUS_CONNECTED (Some 3)) []"
  have send: "\<exists>s' f s2. store_send ex_env 1 (Suc 0) request 0 0 (setCas 0 ?s) = Some ((- 1, 0, 0), s') \<and>
      mmc_server_failure ex_env (Suc 0) s' = Some (f, s2)" for request
    by (subst store_send.simps) (simp add: mmc_server_store_def ex_run_defs eval_nat_numeral)
  let ?v = "(store_init ''k'' [] MMC_COMPRESSED 0 (replicate 64 (CHR ''a'')))\<lparr>v_data := Block [CHR ''R'', CHR ''a'', char_of (64 :: nat)],
     v_value := Block [CHR ''R'', CHR ''a'', char_of (64 :: nat)], v_value_len := 3\<rparr>"
  obtain request where r: "build_request ''set'' 0 ''k'' [CHR ''R'', CHR ''a'', char_of (64 :: nat)] ?v = Some request"
    using ex_build_request [of ?v "[CHR ''R'', CHR ''a'', char_of (64 :: nat)]"] by auto
  obtain s' f s2 where s: "store_send ex_env 1 (Suc 0) request 0 0 (setCas 0 ?s) = Some ((- 1, 0, 0), s')"
    "mmc_server_failure ex_env (Suc 0) s' = Some (f, s2)" using send by blast
  show ?thesis
    by (simp add: store_to_def truncate_key_def MMC_KEY_MAX_SIZE_def store_flags_def Let_def ex_simps store_init_def
      ex_store_compress [unfolded store_init_def, simplified] ex_pool_def ex_glob_def store_crc_def store_hdr_def store_cas_def
      r [unfolded store_init_def, simplified] s store_free_def free_copy_def)
qed


end
