(* ===== verification/Commands.thy ===== *)
theory Commands
  imports Store
begin

text \<open>
  The single-key commands: delete, flush, increment and decrement (memcache.cpp 3279-3361,
  3540-3592, 3734-3770), get with its variants (2514-2624, 4939-5062), getl and unlock
  (2282-2513, 5753-5773, 6145-6180), and the loops that find a server, try the command and
  mark the server as failed.
\<close>

subsection \<open>Delete and flush\<close>

definition delete_reply :: "'w php_env \<Rightarrow> nat \<Rightarrow> nat \<Rightarrow> 'w st \<Rightarrow> (int \<times> 'w st) option" where
  "delete_reply env p n s = do {
     m \<leftarrow> heap s p;
     if reply env m n ''DELETED'' then Some (1, setCode MC_DELETED s)
     else if reply env m n ''NOT_FOUND'' then Some (0, setCode MC_NOT_FOUND s)
     else if mmc_str env (mmc_inbuf m) ''temporary failure'' n
     then Some (0, php_error E_WARNING ''Failed to delete temporary failure. Item may be locked''
                     (setCode MC_TMP_FAIL s))
     else do {
       s \<leftarrow> mmc_server_received_error env p n s;
       Some (- 1, s)
     }
   }"

definition mmc_delete :: "'w php_env \<Rightarrow> nat \<Rightarrow> string \<Rightarrow> int \<Rightarrow> 'w st \<Rightarrow> (int \<times> 'w st) option" where
  "mmc_delete env p key time s = do {
     (r, s) \<leftarrow> mmc_sendcmd env p (''delete '' @ cstr key @ '' '' @ show_int time) s;
     if r < 0 then Some (- 1, s)
     else do {
       (response_len, s) \<leftarrow> mmc_readline env p s;
       if response_len < 0 then Some (- 1, setCode READLINE_FAILED s)
       else delete_reply env p (nat response_len) s
     }
   }"

definition mmc_flush :: "'w php_env \<Rightarrow> nat \<Rightarrow> int \<Rightarrow> 'w st \<Rightarrow> (int \<times> 'w st) option" where
  "mmc_flush env p timestamp s = do {
     (r, s) \<leftarrow> mmc_sendcmd env p
       (if timestamp \<noteq> 0 then ''flush_all '' @ show_int timestamp else ''flush_all'') s;
     if r < 0 then Some (- 1, s)
     else do {
       (response_len, s) \<leftarrow> mmc_readline env p s;
       if response_len < 0 then Some (- 1, s)
       else do {
         m \<leftarrow> heap s p;
         if reply env m (nat response_len) ''OK'' then Some (1, s)
         else do {
           s \<leftarrow> mmc_server_received_error env p (nat response_len) s;
           Some (- 1, s)
         }
       }
     }
   }"

subsection \<open>Increment and decrement\<close>

text \<open>The number is None while the caller's variable is not initialised.\<close>

definition incr_decr_reply ::
    "'w php_env \<Rightarrow> nat \<Rightarrow> nat \<Rightarrow> int option \<Rightarrow> 'w st \<Rightarrow> ((int \<times> int option) \<times> 'w st) option" where
  "incr_decr_reply env p n number s = do {
     m \<leftarrow> heap s p;
     if reply env m n ''NOT_FOUND'' then Some ((0, number), setCode MC_NOT_FOUND s)
     else if mmc_str env (mmc_inbuf m) ''non-numeric value'' n
     then Some ((0, number), setCode MC_NON_NUMERIC_VALUE s)
     else if mmc_str env (mmc_inbuf m) ''temporary failure'' n
     then Some ((0, number), php_error E_WARNING
            ''Failed to incr/decr, temporary failure. Item may be locked'' (setCode MC_TMP_FAIL s))
     else if reply env m n ''ERROR'' \<or> reply env m n ''CLIENT_ERROR'' \<or> reply env m n ''SERVER_ERROR''
     then do {
       s \<leftarrow> mmc_server_received_error env p n (setCode MC_ERROR s);
       Some ((- 1, number), s)
     } else Some ((1, Some (strtol 10 (mmc_inbuf m))), s)
   }"

definition mmc_incr_decr ::
    "'w php_env \<Rightarrow> nat \<Rightarrow> bool \<Rightarrow> string \<Rightarrow> int \<Rightarrow> int option \<Rightarrow> 'w st \<Rightarrow>
     ((int \<times> int option) \<times> 'w st) option" where
  "mmc_incr_decr env p incr key value number s = do {
     m \<leftarrow> heap s p;
     let s = setHost (mmc_host m) (setCommandType SET s);
     (r, s) \<leftarrow> mmc_sendcmd env p
       ((if incr then ''incr '' else ''decr '') @ cstr key @ '' '' @ show_int (c_int value)) s;
     if r < 0 then Some ((- 1, number), s)
     else do {
       (response_len, s) \<leftarrow> mmc_readline env p s;
       if response_len < 0 then Some ((- 1, number), s)
       else incr_decr_reply env p (nat response_len) number s
     }
   }"

subsection \<open>The loops over servers\<close>

text \<open>The record of a lookup that found no usable server.\<close>

definition log_no_server :: "nat option \<Rightarrow> 'w st \<Rightarrow> 'w st option" where
  "log_no_server mmc s = (let s = setCode CONNECT_FAILED s in
     case mmc of None \<Rightarrow> Some (setHost ''proxy'' s)
     | Some p \<Rightarrow> do { m \<leftarrow> heap s p; Some (setHost (mmc_host m) s) })"

partial_function (option) incr_decr_loop ::
    "'w php_env \<Rightarrow> string \<Rightarrow> string \<Rightarrow> int \<Rightarrow> bool \<Rightarrow> int option \<Rightarrow> 'w st \<Rightarrow>
     ((int \<times> int option) \<times> 'w st) option" where
  "incr_decr_loop env find_key key value incr number s = do {
     (mmc, s) \<leftarrow> mmc_pool_find env find_key s;
     ok \<leftarrow> usable mmc s;
     if \<not> ok then do {
       s \<leftarrow> log_no_server mmc s;
       Some ((- 1, number), s)
     } else do {
       p \<leftarrow> mmc;
       ((result, number), s) \<leftarrow> mmc_incr_decr env p incr key value number s;
       if result < 0 then do {
         (_, s) \<leftarrow> mmc_server_failure env p s;
         incr_decr_loop env find_key key value incr number s
       } else Some ((result, number), s)
     }
   }"

declare incr_decr_loop.simps [code]

definition php_mmc_incr_decr ::
    "'w php_env \<Rightarrow> string \<Rightarrow> string \<Rightarrow> int \<Rightarrow> bool \<Rightarrow> bool \<Rightarrow> 'w st \<Rightarrow> (zval \<times> 'w st) option" where
  "php_mmc_incr_decr env key shard_key value by_key incr s = do {
     ((result, number), s) \<leftarrow> incr_decr_loop env (if by_key then shard_key else key) key value incr None s;
     if 0 < result then do { n \<leftarrow> number; Some (ZLong n, s) }
     else Some (ZBool False, s)
   }"

text \<open>
  The loop of \<open>memcache_delete\<close> and of \<open>php_mmc_delete_by_key\<close>: only the first logs the
  failed command; the result is the last server found and the last result.
\<close>

partial_function (option) delete_loop ::
    "'w php_env \<Rightarrow> string \<Rightarrow> string \<Rightarrow> int \<Rightarrow> bool \<Rightarrow> 'w st \<Rightarrow> ((int \<times> nat option) \<times> 'w st) option" where
  "delete_loop env find_key key time log_failed s = do {
     (mmc, s) \<leftarrow> mmc_pool_find env find_key s;
     ok \<leftarrow> usable mmc s;
     if \<not> ok then Some ((- 1, mmc), s)
     else do {
       p \<leftarrow> mmc;
       m \<leftarrow> heap s p;
       (result, s) \<leftarrow> mmc_delete env p key time (setHost (mmc_host m) s);
       if result < 0 then do {
         (_, s) \<leftarrow> mmc_server_failure env p (if log_failed then setCode CMD_FAILED s else s);
         delete_loop env find_key key time log_failed s
       } else Some ((result, mmc), s)
     }
   }"

declare delete_loop.simps [code]

definition php_mmc_delete_by_key ::
    "'w php_env \<Rightarrow> string \<Rightarrow> string \<Rightarrow> int \<Rightarrow> 'w st \<Rightarrow> (int \<times> 'w st) option" where
  "php_mmc_delete_by_key env key shard_key time s = do {
     ((result, mmc), s) \<leftarrow> delete_loop env shard_key key time False s;
     if result < 0 then do { s \<leftarrow> log_no_server mmc s; Some (result, s) }
     else Some (result, s)
   }"

subsection \<open>Sending a get and reading its value, with the retries after checksum errors\<close>

text \<open>A read of the line that must be \<open>END\<close>.\<close>

definition read_end :: "'w php_env \<Rightarrow> nat \<Rightarrow> 'w st \<Rightarrow> (bool \<times> 'w st) option" where
  "read_end env p s = do {
     (response_len, s) \<leftarrow> mmc_readline env p s;
     m \<leftarrow> heap s p;
     if response_len < 0 \<or> \<not> mmc_str_left env (mmc_inbuf m) ''END'' (nat response_len) then do {
       s \<leftarrow> mmc_server_seterror p (Some ''Malformed END line'') 0 s;
       Some (False, setCode MC_MALFORMD s)
     } else Some (True, s)
   }"

text \<open>
  The inner loop of the three get commands. \<open>need_end\<close> says after which results the \<open>END\<close>
  line is read, \<open>note_flags\<close> whether the flags are logged. A block left by the attempt before
  is freed first; a failed send leaves the loop with the earlier result.
\<close>

function fetch ::
    "'w php_env \<Rightarrow> int \<Rightarrow> (int \<Rightarrow> bool) \<Rightarrow> bool \<Rightarrow> nat \<Rightarrow> string \<Rightarrow> bool \<Rightarrow> int \<Rightarrow> int \<Rightarrow> read_out \<Rightarrow> 'w st \<Rightarrow>
     ((int \<times> int \<times> read_out) \<times> 'w st) option" where
  "fetch env limit need_end note_flags p command want_cas result retry ro s = do {
     freed \<leftarrow> (if o_value ro = Null then Some Null else efree (o_value ro));
     let ro = ro\<lparr>o_value := freed\<rparr>;
     (r, s) \<leftarrow> mmc_sendcmd env p command s;
     if r \<le> 0 then Some ((result, retry, ro), s)
     else do {
       ((result, ro), s) \<leftarrow> mmc_read_value env p False want_cas ro s;
       let s = (if note_flags then setFlags (sint (h_flags (o_header ro))) s else s);
       (result, s) \<leftarrow> (if need_end result
          then do { (ok, s) \<leftarrow> read_end env p s; Some (if ok then result else - 1, s) }
          else Some (result, s));
       if result = CHKSUM_MISMATCH_DETECTED then
         (if retry + 1 < limit
          then fetch env limit need_end note_flags p command want_cas result (retry + 1) ro s
          else Some ((result, retry + 1, ro), s))
       else Some ((result, retry, ro), s)
     }
   }"
  by pat_completeness auto
termination
  by (relation "measure (\<lambda>(env, limit, need_end, note_flags, p, command, want_cas, result, retry, ro, s).
        nat (limit - retry))") auto

declare fetch.simps [simp del]

text \<open>The variables a get command starts with: flags 0, the CAS as given, no block.\<close>

definition get_vars :: "u64 option \<Rightarrow> read_out" where
  "get_vars cas = \<lparr>o_header = \<lparr>h_key = None, h_flags = 0, h_cas = cas, h_chksum = None, h_value_len = 0\<rparr>,
     o_value = Null, o_value_len = 0\<rparr>"

abbreviation serialized :: "u32 \<Rightarrow> bool" where
  "serialized flags \<equiv> flags AND (MMC_SERIALIZED OR MMC_SERIALIZED_IGBINARY) \<noteq> 0"

text \<open>The value found: unserialized, or the bytes as a PHP string.\<close>

definition deliver :: "'w php_env \<Rightarrow> read_out \<Rightarrow> int \<Rightarrow> zval \<Rightarrow> 'w st \<Rightarrow> ((int \<times> zval) \<times> 'w st) option" where
  "deliver env ro result rv s = do {
     value \<leftarrow> buf_read (o_value ro);
     if serialized (h_flags (o_header ro))
     then mmc_postprocess_value env (h_flags (o_header ro)) rv value s
     else Some ((result, ZString value), s)
   }"

subsection \<open>get\<close>

definition retrieval_result ::
    "'w php_env \<Rightarrow> nat \<Rightarrow> bool \<Rightarrow> int \<Rightarrow> read_out \<Rightarrow> zval \<Rightarrow> 'w st \<Rightarrow> ((int \<times> zval) \<times> 'w st) option" where
  "retrieval_result env p return_corrupted result ro rv s =
     (if 0 < result then deliver env ro result rv s
      else if result = 0
      then Some ((0, if p_false_on_error (pool s) then ZNull else ZBool False), s)
      else if result = - 2 then do {
        (ok, s) \<leftarrow> read_end env p s;
        Some (if ok then (0, ZBool False) else (- 1, rv), s)
      } else if result = CHKSUM_MISMATCH_DETECTED then do {
        value \<leftarrow> buf_read (o_value ro);
        Some ((0, if return_corrupted then ZString value else rv),
              setCode DI_CHECKSUM_GET_FAILED_GET s)
      } else do {
        (_, s) \<leftarrow> mmc_server_failure env p (setCode SVR_OPN_FAILED s);
        Some ((result, rv), s)
      })"

partial_function (option) retrieval_loop ::
    "'w php_env \<Rightarrow> string \<Rightarrow> string \<Rightarrow> bool \<Rightarrow> bool \<Rightarrow> int \<Rightarrow> read_out \<Rightarrow> zval \<Rightarrow> 'w st \<Rightarrow>
     ((int \<times> nat option \<times> read_out \<times> zval) \<times> 'w st) option" where
  "retrieval_loop env key command want_cas return_corrupted retry ro rv s = do {
     (mmc, s) \<leftarrow> mmc_pool_find env key s;
     ok \<leftarrow> usable mmc s;
     if \<not> ok then Some ((- 1, mmc, ro, rv), s)
     else do {
       p \<leftarrow> mmc;
       ((result, retry, ro), s) \<leftarrow> fetch env (g_integrity_error_retry_count (glob s))
          (\<lambda>r. 0 < r \<or> r = CHKSUM_MISMATCH_DETECTED) True p command want_cas (- 1) retry
          (ro\<lparr>o_value := Null\<rparr>) s;
       ((result, rv), s) \<leftarrow> retrieval_result env p return_corrupted result ro rv s;
       if result < 0 then retrieval_loop env key command want_cas return_corrupted retry ro rv s
       else Some ((result, mmc, ro, rv), s)
     }
   }"

declare retrieval_loop.simps [code]

text \<open>
  \<open>return_flags\<close> and \<open>return_cas\<close> are the new values of the caller's variables; reading the
  CAS when no value was read is a read of an uninitialised variable.
\<close>

definition mmc_exec_retrieval_cmd ::
    "'w php_env \<Rightarrow> string \<Rightarrow> bool \<Rightarrow> bool \<Rightarrow> zval \<Rightarrow> 'w st \<Rightarrow>
     ((int \<times> zval \<times> u32 \<times> u64 option) \<times> 'w st) option" where
  "mmc_exec_retrieval_cmd env key want_cas return_corrupted rv s = do {
     let command = (if want_cas then ''gets '' else ''get '') @ cstr key;
     let s = setLogName (p_log_name (pool s)) (setKey (cstr key) s);
     ((result, mmc, ro, rv), s) \<leftarrow>
       retrieval_loop env key command want_cas return_corrupted 0 (get_vars None) rv s;
     s \<leftarrow> log_outcome mmc s;
     if want_cas then do {
       cas \<leftarrow> h_cas (o_header ro);
       Some ((result, rv, h_flags (o_header ro), Some cas), setCas cas s)
     } else Some ((result, rv, h_flags (o_header ro), None), s)
   }"

subsection \<open>get by key\<close>

partial_function (option) get_by_key_loop ::
    "'w php_env \<Rightarrow> string \<Rightarrow> string \<Rightarrow> bool \<Rightarrow> int \<Rightarrow> read_out \<Rightarrow> zval \<Rightarrow> 'w st \<Rightarrow>
     ((int \<times> nat option \<times> read_out \<times> zval) \<times> 'w st) option" where
  "get_by_key_loop env shard_key command want_cas retry ro rv s = do {
     (mmc, s) \<leftarrow> mmc_pool_find env shard_key s;
     ok \<leftarrow> usable mmc s;
     if \<not> ok then Some ((- 1, mmc, ro, rv), s)
     else do {
       p \<leftarrow> mmc;
       ((result, retry, ro), s) \<leftarrow> fetch env (g_integrity_error_retry_count (glob s))
          (\<lambda>r. r \<noteq> 0) False p command want_cas (- 1) retry (ro\<lparr>o_value := Null\<rparr>) s;
       if 0 < result then do {
         ((result, rv), s) \<leftarrow> deliver env ro result rv s;
         Some ((result, mmc, ro, rv), s)
       } else if result = 0 then Some ((0, mmc, ro, rv), s)
       else if result = - 2 then do {
         (ok, s) \<leftarrow> read_end env p s;
         if ok then Some ((- 2, mmc, ro, rv), setCode MC_ONLY_END s)
         else get_by_key_loop env shard_key command want_cas retry ro rv s
       } else if result = CHKSUM_MISMATCH_DETECTED then do {
         _ \<leftarrow> efree (o_value ro);
         Some ((0, mmc, ro, rv), setCode DI_CHECKSUM_GET_FAILED_BYKEY s)
       } else do {
         (_, s) \<leftarrow> mmc_server_failure env p s;
         get_by_key_loop env shard_key command want_cas retry ro rv s
       }
     }
   }"

declare get_by_key_loop.simps [code]

definition php_mmc_get_by_key ::
    "'w php_env \<Rightarrow> zval \<Rightarrow> zval \<Rightarrow> zval \<Rightarrow> bool \<Rightarrow> bool \<Rightarrow> 'w st \<Rightarrow>
     ((int \<times> zval \<times> zval option \<times> zval option) \<times> 'w st) option" where
  "php_mmc_get_by_key env zkey zshard_key rv want_flags want_cas s = do {
     ((r, key), s) \<leftarrow> mmc_prepare_key env MMC_KEY_MAX_SIZE zkey s;
     ((r, shard_key), s) \<leftarrow> (if r = MMC_OK then mmc_prepare_key env MMC_KEY_MAX_SIZE zshard_key s
                            else Some ((r, []), s));
     if r \<noteq> MMC_OK
     then Some ((- 1, rv, if want_flags then Some (ZArray []) else None, if want_cas then Some (ZArray []) else None),
                setCode PREPARE_KEY_FAILED s)
     else do {
       let command = (if want_cas then ''gets '' else ''get '') @ cstr key;
       ((result, mmc, ro, rv), s) \<leftarrow>
         get_by_key_loop env shard_key command want_cas 0 (get_vars None) ZNull (setKey (cstr key) s);
       s \<leftarrow> log_outcome mmc s;
       let zflags = (if want_flags then Some (ZLong (sint (h_flags (o_header ro)))) else None);
       if want_cas then do {
         cas \<leftarrow> h_cas (o_header ro);
         Some ((result, rv, zflags, Some (ZLong (sint cas))), s)
       } else Some ((result, rv, zflags, None), s)
     }
   }"

end
