(* ===== verification/Locking.thy ===== *)
theory Locking
  imports Commands
begin

text \<open>
  The lock commands: getl (memcache.cpp 2282-2422, 5753-5773) gets a value and locks it, its
  CAS value is remembered in the pool's \<open>cas_array\<close>; unl (2424-2512, 6145-6180) unlocks with
  the CAS given or remembered.
\<close>

definition MAX_METADATA_LEN :: nat where "MAX_METADATA_LEN = 1024"

text \<open>
  The metadata of a \<open>LOCK_ERROR\<close> line, copied with its NUL into a block of
  \<open>MAX_METADATA_LEN + 1\<close> bytes.
\<close>

definition lock_metadata :: "string \<Rightarrow> string option" where
  "lock_metadata inbuf =
     (let line = cstr inbuf; metadata_len = int (length line) - 13 in
      if 0 < metadata_len then
        (if int MAX_METADATA_LEN < metadata_len then None
         else Some (take (nat metadata_len) (drop 11 line)))
      else Some [])"

text \<open>
  What follows the inner loop: the result, the PHP value and the metadata (None while its
  length is -1).
\<close>

definition getl_result ::
    "'w php_env \<Rightarrow> nat \<Rightarrow> int \<Rightarrow> read_out \<Rightarrow> zval \<Rightarrow> string option \<Rightarrow> 'w st \<Rightarrow>
     ((int \<times> zval \<times> string option) \<times> 'w st) option" where
  "getl_result env p result ro rv metadata s =
     (if 0 \<le> result then
        (if serialized (h_flags (o_header ro)) then do {
           value \<leftarrow> buf_read (o_value ro);
           ((result, rv), s) \<leftarrow> mmc_postprocess_value env (h_flags (o_header ro)) rv value s;
           Some ((result, rv, metadata), s)
         } else do {
           cas \<leftarrow> h_cas (o_header ro);
           if cas = 0 then do {
             s \<leftarrow> mmc_server_seterror p (Some ''Invalid cas value'') 0 s;
             Some ((- 1, rv, metadata), setCode INVALID_CAS s)
           } else do {
             value \<leftarrow> buf_read (o_value ro);
             Some ((result, ZString value, metadata), s)
           }
         })
      else if result = - 2 then do {
        (ok, s) \<leftarrow> read_end env p s;
        if ok then Some ((0, rv, metadata), s)
        else do {
          (_, s) \<leftarrow> mmc_readline env p s;
          Some ((- 1, rv, metadata), s)
        }
      } else do {
        m \<leftarrow> heap s p;
        let line = cstr (mmc_inbuf m);
        if mmc_str_left env line ''LOCK_ERROR'' (length line) then do {
          md \<leftarrow> lock_metadata (mmc_inbuf m);
          Some ((0, ZBool False, Some md), setCode MC_LOCK_ERROR s)
        } else if mmc_str_left env line ''NOT_FOUND'' (length line)
        then Some ((0, rv, metadata), setCode MC_NOT_FOUND s)
        else if result = CHKSUM_MISMATCH_DETECTED then do {
          _ \<leftarrow> efree (o_value ro);
          Some ((0, rv, metadata), setCode DI_CHECKSUM_GET_FAILED_GETL s)
        } else do {
          (_, s) \<leftarrow> mmc_server_failure env p (setCode SVR_OPN_FAILED s);
          Some ((result, rv, metadata), s)
        }
      })"

partial_function (option) getl_loop ::
    "'w php_env \<Rightarrow> string \<Rightarrow> string \<Rightarrow> int \<Rightarrow> read_out \<Rightarrow> zval \<Rightarrow> string option \<Rightarrow> 'w st \<Rightarrow>
     ((int \<times> nat option \<times> read_out \<times> zval \<times> string option) \<times> 'w st) option" where
  "getl_loop env key command retry ro rv metadata s = do {
     (mmc, s) \<leftarrow> mmc_pool_find env key s;
     ok \<leftarrow> usable mmc s;
     if \<not> ok then Some ((- 1, mmc, ro, rv, metadata), s)
     else do {
       p \<leftarrow> mmc;
       m \<leftarrow> heap s p;
       ((result, retry, ro), s) \<leftarrow> fetch env (g_integrity_error_retry_count (glob s))
          (\<lambda>r. 0 \<le> r \<or> r = CHKSUM_MISMATCH_DETECTED) False p command True (- 1) retry
          (ro\<lparr>o_value := Null\<rparr>) (setHost (mmc_host m) s);
       ((result, rv, metadata), s) \<leftarrow> getl_result env p result ro rv metadata s;
       if result < 0 then getl_loop env key command retry ro rv metadata s
       else Some ((result, mmc, ro, rv, metadata), s)
     }
   }"

declare getl_loop.simps [code]

definition getl_timeout :: "int \<Rightarrow> int" where
  "getl_timeout timeout = (if timeout \<le> 0 \<or> 30 < timeout then 15 else timeout)"

definition getl_command :: "string \<Rightarrow> int \<Rightarrow> string option \<Rightarrow> string" where
  "getl_command key timeout metadata =
     ''getl '' @ cstr key @ '' '' @ show_int (getl_timeout timeout)
       @ (case metadata of None \<Rightarrow> [] | Some md \<Rightarrow> if md = [] then [] else '' '' @ cstr md)"

definition mmc_exec_getl_cmd ::
    "'w php_env \<Rightarrow> string \<Rightarrow> int \<Rightarrow> string option \<Rightarrow> zval \<Rightarrow> 'w st \<Rightarrow>
     ((int \<times> zval \<times> u32 \<times> u64 \<times> string option) \<times> 'w st) option" where
  "mmc_exec_getl_cmd env key timeout metadata rv s = do {
     let s = setKey (cstr key) s;
     let command = getl_command key timeout metadata;
     ((result, mmc, ro, rv, metadata), s) \<leftarrow> getl_loop env key command 0 (get_vars (Some 0)) rv metadata s;
     cas \<leftarrow> h_cas (o_header ro);
     let flags = h_flags (o_header ro);
     s \<leftarrow> log_outcome mmc (setFlags (sint flags) (setCas cas s));
     let rv = (if result = 0 \<and> (\<forall>b \<in> {True, False}. rv \<noteq> ZBool b) then ZNull else rv);
     let s = (if cas \<noteq> 0 \<and> result \<noteq> - 1
              then s\<lparr>pool := (pool s)\<lparr>p_cas_array := (p_cas_array (pool s))(key \<mapsto> cas)\<rparr>\<rparr> else s);
     Some ((result, rv, flags, cas, metadata), s)
   }"

text \<open>The flags returned are those for the caller's variable, None when it keeps its value.\<close>

definition php_mmc_getl ::
    "'w php_env \<Rightarrow> zval \<Rightarrow> int \<Rightarrow> string option \<Rightarrow> 'w st \<Rightarrow>
     ((zval \<times> u32 option \<times> string option) \<times> 'w st) option" where
  "php_mmc_getl env zkey timeout metadata s = (case zkey of
     ZArray _ \<Rightarrow> Some ((ZBool False, None, metadata), setCode INVALID_PARAM s)
   | _ \<Rightarrow> do {
       ((r, key), s) \<leftarrow> mmc_prepare_key env MMC_KEY_MAX_SIZE zkey s;
       if r \<noteq> MMC_OK then Some ((ZBool False, None, metadata), setCode PREPARE_KEY_FAILED s)
       else do {
         ((result, rv, flags, cas, metadata), s) \<leftarrow> mmc_exec_getl_cmd env key timeout metadata ZNull s;
         Some ((if result < 0 then ZBool False else rv, Some flags, metadata), s)
       }
     })"

subsection \<open>Unlock\<close>

text \<open>The loop body leaves the loop on every path, so one server is tried.\<close>

definition mmc_exec_unl_cmd :: "'w php_env \<Rightarrow> string \<Rightarrow> u64 \<Rightarrow> 'w st \<Rightarrow> (int \<times> 'w st) option" where
  "mmc_exec_unl_cmd env key cas s = do {
     let command = ''unl '' @ cstr key @ '' '' @ show_nat (unat cas);
     let s = setCas cas (setKey (cstr key) s);
     (mmc, s) \<leftarrow> mmc_pool_find env key s;
     ok \<leftarrow> usable mmc s;
     (result, s) \<leftarrow> (if \<not> ok then Some (- 1, s)
       else do {
         p \<leftarrow> mmc;
         (r, s) \<leftarrow> mmc_sendcmd env p command s;
         if r < 0 then Some (- 3, s)
         else do {
           (response_len, s) \<leftarrow> mmc_readline env p s;
           if response_len < 0 then Some (- 2, setCode READLINE_FAILED s)
           else do {
             m \<leftarrow> heap s p;
             if reply env m (nat response_len) ''UNLOCKED'' then Some (1, setCode MC_UNLOCKED s)
             else do {
               s \<leftarrow> mmc_server_received_error env p (nat response_len) (setCode CMD_FAILED s);
               Some (- 1, s)
             }
           }
         }
       });
     s \<leftarrow> log_outcome mmc s;
     Some (result, s)
   }"

definition mmc_exec_unl_cmd_by_key ::
    "'w php_env \<Rightarrow> nat option \<Rightarrow> string \<Rightarrow> string \<Rightarrow> 'w st \<Rightarrow> (int \<times> 'w st) option" where
  "mmc_exec_unl_cmd_by_key env mmc key shard_key s =
     (case p_cas_array (pool s) (key @ shard_key) of
        None \<Rightarrow> Some (- 1, s)
      | Some cas \<Rightarrow> do {
          p \<leftarrow> mmc;
          (r, s) \<leftarrow> mmc_sendcmd env p (''unl '' @ cstr key @ '' '' @ show_nat (unat cas)) s;
          if r < 0 then Some (- 3, s)
          else do {
            (response_len, s) \<leftarrow> mmc_readline env p s;
            if response_len < 0 then Some (- 2, s)
            else do {
              m \<leftarrow> heap s p;
              Some (if reply env m (nat response_len) ''UNLOCKED'' then 1 else - 1, s)
            }
          }
        })"

text \<open>The remembered CAS replaces the one given, and is forgotten unless the send failed.\<close>

definition php_mmc_unlock :: "'w php_env \<Rightarrow> zval \<Rightarrow> u64 \<Rightarrow> 'w st \<Rightarrow> (zval \<times> 'w st) option" where
  "php_mmc_unlock env zkey cas s = (case zkey of
     ZArray _ \<Rightarrow> Some (ZBool False, s)
   | _ \<Rightarrow> do {
       ((r, key), s) \<leftarrow> mmc_prepare_key env MMC_KEY_MAX_SIZE zkey s;
       if r \<noteq> MMC_OK then Some (ZBool False, s)
       else do {
         let saved = p_cas_array (pool s) key;
         (ret, s) \<leftarrow> mmc_exec_unl_cmd env key (case saved of Some c \<Rightarrow> c | None \<Rightarrow> cas) s;
         let s = (if saved \<noteq> None \<and> ret \<noteq> - 3
                  then s\<lparr>pool := (pool s)\<lparr>p_cas_array := (p_cas_array (pool s))(key := None)\<rparr>\<rparr> else s);
         Some (ZBool (0 \<le> ret), s)
       }
     })"

end
