(* ===== verification/Ring_Queue.thy ===== *)
theory Ring_Queue
  imports Prelude
begin

text \<open>
  memcache_queue.c and memcache_queue.h: the growing ring buffer of pointers. A pointer is
  an \<open>'a option\<close> (None is NULL); a slot that \<open>erealloc\<close> has not initialised is \<open>Garbage\<close>.
  The locale \<open>fifo\<close> is the contract the multi-key commands rely on; the ring buffer
  interprets it, so that draining a filled queue returns the pushed pointers in order.
\<close>

datatype 'a slot = Garbage | Slot "'a option"

record 'a mmc_queue =
  q_items :: "'a slot list"
  q_alloc :: nat
  q_head :: nat
  q_tail :: nat
  q_len :: nat

definition MMC_QUEUE_PREALLOC :: nat where
  "MMC_QUEUE_PREALLOC = 25"

text \<open>\<open>memset(q, 0, sizeof *q)\<close>.\<close>

definition mmc_queue_release :: "'a mmc_queue" where
  "mmc_queue_release = \<lparr>q_items = [], q_alloc = 0, q_head = 0, q_tail = 0, q_len = 0\<rparr>"

definition mmc_queue_reset :: "'a mmc_queue \<Rightarrow> 'a mmc_queue" where
  "mmc_queue_reset q = q\<lparr>q_len := 0, q_head := 0, q_tail := 0\<rparr>"

text \<open>A read of an initialised slot inside the block.\<close>

definition q_read :: "'a mmc_queue \<Rightarrow> nat \<Rightarrow> 'a option option" where
  "q_read q k = (if k < length (q_items q) then
     (case q_items q ! k of Garbage \<Rightarrow> None | Slot p \<Rightarrow> Some p) else None)"

definition mmc_queue_item :: "'a mmc_queue \<Rightarrow> nat \<Rightarrow> 'a option option" where
  "mmc_queue_item q i =
     (if q_tail q + i < q_alloc q then q_read q (q_tail q + i)
      else q_read q (i - (q_alloc q - q_tail q)))"

text \<open>The growth of a full queue: \<open>erealloc\<close>, and the tail segment moved to the end.\<close>

definition mmc_queue_grow :: "'a mmc_queue \<Rightarrow> 'a mmc_queue" where
  "mmc_queue_grow q =
     (if q_alloc q \<le> q_len q then
        let increase = 1 + MMC_QUEUE_PREALLOC;
            alloc = q_alloc q + increase;
            items = q_items q @ replicate increase Garbage
        in if q_head q < q_tail q then
             q\<lparr>q_alloc := alloc,
               q_items := memmove items (q_tail q + increase) (q_tail q) (alloc - q_tail q - increase),
               q_tail := q_tail q + increase\<rparr>
           else q\<lparr>q_alloc := alloc, q_items := items\<rparr>
      else q)"

definition mmc_queue_push :: "'a mmc_queue \<Rightarrow> 'a option \<Rightarrow> 'a mmc_queue option" where
  "mmc_queue_push q0 ptr =
     (let q = mmc_queue_grow q0;
          head = (if q_len q \<noteq> 0 then (if q_alloc q \<le> q_head q + 1 then 0 else q_head q + 1)
                  else q_head q)
      in if head < length (q_items q) then
           Some (q\<lparr>q_head := head, q_items := (q_items q)[head := Slot ptr], q_len := q_len q + 1\<rparr>)
         else None)"

definition mmc_queue_pop :: "'a mmc_queue \<Rightarrow> ('a option \<times> 'a mmc_queue) option" where
  "mmc_queue_pop q =
     (if q_len q \<noteq> 0 then do {
        ptr \<leftarrow> q_read q (q_tail q);
        let len = q_len q - 1;
        let tail = (if len \<noteq> 0 then (if q_alloc q \<le> q_tail q + 1 then 0 else q_tail q + 1)
                    else q_tail q);
        Some (ptr, q\<lparr>q_len := len, q_tail := tail\<rparr>)
      } else Some (None, q))"

text \<open>The loop of \<open>mmc_queue_contains\<close> from index \<open>i\<close>; \<open>k\<close> slots are left.\<close>

fun mmc_queue_contains_from :: "'a mmc_queue \<Rightarrow> 'a option \<Rightarrow> nat \<Rightarrow> nat \<Rightarrow> bool option" where
  "mmc_queue_contains_from q ptr i 0 = Some False"
| "mmc_queue_contains_from q ptr i (Suc k) = do {
     item \<leftarrow> mmc_queue_item q i;
     if item = ptr then Some True else mmc_queue_contains_from q ptr (Suc i) k
   }"

definition mmc_queue_contains :: "'a mmc_queue option \<Rightarrow> 'a option \<Rightarrow> bool option" where
  "mmc_queue_contains queue ptr =
     (case queue of None \<Rightarrow> Some False | Some q \<Rightarrow> mmc_queue_contains_from q ptr 0 (q_len q))"

definition mmc_queue_free :: "'a mmc_queue \<Rightarrow> 'a mmc_queue" where
  "mmc_queue_free q = mmc_queue_release"

text \<open>
  \<open>mmc_queue_copy\<close> drops the result of \<open>erealloc\<close>. \<open>in_place\<close> says whether the allocator
  kept the block where it was; if it moved (or there was no block, the items being NULL),
  the \<open>memcpy\<close> that follows writes through a stale pointer.
\<close>

definition mmc_queue_copy :: "bool \<Rightarrow> 'a mmc_queue \<Rightarrow> 'a mmc_queue \<Rightarrow> 'a mmc_queue option" where
  "mmc_queue_copy in_place source target =
     (if q_alloc target \<noteq> q_alloc source \<and> (q_alloc target = 0 \<or> \<not> in_place) then None
      else Some (target\<lparr>q_alloc := q_alloc source,
                        q_items := take (q_alloc source) (q_items source),
                        q_head := q_head source, q_tail := q_tail source,
                        q_len := q_len source\<rparr>))"

text \<open>The loop of \<open>mmc_queue_remove\<close>; every pop shortens the queue, \<open>k\<close> bounds the pops.\<close>

fun mmc_queue_remove_loop ::
    "nat \<Rightarrow> 'a option \<Rightarrow> 'a mmc_queue \<Rightarrow> 'a mmc_queue \<Rightarrow> 'a mmc_queue option" where
  "mmc_queue_remove_loop 0 ptr original queue = None"
| "mmc_queue_remove_loop (Suc k) ptr original queue = do {
     (item, original) \<leftarrow> mmc_queue_pop original;
     if item = None then Some queue
     else do {
       queue \<leftarrow> (if item \<noteq> ptr then mmc_queue_push queue item else Some queue);
       mmc_queue_remove_loop k ptr original queue
     }
   }"

definition mmc_queue_remove :: "'a mmc_queue \<Rightarrow> 'a option \<Rightarrow> 'a mmc_queue option" where
  "mmc_queue_remove queue ptr =
     mmc_queue_remove_loop (q_len queue + 1) ptr queue mmc_queue_release"


subsection \<open>The ring invariant\<close>

text \<open>The index of the \<open>i\<close>-th queued pointer, as the macro \<open>mmc_queue_item\<close> computes it.\<close>

definition q_pos :: "'a mmc_queue \<Rightarrow> nat \<Rightarrow> nat" where
  "q_pos q i = (if q_tail q + i < q_alloc q then q_tail q + i else i - (q_alloc q - q_tail q))"

text \<open>\<open>q_rel q xs\<close>: the ring is well formed and holds the pointers \<open>xs\<close>, oldest first.\<close>

definition q_rel :: "'a mmc_queue \<Rightarrow> 'a option list \<Rightarrow> bool" where
  "q_rel q xs \<longleftrightarrow>
     length (q_items q) = q_alloc q \<and> q_len q = length xs \<and> length xs \<le> q_alloc q \<and>
     (if q_alloc q = 0 then q_tail q = 0 else q_tail q < q_alloc q) \<and>
     q_head q = (if xs = [] then q_tail q else q_pos q (length xs - 1)) \<and>
     (\<forall>i < length xs. q_items q ! q_pos q i = Slot (xs ! i))"

lemma q_pos_less: "q_tail q < q_alloc q \<Longrightarrow> i < q_alloc q \<Longrightarrow> q_pos q i < q_alloc q"
  by (auto simp: q_pos_def)

lemma q_pos_inj:
  "q_tail q < q_alloc q \<Longrightarrow> i < q_alloc q \<Longrightarrow> j < q_alloc q \<Longrightarrow> q_pos q i = q_pos q j \<Longrightarrow> i = j"
  by (auto simp: q_pos_def split: if_splits)

lemma q_rel_release: "q_rel mmc_queue_release []"
  by (simp add: q_rel_def mmc_queue_release_def)

lemma q_rel_reset: "q_rel q xs \<Longrightarrow> q_rel (mmc_queue_reset q) []"
  by (auto simp: q_rel_def mmc_queue_reset_def split: if_splits)

lemma q_rel_tail_less: "q_rel q (x # xs) \<Longrightarrow> q_tail q < q_alloc q"
  by (auto simp: q_rel_def split: if_splits)

lemma mmc_queue_item_rel:
  assumes "q_rel q xs" "i < length xs"
  shows "mmc_queue_item q i = Some (xs ! i)"
proof -
  have "q_tail q < q_alloc q" using assms by (auto simp: q_rel_def split: if_splits)
  then have "q_pos q i < length (q_items q)" "q_items q ! q_pos q i = Slot (xs ! i)"
    using assms q_pos_less [of q i] by (auto simp: q_rel_def)
  then show ?thesis
    by (auto simp: mmc_queue_item_def q_pos_def q_read_def split: if_splits)
qed

lemma mmc_queue_grow_rel:
  assumes "q_rel q xs"
  shows "q_rel (mmc_queue_grow q) xs \<and> length xs < q_alloc (mmc_queue_grow q)"
proof (cases "q_len q < q_alloc q")
  case True
  then show ?thesis using assms by (simp add: mmc_queue_grow_def q_rel_def)
next
  case full: False
  then have len: "length xs = q_alloc q" using assms by (auto simp: q_rel_def)
  show ?thesis
  proof (cases "q_tail q = 0")
    case True
    then have "\<not> q_head q < q_tail q" by simp
    with True full len assms show ?thesis
      by (auto simp: mmc_queue_grow_def q_rel_def q_pos_def MMC_QUEUE_PREALLOC_def nth_append
          split: if_splits)
  next
    case tail: False
    let ?q' = "mmc_queue_grow q"
    have lt: "q_tail q < q_alloc q" "xs \<noteq> []"
      using tail len assms by (auto simp: q_rel_def split: if_splits)
    have head: "q_head q = q_tail q - 1"
      using assms lt tail len by (auto simp: q_rel_def q_pos_def)
    have q': "q_tail ?q' = q_tail q + 26" "q_alloc ?q' = q_alloc q + 26" "q_head ?q' = q_head q"
      "q_len ?q' = q_len q"
      "q_items ?q' = memmove (q_items q @ replicate 26 Garbage) (q_tail q + 26) (q_tail q)
         (q_alloc q - q_tail q)"
      using full tail head by (auto simp: mmc_queue_grow_def MMC_QUEUE_PREALLOC_def)
    have items: "q_items ?q' ! q_pos ?q' i = Slot (xs ! i)" if "i < length xs" for i
    proof -
      have "q_items q ! q_pos q i = Slot (xs ! i)" using assms that by (simp add: q_rel_def)
      moreover have "length (q_items q) = q_alloc q" using assms by (simp add: q_rel_def)
      ultimately show ?thesis
        using lt that len unfolding q' q_pos_def
        by (auto simp: nth_memmove nth_append split: if_splits)
    qed
    have "length (q_items ?q') = q_alloc ?q'"
      using assms lt unfolding q' by (subst length_memmove) (auto simp: q_rel_def)
    then show ?thesis
      using items q' lt head tail len assms by (auto simp: q_rel_def q_pos_def)
  qed
qed

lemma mmc_queue_push_rel:
  assumes "q_rel q0 xs"
  shows "\<exists>q'. mmc_queue_push q0 p = Some q' \<and> q_rel q' (xs @ [p])"
proof -
  define q where "q = mmc_queue_grow q0"
  have rel: "q_rel q xs" and room: "length xs < q_alloc q"
    using mmc_queue_grow_rel [OF assms] by (auto simp: q_def)
  define h where "h = q_pos q (length xs)"
  have tail: "q_tail q < q_alloc q" using rel room by (auto simp: q_rel_def split: if_splits)
  have h: "h < length (q_items q)" using q_pos_less [OF tail room] rel by (simp add: h_def q_rel_def)
  have head: "(if q_len q \<noteq> 0 then (if q_alloc q \<le> q_head q + 1 then 0 else q_head q + 1)
      else q_head q) = h"
    using rel room tail by (cases xs) (auto simp: q_rel_def h_def q_pos_def split: if_splits)
  define q' where
    "q' = q\<lparr>q_head := h, q_items := (q_items q)[h := Slot p], q_len := q_len q + 1\<rparr>"
  have push: "mmc_queue_push q0 p = Some q'"
    using head h by (simp add: mmc_queue_push_def q_def [symmetric] q'_def Let_def)
  have pos: "q_pos q' i = q_pos q i" for i by (simp add: q'_def q_pos_def)
  have q'_sel: "q_items q' = (q_items q)[h := Slot p]" "q_head q' = h" "q_tail q' = q_tail q"
    "q_alloc q' = q_alloc q" "q_len q' = Suc (q_len q)"
    by (simp_all add: q'_def)
  have items: "q_items q' ! q_pos q' i = Slot ((xs @ [p]) ! i)" if "i < length (xs @ [p])" for i
  proof (cases "i = length xs")
    case True
    then show ?thesis using h by (simp add: pos q'_sel h_def [symmetric])
  next
    case False
    then have "i < length xs" using that by simp
    moreover have "q_pos q i \<noteq> h"
      using q_pos_inj [OF tail, of i "length xs"] room \<open>i < length xs\<close> by (auto simp: h_def)
    ultimately show ?thesis using rel by (simp add: pos q'_sel nth_append q_rel_def)
  qed
  have "q_rel q' (xs @ [p])"
    unfolding q_rel_def using items rel room tail
    by (auto simp: q_rel_def pos q'_sel h_def)
  with push show ?thesis by blast
qed

lemma mmc_queue_pop_empty: "q_rel q [] \<Longrightarrow> mmc_queue_pop q = Some (None, q)"
  by (simp add: q_rel_def mmc_queue_pop_def)

lemma mmc_queue_pop_rel:
  assumes "q_rel q (x # xs)"
  shows "\<exists>q'. mmc_queue_pop q = Some (x, q') \<and> q_rel q' xs"
proof -
  have tail: "q_tail q < q_alloc q" by (rule q_rel_tail_less [OF assms])
  have len: "q_len q = Suc (length xs)" "Suc (length xs) \<le> q_alloc q"
    using assms by (auto simp: q_rel_def)
  have rd: "q_read q (q_tail q) = Some x"
    using mmc_queue_item_rel [OF assms, of 0] tail by (simp add: mmc_queue_item_def)
  define t where "t = (if length xs \<noteq> 0 then (if q_alloc q \<le> q_tail q + 1 then 0 else q_tail q + 1)
      else q_tail q)"
  define q' where "q' = q\<lparr>q_len := length xs, q_tail := t\<rparr>"
  have pop: "mmc_queue_pop q = Some (x, q')"
    using rd len by (simp add: mmc_queue_pop_def q'_def t_def)
  have pos: "q_pos q' i = q_pos q (Suc i)" if "i < length xs" for i
    using that tail len by (auto simp: q'_def q_pos_def t_def)
  have "q_items q' ! q_pos q' i = Slot (xs ! i)" if "i < length xs" for i
    using assms that pos [OF that] by (auto simp: q_rel_def q'_def)
  moreover have "q_head q' = (if xs = [] then q_tail q' else q_pos q' (length xs - 1))"
    using assms tail pos [of "length xs - 1"] by (cases xs) (auto simp: q_rel_def q'_def t_def q_pos_def)
  ultimately have "q_rel q' xs"
    using assms tail len by (simp add: q_rel_def) (auto simp: q'_def t_def)
  with pop show ?thesis by blast
qed


subsection \<open>The first-in first-out contract\<close>

text \<open>
  The multi-key commands push one pointer per serialised value and, after the replies are
  read, run \<open>while ((value = mmc_queue_pop(&q)) != NULL)\<close>. \<open>push_all\<close> and \<open>drain\<close> are
  these two loops over any queue.
\<close>

fun push_all :: "('q \<Rightarrow> 'p \<Rightarrow> 'q option) \<Rightarrow> 'q \<Rightarrow> 'p list \<Rightarrow> 'q option" where
  "push_all push q [] = Some q"
| "push_all push q (p # ps) = do { q \<leftarrow> push q p; push_all push q ps }"

fun drain :: "('q \<Rightarrow> ('p \<times> 'q) option) \<Rightarrow> 'p \<Rightarrow> nat \<Rightarrow> 'q \<Rightarrow> ('p list \<times> 'q) option" where
  "drain pop nil 0 q = None"
| "drain pop nil (Suc k) q = do {
     (v, q) \<leftarrow> pop q;
     if v = nil then Some ([], q)
     else do { (vs, q) \<leftarrow> drain pop nil k q; Some (v # vs, q) }
   }"

locale fifo =
  fixes rel :: "'q \<Rightarrow> 'p list \<Rightarrow> bool"
    and fresh :: "'q"
    and push :: "'q \<Rightarrow> 'p \<Rightarrow> 'q option"
    and pop :: "'q \<Rightarrow> ('p \<times> 'q) option"
    and nil :: "'p"
  assumes rel_fresh: "rel fresh []"
    and push_rel: "rel q xs \<Longrightarrow> \<exists>q'. push q p = Some q' \<and> rel q' (xs @ [p])"
    and pop_nil: "rel q [] \<Longrightarrow> pop q = Some (nil, q)"
    and pop_rel: "rel q (x # xs) \<Longrightarrow> \<exists>q'. pop q = Some (x, q') \<and> rel q' xs"
begin

lemma push_all_rel: "rel q xs \<Longrightarrow> \<exists>q'. push_all push q ps = Some q' \<and> rel q' (xs @ ps)"
proof (induction ps arbitrary: q xs)
  case (Cons p ps)
  obtain q1 where "push q p = Some q1" "rel q1 (xs @ [p])" using push_rel [OF Cons.prems] by blast
  with Cons.IH [of q1 "xs @ [p]"] show ?case by simp
qed simp

lemma drain_rel:
  "rel q xs \<Longrightarrow> nil \<notin> set xs \<Longrightarrow> length xs < k \<Longrightarrow>
   \<exists>q'. drain pop nil k q = Some (xs, q') \<and> rel q' []"
proof (induction xs arbitrary: q k)
  case Nil
  then show ?case using pop_nil [of q] by (cases k) auto
next
  case (Cons x xs)
  then obtain k' where k: "k = Suc k'" "length xs < k'" by (cases k) auto
  obtain q1 where "pop q = Some (x, q1)" "rel q1 xs" using pop_rel [OF Cons.prems(1)] by blast
  with Cons.IH [of q1 k'] Cons.prems(2) k show ?case by auto
qed

lemma fill_drain:
  assumes "nil \<notin> set ps"
  shows "\<exists>q q'. push_all push fresh ps = Some q \<and> drain pop nil (length ps + 1) q = Some (ps, q')"
proof -
  obtain q where "push_all push fresh ps = Some q" "rel q ps"
    using push_all_rel [OF rel_fresh, of ps] by auto
  moreover from this drain_rel [of q ps "length ps + 1"] assms
  obtain q' where "drain pop nil (length ps + 1) q = Some (ps, q')" by auto
  ultimately show ?thesis by blast
qed

end

interpretation ring: fifo q_rel mmc_queue_release mmc_queue_push mmc_queue_pop None
  by unfold_locales (auto intro: q_rel_release mmc_queue_push_rel mmc_queue_pop_empty mmc_queue_pop_rel)

subsection \<open>Properties of the ring buffer\<close>

text \<open>C27. Queue order: pushing any list of non-NULL pointers into an empty ring never
  touches memory outside the block or uninitialised slots, whatever number of times the
  buffer grows, and the drain loop of the multi-key commands pops exactly these pointers
  in the order they were pushed.\<close>

theorem mmc_queue_fill_drain:
  assumes "None \<notin> set ps"
  shows "\<exists>q q'. push_all mmc_queue_push mmc_queue_release ps = Some q \<and>
           drain mmc_queue_pop None (length ps + 1) q = Some (ps, q')"
  using assms by (rule ring.fill_drain)

theorem mmc_queue_fill_drain_witness:
  "\<exists>q q'. push_all mmc_queue_push mmc_queue_release [Some (1::nat), Some 2, Some 3] = Some q \<and>
     drain mmc_queue_pop None (length [Some (1::nat), Some 2, Some 3] + 1) q =
       Some ([Some 1, Some 2, Some 3], q')"
  by (rule mmc_queue_fill_drain) simp

lemma contains_from_rel:
  "q_rel q xs \<Longrightarrow> i + k = length xs \<Longrightarrow>
   mmc_queue_contains_from q p i k = Some (p \<in> set (drop i xs))"
proof (induction k arbitrary: i)
  case (Suc k)
  then have i: "i < length xs" by simp
  then have "drop i xs = xs ! i # drop (Suc i) xs" by (simp add: Cons_nth_drop_Suc)
  then show ?case using Suc mmc_queue_item_rel [OF Suc.prems(1) i] by auto
qed simp

lemma remove_loop_rel:
  "q_rel q xs \<Longrightarrow> q_rel r ys \<Longrightarrow> length xs < k \<Longrightarrow>
   \<exists>r'. mmc_queue_remove_loop k p q r = Some r' \<and>
        q_rel r' (ys @ filter (\<lambda>x. x \<noteq> p) (takeWhile (\<lambda>x. x \<noteq> None) xs))"
proof (induction xs arbitrary: q r ys k)
  case Nil
  then show ?case using mmc_queue_pop_empty [of q] by (cases k) auto
next
  case (Cons x xs)
  then obtain k' where k: "k = Suc k'" "length xs < k'" by (cases k) auto
  obtain q1 where q1: "mmc_queue_pop q = Some (x, q1)" "q_rel q1 xs"
    using mmc_queue_pop_rel [OF Cons.prems(1)] by blast
  consider "x = None" | "x \<noteq> None" "x = p" | "x \<noteq> None" "x \<noteq> p" by blast
  then show ?case
  proof cases
    case 1
    then show ?thesis using q1 k Cons.prems(2) by simp
  next
    case 2
    then show ?thesis using Cons.IH [OF q1(2) Cons.prems(2) k(2)] q1 k by auto
  next
    case 3
    obtain r1 where "mmc_queue_push r x = Some r1" "q_rel r1 (ys @ [x])"
      using mmc_queue_push_rel [OF Cons.prems(2)] by blast
    then show ?thesis using 3 Cons.IH [OF q1(2) _ k(2), of r1 "ys @ [x]"] q1 k by auto
  qed
qed

text \<open>C38. Membership and removal: \<open>mmc_queue_contains\<close> decides membership, and
  \<open>mmc_queue_remove\<close> rebuilds the ring with the pointers before the first NULL that differ
  from the removed one, in their order.\<close>

theorem mmc_queue_contains_remove:
  assumes "q_rel q xs"
  shows "mmc_queue_contains (Some q) p = Some (p \<in> set xs) \<and>
    (\<exists>q'. mmc_queue_remove q p = Some q' \<and>
          q_rel q' (filter (\<lambda>x. x \<noteq> p) (takeWhile (\<lambda>x. x \<noteq> None) xs)))"
proof
  have len: "q_len q = length xs" using assms by (simp add: q_rel_def)
  show "mmc_queue_contains (Some q) p = Some (p \<in> set xs)"
    using contains_from_rel [OF assms, of 0 "length xs" p] len by (simp add: mmc_queue_contains_def)
  show "\<exists>q'. mmc_queue_remove q p = Some q' \<and>
      q_rel q' (filter (\<lambda>x. x \<noteq> p) (takeWhile (\<lambda>x. x \<noteq> None) xs))"
    using remove_loop_rel [OF assms q_rel_release, of "q_len q + 1" p] len
    by (simp add: mmc_queue_remove_def)
qed

lemma q_rel_two:
  "q_rel \<lparr>q_items = [Slot (Some (7::nat)), Slot (Some 5), Garbage], q_alloc = 3, q_head = 1,
     q_tail = 0, q_len = 2\<rparr> [Some 7, Some 5]"
  by (auto simp: q_rel_def q_pos_def less_Suc_eq)

theorem mmc_queue_contains_remove_witness:
  "\<exists>q::nat mmc_queue. mmc_queue_contains (Some q) (Some 5) = Some True \<and>
     (\<exists>q'. mmc_queue_remove q (Some 5) = Some q' \<and> q_rel q' [Some 7])"
  using mmc_queue_contains_remove [OF q_rel_two, of "Some 5"] by auto



end
