(* ===== verification/Multi_Get.thy ===== *)
theory Multi_Get
  imports Locking Ring_Queue
begin

text \<open>
  The get of several keys, \<open>mmc_exec_retrieval_cmd_multi\<close> (memcache.cpp 2688-2941): the keys
  are grouped by server into one command each, the commands are sent, the values are read,
  and the rounds repeat for keys of failed servers and for values with a bad checksum.
  Serialized values wait in queues and are unserialized at the end. \<open>php_mmc_get\<close>
  (6372-6398) chooses between the two commands.
\<close>

text \<open>
  The arrays and queues of the function. \<open>g_retry_hash\<close> holds the keys with a bad checksum;
  the four queues of a serialized value, its key, flags and server are always pushed and
  popped together and are one queue of quadruples here.
\<close>

record multi =
  g_rv :: "(string \<times> zval) list"
  g_status :: "(string \<times> zval) list option"
  g_flags :: "(string \<times> zval) list option"
  g_cas :: "(string \<times> zval) list option"
  g_retry_hash :: "string list"
  g_requests :: "nat list"
  g_serialized :: "(string \<times> string \<times> u32 \<times> nat) mmc_queue"
  g_queued_keys :: "string list"

definition set_status :: "string \<Rightarrow> bool \<Rightarrow> multi \<Rightarrow> multi" where
  "set_status key b v = v\<lparr>g_status := map_option (assoc_add key (ZBool b)) (g_status v)\<rparr>"

definition log_host_of :: "nat option \<Rightarrow> 'w st \<Rightarrow> 'w st option" where
  "log_host_of mmc s = (case mmc of
     None \<Rightarrow> Some (setHost ''proxy'' s)
   | Some p \<Rightarrow> do { m \<leftarrow> heap s p; Some (setHost (mmc_host m) s) })"

subsection \<open>First pass: one command per server\<close>

definition schedule_key ::
    "'w php_env \<Rightarrow> bool \<Rightarrow> bool \<Rightarrow> string \<Rightarrow> multi \<Rightarrow> 'w st \<Rightarrow> (multi \<times> 'w st) option" where
  "schedule_key env want_cas first_round key v s = do {
     (mmc, s) \<leftarrow> mmc_pool_find env key s;
     ok \<leftarrow> usable mmc s;
     if ok then do {
       p \<leftarrow> mmc;
       m \<leftarrow> heap s p;
       let start = (if mmc_outbuf m = [] then (if want_cas then ''gets'' else ''get'') else mmc_outbuf m);
       let v = (if mmc_outbuf m = [] then v\<lparr>g_requests := g_requests v @ [p]\<rparr> else v);
       let s = setHost (mmc_host m) s;
       s \<leftarrow> upd p (\<lambda>m. m\<lparr>mmc_outbuf := start @ '' '' @ key\<rparr>) s;
       let v = (if first_round then set_status key True v else v);
       Some (v, setCode MC_SUCCESS s)
     } else do {
       s \<leftarrow> log_host_of mmc (setCode CONNECT_FAILED s);
       Some (set_status key False v, s)
     }
   }"

text \<open>
  \<open>chosen\<close> says of a key of a later round whether it is tried again.
\<close>

fun multi_first_pass ::
    "'w php_env \<Rightarrow> bool \<Rightarrow> bool \<Rightarrow> (multi \<Rightarrow> string \<Rightarrow> bool) \<Rightarrow> zval list \<Rightarrow> multi \<Rightarrow> 'w st \<Rightarrow>
     (multi \<times> 'w st) option" where
  "multi_first_pass env want_cas first_round chosen [] v s = Some (v, s)"
| "multi_first_pass env want_cas first_round chosen (zkey # zkeys) v s = do {
     ((r, key), s) \<leftarrow> mmc_prepare_key env MMC_KEY_MAX_SIZE zkey s;
     (v, s) \<leftarrow> (if r = MMC_OK then do {
         s \<leftarrow> createLogger key s;
         let s = setLogName (p_log_name (pool s)) (setCmd ''getMulti'' (setLogger key s));
         if first_round \<or> chosen v key then schedule_key env want_cas first_round key v s
         else Some (v, s)
       } else Some (v, s));
     multi_first_pass env want_cas first_round chosen zkeys v s
   }"

subsection \<open>Second pass: sending\<close>

text \<open>
  The command lines are kept for the status array, where tokenizing cuts them; the result is 0
  or the last failure.
\<close>

fun multi_second_pass ::
    "'w php_env \<Rightarrow> nat list \<Rightarrow> int \<Rightarrow> multi \<Rightarrow> 'w st \<Rightarrow> ((string list \<times> int \<times> multi) \<times> 'w st) option" where
  "multi_second_pass env [] result_status v s = Some (([], result_status, v), s)"
| "multi_second_pass env (p # ps) result_status v s = do {
     m \<leftarrow> heap s p;
     let line = mmc_outbuf m;
     (result, s) \<leftarrow> mmc_sendcmd env p line s;
     (result_status, v, s) \<leftarrow> (if result < 0 then do {
         (_, s) \<leftarrow> mmc_server_failure env p s;
         (st, s) \<leftarrow> update_result_array (g_status v) line WRITE_TO_SERVER_FAILED s;
         Some (result, v\<lparr>g_status := st\<rparr>, s)
       } else Some (result_status, v, s));
     ((lines, result_status, v), s) \<leftarrow> multi_second_pass env ps result_status v s;
     Some (((if result < 0 \<and> g_status v \<noteq> None then tokenized line else line) # lines, result_status, v), s)
   }"

subsection \<open>Third pass: reading\<close>

definition add_long :: "string \<Rightarrow> int \<Rightarrow> (string \<times> zval) list option \<Rightarrow> (string \<times> zval) list option" where
  "add_long key n arr = map_option (assoc_add key (ZLong n)) arr"

text \<open>
  One value that was read (or whose checksum or decompression failed). A value that is
  replaced while it still waits in the queue would leave a dangling pointer there.
\<close>

definition multi_value ::
    "'w php_env \<Rightarrow> nat \<Rightarrow> int \<Rightarrow> read_out \<Rightarrow> multi \<Rightarrow> 'w st \<Rightarrow> (multi \<times> 'w st) option" where
  "multi_value env p result ro v s = do {
     key \<leftarrow> h_key (o_header ro);
     let flags = h_flags (o_header ro);
     cas \<leftarrow> h_cas (o_header ro);
     (v, s) \<leftarrow>
       (if result = - 2 then
          Some (set_status key False v, log_upd_key key (\<lambda>l. l\<lparr>lg_res_code := UNCOMPRESS_FAILED\<rparr>) s)
        else if result = CHKSUM_MISMATCH_DETECTED then do {
          _ \<leftarrow> efree (o_value ro);
          Some (set_status key False (v\<lparr>g_retry_hash := List.insert key (g_retry_hash v)\<rparr>),
                log_upd_key key (\<lambda>l. l\<lparr>lg_res_code := DI_CHECKSUM_GET_FAILED_GET\<rparr>) s)
        } else do {
          value \<leftarrow> buf_read (o_value ro);
          if serialized flags then
            (if key \<in> fst ` set (g_rv v) then Some (v, s)
             else do {
               q \<leftarrow> mmc_queue_push (g_serialized v) (Some (value, key, flags, p));
               Some (v\<lparr>g_rv := assoc_add key (ZString value) (g_rv v), g_serialized := q,
                       g_queued_keys := key # g_queued_keys v\<rparr>, s)
             })
          else if key \<in> set (g_queued_keys v) then None
          else Some (v\<lparr>g_rv := assoc_add key (ZString value) (g_rv v)\<rparr>, s)
        });
     let s = log_upd_key key (\<lambda>l. l\<lparr>lg_res_len := o_value_len ro, lg_flags := sint flags, lg_cas := cas\<rparr>) s;
     Some (v\<lparr>g_flags := add_long key (sint flags) (g_flags v),
             g_cas := add_long key (sint cas) (g_cas v)\<rparr>, s)
   }"

text \<open>
  The values of one server until the end of the data or a failure. The key of a response
  whose body cannot be read was allocated with \<open>emalloc\<close> and is released with \<open>free\<close>.
\<close>

partial_function (option) multi_read ::
    "'w php_env \<Rightarrow> bool \<Rightarrow> nat \<Rightarrow> multi \<Rightarrow> 'w st \<Rightarrow> ((int \<times> multi) \<times> 'w st) option" where
  "multi_read env want_cas p v s = do {
     ((result, ro), s) \<leftarrow> mmc_read_value env p True want_cas (get_vars (Some 0)) (setLogger ''TMP_KEY'' s);
     if result \<le> 0 \<and> result \<noteq> - 2 \<and> result \<noteq> CHKSUM_MISMATCH_DETECTED then
       (if h_key (o_header ro) \<noteq> None then None else Some ((result, v), s))
     else do {
       (v, s) \<leftarrow> multi_value env p result ro v s;
       multi_read env want_cas p v s
     }
   }"

declare multi_read.simps [code]

fun multi_third_pass ::
    "'w php_env \<Rightarrow> bool \<Rightarrow> (nat \<times> string) list \<Rightarrow> int \<Rightarrow> multi \<Rightarrow> 'w st \<Rightarrow>
     ((int \<times> multi) \<times> 'w st) option" where
  "multi_third_pass env want_cas [] result_status v s = Some ((result_status, v), s)"
| "multi_third_pass env want_cas ((p, line) # reqs) result_status v s = do {
     m \<leftarrow> heap s p;
     (result_status, v, s) \<leftarrow> (if mmc_status m = STATUS_FAILED then Some (result_status, v, s)
       else do {
         ((result, v), s) \<leftarrow> multi_read env want_cas p v s;
         if result < 0 \<and> result \<noteq> CHKSUM_MISMATCH_DETECTED then do {
           (_, s) \<leftarrow> mmc_server_failure env p s;
           (st, s) \<leftarrow> update_result_array (g_status v) line (getCode s) s;
           Some (result, v\<lparr>g_status := st\<rparr>, s)
         } else Some (result_status, v, s)
       });
     s \<leftarrow> upd p (\<lambda>m. m\<lparr>mmc_outbuf := []\<rparr>) s;
     multi_third_pass env want_cas reqs result_status v s
   }"

subsection \<open>The rounds\<close>

definition multi_round ::
    "'w php_env \<Rightarrow> bool \<Rightarrow> zval list \<Rightarrow> nat \<Rightarrow> bool \<Rightarrow> bool \<Rightarrow> multi \<Rightarrow> 'w st \<Rightarrow>
     ((int \<times> multi) \<times> 'w st) option" where
  "multi_round env want_cas zkeys i do_failover chksum_failed v s = do {
     (v, s) \<leftarrow> multi_first_pass env want_cas (i = 0)
       (\<lambda>v key. do_failover \<and> key \<notin> fst ` set (g_rv v) \<or> chksum_failed \<and> key \<in> set (g_retry_hash v))
       zkeys (v\<lparr>g_requests := []\<rparr>) s;
     ((lines, result_status, v), s) \<leftarrow> multi_second_pass env (g_requests v) 0 v s;
     s \<leftarrow> createLogger ''TMP_KEY'' s;
     multi_third_pass env want_cas (zip (g_requests v) lines) result_status (v\<lparr>g_retry_hash := []\<rparr>) s
   }"

partial_function (option) multi_rounds ::
    "'w php_env \<Rightarrow> bool \<Rightarrow> zval list \<Rightarrow> nat \<Rightarrow> int \<Rightarrow> bool \<Rightarrow> bool \<Rightarrow> multi \<Rightarrow> 'w st \<Rightarrow>
     ((int \<times> multi) \<times> 'w st) option" where
  "multi_rounds env want_cas zkeys i retry_count do_failover chksum_failed v s = do {
     ((result_status, v), s) \<leftarrow> multi_round env want_cas zkeys i do_failover chksum_failed v s;
     let retry_count = (if g_retry_hash v \<noteq> [] then retry_count + 1 else retry_count);
     let chksum_failed = (g_retry_hash v \<noteq> [] \<and> retry_count < g_integrity_error_retry_count (glob s));
     let do_failover = (result_status < 0 \<and> g_allow_failover (glob s)
                        \<and> int i \<le> g_max_failover_attempts (glob s));
     if do_failover \<or> chksum_failed
     then multi_rounds env want_cas zkeys (i + 1) retry_count do_failover chksum_failed v s
     else Some ((result_status, v), s)
   }"

declare multi_rounds.simps [code]

subsection \<open>Unserializing at the end\<close>

text \<open>
  The value's place in the result array is filled in. Without igbinary support the string is
  freed and stays in the array.
\<close>

function multi_post ::
    "'w php_env \<Rightarrow> multi \<Rightarrow> 'w st \<Rightarrow> (multi \<times> 'w st) option" where
  "multi_post env v s =
     (case mmc_queue_pop (g_serialized v) of
        None \<Rightarrow> None
      | Some (None, q) \<Rightarrow> Some (v\<lparr>g_serialized := mmc_queue_free q\<rparr>, s)
      | Some (Some (value, key, flags, p), q) \<Rightarrow>
          if q_len q < q_len (g_serialized v) then do {
            let s = setLogger key s;
            m \<leftarrow> heap s p;
            if flags AND MMC_SERIALIZED = 0 \<and> \<not> have_igbinary env then None
            else do {
              ((ok, z), s) \<leftarrow> mmc_postprocess_value env flags (ZString value) value s;
              let v = v\<lparr>g_serialized := q, g_rv := assoc_add key z (g_rv v)\<rparr>;
              let (v, s) = (if ok = 0 then (set_status key False v, setCode UNSERIALIZE_FAILED s) else (v, s));
              multi_post env v s
            }
          } else None)"
  by pat_completeness auto
termination
  by (relation "measure (\<lambda>(env, v, s). q_len (g_serialized v))") (auto simp: set_status_def split: if_splits)

declare multi_post.simps [simp del]

definition mmc_exec_retrieval_cmd_multi ::
    "'w php_env \<Rightarrow> zval list \<Rightarrow> bool \<Rightarrow> bool \<Rightarrow> bool \<Rightarrow> 'w st \<Rightarrow> ((int \<times> multi) \<times> 'w st) option" where
  "mmc_exec_retrieval_cmd_multi env zkeys want_status want_flags want_cas s = do {
     let v = \<lparr>g_rv = [], g_status = (if want_status then Some [] else None),
              g_flags = (if want_flags then Some [] else None),
              g_cas = (if want_cas then Some [] else None), g_retry_hash = [], g_requests = [],
              g_serialized = mmc_queue_release, g_queued_keys = []\<rparr>;
     ((result_status, v), s) \<leftarrow>
       multi_rounds env want_cas zkeys 0 0 False False v (mmc_init_multi (setMultiLogger s));
     (v, s) \<leftarrow> (if q_len (g_serialized v) \<noteq> 0 then multi_post env v s else Some (v, s));
     s \<leftarrow> mmc_free_multi env s;
     Some ((if want_status then 0 else result_status, v), s)
   }"

end
