(* ===== verification/Runs.thy ===== *)
theory Runs
  imports Multi_Get
begin

text \<open>
  Whole runs of commands on the concrete runtime of Example, for the witnesses: the steps of
  a server that answers \<open>VALUE k 0 1 7\<close>, the value \<open>x\<close> and \<open>END\<close>, and a getl made of them.
\<close>

definition ex_one :: "mmc_status \<Rightarrow> nat option \<Rightarrow> string list \<Rightarrow> wire st" where
  "ex_one x st script = (let s = ex_state (ex_heap x st) script
     in s\<lparr>pool := (pool s)\<lparr>p_hash_state := Standard_State \<lparr>s_num_servers = 1, s_buckets = [1], s_hash = HASH_FNV1A\<rparr>\<rparr>\<rparr>)"

lemma ex_one_simps:
  "heap (ex_one x st xs) = ex_heap x st" "glob (ex_one x st xs) = ex_glob"
  "pool (ex_one x st xs) = ex_pool\<lparr>p_hash_state := Standard_State \<lparr>s_num_servers = 1, s_buckets = [1], s_hash = HASH_FNV1A\<rparr>\<rparr>"
  "p_cas_array (pool (ex_one x st xs)) = Map.empty"
  by (simp_all add: ex_one_def ex_state_def Let_def ex_pool_def)

lemma ex_reply: "reply ex_env m n text = (take (length text) (take n (mmc_inbuf m)) = text)"
  by (rule mmc_str_left_iff [OF ex_env_ok(2)])

lemma ex_digits: "show_nat 0 = ''0''" "show_nat 1 = ''1''" "show_nat 7 = ''7''"
  by code_simp+

lemma ex_header:
  "header_fields False True False (''VALUE k 0 1 7'' @ CRLF) (find_spaces (''VALUE k 0 1 7'' @ CRLF) 15 4) h =
   h\<lparr>h_flags := 0, h_cas := Some 7, h_chksum := None, h_value_len := 1\<rparr>"
proof -
  have "atoi ('' 0 1 7'' @ CRLF) = 0" "atoi ('' 1 7'' @ CRLF) = 1" "strtoul ('' 7'' @ CRLF) = 7"
    using atoi_field(1) [of 0 "''1 7'' @ CRLF"] atoi_field(1) [of 1 "''7'' @ CRLF"] strtoul_field [of 7]
    by (simp_all add: ex_digits ex_digits(2) [simplified])
  moreover have "find_spaces (''VALUE k 0 1 7'' @ CRLF) 15 4 = [5, 7, 9, 11]" by code_simp
  ultimately show ?thesis by (simp add: header_fields_def Let_def eval_nat_numeral)
qed

lemma ex_parse:
  assumes "heap s 1 = Some m" "mmc_inbuf m = ''VALUE k 0 1 7'' @ CRLF" "mmc_di_algo_in_use m = 0"
  shows "mmc_parse_response ex_env 1 15 False True h s =
    Some ((1, h\<lparr>h_flags := 0, h_cas := Some 7, h_chksum := None, h_value_len := 1\<rparr>), s)"
proof -
  have "find_spaces (''VALUE k 0 1 7'' @ CRLF) 15 4 = [5, 7, 9, 11]" by code_simp
  then show ?thesis
    using assms ex_header [of h] by (simp add: mmc_parse_response_def Let_def DI_CHKSUM_UNSUPPORTED_def)
qed

lemma ex_read_body: "read_body ex_env 3 (Suc (Suc (Suc 0))) [] w = Some (Some (''x'' @ CRLF), w\<lparr>wr_in := xs\<rparr>)" if "wr_in w = (''x'' @ CRLF) # xs"
  using that by (subst read_body.simps) (simp add: ex_env_simps ex_body_def CRLF_def read_body.simps [of _ _ 0])

text \<open>A connection: a server with its own stream, and the lines to come.\<close>

definition ex_conn :: "wire st \<Rightarrow> mmc \<Rightarrow> string list \<Rightarrow> bool" where
  "ex_conn s m xs \<longleftrightarrow> heap s 1 = Some m \<and> mmc_stream m = Some 3 \<and> mmc_proxy m = None \<and> mmc_di_algo_in_use m = 0 \<and>
     wr_in (world s) = xs \<and> glob s = ex_glob"

lemma ex_readline:
  "ex_conn s m (x # xs) \<Longrightarrow> length x < 4096 \<Longrightarrow> \<exists>s'. mmc_readline ex_env 1 s = Some (int (length x), s') \<and> ex_conn s' (m\<lparr>mmc_inbuf := x\<rparr>) xs \<and> pool s' = pool s"
  by (simp add: ex_conn_def mmc_readline_def mmc_channel_def ex_env_simps ex_read_def upd_def eval_nat_numeral)

lemma ex_sendcmd: "ex_conn s m xs \<Longrightarrow> \<exists>s'. mmc_sendcmd ex_env 1 cmd s = Some (1, s') \<and> ex_conn s' m xs \<and> pool s' = pool s"
  by (simp add: ex_conn_def mmc_sendcmd_def mmc_channel_def ex_env_simps ex_write_def stream_timeout_def)

lemma ex_conn_log [simp]: "ex_conn (log_upd f s) m xs = ex_conn s m xs" "ex_conn (s\<lparr>heap := heap s\<rparr>) m xs = ex_conn s m xs"
  by (simp_all add: ex_conn_def)

lemma ex_read_value:
  assumes "ex_conn s m ((''VALUE k 0 1 7'' @ CRLF) # (''x'' @ CRLF) # xs)"
  shows "\<exists>s' m'. mmc_read_value ex_env 1 False True ro s =
     Some ((1, ro\<lparr>o_header := (o_header ro)\<lparr>h_flags := 0, h_cas := Some 7, h_chksum := None, h_value_len := 1\<rparr>,
       o_value := Block ''x'', o_value_len := 1\<rparr>), s') \<and> ex_conn s' m' xs \<and> pool s' = pool s"
proof -
  obtain s1 where s1: "mmc_readline ex_env 1 s = Some (15, s1)" "ex_conn s1 (m\<lparr>mmc_inbuf := ''VALUE k 0 1 7'' @ CRLF\<rparr>) ((''x'' @ CRLF) # xs)" "pool s1 = pool s"
    using ex_readline [OF assms] by (auto simp: CRLF_def)
  then have m1: "heap s1 1 = Some (m\<lparr>mmc_inbuf := ''VALUE k 0 1 7'' @ CRLF\<rparr>)" "mmc_di_algo_in_use m = 0" by (simp_all add: ex_conn_def)
  have ch: "mmc_channel 1 s = Some (Some 3, [])" using assms by (simp add: ex_conn_def mmc_channel_def)
  have w: "wr_in (world s1) = (''x'' @ CRLF) # xs" "glob s1 = ex_glob" using s1(2) by (simp_all add: ex_conn_def)
  have lzo: "g_lzo_enabled ex_glob" by (simp add: ex_glob_def)
  have "\<exists>s'. mmc_read_value ex_env 1 False True ro s =
     Some ((1, ro\<lparr>o_header := (o_header ro)\<lparr>h_flags := 0, h_cas := Some 7, h_chksum := None, h_value_len := 1\<rparr>,
       o_value := Block ''x'', o_value_len := 1\<rparr>), s') \<and> s' = (setResLen 1 s1)\<lparr>world := (world s1)\<lparr>wr_in := xs\<rparr>\<rparr>"
    by (simp add: mmc_read_value_def ch [simplified] s1 [simplified] m1 [simplified] ex_reply ex_parse [OF m1(1), simplified] Let_def
      ex_read_body [OF w(1)] w(2) lzo check_value_def verify_value_def MMC_CHKSUM_def DI_CHKSUM_UNSUPPORTED_def)
  then show ?thesis using s1(2,3)
    by (auto simp: ex_conn_def)
qed

lemma ex_read_end:
  assumes "ex_conn s m ((''END'' @ CRLF) # xs)"
  shows "\<exists>s' m'. read_end ex_env 1 s = Some (True, s') \<and> ex_conn s' m' xs \<and> pool s' = pool s"
proof -
  obtain s1 where s1: "mmc_readline ex_env 1 s = Some (5, s1)" "ex_conn s1 (m\<lparr>mmc_inbuf := ''END'' @ CRLF\<rparr>) xs" "pool s1 = pool s"
    using ex_readline [OF assms] by (auto simp: CRLF_def)
  then have "heap s1 1 = Some (m\<lparr>mmc_inbuf := ''END'' @ CRLF\<rparr>)" by (simp add: ex_conn_def)
  with s1 show ?thesis by (auto simp: read_end_def ex_reply)
qed

lemma ex_fetch:
  assumes "ex_conn s m ((''VALUE k 0 1 7'' @ CRLF) # (''x'' @ CRLF) # (''END'' @ CRLF) # xs)" "o_value ro = Null" "need_end 1" "p = 1"
  shows "\<exists>s' m'. fetch ex_env limit need_end nf p cmd True (- 1) retry ro s = Some ((1, retry,
     ro\<lparr>o_header := (o_header ro)\<lparr>h_flags := 0, h_cas := Some 7, h_chksum := None, h_value_len := 1\<rparr>,
       o_value := Block ''x'', o_value_len := 1\<rparr>), s') \<and> ex_conn s' m' xs \<and> pool s' = pool s"
proof -
  obtain s1 where s1: "mmc_sendcmd ex_env 1 cmd s = Some (1, s1)"
    "ex_conn s1 m ((''VALUE k 0 1 7'' @ CRLF) # (''x'' @ CRLF) # (''END'' @ CRLF) # xs)" "pool s1 = pool s"
    using ex_sendcmd [OF assms(1)] by blast
  let ?ro = "ro\<lparr>o_header := (o_header ro)\<lparr>h_flags := 0, h_cas := Some 7, h_chksum := None, h_value_len := 1\<rparr>,
       o_value := Block ''x'', o_value_len := 1\<rparr>"
  obtain s2 m2 where s2: "mmc_read_value ex_env 1 False True ro s1 = Some ((1, ?ro), s2)"
    "ex_conn s2 m2 ((''END'' @ CRLF) # xs)" "pool s2 = pool s"
    using ex_read_value [OF s1(2)] s1(3) by metis
  let ?s2 = "if nf then setFlags 0 s2 else s2"
  have "ex_conn ?s2 m2 ((''END'' @ CRLF) # xs)" using s2(2) by (simp add: setFlags_def)
  then obtain s3 m3 where s3: "read_end ex_env 1 ?s2 = Some (True, s3)" "ex_conn s3 m3 xs" "pool s3 = pool ?s2"
    using ex_read_end by blast
  have same: "ro\<lparr>o_value := Null\<rparr> = ro" using assms(2) by simp
  show ?thesis unfolding assms(4) using s1 s2 s3 assms(2,3)
    by (subst fetch.simps) (auto simp: same CHKSUM_MISMATCH_DETECTED_def Let_def)
qed

text \<open>A whole getl that succeeds.\<close>

lemma ex_find:
  "mmc_pool_find ex_env key ((ex_one STATUS_CONNECTED (Some h) xs)\<lparr>logger := l\<rparr>) =
   Some (Some 1, (ex_one STATUS_CONNECTED (Some h) xs)\<lparr>logger := l\<rparr>)"
  by (simp add: mmc_pool_find_def strategy_find_server_def ex_one_def ex_pool_def mmc_standard_find_server_def
     ex_state_def ex_heap_def ex_server_def mmc_open_def attach_proxy_def negotiate_options_def algo_in_use_def DI_CHKSUM_UNSUPPORTED_def
     fun_upd_idem_iff Let_def) (simp add: fun_upd_twist)

lemma ex_getl:
  "\<exists>s' m'. mmc_exec_getl_cmd ex_env ''k'' 15 None ZNull (ex_one STATUS_CONNECTED (Some 3)
      ((''VALUE k 0 1 7'' @ CRLF) # (''x'' @ CRLF) # (''END'' @ CRLF) # xs)) = Some ((1, ZString ''x'', 0, 7, None), s') \<and> ex_conn s' m' xs"
proof -
  let ?s = "ex_one STATUS_CONNECTED (Some 3) ((''VALUE k 0 1 7'' @ CRLF) # (''x'' @ CRLF) # (''END'' @ CRLF) # xs)"
  let ?ro = "get_vars (Some 0)"
  obtain l where l: "setKey ''k'' ?s = ?s\<lparr>logger := l\<rparr>" by (simp add: log_defs ex_one_def ex_state_def Let_def)
  have c: "ex_conn (setHost h (?s\<lparr>logger := l\<rparr>)) (ex_server STATUS_CONNECTED (Some 3))
      ((''VALUE k 0 1 7'' @ CRLF) # (''x'' @ CRLF) # (''END'' @ CRLF) # xs)" for h
    by (simp add: setHost_def ex_conn_def ex_one_def Let_def ex_simps) (simp add: ex_state_def ex_server_def)
  obtain s' m' where f: "fetch ex_env 1 (\<lambda>r. 0 \<le> r \<or> r = CHKSUM_MISMATCH_DETECTED) False 1 (getl_command ''k'' 15 None) True (- 1) 0 ?ro
      (setHost ''db1'' (?s\<lparr>logger := l\<rparr>)) = Some ((1, 0, ?ro\<lparr>o_header := (o_header ?ro)\<lparr>h_flags := 0, h_cas := Some 7, h_chksum := None, h_value_len := 1\<rparr>,
       o_value := Block ''x'', o_value_len := 1\<rparr>), s')" "ex_conn s' m' xs"
    using ex_fetch [OF c [of "''db1''"] _ _ refl, where ro = ?ro and need_end = "\<lambda>r. 0 \<le> r \<or> r = CHKSUM_MISMATCH_DETECTED"
      and limit = 1 and nf = False and cmd = "getl_command ''k'' 15 None" and retry = 0] by (auto simp: get_vars_def)
  have ro: "?ro\<lparr>o_value := Null\<rparr> = ?ro" "mmc_host (ex_server x st) = ''db1''" for x st
    by (simp_all add: get_vars_def ex_server_def)
  have loop: "getl_loop ex_env ''k'' (getl_command ''k'' 15 None) 0 ?ro ZNull None (?s\<lparr>logger := l\<rparr>) = Some ((1, Some 1,
      ?ro\<lparr>o_header := (o_header ?ro)\<lparr>h_flags := 0, h_cas := Some 7, h_chksum := None, h_value_len := 1\<rparr>,
       o_value := Block ''x'', o_value_len := 1\<rparr>, ZString ''x'', None), s')"
    using f
    by (subst getl_loop.simps)
      (simp add: ex_find usable_def getl_result_def ex_one_simps ex_simps ex_glob_def ro)
  have "heap s' 1 = Some m'" using f(2) by (simp add: ex_conn_def)
  then show ?thesis using f(2)
    by (simp add: mmc_exec_getl_cmd_def l [simplified] loop [simplified] log_outcome_def Let_def) (auto simp: ex_conn_def setFlags_def setCas_def)
qed
end
