(* ===== verification/Connections.thy ===== *)
theory Connections
  imports Pool
begin

text \<open>
  What the operations of Server and Pool do to the connections: which servers they change,
  that they are defined when the connection they use is open, and the invariant that a
  connected server has a stream, with its consequence for \<open>mmc_pool_find\<close>.
\<close>

subsection \<open>Operations that leave the connections alone\<close>

text \<open>
  Everything of a server but its last error and its input buffer; \<open>quiet\<close> relates states
  with the same servers up to those, the same pool and the same globals.
\<close>

definition core :: "mmc \<Rightarrow> mmc" where
  "core m = m\<lparr>mmc_error := None, mmc_errnum := 0, mmc_inbuf := []\<rparr>"

definition quiet :: "'w st \<Rightarrow> 'w st \<Rightarrow> bool" where
  "quiet s s' \<longleftrightarrow> pool s' = pool s \<and> glob s' = glob s \<and>
     (\<forall>q. map_option core (heap s' q) = map_option core (heap s q))"

lemma quiet_refl [simp]: "quiet s s"
  by (simp add: quiet_def)

lemma quiet_trans [trans]: "quiet s s' \<Longrightarrow> quiet s' s'' \<Longrightarrow> quiet s s''"
  by (simp add: quiet_def)

lemma quiet_simps [simp]:
  "quiet s (s'\<lparr>world := w\<rparr>) = quiet s s'" "quiet (s\<lparr>world := w\<rparr>) s' = quiet s s'"
  "quiet s (log_upd f s') = quiet s s'" "quiet s (php_error l x s') = quiet s s'"
  "quiet (log_upd f s) s' = quiet s s'" "quiet (php_error l x s) s' = quiet s s'"
  "quiet s (s'\<lparr>world := w, heap := h\<rparr>) = quiet s (s'\<lparr>heap := h\<rparr>)"
  by (simp_all add: quiet_def)

lemma quiet_upd:
  "heap s p = Some m \<Longrightarrow> (\<And>m. core (f m) = core m) \<Longrightarrow> quiet s (s\<lparr>heap := (heap s)(p \<mapsto> f m)\<rparr>)"
  by (auto simp: quiet_def)

lemma quiet_heap:
  assumes "quiet s s'" "heap s p = Some m"
  obtains m' where "heap s' p = Some m'" "core m' = core m"
proof -
  have "map_option core (heap s' p) = Some (core m)" using assms by (auto simp: quiet_def)
  then show ?thesis using that by auto
qed

lemma core_fields:
  assumes "core m' = core m"
  shows "mmc_stream m' = mmc_stream m" "mmc_status m' = mmc_status m" "mmc_proxy m' = mmc_proxy m"
    "mmc_proxy_str m' = mmc_proxy_str m" "mmc_persistent m' = mmc_persistent m"
    "mmc_in_free m' = mmc_in_free m" "mmc_host m' = mmc_host m" "mmc_port m' = mmc_port m"
    "mmc_data_integrity_algo m' = mmc_data_integrity_algo m" "mmc_di_algo_in_use m' = mmc_di_algo_in_use m"
    "mmc_failed m' = mmc_failed m" "mmc_retry_interval m' = mmc_retry_interval m"
    "mmc_got_options m' = mmc_got_options m" "mmc_outbuf m' = mmc_outbuf m"
  using assms by (cases m; cases m'; simp add: core_def)+

lemma quiet_channel:
  assumes "quiet s s'"
  shows "mmc_channel p s' = mmc_channel p s"
proof (cases "heap s p")
  case None
  then have "heap s' p = None" using assms by (metis map_option_is_None quiet_def)
  then show ?thesis using None by (simp add: mmc_channel_def)
next
  case (Some m)
  obtain m' where m': "heap s' p = Some m'" "core m' = core m" by (rule quiet_heap [OF assms Some])
  show ?thesis
  proof (cases "mmc_proxy m")
    case None
    then show ?thesis using Some m' by (simp add: mmc_channel_def core_fields [OF m'(2)])
  next
    case (Some q)
    show ?thesis
    proof (cases "heap s q")
      case None
      then have "heap s' q = None" using assms by (metis map_option_is_None quiet_def)
      then show ?thesis using None m' \<open>heap s p = Some m\<close> Some
        by (simp add: mmc_channel_def core_fields [OF m'(2)])
    next
      case (Some mq)
      obtain mq' where "heap s' q = Some mq'" "core mq' = core mq" by (rule quiet_heap [OF assms Some])
      then show ?thesis using Some m' \<open>heap s p = Some m\<close> \<open>mmc_proxy m = Some q\<close>
        by (simp add: mmc_channel_def core_fields [OF m'(2)] core_fields [of mq' mq])
    qed
  qed
qed

lemma seterror_quiet: "heap s p \<noteq> None \<Longrightarrow> wp (mmc_server_seterror p e n s) (quiet s)"
  by (auto simp: mmc_server_seterror_def wp_simps split: option.split intro!: quiet_upd [where f = "\<lambda>m. m\<lparr>mmc_error := _, mmc_errnum := _\<rparr>"])
    (simp add: core_def)

lemma received_error_set_quiet:
  assumes "heap s p \<noteq> None"
  shows "wp (received_error_set p n s) (quiet s)"
proof -
  from assms obtain m where m: "heap s p = Some m" by auto
  let ?f = "\<lambda>m. m\<lparr>mmc_inbuf := take (if n < MMC_BUF_SIZE - 1 then n else MMC_BUF_SIZE - 1) (mmc_inbuf m)\<rparr>"
  have "quiet s (s\<lparr>heap := (heap s)(p \<mapsto> ?f m)\<rparr>)" by (rule quiet_upd [OF m]) (simp add: core_def)
  then show ?thesis
    unfolding received_error_set_def using m
    by (auto simp: wp_simps intro!: wp_conseq [OF seterror_quiet] intro: quiet_trans)
qed

lemma received_error_quiet:
  assumes "heap s p \<noteq> None"
  shows "wp (mmc_server_received_error env p n s) (quiet s)"
proof -
  have step: "wp (if b then received_error_set p n s' else Some s') (quiet s)" if "quiet s s'" for b s'
  proof -
    have "heap s' p \<noteq> None" using that assms by (metis option.map_disc_iff quiet_def)
    then show ?thesis using that
      by (auto simp: wp_simps intro!: wp_conseq [OF received_error_set_quiet] intro: quiet_trans)
  qed
  have here: "\<exists>m. heap s' p = Some m" if "quiet s s'" for s'
    using that assms by (metis option.map_disc_iff quiet_def option.exhaust)
  have err: "wp (mmc_server_seterror p e k s') (quiet s)" if "quiet s s'" for s' e k
    using here [OF that] that by (auto intro!: wp_conseq [OF seterror_quiet] intro: quiet_trans)
  have read: "wp (heap s' p) (\<lambda>_. True)" if "quiet s s'" for s'
    using here [OF that] by (auto simp: wp_def)
  show ?thesis
    unfolding mmc_server_received_error_def
    apply (rule wp_bindI [OF read], simp)
    apply (rule wp_bindI [OF step], simp)
    apply (rule wp_bindI [OF read], assumption)
    apply (rule wp_bindI [OF step], assumption)
    apply (rule wp_bindI [OF read], assumption)
    using step [where b = True] err by (simp add: wp_simps)
qed

lemma stream_timeout_quiet [simp]: "quiet s (stream_timeout env h m s') = quiet s s'"
  by (simp add: stream_timeout_def)

lemma stream_timeout_quiet' [simp]: "quiet (stream_timeout env h m s) s' = quiet s s'"
  by (simp add: stream_timeout_def)

lemma stream_timeout_heap [simp]: "heap (stream_timeout env h m s) = heap s"
  by (simp add: stream_timeout_def)

text \<open>With an open stream a command is sent, or the failure is recorded.\<close>

lemma mmc_sendcmd_quiet:
  assumes "mmc_channel p s = Some (Some h, prefix)"
  shows "wp (mmc_sendcmd env p cmd s) (\<lambda>(r, s'). quiet s s' \<and> r \<in> {1, - 1})"
proof -
  from assms obtain m where m: "heap s p = Some m" by (auto simp: mmc_channel_def bind_eq_Some_conv)
  show ?thesis
    using m assms
    by (auto simp: mmc_sendcmd_def wp_simps Let_def split: prod.split
        intro!: wp_conseq [OF seterror_quiet])
qed

lemma mmc_readline_loop_world:
  "mmc_readline_loop env h k n s = (r, c, s') \<Longrightarrow> \<exists>w. s' = s\<lparr>world := w\<rparr>"
proof (induction env h k n s rule: mmc_readline_loop.induct)
  case (1 env h n s)
  then show ?case by (intro exI [of _ "world s"]) simp
qed (auto simp: Let_def split: prod.splits option.splits if_splits)

lemma mmc_readline_quiet:
  assumes "mmc_channel p s = Some c"
  shows "wp (mmc_readline env p s) (\<lambda>(r, s'). quiet s s')"
proof -
  from assms obtain m where m: "heap s p = Some m" by (auto simp: mmc_channel_def bind_eq_Some_conv)
  have inbuf: "quiet s (s\<lparr>heap := (heap s)(p \<mapsto> m\<lparr>mmc_inbuf := line\<rparr>)\<rparr>)" for line
    by (rule quiet_upd [OF m, where f = "\<lambda>m. m\<lparr>mmc_inbuf := line\<rparr>"]) (simp add: core_def)
  show ?thesis
    using m assms
    by (auto simp: mmc_readline_def wp_simps inbuf dest!: mmc_readline_loop_world
        split: prod.split option.split intro!: wp_conseq [OF seterror_quiet])
qed


subsection \<open>Operations that change one connection\<close>

text \<open>\<open>touch P s s'\<close>: only the servers of \<open>P\<close> change, and no server's proxy does.\<close>

definition touch :: "nat set \<Rightarrow> 'w st \<Rightarrow> 'w st \<Rightarrow> bool" where
  "touch P s s' \<longleftrightarrow> pool s' = pool s \<and> glob s' = glob s \<and>
     (\<forall>q. map_option mmc_proxy (heap s' q) = map_option mmc_proxy (heap s q) \<and>
          (q \<notin> P \<longrightarrow> map_option core (heap s' q) = map_option core (heap s q)))"

lemma touch_refl [simp]: "touch P s s"
  by (simp add: touch_def)

lemma touch_trans [trans]: "touch P s s' \<Longrightarrow> touch P s' s'' \<Longrightarrow> touch P s s''"
  by (simp add: touch_def)

lemma touch_mono: "touch P s s' \<Longrightarrow> P \<subseteq> Q \<Longrightarrow> touch Q s s'"
  by (auto simp: touch_def)

lemma quiet_touch: "quiet s s' \<Longrightarrow> touch P s s'"
proof -
  assume q: "quiet s s'"
  have "map_option mmc_proxy (heap s' r) = map_option mmc_proxy (heap s r)" for r
  proof (cases "heap s r")
    case None
    then show ?thesis using q by (metis map_option_is_None quiet_def)
  next
    case (Some m)
    obtain m' where "heap s' r = Some m'" "core m' = core m" by (rule quiet_heap [OF q Some])
    then show ?thesis using Some by (simp add: core_fields [of m' m])
  qed
  then show ?thesis using q by (simp add: quiet_def touch_def)
qed

lemma touch_simps [simp]:
  "touch P s (s'\<lparr>world := w\<rparr>) = touch P s s'" "touch P (s\<lparr>world := w\<rparr>) s' = touch P s s'"
  "touch P s (log_upd f s') = touch P s s'" "touch P s (php_error l x s') = touch P s s'"
  "touch P (log_upd f s) s' = touch P s s'" "touch P (php_error l x s) s' = touch P s s'"
  "touch P s (s'\<lparr>world := w, heap := h\<rparr>) = touch P s (s'\<lparr>heap := h\<rparr>)"
  by (simp_all add: touch_def)

lemma touch_upd:
  "heap s p = Some m \<Longrightarrow> mmc_proxy m' = mmc_proxy m \<Longrightarrow> touch {p} s (s\<lparr>heap := (heap s)(p \<mapsto> m')\<rparr>)"
  by (auto simp: touch_def)

lemma touch_here: "touch P s s' \<Longrightarrow> heap s p = Some m \<Longrightarrow> \<exists>m'. heap s' p = Some m' \<and> mmc_proxy m' = mmc_proxy m"
proof -
  assume "touch P s s'" "heap s p = Some m"
  then have "map_option mmc_proxy (heap s' p) = Some (mmc_proxy m)" by (auto simp: touch_def)
  then show ?thesis by auto
qed

text \<open>The state of a connection after an operation on it.\<close>

definition conn_at :: "nat \<Rightarrow> (nat option \<Rightarrow> mmc_status \<Rightarrow> bool) \<Rightarrow> 'w st \<Rightarrow> bool" where
  "conn_at p Q s \<longleftrightarrow> (\<exists>m. heap s p = Some m \<and> Q (mmc_stream m) (mmc_status m))"

lemma conn_at_here: "heap s p = Some m \<Longrightarrow> conn_at p Q s = Q (mmc_stream m) (mmc_status m)"
  by (simp add: conn_at_def)

lemma conn_at_quiet: "quiet s s' \<Longrightarrow> conn_at p Q s \<Longrightarrow> conn_at p Q s'"
  unfolding conn_at_def by (metis core_fields(1,2) quiet_heap)

lemma conn_at_simps [simp]:
  "conn_at p Q (s\<lparr>world := w\<rparr>) = conn_at p Q s" "conn_at p Q (log_upd f s) = conn_at p Q s"
  "conn_at p Q (php_error l x s) = conn_at p Q s"
  "conn_at p Q (s\<lparr>heap := (heap s)(p \<mapsto> m)\<rparr>) = Q (mmc_stream m) (mmc_status m)"
  by (auto simp: conn_at_def)

lemma disconnect_touch:
  assumes "heap s p = Some m"
  shows "wp (mmc_server_disconnect env p s)
    (\<lambda>s'. touch {p} s s' \<and> conn_at p (\<lambda>st x. st = None \<and> x = STATUS_DISCONNECTED) s')"
  using assms
  by (auto simp: mmc_server_disconnect_def wp_simps conn_at_def split: option.split intro!: touch_upd)

lemma touch_report_failure [simp]: "touch P s (report_failure env m s') = touch P s s'"
  by (simp add: report_failure_def split: option.split)

lemma conn_at_report_failure [simp]: "conn_at p Q (report_failure env m s) = conn_at p Q s"
  by (simp add: report_failure_def split: option.split)

lemma deactivate_touch:
  assumes "heap s p = Some m"
  shows "wp (mmc_server_deactivate env p s)
    (\<lambda>s'. touch {p} s s' \<and> conn_at p (\<lambda>st x. st = None \<and> x = STATUS_FAILED) s')"
  unfolding mmc_server_deactivate_def
proof (rule wp_bindI [OF disconnect_touch [OF assms]], elim conjE)
  fix s1
  assume s1: "touch {p} s s1" "conn_at p (\<lambda>st x. st = None \<and> x = STATUS_DISCONNECTED) s1"
  then obtain m1 where m1: "heap s1 p = Some m1" "mmc_stream m1 = None" by (auto simp: conn_at_def)
  have t: "touch {p} s (s1\<lparr>heap := (heap s1)(p \<mapsto> m')\<rparr>)" if "mmc_proxy m' = mmc_proxy m1" for m'
    using touch_trans [OF s1(1) touch_upd [OF m1(1) that]] .
  show "wp (do {
     s \<leftarrow> upd p (mmc_status_update (\<lambda>_. STATUS_FAILED)) s1;
     let (now, w) = time_now env (world s);
     s \<leftarrow> upd p (mmc_failed_update (\<lambda>_. now)) (s\<lparr>world := w\<rparr>);
     m \<leftarrow> heap s p;
     Some (report_failure env m s) })
    (\<lambda>s'. touch {p} s s' \<and> conn_at p (\<lambda>st x. st = None \<and> x = STATUS_FAILED) s')"
    using m1 by (auto simp: wp_simps t conn_at_def [of p _ "_\<lparr>world := _, heap := _\<rparr>"] split: prod.split)
qed

text \<open>Without a proxy: 1 and a closed connection, or 0 and a connection to be opened again.\<close>

lemma failure_touch:
  assumes "heap s p = Some m" "mmc_proxy m = None"
  shows "wp (mmc_server_failure env p s)
    (\<lambda>(r, s'). touch {p} s s' \<and> conn_at p (\<lambda>st x. r = 1 \<and> st = None \<and> x = STATUS_FAILED
        \<or> r = 0 \<and> st = mmc_stream m \<and> x = STATUS_DISCONNECTED) s')"
  using assms
  by (auto simp: mmc_server_failure_def wp_simps conn_at_def split: mmc_status.split
      intro!: touch_upd wp_conseq [OF deactivate_touch])

text \<open>Opening: connected with a stream, or failed without one.\<close>

definition opened :: "int \<Rightarrow> nat option \<Rightarrow> mmc_status \<Rightarrow> bool" where
  "opened ok st x \<longleftrightarrow> (if ok = 0 then x = STATUS_FAILED
     else st \<noteq> None \<and> (x = STATUS_CONNECTED \<or> x = STATUS_UNKNOWN))"

lemma opened_simps [simp]:
  "opened 0 st x = (x = STATUS_FAILED)"
  "opened 1 st x = (st \<noteq> None \<and> (x = STATUS_CONNECTED \<or> x = STATUS_UNKNOWN))"
  by (simp_all add: opened_def)

lemma open_attempts_quiet:
  "open_attempts env hn hk tv n s = (r, s') \<Longrightarrow> quiet s s'"
proof (induction env hn hk tv n s arbitrary: r s' rule: open_attempts.induct)
  case (1 env hn hk tv n s)
  let ?s = "if n < g_connection_retry_count (glob s)
            then php_error E_WARNING ''Server %s (tcp %d) failed with: Connection Error. Retry attempt #%d'' s
            else s"
  obtain st e k w where x: "xport_create env hn hk tv (world ?s) = ((st, e, k), w)"
    by (metis prod_cases4 surj_pair)
  show ?case
  proof (cases "st = None \<and> 0 < n")
    case True
    then have "open_attempts env hn hk tv (n - 1) (?s\<lparr>world := w\<rparr>) = (r, s')"
      using "1.prems" x by (subst (asm) open_attempts.simps) (simp add: Let_def)
    then have "quiet (?s\<lparr>world := w\<rparr>) s'" using "1.IH" [OF refl] x True by simp
    then show ?thesis by (simp split: if_splits)
  next
    case False
    then show ?thesis using "1.prems" x by (subst (asm) open_attempts.simps) (auto simp: Let_def split: if_splits)
  qed
qed

lemma open_result_touch:
  assumes "heap s p = Some m"
  shows "wp (open_result env p tv r s) (\<lambda>((ok, e), s'). touch {p} s s' \<and> conn_at p (opened ok) s')"
proof (cases r)
  case (fields st errstr err)
  have t: "touch {p} s (s\<lparr>heap := (heap s)(p \<mapsto> m')\<rparr>)" if "mmc_proxy m' = mmc_proxy m" for m'
    using touch_upd [OF assms that] .
  show ?thesis
  proof (cases st)
    case None
    let ?s = "s\<lparr>heap := (heap s)(p \<mapsto> m\<lparr>mmc_stream := None\<rparr>)\<rparr>"
    have "wp (mmc_server_seterror p e err ?s) (\<lambda>s'. wp (mmc_server_deactivate env p s')
            (\<lambda>s''. touch {p} s s'' \<and> conn_at p (opened 0) s''))" for e
    proof (rule wp_conseq [OF seterror_quiet])
      fix s1
      assume q: "quiet ?s s1"
      then obtain m1 where "heap s1 p = Some m1" by (rule quiet_heap [where p = p]) auto
      moreover have "touch {p} s s1" using touch_trans [OF t quiet_touch [OF q]] by simp
      ultimately show "wp (mmc_server_deactivate env p s1) (\<lambda>s''. touch {p} s s'' \<and> conn_at p (opened 0) s'')"
        by (auto simp: conn_at_def opened_def intro!: wp_conseq [OF deactivate_touch] intro: touch_trans)
    qed simp
    then show ?thesis using assms None fields by (simp add: open_result_def wp_simps)
  next
    case (Some h)
    then show ?thesis using assms fields
      by (simp add: open_result_def wp_simps Let_def t opened_def conn_at_def)
  qed
qed

lemma open_conn_touch:
  assumes "heap s p = Some m"
  shows "wp (mmc_open_conn env p s) (\<lambda>((ok, e), s'). touch {p} s s' \<and> conn_at p (opened ok) s')"
proof -
  have first: "wp (if mmc_stream m \<noteq> None then mmc_server_disconnect env p s else Some s) (touch {p} s)"
    using assms by (auto simp: wp_simps intro!: wp_conseq [OF disconnect_touch])
  have step: "wp (open_result env p tv r s2) (\<lambda>((ok, e), s'). touch {p} s s' \<and> conn_at p (opened ok) s')"
    if "touch {p} s s1" "open_attempts env hn hk tv' n s1 = (r, s2)" for s1 hn hk tv tv' n r s2
  proof -
    have t: "touch {p} s s2" using that touch_trans open_attempts_quiet quiet_touch by blast
    then obtain m2 where "heap s2 p = Some m2" using touch_here [OF t assms] by blast
    then show ?thesis using t by (auto intro!: wp_conseq [OF open_result_touch] intro: touch_trans)
  qed
  show ?thesis
    unfolding mmc_open_conn_def assms bind.simps Let_def
    by (rule wp_bindI [OF first], split prod.split) (auto intro: step)
qed

text \<open>\<open>mmc_open\<close> without forcing never talks to an unknown connection.\<close>

lemma open_touch:
  assumes "heap s p = Some m" "mmc_status m \<in> {STATUS_CONNECTED, STATUS_UNKNOWN} \<longrightarrow> mmc_stream m \<noteq> None"
  shows "wp (mmc_open env p False s) (\<lambda>((ok, e), s'). touch {p} s s' \<and> conn_at p (opened ok) s')"
  using assms
  by (auto simp: mmc_open_def wp_simps conn_at_here Let_def split: mmc_status.split prod.split
      intro!: wp_conseq [OF open_conn_touch])

subsection \<open>The invariant of connections\<close>

text \<open>A connection that is connected, or may be, has a stream.\<close>

definition conn_good :: "nat option \<Rightarrow> mmc_status \<Rightarrow> bool" where
  "conn_good st x \<longleftrightarrow> (x = STATUS_CONNECTED \<or> x = STATUS_UNKNOWN \<longrightarrow> st \<noteq> None)"

definition conn_ok :: "'w st \<Rightarrow> bool" where
  "conn_ok s \<longleftrightarrow> (\<forall>p. heap s p \<noteq> None \<longrightarrow> conn_at p conn_good s)"

lemma conn_ok_simps [simp]:
  "conn_ok (s\<lparr>world := w\<rparr>) = conn_ok s" "conn_ok (log_upd f s) = conn_ok s"
  "conn_ok (php_error l x s) = conn_ok s" "conn_ok (s\<lparr>pool := pl\<rparr>) = conn_ok s"
  by (simp_all add: conn_ok_def conn_at_def)

lemma conn_at_mono: "conn_at p P s \<Longrightarrow> (\<And>st x. P st x \<Longrightarrow> Q st x) \<Longrightarrow> conn_at p Q s"
  by (auto simp: conn_at_def)

lemma conn_ok_touch:
  assumes "touch {p} s s'" "conn_ok s" "conn_at p conn_good s'"
  shows "conn_ok s'"
proof -
  have "conn_at q conn_good s'" if ne: "heap s' q \<noteq> None" for q
  proof (cases "q = p")
    case False
    then have c: "map_option core (heap s' q) = map_option core (heap s q)" using assms(1) by (simp add: touch_def)
    then obtain m m' where "heap s q = Some m" "heap s' q = Some m'" "core m' = core m"
      using ne by (cases "heap s q"; cases "heap s' q") auto
    then show ?thesis using assms(2) core_fields(1,2) [of m' m]
      by (auto simp: conn_ok_def conn_at_def)
  qed (use assms(3) in simp)
  then show ?thesis by (simp add: conn_ok_def)
qed

lemma conn_ok_quiet: "quiet s s' \<Longrightarrow> conn_ok s \<Longrightarrow> conn_ok s'"
proof -
  assume q: "quiet s s'" "conn_ok s"
  have "conn_at p conn_good s'" if "heap s' p \<noteq> None" for p
  proof -
    have "heap s p \<noteq> None" using that q(1) by (metis map_option_is_None quiet_def)
    then show ?thesis using conn_at_quiet [OF q(1)] q(2) by (simp add: conn_ok_def)
  qed
  then show ?thesis by (simp add: conn_ok_def)
qed

lemma opened_good: "opened ok st x \<Longrightarrow> conn_good st x"
  by (auto simp: opened_def conn_good_def split: if_splits)

lemma conn_ok_open: "touch {p} s s' \<Longrightarrow> conn_ok s \<Longrightarrow> conn_at p (opened ok) s' \<Longrightarrow> conn_ok s'"
  by (rule conn_ok_touch) (auto elim: conn_at_mono intro: opened_good)

text \<open>What finding a server may do to the state.\<close>

definition find_frame :: "'w st \<Rightarrow> 'w st \<Rightarrow> bool" where
  "find_frame s s' \<longleftrightarrow> pool s' = pool s \<and> glob s' = glob s \<and> (\<forall>q. (heap s' q = None) = (heap s q = None))"

lemma find_frame_refl [simp]: "find_frame s s"
  by (simp add: find_frame_def)

lemma find_frame_trans [trans]: "find_frame s s' \<Longrightarrow> find_frame s' s'' \<Longrightarrow> find_frame s s''"
  by (simp add: find_frame_def)

lemma find_frame_simps [simp]:
  "find_frame s (s'\<lparr>world := w\<rparr>) = find_frame s s'" "find_frame s (php_error l x s') = find_frame s s'"
  "find_frame s (log_upd f s') = find_frame s s'"
  by (simp_all add: find_frame_def)

lemma touch_find_frame: "touch P s s' \<Longrightarrow> find_frame s s'"
  unfolding touch_def find_frame_def by (metis option.map_disc_iff)

subsection \<open>Finding a server without the proxy\<close>

lemma should_failover_direct:
  assumes "heap s p \<noteq> None" "conn_ok s"
  shows "wp (should_failover env p None s) (\<lambda>(fail, s'). find_frame s s' \<and> conn_ok s' \<and>
           conn_at p (opened (if fail then 0 else 1)) s')"
proof -
  obtain m where m: "heap s p = Some m" using assms(1) by auto
  then have g: "mmc_status m \<in> {STATUS_CONNECTED, STATUS_UNKNOWN} \<longrightarrow> mmc_stream m \<noteq> None"
    using assms(2) by (auto simp: conn_ok_def conn_at_def conn_good_def)
  have op: "opened (if ok = 0 then 0 else 1) = opened ok" for ok
    by (auto simp: opened_def fun_eq_iff)
  show ?thesis
    by (auto simp: should_failover_def wp_simps op touch_find_frame
        intro!: wp_conseq [OF open_touch [OF m g]]
        intro: conn_ok_open [OF _ assms(2)])
qed


lemma failover_loop_direct:
  assumes "\<And>i h. \<exists>h' p. next i h = Some (h', p) \<and> p \<in> M" "p \<in> M" "\<forall>q \<in> M. heap s q \<noteq> None" "conn_ok s"
  shows "wp (failover_loop env next None k i h p s) (\<lambda>(r, s'). find_frame s s' \<and> conn_ok s' \<and> r \<in> M \<and>
           conn_at r (\<lambda>st x. \<exists>ok. opened ok st x) s')"
  using assms(2,3,4)
proof (induction k arbitrary: i h p s)
  case 0
  then have "heap s p \<noteq> None" by simp
  then show ?case using 0
    by (auto simp: wp_simps intro!: wp_conseq [OF should_failover_direct] elim!: conn_at_mono)
next
  case (Suc k)
  then have p: "heap s p \<noteq> None" by simp
  have step: "wp (if fail \<and> g_allow_failover (glob s1)
            then next i h \<bind> (\<lambda>(h, p). failover_loop env next None k (i + 1) h p s1) else Some (p, s1))
          (\<lambda>(r, s'). find_frame s s' \<and> conn_ok s' \<and> r \<in> M \<and> conn_at r (\<lambda>st x. \<exists>ok. opened ok st x) s')"
    if f: "find_frame s s1" "conn_ok s1" "conn_at p (opened (if fail then 0 else 1)) s1" for fail s1
  proof -
    obtain h' p' where n: "next i h = Some (h', p')" "p' \<in> M" using assms(1) by blast
    have "\<forall>q \<in> M. heap s1 q \<noteq> None" using Suc.prems f(1) by (auto simp: find_frame_def)
    then have "wp (failover_loop env next None k (i + 1) h' p' s1) (\<lambda>(r, s'). find_frame s1 s' \<and> conn_ok s' \<and>
        r \<in> M \<and> conn_at r (\<lambda>st x. \<exists>ok. opened ok st x) s')"
      using Suc.IH n(2) f(2) by blast
    then show ?thesis using f Suc.prems(1) n
      by (auto simp: wp_simps elim!: wp_conseq conn_at_mono intro: find_frame_trans)
  qed
  show ?case
    unfolding failover_loop.simps
  proof (rule wp_bindI [OF should_failover_direct [OF p Suc.prems(3)]])
    fix r
    assume "case r of (fail, s') \<Rightarrow> find_frame s s' \<and> conn_ok s' \<and> conn_at p (opened (if fail then 0 else 1)) s'"
    then show "wp (case r of (fail, s) \<Rightarrow> if fail \<and> g_allow_failover (glob s)
          then next i h \<bind> (\<lambda>(hash, mmc). failover_loop env next None k (i + 1) hash mmc s) else Some (p, s))
        (\<lambda>(r, s'). find_frame s s' \<and> conn_ok s' \<and> r \<in> M \<and> conn_at r (\<lambda>st x. \<exists>ok. opened ok st x) s')"
      using step by (cases r) (simp only: prod.case)
  qed
qed

text \<open>A server ready for a command, or failed; without a proxy.\<close>

definition ready :: "nat \<Rightarrow> 'w st \<Rightarrow> bool" where
  "ready p s \<longleftrightarrow> (\<exists>m. heap s p = Some m \<and> mmc_proxy m = None \<and> conn_good (mmc_stream m) (mmc_status m) \<and>
     (mmc_status m = STATUS_FAILED \<or> mmc_stream m \<noteq> None))"

lemma attach_none:
  assumes "conn_at p (\<lambda>st x. \<exists>ok. opened ok st x) s" "conn_ok s"
  shows "wp (attach_proxy env p None s) (\<lambda>s'. find_frame s s' \<and> conn_ok s' \<and> ready p s')"
proof -
  obtain m where m: "heap s p = Some m" "\<exists>ok. opened ok (mmc_stream m) (mmc_status m)"
    using assms(1) by (auto simp: conn_at_def)
  then have g: "conn_good (mmc_stream m) (mmc_status m)" by (auto intro: opened_good)
  have "conn_ok (s\<lparr>heap := (heap s)(p \<mapsto> m\<lparr>mmc_proxy := None\<rparr>)\<rparr>)"
    using assms(2) g by (auto simp: conn_ok_def conn_at_def)
  moreover have "mmc_status m = STATUS_FAILED \<or> mmc_stream m \<noteq> None" using m(2) by (auto simp: opened_def split: if_splits)
  ultimately show ?thesis using m(1) g
    by (auto simp: attach_proxy_def wp_simps find_frame_def ready_def)
qed


subsection \<open>The hash states of a pool\<close>

definition hash_wf :: "nat set \<Rightarrow> hash_state \<Rightarrow> bool" where
  "hash_wf S hs = (case hs of
     Standard_State st \<Rightarrow> set (s_buckets st) = S
   | Consistent_State st \<Rightarrow> fst ` set (c_points st) = S \<and>
       (c_buckets_populated st \<longrightarrow> set (c_buckets st) \<subseteq> S \<and> length (c_buckets st) = MMC_CONSISTENT_BUCKETS))"

lemma standard_bucket_in: "s_buckets st \<noteq> [] \<Longrightarrow> \<exists>p. standard_bucket st h = Some p \<and> p \<in> set (s_buckets st)"
  by (simp add: standard_bucket_def)

lemma consistent_bucket_in:
  assumes "length (c_buckets st) = MMC_CONSISTENT_BUCKETS" "set (c_buckets st) \<subseteq> S"
  shows "\<exists>p. consistent_bucket st h = Some p \<and> p \<in> S"
proof -
  have "unat h mod MMC_CONSISTENT_BUCKETS < length (c_buckets st)"
    using assms(1) by (simp add: MMC_CONSISTENT_BUCKETS_def)
  then show ?thesis using assms(2) nth_mem by (auto simp: consistent_bucket_def Let_def)
qed

lemma populate_wf:
  assumes "qsort_ok env" "c_points st \<noteq> []"
  shows "\<exists>st'. mmc_consistent_populate_buckets env st = Some st' \<and> c_num_servers st' = c_num_servers st \<and>
     hash_wf (fst ` set (c_points st)) (Consistent_State st') \<and> c_buckets_populated st'"
proof -
  have ne: "qsort_points env (c_points st) \<noteq> []"
    using qsort_points_set [OF assms(1), of "c_points st"] assms(2) by (metis set_empty)
  show ?thesis
    using ring_successor_member [OF ne] qsort_points_set [OF assms(1), of "c_points st"]
    by (auto simp: populate_ok [OF assms] hash_wf_def)
qed

definition found :: "nat set \<Rightarrow> nat option \<Rightarrow> 'w st \<Rightarrow> bool" where
  "found S r s \<longleftrightarrow> conn_ok s \<and> (\<forall>p. r = Some p \<longrightarrow> p \<in> S \<and> ready p s)"

lemma single_server:
  assumes "heap s p \<noteq> None" "conn_ok s"
  shows "wp (do { (_, s) \<leftarrow> mmc_open env p False s; Some (False, s) }) (\<lambda>(fail, s').
     \<not> fail \<and> find_frame s s' \<and> conn_ok s' \<and> conn_at p (\<lambda>st x. \<exists>ok. opened ok st x) s')"
proof -
  obtain m where m: "heap s p = Some m" using assms(1) by auto
  then have g: "mmc_status m \<in> {STATUS_CONNECTED, STATUS_UNKNOWN} \<longrightarrow> mmc_stream m \<noteq> None"
    using assms(2) by (auto simp: conn_ok_def conn_at_def conn_good_def)
  show ?thesis
    by (auto simp: wp_simps touch_find_frame intro!: wp_conseq [OF open_touch [OF m g]]
        intro: conn_ok_open [OF _ assms(2)] elim!: conn_at_mono)
qed

lemma attach_found:
  assumes "find_frame s s1" "conn_ok s1" "p \<in> S" "conn_at p (\<lambda>st x. \<exists>ok. opened ok st x) s1"
  shows "wp (attach_proxy env p None s1) (\<lambda>s'. find_frame s s' \<and> found S (Some p) s')"
proof (rule wp_conseq [OF attach_none [OF assms(4,2)]])
  fix s'
  assume "find_frame s1 s' \<and> conn_ok s' \<and> ready p s'"
  then show "find_frame s s' \<and> found S (Some p) s'"
    using assms(1,3) find_frame_trans [of s s1 s'] by (simp add: found_def)
qed

lemma single_find:
  assumes "heap s p \<noteq> None" "conn_ok s" "p \<in> S"
    and "\<And>s'. find_frame s s' \<Longrightarrow> found S (Some p) s' \<Longrightarrow> wp (g s') Q"
  shows "wp (do {
    (fail, s) \<leftarrow> do { (_, s) \<leftarrow> mmc_open env p False s; Some (False, s) };
    if fail then f s else do { s \<leftarrow> attach_proxy env p None s; g s } }) Q"
  by (rule wp_bindI [OF single_server [OF assms(1,2)]])
     (auto intro!: wp_bindI [OF attach_found] intro: assms(3,4))

lemma standard_find_direct:
  assumes "s_buckets st \<noteq> []" "\<forall>q \<in> set (s_buckets st). heap s q \<noteq> None" "conn_ok s"
  shows "wp (mmc_standard_find_server env st key False s)
    (\<lambda>(r, s'). find_frame s s' \<and> found (set (s_buckets st)) r s')"
proof -
  have next_in: "\<exists>h' p. standard_next env st key i h = Some (h', p) \<and> p \<in> set (s_buckets st)" for i h
    using standard_bucket_in [OF assms(1), of "h + mmc_hash env st (show_nat (i + 1) @ cstr key)"]
    by (auto simp: standard_next_def Let_def)
  show ?thesis
  proof (cases "1 < s_num_servers st")
    case True
    obtain p where p: "standard_bucket st (mmc_hash env st key) = Some p" "p \<in> set (s_buckets st)"
      using standard_bucket_in [OF assms(1)] by blast
    show ?thesis
      using True p
      by (auto simp: mmc_standard_find_server_def Let_def wp_simps
          intro!: wp_conseq [OF failover_loop_direct [OF next_in p(2) assms(2,3)]] attach_found)
  next
    case False
    obtain p ps where p: "s_buckets st = p # ps" using assms(1) by (cases "s_buckets st") auto
    then have "heap s p \<noteq> None" "p \<in> set (s_buckets st)" using assms(2) by auto
    from single_find [OF this(1) assms(3) this(2), where env = env and f = "\<lambda>s. Some (None, s)" and
        g = "\<lambda>s. Some (Some p, s)" and Q = "\<lambda>(r, s'). find_frame s s' \<and> found (set (s_buckets st)) r s'"]
    show ?thesis using False p by (simp add: mmc_standard_find_server_def wp_simps)
  qed
qed


lemma consistent_find_direct:
  assumes "qsort_ok env" "c_points st \<noteq> []" "hash_wf S (Consistent_State st)" "\<forall>q \<in> S. heap s q \<noteq> None" "conn_ok s"
  shows "wp (mmc_consistent_find_server env st key False s)
    (\<lambda>((r, st'), s'). find_frame s s' \<and> found S r s' \<and> hash_wf S (Consistent_State st'))"
proof -
  have S: "S = fst ` set (c_points st)" using assms(3) by (simp add: hash_wf_def)
  have result: "wp (consistent_result p s1) (\<lambda>(r, s'). find_frame s s' \<and> found S r s')"
    if "find_frame s s1" "found S (Some p) s1" for p s1
    using that by (auto simp: found_def ready_def consistent_result_def wp_simps)
  show ?thesis
  proof (cases "1 < c_num_servers st")
    case True
    have pop: "wp (if \<not> c_buckets_populated st then mmc_consistent_populate_buckets env st else Some st)
        (\<lambda>st'. hash_wf S (Consistent_State st') \<and> c_buckets_populated st')"
      using populate_wf [OF assms(1,2)] assms(3) by (auto simp: S wp_def)
    have rest: "wp (do {
          mmc \<leftarrow> consistent_bucket st' h;
          (mmc, s) \<leftarrow> failover_loop env (consistent_next env st' key) None k 0 h mmc s;
          s \<leftarrow> attach_proxy env mmc None s;
          (r, s) \<leftarrow> consistent_result mmc s;
          Some ((r, st'), s) })
        (\<lambda>((r, st'), s'). find_frame s s' \<and> found S r s' \<and> hash_wf S (Consistent_State st'))"
      if st': "hash_wf S (Consistent_State st')" "c_buckets_populated st'" for st' h k
    proof -
      have b: "\<exists>p. consistent_bucket st' h = Some p \<and> p \<in> S" for h
        using consistent_bucket_in [of st' S h] st' by (simp add: hash_wf_def)
      have next_in: "\<exists>h' p. consistent_next env st' key i h = Some (h', p) \<and> p \<in> S" for i h
        using b [of "hash_apply env (c_hash st') (cstr key @ ''-'' @ show_nat i)"]
        by (auto simp: consistent_next_def Let_def)
      obtain p where p: "consistent_bucket st' h = Some p" "p \<in> S" using b by blast
      show ?thesis using p st'
        by (auto simp: wp_simps intro!: wp_conseq [OF failover_loop_direct [OF next_in p(2) assms(4,5)]]
            wp_conseq [OF attach_found] wp_conseq [OF result])
    qed
    show ?thesis
      unfolding mmc_consistent_find_server_def Let_def if_P [OF True]
      by (simp only: if_False bind.bind_lunit prod.case simp_thms) (rule wp_bindI [OF pop], rule rest, auto)
  next
    case False
    obtain pt pts where p: "c_points st = pt # pts" using assms(2) by (cases "c_points st") auto
    then have "heap s (fst pt) \<noteq> None" "fst pt \<in> S" using S assms(4) by auto
    then have p_in: "heap s (fst pt) \<noteq> None" "fst pt \<in> S" by simp_all
    have fin: "wp (do { (r, s) \<leftarrow> consistent_result (fst pt) s1; Some ((r, st), s) })
        (\<lambda>((r, st'), s'). find_frame s s' \<and> found S r s' \<and> hash_wf S (Consistent_State st'))"
      if "find_frame s s1" "found S (Some (fst pt)) s1" for s1
      by (rule wp_bindI [OF result [OF that]]) (use assms(3) in \<open>auto simp: wp_simps\<close>)
    show ?thesis
      unfolding mmc_consistent_find_server_def Let_def if_not_P [OF False] p list.case bind.bind_lunit
      by (simp only: if_False bind.bind_lunit prod.case simp_thms option.case)
         (rule single_find [OF p_in(1) assms(5) p_in(2) fin])
  qed
qed

subsection \<open>The options of a connection\<close>

lemma send_request_quiet:
  assumes "mmc_channel p s = Some (Some h, prefix)"
  shows "wp (send_request env p request s) (\<lambda>(r, s'). quiet s s')"
proof -
  from assms obtain m where m: "heap s p = Some m" by (auto simp: mmc_channel_def bind_eq_Some_conv)
  show ?thesis
    using m assms
    by (auto simp: send_request_def wp_simps Let_def split: prod.split
        intro!: wp_conseq [OF seterror_quiet])
qed

lemma quiet_conn_at:
  assumes "quiet s s'" "heap s p = Some m"
  shows "touch {p} s s' \<and> conn_at p (\<lambda>st x. st = mmc_stream m \<and> x = mmc_status m) s'"
proof -
  obtain m' where "heap s' p = Some m'" "core m' = core m" by (rule quiet_heap [OF assms])
  then show ?thesis using quiet_touch [OF assms(1)] core_fields(1,2) [of m' m] by (simp add: conn_at_def)
qed

lemma get_options_touch:
  assumes "heap s p = Some m" "mmc_proxy m = None" "mmc_stream m \<noteq> None"
    and "length (options_command (pool s) (glob s)) < MAX_OPTIONS_LEN"
  shows "wp (get_options env p s) (\<lambda>(r, s'). touch {p} s s' \<and>
           conn_at p (\<lambda>st x. st = mmc_stream m \<and> x = mmc_status m) s')"
proof -
  obtain h where h: "mmc_stream m = Some h" using assms(3) by auto
  have ch: "mmc_channel p s = Some (Some h, [])" using assms(1,2) h by (simp add: mmc_channel_def)
  have fin: "wp (do {
      m \<leftarrow> heap s2 p;
      if mmc_str_left env (mmc_inbuf m) ''SERVER_ERROR'' (nat n) then Some (- 1, s2)
      else do {
        s \<leftarrow> upd p (\<lambda>m. m\<lparr>mmc_data_integrity_algo := di_algo_of_reply env (mmc_inbuf m) (nat n)\<rparr>) s2;
        Some (0, s) } })
      (\<lambda>(r, s'). touch {p} s s' \<and> conn_at p (\<lambda>st x. st = mmc_stream m \<and> x = mmc_status m) s')"
    if q: "quiet s s2" for s2 n
  proof -
    obtain m2 where m2: "heap s2 p = Some m2" "core m2 = core m" by (rule quiet_heap [OF q assms(1)])
    have t: "touch {p} s (s2\<lparr>heap := (heap s2)(p \<mapsto> m2\<lparr>mmc_data_integrity_algo := a\<rparr>)\<rparr>)" for a
      using touch_trans [OF quiet_touch [OF q] touch_upd [OF m2(1)]] by simp
    show ?thesis
      using m2 quiet_conn_at [OF q assms(1)] core_fields(1,2) [OF m2(2)] by (auto simp: wp_simps t)
  qed
  have line: "wp (mmc_readline env p s1) (\<lambda>(r, s'). quiet s s')" if q: "quiet s s1" for s1
  proof (rule wp_conseq)
    show "wp (mmc_readline env p s1) (\<lambda>(r, s'). quiet s1 s')"
      by (rule mmc_readline_quiet [where c = "(Some h, [])"]) (simp add: quiet_channel [OF q] ch)
  qed (use quiet_trans [OF q] in auto)
  show ?thesis
    unfolding get_options_def Let_def if_not_P [OF assms(4) [folded not_le]]
  proof (rule wp_bindI [OF send_request_quiet [OF ch]], clarify)
    fix r s1
    assume q: "quiet s s1"
    note same = quiet_conn_at [OF _ assms(1)]
    show "wp (if r \<noteq> Sent then Some (- 1, s1) else do {
        (n, s) \<leftarrow> mmc_readline env p s1;
        if n < 0 then Some (- 1, s) else do {
          m \<leftarrow> heap s p;
          if mmc_str_left env (mmc_inbuf m) ''SERVER_ERROR'' (nat n) then Some (- 1, s)
          else do {
            s \<leftarrow> upd p (\<lambda>m. m\<lparr>mmc_data_integrity_algo := di_algo_of_reply env (mmc_inbuf m) (nat n)\<rparr>) s;
            Some (0, s) } } })
        (\<lambda>(r, s'). touch {p} s s' \<and> conn_at p (\<lambda>st x. st = mmc_stream m \<and> x = mmc_status m) s')"
    proof (cases "r = Sent")
      case True
      show ?thesis
        unfolding True simp_thms if_False
        by (rule wp_bindI [OF line [OF q]], clarify, unfold wp_basic(4))
          (auto simp: wp_basic(1) same intro: fin)
    qed (use same [OF q] in \<open>simp add: wp_simps\<close>)
  qed
qed


lemma ready_touch:
  assumes "touch {p} s s'" "ready p s" "conn_at p (\<lambda>st x. conn_good st x \<and> (x = STATUS_FAILED \<or> st \<noteq> None)) s'"
  shows "ready p s'"
proof -
  obtain m where m: "heap s p = Some m" "mmc_proxy m = None" using assms(2) by (auto simp: ready_def)
  obtain m' where "heap s' p = Some m'" "mmc_proxy m' = mmc_proxy m" using touch_here [OF assms(1) m(1)] by blast
  then show ?thesis using m assms(3) by (auto simp: ready_def conn_at_def)
qed

lemma negotiate_options_ready:
  assumes "ready p s" "heap s p = Some m" "mmc_status m \<noteq> STATUS_FAILED" "\<not> p_proxy_enabled (pool s)"
    and "length (options_command (pool s) (glob s)) < MAX_OPTIONS_LEN"
  shows "wp (negotiate_options env p s) (\<lambda>s'. touch {p} s s' \<and> ready p s')"
proof -
  have m: "mmc_proxy m = None" "mmc_stream m \<noteq> None" "conn_good (mmc_stream m) (mmc_status m)"
    using assms(1,2,3) by (auto simp: ready_def)
  have set_got: "wp (upd p (\<lambda>m. m\<lparr>mmc_got_options := True\<rparr>) s1 \<bind> (\<lambda>s. if p_proxy_enabled (pool s) then g s else Some s))
      (\<lambda>s'. touch {p} s s' \<and> ready p s')"
    if t: "touch {p} s s1" "conn_at p (\<lambda>st x. st = mmc_stream m \<and> x = mmc_status m) s1" for s1 g
  proof -
    obtain m1 where m1: "heap s1 p = Some m1" "mmc_stream m1 = mmc_stream m" "mmc_status m1 = mmc_status m"
      using t(2) by (auto simp: conn_at_def)
    let ?s = "s1\<lparr>heap := (heap s1)(p \<mapsto> m1\<lparr>mmc_got_options := True\<rparr>)\<rparr>"
    have t2: "touch {p} s ?s" using touch_trans [OF t(1) touch_upd [OF m1(1)]] by simp
    then have "ready p ?s" by (rule ready_touch [OF _ assms(1)]) (use m m1 in simp)
    moreover have "\<not> p_proxy_enabled (pool s1)" using t(1) assms(4) by (simp add: touch_def)
    ultimately show ?thesis using m1(1) t2 by (simp add: wp_simps)
  qed
  have failed: "wp (mmc_server_failure env p s1) (\<lambda>(_, s'). touch {p} s s' \<and> ready p s')"
    if t: "touch {p} s s1" "conn_at p (\<lambda>st x. st = mmc_stream m \<and> x = mmc_status m) s1" for s1
  proof -
    obtain m1 where m1: "heap s1 p = Some m1" "mmc_stream m1 = mmc_stream m" "mmc_proxy m1 = None"
      using t touch_here [OF t(1) assms(2)] m(1) by (auto simp: conn_at_def)
    show ?thesis
    proof (rule wp_conseq [OF failure_touch [OF m1(1,3)]], clarify)
      fix r s'
      assume s': "touch {p} s1 s'" "conn_at p (\<lambda>st x. r = 1 \<and> st = None \<and> x = STATUS_FAILED \<or>
          r = 0 \<and> st = mmc_stream m1 \<and> x = STATUS_DISCONNECTED) s'"
      have t2: "touch {p} s s'" by (rule touch_trans [OF t(1) s'(1)])
      have "conn_at p (\<lambda>st x. conn_good st x \<and> (x = STATUS_FAILED \<or> st \<noteq> None)) s'"
        using s'(2) m1(2) m(2) by (auto simp: conn_at_def conn_good_def)
      then show "touch {p} s s' \<and> ready p s'" using ready_touch [OF t2 assms(1)] t2 by simp
    qed
  qed
  show ?thesis
  proof (cases "mmc_got_options m")
    case True
    then show ?thesis using assms by (simp add: negotiate_options_def wp_simps)
  next
    case False
    have "wp (get_options env p s \<bind> (\<lambda>(r, s). if 0 \<le> r
         then upd p (\<lambda>m. m\<lparr>mmc_got_options := True\<rparr>) s \<bind> (\<lambda>s. if p_proxy_enabled (pool s) then g s else Some s)
         else mmc_server_failure env p s \<bind> (\<lambda>(_, s). Some s)))
        (\<lambda>s'. touch {p} s s' \<and> ready p s')" for g
    proof (rule wp_bindI [OF get_options_touch [OF assms(2) m(1,2) assms(5)]], clarify)
      fix r s1
      assume t: "touch {p} s s1" "conn_at p (\<lambda>st x. st = mmc_stream m \<and> x = mmc_status m) s1"
      show "wp (if 0 \<le> r
         then upd p (\<lambda>m. m\<lparr>mmc_got_options := True\<rparr>) s1 \<bind> (\<lambda>s. if p_proxy_enabled (pool s) then g s else Some s)
         else mmc_server_failure env p s1 \<bind> (\<lambda>(_, s). Some s)) (\<lambda>s'. touch {p} s s' \<and> ready p s')"
      proof (cases "0 \<le> r")
        case True
        then show ?thesis using set_got [OF t, of g] by simp
      next
        case False
        have "wp (mmc_server_failure env p s1 \<bind> (\<lambda>(_, s). Some s)) (\<lambda>s'. touch {p} s s' \<and> ready p s')"
          by (rule wp_bindI [OF failed [OF t]]) (auto simp: wp_basic(1))
        then show ?thesis using False by simp
      qed
    qed
    then show ?thesis using assms(2,4) False by (simp add: negotiate_options_def)
  qed
qed

subsection \<open>The pool\<close>

text \<open>
  A pool with servers: all of them there, and the ring or bucket list over exactly them.
\<close>

definition pool_wf :: "'w st \<Rightarrow> bool" where
  "pool_wf s \<longleftrightarrow> p_servers (pool s) \<noteq> [] \<and> (\<forall>p \<in> set (p_servers (pool s)). heap s p \<noteq> None) \<and>
     hash_wf (set (p_servers (pool s))) (p_hash_state (pool s))"

lemma pool_wf_frame:
  assumes "find_frame s s'" "pool_wf s" "hash_wf (set (p_servers (pool s))) hs"
  shows "pool_wf (s'\<lparr>pool := (pool s')\<lparr>p_hash_state := hs\<rparr>\<rparr>)"
proof -
  have "\<forall>p \<in> set (p_servers (pool s)). heap s' p \<noteq> None"
    using assms(1,2) by (simp add: pool_wf_def find_frame_def del: not_None_eq)
  then show ?thesis using assms by (simp add: pool_wf_def find_frame_def)
qed

lemma strategy_find_direct:
  assumes "qsort_ok env" "pool_wf s" "conn_ok s"
  shows "wp (strategy_find_server env key False s) (\<lambda>(r, s'). pool_wf s' \<and> glob s' = glob s \<and>
           (\<exists>hs. pool s' = (pool s)\<lparr>p_hash_state := hs\<rparr>) \<and> found (set (p_servers (pool s))) r s')"
proof (cases "p_hash_state (pool s)")
  case (Standard_State st)
  then have S: "set (s_buckets st) = set (p_servers (pool s))" "s_buckets st \<noteq> []"
      "\<forall>q \<in> set (s_buckets st). heap s q \<noteq> None"
    using assms(2) by (auto simp: pool_wf_def hash_wf_def)
  have p: "\<exists>hs. pool s = (pool s)\<lparr>p_hash_state := hs\<rparr>" by (rule exI [of _ "p_hash_state (pool s)"]) simp
  have wf: "pool_wf s'" if "find_frame s s'" for s'
    using that assms(2) by (simp add: pool_wf_def find_frame_def del: not_None_eq)
  show ?thesis
    unfolding strategy_find_server_def Standard_State hash_state.case
    by (rule wp_conseq [OF standard_find_direct [OF S(2,3) assms(3)]])
       (use S p wf in \<open>auto simp: find_frame_def\<close>)
next
  case (Consistent_State st)
  let ?S = "set (p_servers (pool s))"
  have h: "hash_wf ?S (Consistent_State st)" "\<forall>q \<in> ?S. heap s q \<noteq> None" "?S \<noteq> {}"
    using assms(2) Consistent_State by (auto simp: pool_wf_def)
  then have "c_points st \<noteq> []" by (auto simp: hash_wf_def)
  from consistent_find_direct [OF assms(1) this h(1,2) assms(3), of key]
  show ?thesis
    unfolding strategy_find_server_def Consistent_State hash_state.case
    by (rule wp_bindI)
       (use pool_wf_frame [OF _ assms(2)] in \<open>auto simp: wp_basic(1) find_frame_def found_def ready_def\<close>)
qed

lemma conn_ok_touch_ready:
  assumes "touch {p} s s'" "conn_ok s" "ready p s'"
  shows "conn_ok s'"
  by (rule conn_ok_touch [OF assms(1,2)]) (use assms(3) in \<open>auto simp: ready_def conn_at_def\<close>)

lemma pool_wf_touch:
  assumes "touch P s s'" "pool_wf s"
  shows "pool_wf s'"
proof -
  have "heap s' p \<noteq> None" if "heap s p \<noteq> None" for p
    using that assms(1) touch_here [OF assms(1)] by auto
  then show ?thesis using assms by (auto simp: pool_wf_def touch_def)
qed

text \<open>
  The result of \<open>mmc_pool_find\<close> on a pool without the proxy: a server of the pool, ready for
  a command or failed, and the pool and its connections well-formed again.
\<close>

definition find_result :: "nat set \<Rightarrow> nat option \<Rightarrow> 'w st \<Rightarrow> bool" where
  "find_result S r s \<longleftrightarrow> pool_wf s \<and> set (p_servers (pool s)) = S \<and> found S r s"

lemma mmc_pool_find_direct:
  assumes "qsort_ok env" "pool_wf s" "conn_ok s" "\<not> p_proxy_enabled (pool s)"
    and "length (options_command (pool s) (glob s)) < MAX_OPTIONS_LEN"
  shows "wp (mmc_pool_find env key s) (\<lambda>(r, s'). find_result (set (p_servers (pool s))) r s')"
proof -
  let ?S = "set (p_servers (pool s))"
  have found_p: "wp (do {
      m \<leftarrow> heap s1 p;
      if mmc_status m = STATUS_FAILED \<or> (p_proxy_enabled (pool s1) \<and> mmc_proxy m = None) then Some (Some p, s1)
      else do {
        s \<leftarrow> negotiate_options env p s1;
        s \<leftarrow> upd p (\<lambda>m. m\<lparr>mmc_di_algo_in_use :=
               algo_in_use (p_enable_checksum (pool s)) (mmc_data_integrity_algo m)\<rparr>) s;
        Some (Some p, s) } })
      (\<lambda>(r, s'). find_result ?S r s')"
    if s1: "pool_wf s1" "glob s1 = glob s" "pool s1 = (pool s)\<lparr>p_hash_state := hs\<rparr>" "found ?S (Some p) s1"
    for s1 hs p
  proof -
    have r: "ready p s1" "p \<in> ?S" "conn_ok s1" using s1(4) by (auto simp: found_def)
    then obtain m where m: "heap s1 p = Some m" by (auto simp: ready_def)
    have len: "length (options_command (pool s1) (glob s1)) < MAX_OPTIONS_LEN" "\<not> p_proxy_enabled (pool s1)"
      using assms(4,5) s1(2,3) by (simp_all add: options_command_def)
    show ?thesis
    proof (cases "mmc_status m = STATUS_FAILED")
      case True
      then show ?thesis using m s1 r by (simp add: wp_simps find_result_def)
    next
      case False
      have "wp (do {
        s \<leftarrow> negotiate_options env p s1;
        s \<leftarrow> upd p (\<lambda>m. m\<lparr>mmc_di_algo_in_use :=
               algo_in_use (p_enable_checksum (pool s)) (mmc_data_integrity_algo m)\<rparr>) s;
        Some (Some p, s) }) (\<lambda>(r, s'). find_result ?S r s')"
      proof (rule wp_bindI [OF negotiate_options_ready [OF r(1) m False len(2,1)]], elim conjE)
        fix s2
        assume t: "touch {p} s1 s2" "ready p s2"
        then obtain m2 where m2: "heap s2 p = Some m2" by (auto simp: ready_def)
        let ?f = "\<lambda>m. m\<lparr>mmc_di_algo_in_use := algo_in_use (p_enable_checksum (pool s2)) (mmc_data_integrity_algo m)\<rparr>"
        let ?s = "s2\<lparr>heap := (heap s2)(p \<mapsto> ?f m2)\<rparr>"
        have t2: "touch {p} s2 ?s" by (rule touch_upd [OF m2]) simp
        have rs: "ready p ?s"
          by (rule ready_touch [OF t2 t(2)]) (use t(2) m2 in \<open>auto simp: ready_def\<close>)
        have t1: "touch {p} s1 ?s" by (rule touch_trans [OF t(1) t2])
        have "find_result ?S (Some p) ?s"
          using pool_wf_touch [OF t1 s1(1)] conn_ok_touch_ready [OF t1 r(3) rs] rs r(2) t(1) s1(3)
          by (simp add: find_result_def found_def touch_def)
        then show "wp (do { s \<leftarrow> upd p ?f s2; Some (Some p, s) }) (\<lambda>(r, s'). find_result ?S r s')"
          using m2 by (simp add: wp_simps)
      qed
      then show ?thesis using m False len(2) by simp
    qed
  qed
  have p: "p_proxy_enabled (pool s) = False" using assms(4) by simp
  show ?thesis
    unfolding mmc_pool_find_def p
    by (rule wp_bindI [OF strategy_find_direct [OF assms(1-3)]])
       (use found_p in \<open>auto simp: wp_basic(1) find_result_def found_def split: option.split\<close>)
qed
end
