(* ===== verification/Lifecycle.thy ===== *)
theory Lifecycle
  imports Connections
begin

text \<open>
  The life of the connections under every operation of Server and Pool, with and without the
  proxy, in any order: the step relation, the states it reaches, and the invariant that a
  server whose status is connected or unknown has a stream.
\<close>

subsection \<open>Every operation keeps the invariant\<close>

text \<open>\<open>conn_ok\<close> but for one server, the one a failover has just given another chance.\<close>

definition conn_ok_but :: "nat \<Rightarrow> 'w st \<Rightarrow> bool" where
  "conn_ok_but p s \<longleftrightarrow> (\<forall>q m. q \<noteq> p \<longrightarrow> heap s q = Some m \<longrightarrow> conn_good (mmc_stream m) (mmc_status m))"

lemma conn_ok_iff: "conn_ok s \<longleftrightarrow> (\<forall>q m. heap s q = Some m \<longrightarrow> conn_good (mmc_stream m) (mmc_status m))"
  by (auto simp: conn_ok_def conn_at_def)

lemma conn_ok_but_weak: "conn_ok s \<Longrightarrow> conn_ok_but p s"
  by (auto simp: conn_ok_iff conn_ok_but_def)

lemma conn_ok_but_simps [simp]:
  "conn_ok_but p (s\<lparr>world := w\<rparr>) = conn_ok_but p s" "conn_ok_but p (s\<lparr>pool := pl\<rparr>) = conn_ok_but p s"
  by (simp_all add: conn_ok_but_def)

lemma conn_ok_more [simp]:
  "conn_ok (s\<lparr>glob := g\<rparr>) = conn_ok s" "conn_ok (s\<lparr>temp_proxies := t\<rparr>) = conn_ok s"
  "conn_ok (s\<lparr>persistent_list := l\<rparr>) = conn_ok s" "conn_ok (s\<lparr>next_addr := n\<rparr>) = conn_ok s"
  by (simp_all add: conn_ok_iff)

lemma conn_good_disconnected [simp]: "conn_good st STATUS_DISCONNECTED" "conn_good st STATUS_FAILED"
  by (simp_all add: conn_good_def)

lemma wlp_upd:
  assumes "conn_ok_but p s" "\<And>m. heap s p = Some m \<Longrightarrow> conn_good (mmc_stream (f m)) (mmc_status (f m))"
  shows "wlp (upd p f s) conn_ok"
  using assms by (auto simp: wlp_def conn_ok_iff conn_ok_but_def elim!: updE split: if_splits)

lemma wlp_upd_same:
  assumes "conn_ok s" "\<And>m. mmc_stream (f m) = mmc_stream m \<and> mmc_status (f m) = mmc_status m"
  shows "wlp (upd p f s) conn_ok"
  using assms by (auto simp: wlp_def conn_ok_iff elim!: updE split: if_splits)

lemma wlp_quiet:
  assumes "conn_ok s" "\<And>y. c = Some y \<Longrightarrow> wp c (\<lambda>y. quiet s (g y))"
  shows "wlp c (\<lambda>y. conn_ok (g y))"
  using assms conn_ok_quiet by (fastforce simp: wlp_def wp_def)

lemma wlp_heap: "(\<And>m. heap s p = Some m \<Longrightarrow> Q m) \<Longrightarrow> wlp (heap s p) Q"
  by (simp add: wlp_def)

lemma seterror_keeps: "conn_ok s \<Longrightarrow> wlp (mmc_server_seterror p e n s) conn_ok"
  by (auto simp: mmc_server_seterror_def wp_simps split: option.split intro: wlp_upd_same)

lemma received_error_keeps:
  assumes "conn_ok s"
  shows "wlp (mmc_server_received_error env p n s) conn_ok"
proof (rule wlp_quiet [OF assms])
  fix y assume "mmc_server_received_error env p n s = Some y"
  then have "heap s p \<noteq> None" by (auto simp: mmc_server_received_error_def)
  then show "wp (mmc_server_received_error env p n s) (\<lambda>y. quiet s y)" by (rule received_error_quiet)
qed

lemma sendcmd_quiet_always: "wlp (mmc_sendcmd env p cmd s) (\<lambda>(r, s'). quiet s s')"
proof (cases "mmc_sendcmd env p cmd s")
  case None
  then show ?thesis by (simp add: wlp_def)
next
  case (Some y)
  then obtain h prefix where "mmc_channel p s = Some (Some h, prefix)"
    by (auto simp: mmc_sendcmd_def bind_eq_Some_conv)
  then show ?thesis
    by (intro wlp_conseq [OF wp_wlp [OF mmc_sendcmd_quiet]]) auto
qed

lemma readline_quiet_always: "wlp (mmc_readline env p s) (\<lambda>(r, s'). quiet s s')"
proof (cases "mmc_channel p s")
  case None
  then show ?thesis by (simp add: mmc_readline_def wlp_def)
qed (auto intro: wp_wlp mmc_readline_quiet)

lemma seterror_quiet_always: "wlp (mmc_server_seterror p e n s) (quiet s)"
proof (cases "heap s p")
  case None
  then show ?thesis by (auto simp: mmc_server_seterror_def upd_def wlp_def split: option.splits)
qed (auto intro: wp_wlp seterror_quiet)

lemma get_version_quiet: "wlp (mmc_get_version env p s) (\<lambda>(r, s'). quiet s s')"
proof -
  have err: "wlp (mmc_server_seterror p e n s2) (quiet s)" if "quiet s s2" for e n s2
    by (rule wlp_conseq [OF seterror_quiet_always]) (rule quiet_trans [OF that])
  have line: "wlp (mmc_readline env p s1) (\<lambda>(r, s'). quiet s s')" if "quiet s s1" for s1
    by (rule wlp_conseq [OF readline_quiet_always]) (use quiet_trans [OF that] in auto)
  show ?thesis
    unfolding mmc_get_version_def
    apply (rule wlp_bindI [OF sendcmd_quiet_always], clarify)
    apply (simp add: wp_simps, intro impI)
    apply (rule wlp_conseq [OF line], assumption, clarsimp simp: wp_simps)
    apply (rule wlp_heap)
    apply (auto simp: wp_simps Let_def intro: wlp_conseq [OF err])
    done
qed

lemma wlp_if_heap:
  "(\<And>m. heap s p = Some m \<Longrightarrow> wp c Q) \<Longrightarrow> (heap s p = None \<Longrightarrow> c = None) \<Longrightarrow> wlp c Q"
  by (cases "heap s p") (auto simp: wlp_def wp_def)

lemma conn_ok_touch_but:
  assumes "touch {p} s s'" "conn_ok_but p s" "conn_at p conn_good s'"
  shows "conn_ok s'"
  unfolding conn_ok_iff
proof (intro allI impI)
  fix q m assume m: "heap s' q = Some m"
  show "conn_good (mmc_stream m) (mmc_status m)"
  proof (cases "q = p")
    case False
    then have "map_option core (heap s' q) = map_option core (heap s q)"
      using assms(1) by (simp add: touch_def)
    then obtain m0 where "heap s q = Some m0" "core m0 = core m"
      using m by (cases "heap s q") auto
    then show ?thesis using assms(2) False core_fields(1,2) [of m0 m] by (auto simp: conn_ok_but_def)
  qed (use assms(3) m in \<open>simp add: conn_at_def\<close>)
qed

lemma disconnect_keeps:
  assumes "conn_ok_but p s"
  shows "wlp (mmc_server_disconnect env p s) conn_ok"
proof (rule wlp_if_heap [where s = s and p = p])
  fix m assume "heap s p = Some m"
  then show "wp (mmc_server_disconnect env p s) conn_ok"
    by (rule wp_conseq [OF disconnect_touch])
       (auto intro!: conn_ok_touch_but [OF _ assms] elim!: conn_at_mono)
qed (simp add: mmc_server_disconnect_def)

lemma deactivate_keeps:
  assumes "conn_ok s"
  shows "wlp (mmc_server_deactivate env p s) conn_ok"
proof (rule wlp_if_heap [where s = s and p = p])
  fix m assume "heap s p = Some m"
  then show "wp (mmc_server_deactivate env p s) conn_ok"
    by (rule wp_conseq [OF deactivate_touch])
       (auto intro!: conn_ok_touch [OF _ assms] elim!: conn_at_mono)
qed (simp add: mmc_server_deactivate_def mmc_server_disconnect_def)

lemma failure_keeps:
  assumes "conn_ok s"
  shows "wlp (mmc_server_failure env p s) (\<lambda>(r, s'). conn_ok s')"
proof (cases "heap s p")
  case (Some m)
  have deact: "wlp (mmc_server_deactivate env p s1 \<bind> (\<lambda>s. Some (1 :: int, s))) (\<lambda>(r, s'). conn_ok s')" if "conn_ok s1" for s1
    by (rule wlp_bindI [OF deactivate_keeps [OF that]]) (simp add: wp_simps)
  have unknown: "conn_ok (s\<lparr>heap := (heap s)(p \<mapsto> m\<lparr>mmc_status := STATUS_DISCONNECTED\<rparr>)\<rparr>)"
    using assms by (auto simp: conn_ok_iff)
  show ?thesis
  proof (cases "mmc_proxy m")
    case (Some q)
    have "wlp (mmc_server_disconnect env q s \<bind> (\<lambda>s. mmc_server_deactivate env p s \<bind> (\<lambda>s. Some (1 :: int, s))))
        (\<lambda>(r, s'). conn_ok s')"
      by (rule wlp_bindI [OF disconnect_keeps [OF conn_ok_but_weak [OF assms]] deact])
    then show ?thesis using Some \<open>heap s p = Some m\<close> by (simp add: mmc_server_failure_def)
  next
    case None
    then show ?thesis using Some deact [OF assms] unknown assms
      by (simp add: mmc_server_failure_def wp_simps(6) split: mmc_status.split)
  qed
qed (simp add: mmc_server_failure_def wp_simps)

subsection \<open>Opening, the persistent list and the proxy\<close>

lemma open_conn_keeps:
  assumes "conn_ok s"
  shows "wlp (mmc_open_conn env p s) (\<lambda>((ok, e), s'). conn_ok s' \<and> conn_at p (opened ok) s')"
proof (rule wlp_if_heap [where s = s and p = p])
  fix m assume "heap s p = Some m"
  then show "wp (mmc_open_conn env p s) (\<lambda>((ok, e), s'). conn_ok s' \<and> conn_at p (opened ok) s')"
    by (rule wp_conseq [OF open_conn_touch]) (auto intro: conn_ok_open [OF _ assms])
qed (simp add: mmc_open_conn_def)

lemma set_connected:
  assumes "conn_ok s" "conn_at p (\<lambda>st x. st \<noteq> None) s"
  shows "wlp (upd p (\<lambda>m. m\<lparr>mmc_status := STATUS_CONNECTED\<rparr>) s \<bind> (\<lambda>s. Some (y, s)))
    (\<lambda>(r, s'). conn_ok s')"
  using assms by (auto simp: wlp_def conn_ok_iff conn_at_def conn_good_def bind_eq_Some_conv elim!: updE split: if_splits)

lemma open_keeps:
  assumes "conn_ok s"
  shows "wlp (mmc_open env p force s) (\<lambda>((ok, e), s'). conn_ok s')"
proof (cases "heap s p")
  case (Some m)
  have conn: "wlp (mmc_open_conn env p s1) (\<lambda>((ok, e), s'). conn_ok s')" if "conn_ok s1" for s1
    by (rule wlp_conseq [OF open_conn_keeps [OF that]]) auto
  show ?thesis
  proof (cases "mmc_status m = STATUS_UNKNOWN \<and> force")
    case False
    then show ?thesis using Some assms conn
      by (auto simp: mmc_open_def wp_simps Let_def split: mmc_status.split prod.split)
  next
    case True
    then have str: "conn_at p (\<lambda>st x. st \<noteq> None) s"
      using assms Some by (auto simp: conn_ok_iff conn_at_def conn_good_def)
    have "wlp (do {
            (version, s) \<leftarrow> mmc_get_version env p s;
            if version = None then do {
              ((ok, err), s) \<leftarrow> mmc_open_conn env p s;
              if ok = 0 then Some ((0 :: int, err), s)
              else do {
                s \<leftarrow> upd p (\<lambda>m. m\<lparr>mmc_status := STATUS_CONNECTED\<rparr>) s;
                Some ((1, err), s)
              }
            } else do {
              s \<leftarrow> upd p (\<lambda>m. m\<lparr>mmc_status := STATUS_CONNECTED\<rparr>) s;
              Some ((1, None, 0), s)
            } }) (\<lambda>((ok, e), s'). conn_ok s')"
    proof (rule wlp_bindI [OF get_version_quiet], clarify)
      fix version s1
      assume q: "quiet s s1"
      have ok: "conn_ok s1" "conn_at p (\<lambda>st x. st \<noteq> None) s1"
        using conn_ok_quiet [OF q assms] conn_at_quiet [OF q str] by auto
      have c: "wlp (upd p (\<lambda>m. m\<lparr>mmc_status := STATUS_CONNECTED\<rparr>) s2 \<bind> (\<lambda>s. Some ((1 :: int, y), s)))
          (\<lambda>((ok, e), s'). conn_ok s')" if "conn_ok s2" "conn_at p (\<lambda>st x. st \<noteq> None) s2" for s2 and y :: "string option \<times> int"
        using set_connected [OF that] by (rule wlp_conseq) auto
      have opened_c: "wlp (mmc_open_conn env p s1 \<bind> (\<lambda>((ok, err), s). if ok = 0 then Some ((0 :: int, err), s)
              else upd p (\<lambda>m. m\<lparr>mmc_status := STATUS_CONNECTED\<rparr>) s \<bind> (\<lambda>s. Some ((1, err), s))))
              (\<lambda>((ok, e), s'). conn_ok s')"
      proof (rule wlp_bindI [OF open_conn_keeps [OF ok(1)]], clarify)
        fix ok :: int and e :: "string option" and n :: int and s2
        assume s2: "conn_ok s2" "conn_at p (opened ok) s2"
        then have "ok \<noteq> 0 \<Longrightarrow> conn_at p (\<lambda>st x. st \<noteq> None) s2" by (auto simp: opened_def elim: conn_at_mono)
        then show "wlp (if ok = 0 then Some ((0 :: int, e, n), s2)
              else upd p (\<lambda>m. m\<lparr>mmc_status := STATUS_CONNECTED\<rparr>) s2 \<bind> (\<lambda>s. Some ((1, e, n), s)))
              (\<lambda>((ok, e), s'). conn_ok s')"
        proof (cases "ok = 0")
          case False
          then have "conn_at p (\<lambda>st x. st \<noteq> None) s2" using s2(2) by (auto simp: opened_def elim: conn_at_mono)
          from c [OF s2(1) this, of "(e, n)"] False show ?thesis by (simp only: if_False)
        qed (use s2(1) in \<open>simp add: wp_simps(6)\<close>)
      qed
      show "wlp (if version = None then mmc_open_conn env p s1 \<bind> (\<lambda>((ok, err), s). if ok = 0 then Some ((0 :: int, err), s)
              else upd p (\<lambda>m. m\<lparr>mmc_status := STATUS_CONNECTED\<rparr>) s \<bind> (\<lambda>s. Some ((1, err), s)))
              else upd p (\<lambda>m. m\<lparr>mmc_status := STATUS_CONNECTED\<rparr>) s1 \<bind> (\<lambda>s. Some ((1, None, 0), s)))
            (\<lambda>((ok, e), s'). conn_ok s')"
        using c [OF ok] opened_c by (cases "version = None") simp_all
    qed
    then show ?thesis using True Some by (simp add: mmc_open_def)
  qed
qed (simp add: mmc_open_def wp_simps)

lemma server_new_keeps: "conn_ok s \<Longrightarrow> mmc_server_new h n port pers tm ri b s = (p, s') \<Longrightarrow> conn_ok s'"
  by (auto simp: mmc_server_new_def Let_def conn_ok_iff split: if_splits)

lemma conn_ok_delete: "conn_ok s \<Longrightarrow> conn_ok (s\<lparr>heap := (heap s)(p := None)\<rparr>)"
  by (auto simp: conn_ok_iff)

lemma sleep_keeps: "conn_ok s \<Longrightarrow> wlp (mmc_server_sleep p s) conn_ok"
  unfolding mmc_server_sleep_def by (rule wlp_upd_same) simp_all

lemma free_keeps:
  assumes "conn_ok s"
  shows "wlp (mmc_server_free env p s) conn_ok"
  unfolding mmc_server_free_def
  by (auto simp: wp_simps assms split: option.split
      intro!: wlp_heap wlp_conseq [OF wlp_upd_same [OF assms]] wlp_conseq [OF sleep_keeps] conn_ok_delete
        [of "_\<lparr>world := _\<rparr>", simplified])
     (auto simp: conn_ok_iff)

lemma find_persistent_keeps:
  assumes "conn_ok s"
  shows "wlp (mmc_find_persistent env host n port tm ri b s) (\<lambda>(p, s'). conn_ok s')"
proof -
  have new: "wlp (let (mmc, s) = mmc_server_new host n (word_of_int port) True tm ri b s1
      in Some (mmc, s\<lparr>persistent_list := (persistent_list s)(k \<mapsto> (True, Some mmc))\<rparr>)) (\<lambda>(p, s'). conn_ok s')"
    if "conn_ok s1" for s1 k
    using server_new_keeps [OF that] by (auto simp: wp_simps split: prod.split)
  have old: "wlp (upd p (\<lambda>m. m\<lparr>mmc_timeout := tm, mmc_retry_interval := ri,
        mmc_status := (if mmc_status m = STATUS_CONNECTED then STATUS_UNKNOWN else mmc_status m)\<rparr>) s \<bind>
      (\<lambda>s. Some (p, s))) (\<lambda>(p, s'). conn_ok s')" for p
    by (rule wlp_bindI [OF wlp_upd [OF conn_ok_but_weak [OF assms]]])
       (use assms in \<open>auto simp: wp_simps conn_ok_iff conn_good_def\<close>)
  show ?thesis
    unfolding mmc_find_persistent_def Let_def
    using new [OF assms] new [of "s\<lparr>persistent_list := _\<rparr>"] old assms
    by (auto simp: Let_def split: option.split bool.split)
qed

text \<open>An opening that the caller only asks whether it worked.\<close>

lemma open_proxy_keeps:
  assumes "conn_ok s"
    and "\<And>s'. conn_ok s' \<Longrightarrow> wlp (f s') (\<lambda>(r, s'). conn_ok s')"
    and "\<And>s'. conn_ok s' \<Longrightarrow> wlp (g s') (\<lambda>(r, s'). conn_ok s')"
  shows "wlp (mmc_open env p force s \<bind> (\<lambda>((ok, err), s). if ok = 0 then f s else g s)) (\<lambda>(r, s'). conn_ok s')"
  by (rule wlp_bindI [OF open_keeps [OF assms(1)]]) (use assms(2,3) in auto)

lemma get_proxy_keeps:
  assumes "conn_ok s"
  shows "wlp (mmc_get_proxy env p s) (\<lambda>(r, s'). conn_ok s')"
proof -
  have give_up: "wlp (do { s \<leftarrow> mmc_server_sleep q (php_error l x s1); Some (None, s) }) (\<lambda>(r, s'). conn_ok s')"
    if "conn_ok s1" for q l x s1
    by (rule wlp_bindI [OF sleep_keeps]) (use that in \<open>auto simp: wp_simps\<close>)
  have drop: "wlp (do { s \<leftarrow> mmc_server_sleep q (php_error l x s1);
       s \<leftarrow> mmc_server_free env q (s\<lparr>glob := (glob s)\<lparr>g_proxy_connect_failed := True\<rparr>\<rparr>); Some (None, s) })
      (\<lambda>(r, s'). conn_ok s')" if "conn_ok s1" for q l x s1
    by (rule wlp_bindI [OF sleep_keeps wlp_bindI [OF free_keeps]]) (use that in \<open>auto simp: wp_simps\<close>)
  have multi: "wlp (get_proxy_for_multi env p s) (\<lambda>(r, s'). conn_ok s')"
  proof (cases "heap s p")
    case (Some m)
    show ?thesis
    proof (cases "map_of (temp_proxies s) (mmc_proxy_str m)")
      case None
      show ?thesis
      proof (cases "g_proxy_host (glob s)")
        case (Some host)
        obtain q s1 where new: "mmc_server_new host (g_proxy_hostlen (glob s)) (word_of_int (g_proxy_port (glob s)))
            False 1000 0 False s = (q, s1)" by fastforce
        have "wlp (mmc_open env q True s1 \<bind> (\<lambda>((ok, err), s). if ok = 0 then do {
              let s = php_error E_WARNING ''Can't connect to mc proxy: %s:%ld, %s (%d)'' s;
              s \<leftarrow> mmc_server_sleep q s;
              let s = s\<lparr>glob := (glob s)\<lparr>g_proxy_connect_failed := True\<rparr>\<rparr>;
              s \<leftarrow> mmc_server_free env q s;
              Some (None, s)
            } else Some (Some q, s\<lparr>temp_proxies := insort_key fst (mmc_proxy_str m, q) (temp_proxies s)\<rparr>)))
            (\<lambda>(r, s'). conn_ok s')"
          by (rule open_proxy_keeps [OF server_new_keeps [OF assms new]])
             (use drop in \<open>simp_all add: Let_def wp_simps(6)\<close>)
        then show ?thesis using \<open>heap s p = Some m\<close> None Some new assms
          by (simp add: get_proxy_for_multi_def Let_def wp_simps(6))
      qed (use assms \<open>heap s p = Some m\<close> None in \<open>simp add: get_proxy_for_multi_def Let_def wp_simps(6,7)\<close>)
    qed (use assms Some in \<open>simp add: get_proxy_for_multi_def Let_def wp_simps(6)\<close>)
  qed (use assms in \<open>simp add: get_proxy_for_multi_def Let_def wp_simps(6,7)\<close>)
  show ?thesis
  proof (cases "g_proxy_host (glob s)")
    case (Some host)
    have "wlp (mmc_find_persistent env host (g_proxy_hostlen (glob s)) (g_proxy_port (glob s)) 1000 0 False s \<bind>
        (\<lambda>(q, s). mmc_open env q True s \<bind> (\<lambda>((ok, err), s). if ok = 0 then do {
              let s = php_error E_WARNING ''Can't connect to mc proxy: %s:%ld, %s (%d)'' s;
              s \<leftarrow> mmc_server_sleep q s;
              Some (None, s)
            } else Some (Some q, s)))) (\<lambda>(r, s'). conn_ok s')"
      by (rule wlp_bindI [OF find_persistent_keeps [OF assms]], clarify, rule open_proxy_keeps)
         (use give_up in \<open>simp_all add: Let_def wp_simps(6)\<close>)
    then show ?thesis using multi Some by (simp add: mmc_get_proxy_def Let_def)
  qed (use assms in \<open>simp add: mmc_get_proxy_def Let_def wp_simps(6)\<close>)
qed

subsection \<open>Finding a server, with or without the proxy\<close>

text \<open>
  A failover through the proxy marks a failed server as unknown without opening it; until
  the proxy is attached that server is the exception to the invariant.
\<close>

definition pending :: "nat option \<Rightarrow> nat \<Rightarrow> 'w st \<Rightarrow> bool" where
  "pending proxy p s \<longleftrightarrow> conn_ok_but p s \<and> (proxy = None \<longrightarrow> conn_ok s)"

lemma conn_ok_pending: "conn_ok s \<Longrightarrow> pending proxy p s"
  by (simp add: pending_def conn_ok_but_weak)

lemma should_failover_keeps:
  assumes "conn_ok s"
  shows "wlp (should_failover env p proxy s) (\<lambda>(fail, s'). (fail \<longrightarrow> conn_ok s') \<and> (\<not> fail \<longrightarrow> pending proxy p s'))"
proof (cases proxy)
  case None
  have "wlp (mmc_open env p False s \<bind> (\<lambda>((ok, _), s). Some (ok = 0, s)))
      (\<lambda>(fail, s'). (fail \<longrightarrow> conn_ok s') \<and> (\<not> fail \<longrightarrow> pending proxy p s'))"
    by (rule wlp_bindI [OF open_keeps [OF assms]]) (auto simp: wp_simps intro: conn_ok_pending)
  then show ?thesis using None by (simp add: should_failover_def)
next
  case (Some q)
  have "wlp (upd p (\<lambda>m. m\<lparr>mmc_status := STATUS_UNKNOWN\<rparr>) s1 \<bind> (\<lambda>s. Some (False, s)))
      (\<lambda>(fail, s'). (fail \<longrightarrow> conn_ok s') \<and> (\<not> fail \<longrightarrow> pending proxy p s'))" if "conn_ok s1" for s1
    using that Some by (auto simp: wlp_def pending_def conn_ok_iff conn_ok_but_def bind_eq_Some_conv elim!: updE split: if_splits)
  then show ?thesis using Some assms
    by (auto simp: should_failover_def Let_def wp_simps(6,9) conn_ok_pending split: prod.split intro!: wlp_bindI [OF wlp_heap])
qed

lemma failover_loop_keeps:
  fixes env :: "'w php_env"
  assumes "conn_ok s"
  shows "wlp (failover_loop env next proxy k i h p s) (\<lambda>(r, s'). pending proxy r s')"
  using assms
proof (induction k arbitrary: i h p s)
  case 0
  show ?case
    unfolding failover_loop.simps
    by (rule wlp_bindI [OF should_failover_keeps [OF 0]]) (auto simp: wp_simps intro: conn_ok_pending split: if_splits)
next
  case (Suc k)
  show ?case
    unfolding failover_loop.simps
  proof (rule wlp_bindI [OF should_failover_keeps [OF Suc.prems]], clarify)
    fix fail and s1 :: "'w st"
    assume "fail \<longrightarrow> conn_ok s1" "\<not> fail \<longrightarrow> pending proxy p s1"
    then have s1: "if fail then conn_ok s1 else pending proxy p s1" by simp
    show "wlp (if fail \<and> g_allow_failover (glob s1) then next i h \<bind>
        (\<lambda>(h, p). failover_loop env next proxy k (i + 1) h p s1) else Some (p, s1)) (\<lambda>(r, s'). pending proxy r s')"
    proof (cases "fail \<and> g_allow_failover (glob s1)")
      case True
      then have "wlp (next i h \<bind> (\<lambda>(h, p). failover_loop env next proxy k (i + 1) h p s1)) (\<lambda>(r, s'). pending proxy r s')"
        using s1 Suc.IH by (cases "next i h") (auto simp: wlp_def)
      then show ?thesis using True by simp
    next
      case False
      have "pending proxy p s1" using s1 by (auto intro: conn_ok_pending split: if_splits)
      then show ?thesis using False by (auto simp: wp_simps)
    qed
  qed
qed

lemma attach_keeps:
  assumes "pending proxy p s"
  shows "wlp (attach_proxy env p proxy s) conn_ok"
proof (cases "heap s p")
  case (Some m)
  show ?thesis
  proof (cases "proxy \<noteq> None \<and> mmc_status m \<noteq> STATUS_FAILED")
    case True
    have "wlp (mmc_server_disconnect env p s \<bind> upd p (\<lambda>m. m\<lparr>mmc_proxy := proxy\<rparr>)) conn_ok"
      by (rule wlp_bindI [OF disconnect_keeps wlp_upd_same])
         (use assms in \<open>simp_all add: pending_def\<close>)
    then show ?thesis using True Some by (simp add: attach_proxy_def)
  next
    case False
    then have "conn_good (mmc_stream m) (mmc_status m)"
      using assms Some by (auto simp: pending_def conn_ok_iff)
    then have "wlp (upd p (\<lambda>m. m\<lparr>mmc_proxy := None\<rparr>) s) conn_ok"
      using assms Some by (intro wlp_upd) (auto simp: pending_def)
    moreover have "attach_proxy env p proxy s = upd p (\<lambda>m. m\<lparr>mmc_proxy := None\<rparr>) s"
      unfolding attach_proxy_def Some bind.simps using False by (simp only: if_False)
    ultimately show ?thesis by simp
  qed
qed (simp add: attach_proxy_def wlp_def)

lemma proxy_or_not:
  assumes "conn_ok s"
  shows "wlp (if b then mmc_get_proxy env p s else Some (None, s)) (\<lambda>(r, s'). conn_ok s')"
  using get_proxy_keeps [OF assms] assms by (simp add: wp_simps(6))

text \<open>What both strategies do once the server and the proxy are chosen.\<close>

lemma choose_keeps:
  fixes env :: "'w php_env"
  assumes "conn_ok s"
    and "\<And>s'. conn_ok s' \<Longrightarrow> wlp (fin s') Q" "\<And>s' r. conn_ok s' \<Longrightarrow> wlp (done r s') Q"
  shows "wlp (do {
      (proxy, s) \<leftarrow> (if b then mmc_get_proxy env p s else Some (None, s));
      if b \<and> proxy = None then fin s
      else do {
        (r, s) \<leftarrow> failover_loop env next proxy (nat (g_max_failover_attempts (glob s))) 0 h p s;
        s \<leftarrow> attach_proxy env r proxy s;
        done r s } }) Q"
proof (rule wlp_bindI [OF proxy_or_not [OF assms(1)]], clarify)
  fix proxy and s1 :: "'w st"
  assume s1: "conn_ok s1"
  have "wlp (do { (r, s) \<leftarrow> failover_loop env next proxy (nat (g_max_failover_attempts (glob s1))) 0 h p s1; s \<leftarrow> attach_proxy env r proxy s; done r s }) Q"
    by (rule wlp_bindI [OF failover_loop_keeps [OF s1]], clarify, rule wlp_bindI [OF attach_keeps], assumption, rule assms(3))
  then show "wlp (if b \<and> proxy = None then fin s1 else do {
      (r, s) \<leftarrow> failover_loop env next proxy (nat (g_max_failover_attempts (glob s1))) 0 h p s1; s \<leftarrow> attach_proxy env r proxy s; done r s }) Q"
    using assms(2) [OF s1] by (cases "b \<and> proxy = None") simp_all
qed

lemma single_keeps:
  fixes env :: "'w php_env"
  assumes "conn_ok s"
    and "\<And>s'. conn_ok s' \<Longrightarrow> wlp (fin s') Q" "\<And>s'. conn_ok s' \<Longrightarrow> wlp (done s') Q"
  shows "wlp (do {
      (proxy, s) \<leftarrow> (if b then mmc_get_proxy env p s else Some (None, s));
      if b \<and> proxy = None then fin s
      else do {
        (fail, s) \<leftarrow> (case proxy of
           None \<Rightarrow> do { (_, s) \<leftarrow> mmc_open env p False s; Some (False, s) }
         | Some _ \<Rightarrow> should_failover env p proxy s);
        if fail then fin s
        else do { s \<leftarrow> attach_proxy env p proxy s; done s } } }) Q"
proof (rule wlp_bindI [OF proxy_or_not [OF assms(1)]], clarify)
  fix proxy and s1 :: "'w st"
  assume s1: "conn_ok s1"
  have first: "wlp (case proxy of
           None \<Rightarrow> do { (_, s) \<leftarrow> mmc_open env p False s1; Some (False, s) }
         | Some _ \<Rightarrow> should_failover env p proxy s1)
      (\<lambda>(fail, s'). (fail \<longrightarrow> conn_ok s') \<and> (\<not> fail \<longrightarrow> pending proxy p s'))"
  proof (cases proxy)
    case None
    have "wlp (mmc_open env p False s1 \<bind> (\<lambda>(_, s). Some (False, s)))
      (\<lambda>(fail, s'). (fail \<longrightarrow> conn_ok s') \<and> (\<not> fail \<longrightarrow> pending proxy p s'))"
      by (rule wlp_bindI [OF open_keeps [OF s1]]) (auto simp: wp_simps(6) conn_ok_pending)
    then show ?thesis using None by simp
  qed (use should_failover_keeps [OF s1] in simp)
  have "wlp (do {
        (fail, s) \<leftarrow> (case proxy of
           None \<Rightarrow> do { (_, s) \<leftarrow> mmc_open env p False s1; Some (False, s) }
         | Some _ \<Rightarrow> should_failover env p proxy s1);
        if fail then fin s else do { s \<leftarrow> attach_proxy env p proxy s; done s } }) Q"
  proof (rule wlp_bindI [OF first], clarify)
    fix fail and s2 :: "'w st"
    assume s2: "fail \<longrightarrow> conn_ok s2" "\<not> fail \<longrightarrow> pending proxy p s2"
    show "wlp (if fail then fin s2 else do { s \<leftarrow> attach_proxy env p proxy s2; done s }) Q"
      using s2 assms(2,3) by (cases fail) (auto intro: wlp_bindI [OF attach_keeps])
  qed
  then show "wlp (if b \<and> proxy = None then fin s1
      else do {
        (fail, s) \<leftarrow> (case proxy of
           None \<Rightarrow> do { (_, s) \<leftarrow> mmc_open env p False s1; Some (False, s) }
         | Some _ \<Rightarrow> should_failover env p proxy s1);
        if fail then fin s else do { s \<leftarrow> attach_proxy env p proxy s; done s } }) Q"
    using assms(2) [OF s1] by (cases "b \<and> proxy = None") simp_all
qed

lemma standard_find_keeps:
  assumes "conn_ok s"
  shows "wlp (mmc_standard_find_server env st key b s) (\<lambda>(r, s'). conn_ok s')"
  unfolding mmc_standard_find_server_def Let_def
proof (subst wp_simps(9), split if_split, intro conjI impI)
  show "wlp (standard_bucket st (mmc_hash env st key) \<bind> (\<lambda>mmc.
      (if b then mmc_get_proxy env mmc s else Some (None, s)) \<bind> (\<lambda>(proxy, s).
         if b \<and> proxy = None then Some (None, s)
         else failover_loop env (standard_next env st key) proxy (nat (g_max_failover_attempts (glob s))) 0
             (mmc_hash env st key) mmc s \<bind> (\<lambda>(mmc, s). attach_proxy env mmc proxy s \<bind> (\<lambda>s. Some (Some mmc, s))))))
      (\<lambda>(r, s'). conn_ok s')"
    by (cases "standard_bucket st (mmc_hash env st key)")
       (simp add: wlp_def, simp only: bind.simps, rule choose_keeps [OF assms], simp_all add: wp_simps(6))
  show "wlp ((case s_buckets st of [] \<Rightarrow> None | b # _ \<Rightarrow> Some b) \<bind> (\<lambda>mmc.
      (if b then mmc_get_proxy env mmc s else Some (None, s)) \<bind> (\<lambda>(proxy, s).
         if b \<and> proxy = None then Some (None, s)
         else (case proxy of None \<Rightarrow> mmc_open env mmc False s \<bind> (\<lambda>(_, s). Some (False, s))
               | Some _ \<Rightarrow> should_failover env mmc proxy s) \<bind> (\<lambda>(fail, s).
            if fail then Some (None, s) else attach_proxy env mmc proxy s \<bind> (\<lambda>s. Some (Some mmc, s))))))
      (\<lambda>(r, s'). conn_ok s')"
    by (cases "s_buckets st")
       (simp add: wlp_def, simp only: list.case bind.simps, rule single_keeps [OF assms], simp_all add: wp_simps(6))
qed

lemma consistent_result_keeps: "conn_ok s \<Longrightarrow> wlp (consistent_result p s) (\<lambda>(r, s'). conn_ok s')"
  by (auto simp: consistent_result_def wp_simps(6) intro!: wlp_bindI [OF wlp_heap])

lemma consistent_find_keeps:
  assumes "conn_ok s"
  shows "wlp (mmc_consistent_find_server env st key b s) (\<lambda>(r, s'). conn_ok s')"
proof -
  have fin: "wlp (consistent_result p s1 \<bind> (\<lambda>(r, s). Some ((r, st1), s))) (\<lambda>(r, s'). conn_ok s')"
    if "conn_ok s1" for p s1 and st1 :: mmc_consistent_state
    by (rule wlp_bindI [OF consistent_result_keeps [OF that]]) (auto simp: wp_simps(6))
  have many: "wlp (consistent_bucket st1 h \<bind> (\<lambda>mmc.
      (if b then mmc_get_proxy env mmc s else Some (None, s)) \<bind> (\<lambda>(proxy, s).
         if b \<and> proxy = None then Some ((None, st1), s)
         else failover_loop env (consistent_next env st1 key) proxy (nat (g_max_failover_attempts (glob s))) 0
             h mmc s \<bind> (\<lambda>(mmc, s). attach_proxy env mmc proxy s \<bind> (\<lambda>s.
               consistent_result mmc s \<bind> (\<lambda>(r, s). Some ((r, st1), s)))))))
      (\<lambda>(r, s'). conn_ok s')" for st1 h
    by (cases "consistent_bucket st1 h")
       (simp add: wlp_def, simp only: bind.simps, rule choose_keeps [OF assms], simp_all add: wp_simps(6) fin)
  have one: "wlp ((case c_points st of [] \<Rightarrow> None | pt # _ \<Rightarrow> Some (fst pt)) \<bind> (\<lambda>mmc.
      (if b then mmc_get_proxy env mmc s else Some (None, s)) \<bind> (\<lambda>(proxy, s).
         if b \<and> proxy = None then Some ((None, st), s)
         else (case proxy of None \<Rightarrow> mmc_open env mmc False s \<bind> (\<lambda>(_, s). Some (False, s))
               | Some _ \<Rightarrow> should_failover env mmc proxy s) \<bind> (\<lambda>(fail, s).
            if fail then Some ((None, st), s) else attach_proxy env mmc proxy s \<bind> (\<lambda>s.
               consistent_result mmc s \<bind> (\<lambda>(r, s). Some ((r, st), s)))))))
      (\<lambda>(r, s'). conn_ok s')"
    by (cases "c_points st")
       (simp add: wlp_def, simp only: list.case bind.simps, rule single_keeps [OF assms], simp_all add: wp_simps(6) fin)
  have pop: "wlp (if \<not> c_buckets_populated st then mmc_consistent_populate_buckets env st else Some st) (\<lambda>_. True)"
    by (simp add: wlp_def)
  show ?thesis
    unfolding mmc_consistent_find_server_def Let_def
    by (subst wp_simps(9), split if_split, intro conjI impI, rule wlp_bindI [OF pop], rule many, rule one)
qed

lemma strategy_find_keeps:
  assumes "conn_ok s"
  shows "wlp (strategy_find_server env key b s) (\<lambda>(r, s'). conn_ok s')"
proof (cases "p_hash_state (pool s)")
  case (Standard_State st)
  then show ?thesis using standard_find_keeps [OF assms] by (simp add: strategy_find_server_def)
next
  case (Consistent_State st)
  have "wlp (mmc_consistent_find_server env st key b s \<bind> (\<lambda>((r, st), s).
       Some (r, s\<lparr>pool := (pool s)\<lparr>p_hash_state := Consistent_State st\<rparr>\<rparr>))) (\<lambda>(r, s'). conn_ok s')"
    by (rule wlp_bindI [OF consistent_find_keeps [OF assms]]) (auto simp: wp_simps(6))
  then show ?thesis using Consistent_State by (simp add: strategy_find_server_def)
qed

lemma send_request_quiet_always: "wlp (send_request env p request s) (\<lambda>(r, s'). quiet s s')"
proof (cases "send_request env p request s")
  case None
  then show ?thesis by (simp add: wlp_def)
next
  case (Some y)
  then obtain h prefix where "mmc_channel p s = Some (Some h, prefix)"
    by (auto simp: send_request_def bind_eq_Some_conv)
  then show ?thesis by (intro wlp_conseq [OF wp_wlp [OF send_request_quiet]]) auto
qed

lemma get_options_keeps:
  assumes "conn_ok s"
  shows "wlp (get_options env p s) (\<lambda>(r, s'). conn_ok s')"
proof -
  have line: "wlp (mmc_readline env p s1) (\<lambda>(r, s'). conn_ok s')" if "conn_ok s1" for s1
    by (rule wlp_conseq [OF readline_quiet_always]) (use conn_ok_quiet [OF _ that] in auto)
  have algo: "wlp (upd p (\<lambda>m. m\<lparr>mmc_data_integrity_algo := f m\<rparr>) s1 \<bind> (\<lambda>s. Some (0, s))) (\<lambda>(r, s'). conn_ok s')"
    if "conn_ok s1" for f s1
    by (rule wlp_bindI [OF wlp_upd_same [OF that]]) (simp_all add: wp_simps(6))
  have read: "wlp (mmc_readline env p s1 \<bind> (\<lambda>(n, s). if n < 0 then Some (- 1, s) else heap s p \<bind> (\<lambda>m.
       if mmc_str_left env (mmc_inbuf m) ''SERVER_ERROR'' (nat n) then Some (- 1, s)
       else upd p (\<lambda>m. m\<lparr>mmc_data_integrity_algo := di_algo_of_reply env (mmc_inbuf m) (nat n)\<rparr>) s \<bind>
            (\<lambda>s. Some (0, s))))) (\<lambda>(r, s'). conn_ok s')" if "conn_ok s1" for s1
    by (rule wlp_bindI [OF line [OF that]], clarify)
       (auto simp: wp_simps(6,9) intro!: wlp_bindI [OF wlp_heap] algo)
  show ?thesis
    unfolding get_options_def Let_def
  proof (subst wp_simps(9), split if_split, intro conjI impI)
    show "wlp (send_request env p (options_command (pool s) (glob s)) s \<bind> (\<lambda>(r, s).
        if r \<noteq> Sent then Some (- 1, s) else mmc_readline env p s \<bind> (\<lambda>(n, s). if n < 0 then Some (- 1, s) else heap s p \<bind> (\<lambda>m.
       if mmc_str_left env (mmc_inbuf m) ''SERVER_ERROR'' (nat n) then Some (- 1, s)
       else upd p (\<lambda>m. m\<lparr>mmc_data_integrity_algo := di_algo_of_reply env (mmc_inbuf m) (nat n)\<rparr>) s \<bind>
            (\<lambda>s. Some (0, s)))))) (\<lambda>(r, s'). conn_ok s')"
      by (rule wlp_bindI [OF send_request_quiet_always], clarify)
         (use read conn_ok_quiet [OF _ assms] in \<open>auto simp: wp_simps(6)\<close>)
  qed (simp add: wlp_def)
qed

lemma negotiate_keeps:
  assumes "conn_ok s"
  shows "wlp (negotiate_options env p s) conn_ok"
proof -
  have got: "wlp (upd q (\<lambda>m. m\<lparr>mmc_got_options := True\<rparr>) s1) conn_ok" if "conn_ok s1" for q s1
    by (rule wlp_upd_same [OF that]) simp_all
  have fail: "wlp (mmc_server_failure env p s1 \<bind> (\<lambda>(_, s). Some s)) conn_ok" if "conn_ok s1" for s1
    by (rule wlp_bindI [OF failure_keeps [OF that]]) (auto simp: wp_simps(6))
  have mark: "wlp (heap s1 p \<bind> (\<lambda>m. mmc_proxy m \<bind> (\<lambda>q. upd q (\<lambda>m. m\<lparr>mmc_got_options := True\<rparr>) s1))) conn_ok"
    if "conn_ok s1" for s1
    by (rule wlp_bindI [OF wlp_heap], assumption, rule wlp_bindI [where P = "\<lambda>_. True"])
       (use got [OF that] in \<open>simp_all add: wlp_def\<close>)
  have ask: "wlp (get_options env p s \<bind> (\<lambda>(r, s). if 0 \<le> r then
        upd p (\<lambda>m. m\<lparr>mmc_got_options := True\<rparr>) s \<bind> (\<lambda>s.
          if p_proxy_enabled (pool s) then heap s p \<bind> (\<lambda>m. mmc_proxy m \<bind> (\<lambda>q.
             upd q (\<lambda>m. m\<lparr>mmc_got_options := True\<rparr>) s)) else Some s)
      else mmc_server_failure env p s \<bind> (\<lambda>(_, s). Some s))) conn_ok"
    by (rule wlp_bindI [OF get_options_keeps [OF assms]], clarify)
       (auto simp: wp_simps(6) fail mark intro!: wlp_bindI [OF got])
  show ?thesis
    unfolding negotiate_options_def
    apply (rule wlp_bindI [where P = "\<lambda>_. True"], simp add: wlp_def)
    apply (rule wlp_bindI [where P = "\<lambda>_. True"], simp add: wlp_def)
    using ask assms by (simp add: wp_simps(6))
qed

lemma pool_find_keeps:
  assumes "conn_ok s"
  shows "wlp (mmc_pool_find env key s) (\<lambda>(r, s'). conn_ok s')"
proof -
  have server: "wlp (do {
          m \<leftarrow> heap s1 p;
          if mmc_status m = STATUS_FAILED \<or> (p_proxy_enabled (pool s1) \<and> mmc_proxy m = None)
          then Some (Some p, s1)
          else do {
            s \<leftarrow> negotiate_options env p s1;
            s \<leftarrow> upd p (\<lambda>m. m\<lparr>mmc_di_algo_in_use :=
                   algo_in_use (p_enable_checksum (pool s)) (mmc_data_integrity_algo m)\<rparr>) s;
            Some (Some p, s)
          } }) (\<lambda>(r, s'). conn_ok s')" if "conn_ok s1" for p s1
    using that
    by (auto simp: wp_simps(6) intro!: wlp_bindI [OF wlp_heap] wlp_bindI [OF negotiate_keeps] wlp_bindI [OF wlp_upd_same])
  show ?thesis
    unfolding mmc_pool_find_def
    by (rule wlp_bindI [OF strategy_find_keeps [OF assms]]) (auto simp: wp_simps(6) server split: option.split)
qed

subsection \<open>Reachable states\<close>

inductive conn_step :: "'w php_env \<Rightarrow> 'w st \<Rightarrow> 'w st \<Rightarrow> bool" for env where
  step_new: "mmc_server_new h n port pers tm ri b s = (p, s') \<Longrightarrow> conn_step env s s'"
| step_persistent: "mmc_find_persistent env h n pt tm ri b s = Some (p, s') \<Longrightarrow> conn_step env s s'"
| step_open: "mmc_open env p force s = Some (r, s') \<Longrightarrow> conn_step env s s'"
| step_send: "mmc_sendcmd env p cmd s = Some (r, s') \<Longrightarrow> conn_step env s s'"
| step_line: "mmc_readline env p s = Some (r, s') \<Longrightarrow> conn_step env s s'"
| step_received_error: "mmc_server_received_error env p k s = Some s' \<Longrightarrow> conn_step env s s'"
| step_disconnect: "mmc_server_disconnect env p s = Some s' \<Longrightarrow> conn_step env s s'"
| step_deactivate: "mmc_server_deactivate env p s = Some s' \<Longrightarrow> conn_step env s s'"
| step_failure: "mmc_server_failure env p s = Some (r, s') \<Longrightarrow> conn_step env s s'"
| step_find: "mmc_pool_find env key s = Some (r, s') \<Longrightarrow> conn_step env s s'"
| step_sleep: "mmc_server_sleep p s = Some s' \<Longrightarrow> conn_step env s s'"
| step_free: "mmc_server_free env p s = Some s' \<Longrightarrow> conn_step env s s'"

inductive conn_reach :: "'w php_env \<Rightarrow> 'w st \<Rightarrow> bool" for env where
  reach_start: "heap s = Map.empty \<Longrightarrow> conn_reach env s"
| reach_step: "conn_reach env s \<Longrightarrow> conn_step env s s' \<Longrightarrow> conn_reach env s'"

inductive_cases conn_stepE: "conn_step env s s'"

lemma keeps_fst: "wlp c (\<lambda>(r, s'). P s') \<Longrightarrow> c = Some (r, s') \<Longrightarrow> P s'"
  by (simp add: wlp_def)

lemma quiet_keeps_fst: "wlp c (\<lambda>(r, s'). quiet s s') \<Longrightarrow> c = Some (r, s') \<Longrightarrow> conn_ok s \<Longrightarrow> conn_ok s'"
  by (auto simp: wlp_def intro: conn_ok_quiet)

lemma open_keeps_state: "mmc_open env p force s = Some (r, s') \<Longrightarrow> conn_ok s \<Longrightarrow> conn_ok s'"
  using wlpD [OF open_keeps, of s env p force "(r, s')"] by (cases r) simp

lemma conn_step_keeps: "conn_step env s s' \<Longrightarrow> conn_ok s \<Longrightarrow> conn_ok s'"
  by (erule conn_stepE)
     (erule server_new_keeps keeps_fst [OF find_persistent_keeps] open_keeps_state
        quiet_keeps_fst [OF sendcmd_quiet_always] quiet_keeps_fst [OF readline_quiet_always]
        wlpD [OF received_error_keeps] wlpD [OF disconnect_keeps [OF conn_ok_but_weak]]
        wlpD [OF deactivate_keeps] keeps_fst [OF failure_keeps] keeps_fst [OF pool_find_keeps]
        wlpD [OF sleep_keeps] wlpD [OF free_keeps], assumption?)+

lemma conn_reach_ok: "conn_reach env s \<Longrightarrow> conn_ok s"
proof (induction rule: conn_reach.induct)
  case (reach_start s)
  then show ?case by (simp add: conn_ok_iff)
next
  case (reach_step s s')
  then show ?case using conn_step_keeps by blast
qed

text \<open>C1. Whatever operations on servers, connections, the proxy and the pool ran before, in
  any order, a server whose status is connected or unknown has a stream, so that sending it a
  command without the proxy never goes through a NULL stream.\<close>
theorem connected_has_stream:
  assumes "conn_reach env s" "heap s p = Some m" "mmc_status m \<in> {STATUS_CONNECTED, STATUS_UNKNOWN}"
  shows "mmc_stream m \<noteq> None \<and> (mmc_proxy m = None \<longrightarrow> (\<exists>r s'. mmc_sendcmd env p cmd s = Some (r, s')))"
proof -
  have st: "mmc_stream m \<noteq> None"
    using conn_reach_ok [OF assms(1)] assms(2,3) by (auto simp: conn_ok_iff conn_good_def)
  then obtain h where "mmc_proxy m = None \<Longrightarrow> mmc_channel p s = Some (Some h, [])"
    using assms(2) by (auto simp: mmc_channel_def)
  then show ?thesis using st mmc_sendcmd_quiet [of p s h "[]" env cmd] by (auto simp: wp_def)
qed

lemma ex_reach:
  "conn_reach ex_env (snd (the (mmc_open ex_env 10 False (snd (mmc_server_new ''db1'' 3 11211 False 1 15 False (ex_state Map.empty []))))))"
proof -
  define s0 where "s0 = ex_state Map.empty []"
  obtain s1 where new: "mmc_server_new ''db1'' 3 11211 False 1 15 False s0 = (10, s1)"
    by (simp add: mmc_server_new_def s0_def ex_state_def)
  have r1: "conn_reach ex_env s1"
    by (rule reach_step [OF reach_start step_new [OF new]]) (simp add: s0_def ex_state_def)
  have "heap s1 10 \<noteq> None" using new by (auto simp: mmc_server_new_def s0_def ex_state_def Let_def)
  then obtain m where "heap s1 10 = Some m" by auto
  moreover have "conn_ok s1" by (rule conn_reach_ok [OF r1])
  ultimately obtain r s2 where op: "mmc_open ex_env 10 False s1 = Some (r, s2)"
    using open_touch [of s1 10 m ex_env] by (auto simp: wp_def conn_ok_iff conn_good_def)
  show ?thesis using reach_step [OF r1 step_open [OF op]] new op by (simp add: s0_def)
qed

text \<open>The state of the witnesses: a server created and then opened.\<close>

definition ex_opened :: "wire st" where
  "ex_opened = snd (the (mmc_open ex_env 10 False
     (snd (mmc_server_new ''db1'' 3 11211 False 1 15 False (ex_state Map.empty [])))))"

lemma ex_opened_heap:
  "\<exists>m. heap ex_opened 10 = Some m \<and> mmc_status m = STATUS_CONNECTED \<and> mmc_proxy m = None"
  by (simp add: ex_opened_def mmc_server_new_def mmc_open_def mmc_open_conn_def Let_def ex_state_def ex_glob_def
      open_attempts.simps ex_env_def ex_connect_def open_result_def connect_timeout_def connect_hostname_def)

lemma connected_has_stream_witness:
  "\<exists>m. heap ex_opened 10 = Some m \<and> mmc_stream m \<noteq> None \<and> (\<exists>r s'. mmc_sendcmd ex_env 10 ''version'' ex_opened = Some (r, s'))"
proof -
  obtain m where m: "heap ex_opened 10 = Some m" "mmc_status m = STATUS_CONNECTED" "mmc_proxy m = None"
    using ex_opened_heap by blast
  have "conn_reach ex_env ex_opened" unfolding ex_opened_def by (rule ex_reach)
  from connected_has_stream [OF this m(1), of "''version''"] m show ?thesis by simp
qed

subsection \<open>The retry decision\<close>





subsection \<open>Finding the server of a key\<close>

text \<open>C2. On a pool of servers without the proxy, \<open>mmc_pool_find\<close> always returns, never goes
  through a NULL or freed server or stream, and what it returns is NULL or a server of the
  pool that has failed or has a stream for the next command; pool and connections are
  well-formed again.\<close>
theorem mmc_pool_find_safe:
  assumes "qsort_ok env" "pool_wf s" "conn_ok s" "\<not> p_proxy_enabled (pool s)"
    and "length (options_command (pool s) (glob s)) < MAX_OPTIONS_LEN"
  shows "\<exists>r s'. mmc_pool_find env key s = Some (r, s') \<and> pool_wf s' \<and> conn_ok s' \<and>
    (\<forall>p. r = Some p \<longrightarrow> p \<in> set (p_servers (pool s)) \<and>
       (\<exists>m. heap s' p = Some m \<and> mmc_proxy m = None \<and> (mmc_status m = STATUS_FAILED \<or> mmc_stream m \<noteq> None)))"
  using mmc_pool_find_direct [OF assms, of key] by (auto simp: wp_def find_result_def found_def ready_def)

lemma mmc_pool_find_safe_witness:
  "\<exists>r s'. mmc_pool_find ex_env ''foo'' (ex_state (ex_heap STATUS_CONNECTED (Some 3)) []) = Some (r, s') \<and> conn_ok s'"
proof -
  let ?s = "ex_state (ex_heap STATUS_CONNECTED (Some 3)) []"
  have "pool_wf ?s" by (auto simp: pool_wf_def ex_state_def ex_pool_def ex_heap_def hash_wf_def)
  moreover have "conn_ok ?s"
    by (auto simp: conn_ok_iff ex_state_def ex_heap_def ex_server_def conn_good_def split: if_splits)
  moreover have "\<not> p_proxy_enabled (pool ?s)" "length (options_command (pool ?s) (glob ?s)) < MAX_OPTIONS_LEN"
    by (simp_all add: ex_state_def ex_pool_def options_command_def CRLF_def MAX_OPTIONS_LEN_def)
  ultimately show ?thesis using mmc_pool_find_safe [OF ex_env_ok(1), of ?s "''foo''"] by blast
qed

subsection \<open>Reading lines, errors and timeouts\<close>

text \<open>\<open>mmc_readline\<close> on an open stream reads one line and no more: the retries its comment
  announces never happen, and a read that gives NULL is at once the failure -1, with retry
  count 1 in the error.\<close>
theorem mmc_readline_reads_once:
  assumes "heap s p = Some m" "mmc_proxy m = None" "mmc_stream m = Some h"
    "stream_get_line env h MMC_BUF_SIZE (world s) = (l, w)"
  shows "mmc_readline env p s = (case l of
     Some line \<Rightarrow> Some (int (length line), s\<lparr>world := w, heap := (heap s)(p \<mapsto> m\<lparr>mmc_inbuf := line\<rparr>)\<rparr>)
   | None \<Rightarrow> Some (- 1, s\<lparr>world := w, heap := (heap s)(p \<mapsto> m\<lparr>mmc_error :=
       Some ''Failed reeading line from stream. Retry count 1'', mmc_errnum := 0\<rparr>)\<rparr>))"
  using assms
  by (auto simp: mmc_readline_def mmc_channel_def numeral_3_eq_3 mmc_server_seterror_def cstr_def split: option.split)

lemma mmc_readline_reads_once_witness:
  "mmc_readline ex_env 1 (ex_state (ex_heap STATUS_CONNECTED (Some 3)) []) \<noteq> None"
  using mmc_readline_reads_once [of "ex_state (ex_heap STATUS_CONNECTED (Some 3)) []" 1
     "ex_server STATUS_CONNECTED (Some 3)" 3 ex_env None]
  by (simp add: ex_state_def ex_heap_def ex_server_def ex_env_def ex_read_def)

text \<open>Only answers that start with \<open>SERVER_ERROR\<close> are kept as the error of the
  connection: an answer \<open>ERROR\<close> or \<open>CLIENT_ERROR\<close> is copied and then overwritten by the
  message for malformed responses.\<close>
theorem mmc_server_received_error_overwrites:
  assumes "memnstr_ok env" "heap s p = Some m" "length (mmc_inbuf m) < MMC_BUF_SIZE"
    "CHR 0x00 \<notin> set (mmc_inbuf m)" "take (length a) (mmc_inbuf m) = a" "a \<in> {''ERROR'', ''CLIENT_ERROR'', ''SERVER_ERROR''}"
  shows "\<exists>s' m'. mmc_server_received_error env p (length (mmc_inbuf m)) s = Some s' \<and> heap s' p = Some m' \<and>
    mmc_error m' = Some (if a = ''SERVER_ERROR'' then mmc_inbuf m else ''Received malformed response'')"
proof -
  obtain r where r: "mmc_inbuf m = a @ r" using assms(5) by (metis append_take_drop_id)
  have set: "received_error_set q (length (mmc_inbuf k)) s1 =
      Some (s1\<lparr>heap := (heap s1)(q \<mapsto> k\<lparr>mmc_error := Some (mmc_inbuf k), mmc_errnum := 0\<rparr>)\<rparr>)"
    if "heap s1 q = Some k" "length (mmc_inbuf k) < MMC_BUF_SIZE" "CHR 0x00 \<notin> set (mmc_inbuf k)" for q k and s1 :: "'a st"
    using that by (auto simp: received_error_set_def mmc_server_seterror_def)
  note left = mmc_str_left_iff [OF assms(1)]
  from assms(6) consider "a = ''ERROR''" | "a = ''CLIENT_ERROR''" | "a = ''SERVER_ERROR''" by blast
  then show ?thesis
  proof cases
    case 1
    then show ?thesis using set [OF assms(2,3,4)] assms(2) r
      by (simp add: mmc_server_received_error_def left mmc_server_seterror_def)
  next
    case 2
    then show ?thesis using set [OF assms(2,3,4)] assms(2) r
      by (simp add: mmc_server_received_error_def left mmc_server_seterror_def)
  next
    case 3
    then show ?thesis using set [OF assms(2,3,4)] assms(2) r
      by (simp add: mmc_server_received_error_def left)
  qed
qed

lemma mmc_server_received_error_overwrites_witness:
  "let m = (ex_server STATUS_CONNECTED (Some 3))\<lparr>mmc_inbuf := ''CLIENT_ERROR bad line''\<rparr>; s = ex_state [1 \<mapsto> m] [] in
    \<exists>s' m'. mmc_server_received_error ex_env 1 (length (mmc_inbuf m)) s = Some s' \<and> heap s' 1 = Some m' \<and>
      mmc_error m' = Some (if ''CLIENT_ERROR'' = ''SERVER_ERROR'' then mmc_inbuf m else ''Received malformed response'')"
  unfolding Let_def
  by (rule mmc_server_received_error_overwrites [OF ex_env_ok(2)]) (simp_all add: ex_state_def MMC_BUF_SIZE_def)

text \<open>A timeout in milliseconds that is not negative and fits \<open>int\<close> becomes seconds and
  microseconds without loss.\<close>
theorem convert_timeoutms_exact:
  assumes "0 \<le> ms" "ms < 2 ^ 31"
  shows "\<exists>sec usec. convert_timeoutms_to_ts ms = (sec, usec) \<and> 0 \<le> usec \<and> usec < 1000000 \<and>
    sec * 1000000 + usec = ms * 1000"
proof -
  have q: "ms sdiv 1000 = ms div 1000" "0 \<le> ms div 1000" "ms div 1000 \<le> ms" using assms by (simp_all add: sdiv_nonneg div_le_dividend)
  have c: "c_int (ms div 1000) = ms div 1000" "c_int (ms div 1000 * 1000) = ms div 1000 * 1000"
    using assms by (intro c_int_id; simp; linarith)+
  have m: "ms - ms div 1000 * 1000 = ms mod 1000" by (simp add: minus_div_mult_eq_mod)
  have r: "0 \<le> ms mod 1000 * 1000" "ms mod 1000 * 1000 < 1000000" using pos_mod_bound [of 1000 ms] by simp_all
  have e: "ms div 1000 * 1000000 + ms mod 1000 * 1000 = ms * 1000"
    using div_mult_mod_eq [of ms 1000] by linarith
  have "convert_timeoutms_to_ts ms = (ms div 1000, ms mod 1000 * 1000)"
    unfolding convert_timeoutms_to_ts_def Let_def q(1) c m using r by (simp add: smod_nonneg)
  then show ?thesis using r e by blast
qed

lemma convert_timeoutms_exact_witness:
  "\<exists>sec usec. convert_timeoutms_to_ts 1500 = (sec, usec) \<and> 0 \<le> usec \<and> usec < 1000000 \<and> sec * 1000000 + usec = 1500 * 1000"
  by (rule convert_timeoutms_exact) simp_all

end
