(* ===== verification/Cas_Memory.thy ===== *)
theory Cas_Memory
  imports Runs Lifecycle
begin

text \<open>
  The CAS values a pool remembers (\<open>cas_array\<close>): getl enters the value of the lock, a store
  uses it and forgets it, unl uses it and forgets it unless the command could not be sent. No
  other operation changes the table; the lemmas of the first part show it bottom up.
\<close>

subsection \<open>Operations that leave the table alone\<close>

abbreviation mem :: "'w st \<Rightarrow> string \<rightharpoonup> u64" where
  "mem s \<equiv> p_cas_array (pool s)"

text \<open>\<open>keeps\<close> and \<open>keeps1\<close>: if the program returns, the table is \<open>a\<close> in its state.\<close>

definition keeps :: "(string \<rightharpoonup> u64) \<Rightarrow> ('a \<times> 'w st) option \<Rightarrow> bool" where
  "keeps a c \<longleftrightarrow> (\<forall>r s. c = Some (r, s) \<longrightarrow> mem s = a)"

definition keeps1 :: "(string \<rightharpoonup> u64) \<Rightarrow> 'w st option \<Rightarrow> bool" where
  "keeps1 a c \<longleftrightarrow> (\<forall>s. c = Some s \<longrightarrow> mem s = a)"

named_theorems keeps "operations that keep the CAS table"

lemma keeps_basic [simp]:
  "keeps a None" "keeps1 a None" "keeps a (Some (r, s)) = (mem s = a)" "keeps1 a (Some s) = (mem s = a)"
  by (simp_all add: keeps_def keeps1_def)

lemma keeps_bind [keeps]:
  "keeps a c \<Longrightarrow> (\<And>r s. mem s = a \<Longrightarrow> keeps a (f (r, s))) \<Longrightarrow> keeps a (Option.bind c f)"
  "keeps a c \<Longrightarrow> (\<And>r s. mem s = a \<Longrightarrow> keeps1 a (g (r, s))) \<Longrightarrow> keeps1 a (Option.bind c g)"
  "keeps1 a d \<Longrightarrow> (\<And>s. mem s = a \<Longrightarrow> keeps a (h s)) \<Longrightarrow> keeps a (Option.bind d h)"
  "keeps1 a d \<Longrightarrow> (\<And>s. mem s = a \<Longrightarrow> keeps1 a (i s)) \<Longrightarrow> keeps1 a (Option.bind d i)"
  by (fastforce simp: keeps_def keeps1_def bind_eq_Some_conv)+

text \<open>Binding a value that is no state: one rule for each type the programs bind.\<close>

lemma keeps_value: "(\<And>x. keeps a (f x)) \<Longrightarrow> keeps a (Option.bind c f)" "(\<And>x. keeps1 a (g x)) \<Longrightarrow> keeps1 a (Option.bind c g)"
  by (fastforce simp: keeps_def keeps1_def bind_eq_Some_conv)+

lemmas keeps_values [keeps] =
  keeps_value(1) [where c = "c :: mmc option" for c] keeps_value(2) [where c = "c :: mmc option" for c]
  keeps_value(1) [where c = "c :: nat option" for c] keeps_value(2) [where c = "c :: nat option" for c]
  keeps_value(1) [where c = "c :: bool option" for c] keeps_value(2) [where c = "c :: bool option" for c]
  keeps_value(1) [where c = "c :: string option" for c] keeps_value(2) [where c = "c :: string option" for c]
  keeps_value(1) [where c = "c :: u64 option" for c] keeps_value(2) [where c = "c :: u64 option" for c]
  keeps_value(1) [where c = "c :: mmc_consistent_state option" for c] keeps_value(2) [where c = "c :: mmc_consistent_state option" for c]
  keeps_value(1) [where c = "c :: buf option" for c] keeps_value(2) [where c = "c :: buf option" for c]
  keeps_value(1) [where c = "c :: (nat option \<times> string) option" for c] keeps_value(2) [where c = "c :: (nat option \<times> string) option" for c]
  keeps_value(1) [where c = "c :: (u32 \<times> nat) option" for c] keeps_value(2) [where c = "c :: (u32 \<times> nat) option" for c]
  keeps_value(1) [where c = "c :: old_checksum option" for c] keeps_value(2) [where c = "c :: old_checksum option" for c]

lemma keeps_upd [keeps]: "mem s = a \<Longrightarrow> keeps1 a (upd p f s)"
  by (auto simp: keeps1_def elim!: updE)

lemma keeps_quiet: "mem s = a \<Longrightarrow> wlp c (\<lambda>(r, s'). quiet s s') \<Longrightarrow> keeps a c"
  by (fastforce simp: keeps_def wlp_def quiet_def)

lemma keeps_quiet1: "mem s = a \<Longrightarrow> wlp c (quiet s) \<Longrightarrow> keeps1 a c"
  by (fastforce simp: keeps1_def wlp_def quiet_def)

lemma keeps_seterror [keeps]: "mem s = a \<Longrightarrow> keeps1 a (mmc_server_seterror p e n s)"
  by (rule keeps_quiet1 [OF _ seterror_quiet_always])

lemma keeps_sendcmd [keeps]: "mem s = a \<Longrightarrow> keeps a (mmc_sendcmd env p cmd s)"
  by (rule keeps_quiet [OF _ sendcmd_quiet_always])

lemma keeps_readline [keeps]: "mem s = a \<Longrightarrow> keeps a (mmc_readline env p s)"
  by (rule keeps_quiet [OF _ readline_quiet_always])

lemma keeps_send_request [keeps]: "mem s = a \<Longrightarrow> keeps a (send_request env p r s)"
  by (rule keeps_quiet [OF _ send_request_quiet_always])

lemma keeps_received_error_set [keeps]: "mem s = a \<Longrightarrow> keeps1 a (received_error_set p n s)"
  by (auto simp: received_error_set_def intro!: keeps)

lemma keeps_received_error [keeps]: "mem s = a \<Longrightarrow> keeps1 a (mmc_server_received_error env p n s)"
  by (auto simp: mmc_server_received_error_def intro!: keeps)

lemma keeps_report_failure [simp]: "mem (report_failure env m s) = mem s"
  by (simp add: report_failure_def split: option.split)

lemma keeps_disconnect [keeps]: "mem s = a \<Longrightarrow> keeps1 a (mmc_server_disconnect env p s)"
  by (auto simp: mmc_server_disconnect_def split: option.split intro!: keeps)

lemma keeps_deactivate [keeps]: "mem s = a \<Longrightarrow> keeps1 a (mmc_server_deactivate env p s)"
  by (auto simp: mmc_server_deactivate_def split: prod.split intro!: keeps)

lemma keeps_failure [keeps]: "mem s = a \<Longrightarrow> keeps a (mmc_server_failure env p s)"
  by (auto simp: mmc_server_failure_def split: option.split mmc_status.split intro!: keeps)


lemma keeps_let [simp]: "keeps a (Let x f) = keeps a (f x)" "keeps1 a (Let x g) = keeps1 a (g x)"
  by (simp_all add: Let_def)

lemma keeps_get_version [keeps]: "mem s = a \<Longrightarrow> keeps a (mmc_get_version env p s)"
  by (rule keeps_quiet [OF _ get_version_quiet])

lemma keeps_server_new [simp]: "mem (snd (mmc_server_new h n port pers tm ri b s)) = mem s"
  by (simp add: mmc_server_new_def)

lemma keeps_server_new': "mmc_server_new h n port pers tm ri b s = (p, s') \<Longrightarrow> mem s' = mem s"
  using keeps_server_new by (metis snd_conv)

lemma keeps_open_attempts: "open_attempts env h k tv n s = (r, s') \<Longrightarrow> mem s' = mem s"
proof (induction env h k tv n s rule: open_attempts.induct)
  case (1 env h k tv n s)
  then show ?case
    by (subst (asm) (2) open_attempts.simps) (fastforce simp: Let_def split: prod.splits if_splits)
qed

lemma keeps_open_conn [keeps]: "mem s = a \<Longrightarrow> keeps a (mmc_open_conn env p s)"
  by (auto simp: mmc_open_conn_def open_result_def split: option.split prod.split
      dest!: keeps_open_attempts intro!: keeps)

lemma keeps_open [keeps]: "mem s = a \<Longrightarrow> keeps a (mmc_open env p force s)"
  by (auto simp: mmc_open_def split: mmc_status.split prod.split intro!: keeps)

lemma keeps_sleep [keeps]: "mem s = a \<Longrightarrow> keeps1 a (mmc_server_sleep p s)"
  by (simp add: mmc_server_sleep_def keeps_upd)

lemma keeps_free [keeps]: "mem s = a \<Longrightarrow> keeps1 a (mmc_server_free env p s)"
  by (auto simp: mmc_server_free_def split: option.split intro!: keeps)

lemma keeps_find_persistent [keeps]: "mem s = a \<Longrightarrow> keeps a (mmc_find_persistent env h n port tm ri b s)"
  by (auto simp: mmc_find_persistent_def split: option.split prod.split bool.split dest!: keeps_server_new' intro!: keeps)

lemma keeps_get_proxy [keeps]: "mem s = a \<Longrightarrow> keeps a (mmc_get_proxy env p s)"
  by (auto simp: mmc_get_proxy_def get_proxy_for_multi_def split: option.split prod.split dest!: keeps_server_new' intro!: keeps)

lemma keeps_should_failover [keeps]: "mem s = a \<Longrightarrow> keeps a (should_failover env p q s)"
  by (auto simp: should_failover_def split: option.split prod.split intro!: keeps)

lemma keeps_failover_loop [keeps]: "mem s = a \<Longrightarrow> keeps a (failover_loop env next proxy k i hash p s)"
  by (induction k arbitrary: i hash p s) (auto split: prod.split intro!: keeps)

lemma keeps_attach [keeps]: "mem s = a \<Longrightarrow> keeps1 a (attach_proxy env p q s)"
  by (auto simp: attach_proxy_def intro!: keeps)

lemma keeps_standard_find [keeps]: "mem s = a \<Longrightarrow> keeps a (mmc_standard_find_server env st key b s)"
  by (auto simp: mmc_standard_find_server_def split: option.split intro!: keeps)

lemma keeps_consistent_find [keeps]: "mem s = a \<Longrightarrow> keeps a (mmc_consistent_find_server env st key b s)"
  by (auto simp: mmc_consistent_find_server_def consistent_result_def split: option.split intro!: keeps)

lemma keeps_strategy_find [keeps]: "mem s = a \<Longrightarrow> keeps a (strategy_find_server env key b s)"
  by (auto simp: strategy_find_server_def split: hash_state.split intro!: keeps)

lemma keeps_get_options [keeps]: "mem s = a \<Longrightarrow> keeps a (get_options env p s)"
  by (auto simp: get_options_def intro!: keeps)

lemma keeps_negotiate [keeps]: "mem s = a \<Longrightarrow> keeps1 a (negotiate_options env p s)"
  by (auto simp: negotiate_options_def intro!: keeps)

lemma keeps_pool_find [keeps]: "mem s = a \<Longrightarrow> keeps a (mmc_pool_find env key s)"
  by (auto simp: mmc_pool_find_def split: option.split intro!: keeps)


subsection \<open>Commands that leave the table alone\<close>

lemma keeps_error_frame [simp]: "mem (log_upd f s) = mem s"
  by simp

lemma keeps_saveLogger [simp]: "mem (saveLogger s) = mem s"
  by (simp add: saveLogger_def)

lemma keeps_restoreLogger [keeps]: "mem s = a \<Longrightarrow> keeps1 a (restoreLogger s)"
  by (simp add: restoreLogger_def)

lemma keeps_log_outcome [keeps]: "mem s = a \<Longrightarrow> keeps1 a (log_outcome r s)"
  by (auto simp: log_outcome_def split: option.split intro!: keeps)

lemma keeps_parse_response [keeps]: "mem s = a \<Longrightarrow> keeps a (mmc_parse_response env p n k c h s)"
  by (auto simp: mmc_parse_response_def intro!: keeps)

lemma keeps_get_key [keeps]: "mem s = a \<Longrightarrow> keeps1 a (get_key p s)"
  by (auto simp: get_key_def intro!: keeps)

lemma keeps_mismatch [keeps]: "mem s = a \<Longrightarrow> keeps a (mismatch p msg code v ro s)"
  by (auto simp: mismatch_def split: option.split intro!: keeps)

lemma keeps_bz2 [keeps]: "mem s = a \<Longrightarrow> keeps a (bz2_decompress_safe env data room s)"
  by (auto simp: bz2_decompress_safe_def Let_def intro!: keeps_value(1))

lemma keeps_uncompress_step [keeps]: "mem s = a \<Longrightarrow> keeps a (uncompress_step env data flags room s)"
  by (auto simp: uncompress_step_def intro!: keeps_bz2)

lemma keeps_uncompress_loop [keeps]:
  "mem s = a \<Longrightarrow> keeps a (uncompress_loop (uncompress_step env data flags) l f k s)"
  by (induction k arbitrary: f s) (auto intro!: keeps)

lemma keeps_uncompress [keeps]: "mem s = a \<Longrightarrow> keeps a (mmc_uncompress env data flags s)"
  by (auto simp: mmc_uncompress_def intro!: keeps)

lemma keeps_verify_value [keeps]: "mem s = a \<Longrightarrow> keeps a (verify_value env p d n c f crc uncrc ro s)"
  by (auto simp: verify_value_def split: option.split intro!: keeps)

lemma keeps_check_value [keeps]: "mem s = a \<Longrightarrow> keeps a (check_value env p d ro s)"
  by (auto simp: check_value_def split: option.split old_checksum.split sum.split prod.split intro!: keeps)

lemma keeps_world: "(\<And>x w. keeps a (f (x, w))) \<Longrightarrow> keeps a (Option.bind (c :: ('x \<times> 'w) option) f)"
  by (rule keeps_value) (simp add: split_paired_all)

lemma keeps_read_value [keeps]: "mem s = a \<Longrightarrow> keeps a (mmc_read_value env p k c ro s)"
  by (auto simp: mmc_read_value_def split: option.split intro!: keeps keeps_value [where c = "read_body env h n acc w" for h n acc w])

lemma keeps_postprocess [keeps]: "mem s = a \<Longrightarrow> keeps a (mmc_postprocess_value env fl rv v s)"
  by (auto simp: mmc_postprocess_value_def unserialize_with_def split: option.split intro!: keeps)

lemma keeps_read_end [keeps]: "mem s = a \<Longrightarrow> keeps a (read_end env p s)"
  by (auto simp: read_end_def intro!: keeps)

lemma keeps_fetch [keeps]: "mem s = a \<Longrightarrow> keeps a (fetch env limit ne nf p cmd wc result retry ro s)"
proof (induction "nat (limit - retry)" arbitrary: a nf result retry ro s rule: less_induct)
  case less
  show ?case by (subst fetch.simps) (auto intro!: keeps less)
qed

lemma keeps_getl_result [keeps]: "mem s = a \<Longrightarrow> keeps a (getl_result env p result ro rv md s)"
  by (auto simp: getl_result_def intro!: keeps)

lemma keepsD: "keeps a c \<Longrightarrow> c = Some y \<Longrightarrow> mem (snd y) = a"
  by (cases y) (simp add: keeps_def)

lemma keepsD1: "keeps1 a c \<Longrightarrow> c = Some s \<Longrightarrow> mem s = a"
  by (simp add: keeps1_def)

lemma keeps_loopI: "(\<And>y. c = Some y \<Longrightarrow> mem (snd y) = mem s) \<Longrightarrow> mem s = a \<Longrightarrow> keeps a c"
  by (fastforce simp: keeps_def)

lemma getl_loop_keeps: "getl_loop env key command retry ro rv md s = Some y \<Longrightarrow> mem (snd y) = mem s"
  apply (erule getl_loop.raw_induct [where P = "\<lambda>env key command retry ro rv md s y. mem (snd y) = mem s", rotated])
  subgoal premises prems for loop env key command retry ro rv md s y
  proof -
    have again: "mem s = a \<Longrightarrow> keeps a (loop env key command retry ro rv md s)" for a env key command retry ro rv md s
      by (rule keeps_loopI) (rule prems(1))
    show ?thesis by (rule keepsD [OF _ prems(2)]) (auto intro!: keeps again)
  qed
  done

lemma keeps_getl_loop [keeps]: "mem s = a \<Longrightarrow> keeps a (getl_loop env key command retry ro rv md s)"
  by (rule keeps_loopI [OF getl_loop_keeps])

lemma keeps_store_reply [keeps]: "mem s = a \<Longrightarrow> keeps a (store_reply env p n cas s)"
  by (auto simp: store_reply_def intro!: keeps)

lemma keeps_server_store [keeps]: "mem s = a \<Longrightarrow> keeps a (mmc_server_store env p request cas s)"
  by (auto simp: mmc_server_store_def intro!: keeps)

lemma keeps_store_send [keeps]: "mem s = a \<Longrightarrow> keeps a (store_send env limit p request cas retry s)"
proof (induction "nat (limit - retry)" arbitrary: a retry cas s rule: less_induct)
  case less
  show ?case
  proof (cases "mmc_server_store env p request cas s")
    case (Some y)
    then obtain r c s1 where y: "mmc_server_store env p request cas s = Some ((r, c), s1)" by (metis surj_pair)
    have "mem s1 = a" using keepsD [OF keeps_server_store [OF less.prems] y] by simp
    then show ?thesis unfolding store_send_step [OF y] by (auto intro!: less.hyps)
  qed (subst store_send.simps, simp)
qed

lemma keeps_compress: "mmc_compress env data flags s = (r, s') \<Longrightarrow> mem s' = mem s"
  by (auto simp: mmc_compress_def split: prod.splits if_splits)

lemma keeps_store_compress [keeps]: "mem s = a \<Longrightarrow> keeps a (store_compress env b c v s)"
  by (auto simp: store_compress_def split: option.split prod.split dest!: keeps_compress intro!: keeps)

subsection \<open>getl enters the value of the lock\<close>

lemma getl_table:
  "wlp (mmc_exec_getl_cmd env key timeout metadata rv s)
    (\<lambda>((result, rv', flags, cas, md), s'). mem s' = (if cas \<noteq> 0 \<and> result \<noteq> - 1 then (mem s)(key \<mapsto> cas) else mem s))"
  unfolding mmc_exec_getl_cmd_def Let_def
  by (auto simp: wlp_def elim!: bind_SomeE dest!: keepsD [OF keeps_getl_loop [OF refl]] keepsD1 [OF keeps_log_outcome [OF refl]])



subsection \<open>A store uses the value and forgets it\<close>

lemma truncate_key_short: "length k \<le> MMC_KEY_MAX_SIZE \<Longrightarrow> truncate_key (Block k) c = Some (Block k, c)"
  by (simp add: truncate_key_def)



subsection \<open>unl uses the value and forgets it\<close>

lemma keeps_unl [keeps]: "mem s = a \<Longrightarrow> keeps a (mmc_exec_unl_cmd env key cas s)"
  by (auto simp: mmc_exec_unl_cmd_def intro!: keeps)

text \<open>C19. Unlocking uses the remembered CAS, whatever CAS the caller gives, and forgets it when the
  command was sent (so always when the unlock succeeds); when it could not be sent the CAS stays for another try.\<close>
theorem unlock_forgets_cas:
  assumes "php_mmc_unlock env (ZString key) cas s = Some (ZBool b, s')" "key \<noteq> []" "length key < MMC_KEY_MAX_SIZE"
    "map key_char key = key"
  shows "\<exists>ret s1. mmc_exec_unl_cmd env key (case mem s key of Some c \<Rightarrow> c | None \<Rightarrow> cas) s = Some (ret, s1) \<and>
    b = (0 \<le> ret) \<and> mem s' = (if ret \<noteq> - 3 then (mem s)(key := None) else mem s) \<and> (b \<longrightarrow> mem s' key = None)"
proof -
  have "mmc_prepare_key_ex MMC_KEY_MAX_SIZE key s = Some ((MMC_OK, key), s)"
    using assms(2-4) by (simp add: mmc_prepare_key_ex_def)
  then obtain ret s1 where r: "mmc_exec_unl_cmd env key (case mem s key of Some c \<Rightarrow> c | None \<Rightarrow> cas) s = Some (ret, s1)"
    "b = (0 \<le> ret)" "s' = (if mem s key \<noteq> None \<and> ret \<noteq> - 3
        then s1\<lparr>pool := (pool s1)\<lparr>p_cas_array := (p_cas_array (pool s1))(key := None)\<rparr>\<rparr> else s1)"
    using assms(1) by (auto simp: php_mmc_unlock_def mmc_prepare_key_def Let_def elim!: bind_SomeE)
  have "mem s1 = mem s" using keepsD [OF keeps_unl [OF refl] r(1)] by simp
  then show ?thesis using r by (auto simp: fun_upd_idem)
qed

definition ex_locked :: "wire st" where
  "ex_locked = (let s = ex_one STATUS_CONNECTED (Some 3) [''UNLOCKED'' @ CRLF]
     in s\<lparr>pool := (pool s)\<lparr>p_cas_array := [''k'' \<mapsto> 7]\<rparr>\<rparr>)"

lemma ex_unlock: "case php_mmc_unlock ex_env (ZString ''k'') 0 ex_locked of Some (ZBool b, s') \<Rightarrow> b | _ \<Rightarrow> False"
  by code_simp

lemma unlock_forgets_cas_witness:
  "\<exists>s'. php_mmc_unlock ex_env (ZString ''k'') 0 ex_locked = Some (ZBool True, s') \<and> mem s' ''k'' = None"
proof -
  obtain s' where s': "php_mmc_unlock ex_env (ZString ''k'') 0 ex_locked = Some (ZBool True, s')"
    using ex_unlock by (auto split: option.splits zval.splits)
  from unlock_forgets_cas [OF this] have "mem s' ''k'' = None"
    by (auto simp: MMC_KEY_MAX_SIZE_def key_char_def less_char_def)
  with s' show ?thesis by blast
qed
end
