(* ===== verification/Pool_Handlers.thy ===== *)
theory Pool_Handlers
  imports Multi_Get
begin

text \<open>
  The functions of the PHP class that act on the pool and its servers (memcache.cpp
  3771-4360, 6697-6711, 6843-6899, 7114-7398): connecting, adding servers, their parameters and
  status, version, close, flush and the settings of a pool. The arguments are those that
  \<open>zend_parse_parameters\<close> found, None when it failed; an optional argument is None when it was
  not given. The result is the PHP value returned.
\<close>

definition default :: "'a \<Rightarrow> 'a option \<Rightarrow> 'a" where
  "default d x = (case x of None \<Rightarrow> d | Some v \<Rightarrow> v)"

text \<open>
  The frame of every function: its own log record (published at the end, which is output),
  the name of the command, and the return of NULL when the arguments do not parse.
\<close>

definition php_call ::
    "string \<Rightarrow> 'r \<Rightarrow> 'a option \<Rightarrow> ('a \<Rightarrow> 'w st \<Rightarrow> ('r \<times> 'w st) option) \<Rightarrow> 'w st \<Rightarrow> ('r \<times> 'w st) option" where
  "php_call cmd null args body s =
     (let s = setCmd cmd (LogManager_begin s) in
      case args of None \<Rightarrow> Some (null, setCode PARSE_ERROR s) | Some a \<Rightarrow> body a s)"

text \<open>The test for a pool, or for a pool with servers, that most functions start with.\<close>

definition need_pool ::
    "bool \<Rightarrow> 'r \<Rightarrow> ('w st \<Rightarrow> ('r \<times> 'w st) option) \<Rightarrow> 'w st \<Rightarrow> ('r \<times> 'w st) option" where
  "need_pool servers false body s =
     (let (ok, s) = mmc_get_pool s in
      if \<not> ok \<or> servers \<and> p_num_servers (pool s) = 0 then Some (false, setCode POOL_NT_FOUND s)
      else body s)"

definition log_pool :: "'w st \<Rightarrow> 'w st" where
  "log_pool s = setLogName (p_log_name (pool s)) s"

subsection \<open>connect and pconnect\<close>

text \<open>The parameters are C \<open>long\<close>s; the fields and parameters they go to are narrower.\<close>

definition new_server ::
    "'w php_env \<Rightarrow> bool \<Rightarrow> string \<Rightarrow> int \<Rightarrow> int \<Rightarrow> int \<Rightarrow> bool \<Rightarrow> 'w st \<Rightarrow> (nat \<times> 'w st) option" where
  "new_server env persistent host port timeout retry_interval use_binary s =
     (if persistent
      then mmc_find_persistent env host (length host) (c_int port) (c_int timeout) (c_int retry_interval) use_binary s
      else Some (mmc_server_new host (length host) (word_of_int port) False (c_int timeout) (c_int retry_interval)
                   use_binary s))"

definition connect_open :: "'w php_env \<Rightarrow> nat \<Rightarrow> 'w st \<Rightarrow> (bool \<times> 'w st) option" where
  "connect_open env p s = do {
     (failed, s) \<leftarrow> (if g_proxy_enabled (glob s) then do {
         (proxy, s) \<leftarrow> mmc_get_proxy env p s;
         s \<leftarrow> upd p (\<lambda>m. m\<lparr>mmc_proxy := proxy\<rparr>) s;
         if proxy = None then Some (True, setCode PROXY_CONNECT_FAILED s)
         else do {
           (version, s) \<leftarrow> mmc_get_version env p s;
           Some (version = None, if version = None then setCode VERSION_FAILED s else s)
         }
       } else Some (False, s));
     m \<leftarrow> heap s p;
     if \<not> failed \<and> mmc_proxy m = None then do {
       ((ok, err), s) \<leftarrow> mmc_open env p True s;
       Some (ok = 0, if ok = 0 then setCode PROXY_CONNECT_FAILED s else s)
     } else Some (failed, s)
   }"

definition connect_failed :: "'w php_env \<Rightarrow> bool \<Rightarrow> nat \<Rightarrow> 'w st \<Rightarrow> (zval \<times> 'w st) option" where
  "connect_failed env persistent p s = do {
     let s = php_error E_WARNING ''Can't connect to %s:%ld, %s (%d)'' s;
     (_, s) \<leftarrow> mmc_server_failure env p s;
     s \<leftarrow> (if \<not> persistent then mmc_server_free env p s else mmc_server_sleep p s);
     Some (ZBool False, s)
   }"

text \<open>
  The state holds one Memcache object: a call without one makes a new object with a new pool
  and returns it (\<open>ZOther 0\<close>).
\<close>

definition add_to_new_pool :: "'w php_env \<Rightarrow> nat \<Rightarrow> 'w st \<Rightarrow> 'w st option" where
  "add_to_new_pool env p s = do {
     s \<leftarrow> mmc_pool_add env p 1 (s\<lparr>pool := mmc_pool_new (glob s)\<rparr>);
     Some (log_pool (s\<lparr>connection := Pool_Connection\<rparr>))
   }"

definition connect_attach :: "'w php_env \<Rightarrow> bool \<Rightarrow> nat \<Rightarrow> 'w st \<Rightarrow> (zval \<times> 'w st) option" where
  "connect_attach env has_object p s =
     (if \<not> has_object then do {
        s \<leftarrow> add_to_new_pool env p s;
        Some (ZOther 0, s)
      } else (case connection s of
        Bad_Connection \<Rightarrow>
          Some (ZBool False, setCode INTERNAL_ERROR (php_error E_WARNING ''Unknown connection identifier'' s))
      | Pool_Connection \<Rightarrow> do {
          s \<leftarrow> mmc_pool_add env p 1 s;
          Some (ZBool True, log_pool s)
        }
      | No_Connection \<Rightarrow> do {
          s \<leftarrow> add_to_new_pool env p s;
          Some (ZBool True, s)
        }))"

type_synonym connect_args = "string \<times> int option \<times> int option \<times> int option \<times> bool option"

definition php_mmc_connect ::
    "'w php_env \<Rightarrow> bool \<Rightarrow> bool \<Rightarrow> connect_args option \<Rightarrow> 'w st \<Rightarrow> (zval \<times> 'w st) option" where
  "php_mmc_connect env persistent has_object args =
     php_call ''connect'' ZNull args (\<lambda>(host, port, timeout, timeoutms, use_binary) s. do {
       let timeout = default (g_default_timeout_ms (glob s) sdiv 1000) timeout;
       let timeoutms = (if default 0 timeoutms < 1 then g_default_timeout_ms (glob s) else default 0 timeoutms);
       (p, s) \<leftarrow> new_server env persistent host (default (g_default_port (glob s)) port) timeout
                   (g_retry_interval (glob s)) (default False use_binary) s;
       s \<leftarrow> upd p (\<lambda>m. m\<lparr>mmc_timeout := c_int timeout, mmc_connect_timeoutms := c_int timeoutms\<rparr>) (setHost (cstr host) s);
       (failed, s) \<leftarrow> connect_open env p s;
       if failed then connect_failed env persistent p s else connect_attach env has_object p s
     })"

definition memcache_connect :: "'w php_env \<Rightarrow> bool \<Rightarrow> connect_args option \<Rightarrow> 'w st \<Rightarrow> (zval \<times> 'w st) option" where
  "memcache_connect env = php_mmc_connect env False"

definition memcache_pconnect :: "'w php_env \<Rightarrow> bool \<Rightarrow> connect_args option \<Rightarrow> 'w st \<Rightarrow> (zval \<times> 'w st) option" where
  "memcache_pconnect env = php_mmc_connect env True"

subsection \<open>addServer, setServerParams, getServerStatus\<close>

text \<open>
  The failure callback of a call: not given, null, or a callable value. The pool takes the
  weight as an \<open>unsigned int\<close>.
\<close>

record add_args =
  a_host :: string
  a_port :: "int option"
  a_persistent :: "bool option"
  a_weight :: "int option"
  a_timeout :: "int option"
  a_retry_interval :: "int option"
  a_status :: "bool option"
  a_callback :: "nat option option"
  a_timeoutms :: "int option"
  a_use_binary :: "bool option"

definition bad_callback :: "'w php_env \<Rightarrow> nat option option \<Rightarrow> bool" where
  "bad_callback env cb = (case cb of Some (Some c) \<Rightarrow> \<not> is_callable env c | _ \<Rightarrow> False)"

definition sane_interval :: "int \<Rightarrow> mmc_globals \<Rightarrow> int" where
  "sane_interval i g = (if i < 3 \<or> 30 < i then g_retry_interval g else i)"

definition add_server_setup :: "add_args \<Rightarrow> mmc \<Rightarrow> mmc" where
  "add_server_setup a m = m\<lparr>
     mmc_status := (if default True (a_status a) then mmc_status m else STATUS_FAILED),
     mmc_failure_callback := (case a_callback a of Some (Some c) \<Rightarrow> Some c | _ \<Rightarrow> mmc_failure_callback m)\<rparr>"

definition memcache_add_server ::
    "'w php_env \<Rightarrow> add_args option \<Rightarrow> 'w st \<Rightarrow> (zval \<times> 'w st) option" where
  "memcache_add_server env args = php_call ''addServer'' ZNull args (\<lambda>a s. do {
     let g = glob s;
     let s = setHost (cstr (a_host a)) s;
     let timeoutms = (if default 0 (a_timeoutms a) < 1 then g_default_timeout_ms g else default 0 (a_timeoutms a));
     let weight = default 1 (a_weight a);
     if weight \<le> 0 then Some (ZBool False, php_error E_WARNING ''weight must be a positive integer'' s)
     else if bad_callback env (a_callback a)
     then Some (ZBool False, php_error E_WARNING ''Invalid failure callback'' (setCode INVALID_CB s))
     else do {
       (p, s) \<leftarrow> new_server env (default True (a_persistent a)) (a_host a) (default (g_default_port g) (a_port a))
         (default (g_default_timeout_ms g sdiv 1000) (a_timeout a))
         (sane_interval (default (g_retry_interval g) (a_retry_interval a)) g) (default False (a_use_binary a)) s;
       s \<leftarrow> upd p (\<lambda>m. add_server_setup a (m\<lparr>mmc_connect_timeoutms := c_int timeoutms\<rparr>)) s;
       if connection s = Bad_Connection
       then Some (ZBool False, setCode INTERNAL_ERROR
              (php_error E_WARNING ''Failed to extract 'connection' variable from object'' s))
       else do {
         let s = (if connection s = No_Connection
                  then s\<lparr>pool := mmc_pool_new (glob s), connection := Pool_Connection\<rparr> else s);
         s \<leftarrow> mmc_pool_add env p (nat (take_bit 32 weight)) (log_pool s);
         Some (ZBool True, s)
       }
     }
   })"

text \<open>The first server of the pool with the given host and port.\<close>

fun find_host :: "string \<Rightarrow> int \<Rightarrow> nat list \<Rightarrow> 'w st \<Rightarrow> nat option option" where
  "find_host host port [] s = Some None"
| "find_host host port (p # ps) s = do {
     m \<leftarrow> heap s p;
     if mmc_host m = cstr host \<and> uint (mmc_port m) = port then Some (Some p)
     else find_host host port ps s
   }"

definition set_params :: "int \<Rightarrow> int \<Rightarrow> bool \<Rightarrow> nat option option \<Rightarrow> mmc \<Rightarrow> mmc" where
  "set_params timeout retry_interval status cb m = m\<lparr>mmc_timeout := c_int timeout,
     mmc_retry_interval := c_int retry_interval,
     mmc_status := (if \<not> status then STATUS_FAILED
                    else if mmc_status m = STATUS_FAILED then STATUS_DISCONNECTED else mmc_status m),
     mmc_failure_callback := (case cb of None \<Rightarrow> mmc_failure_callback m | Some c \<Rightarrow> c)\<rparr>"

definition memcache_set_server_params ::
    "'w php_env \<Rightarrow> (string \<times> int option \<times> int option \<times> int option \<times> bool option \<times> nat option option) option \<Rightarrow>
     'w st \<Rightarrow> (zval \<times> 'w st) option" where
  "memcache_set_server_params env args =
     php_call ''setserverparams'' ZNull args (\<lambda>(host, port, timeout, retry_interval, status, cb) s.
       let g = glob s; s = setHost (cstr host) s in
       need_pool False (ZBool False) (\<lambda>s. do {
         let s = log_pool s;
         found \<leftarrow> find_host host (default (g_default_port g) port) (p_servers (pool s)) s;
         (case found of
            None \<Rightarrow> Some (ZBool False, setCode SVR_NT_FOUND (php_error E_WARNING ''Server not found in pool'' s))
          | Some p \<Rightarrow>
              if bad_callback env cb
              then Some (ZBool False, setCode SVR_NT_FOUND (php_error E_WARNING ''Invalid failure callback'' s))
              else do {
                let timeout = default (g_default_timeout_ms g sdiv 1000) timeout;
                let timeout = (if timeout < 1 then g_default_timeout_ms g else timeout);
                s \<leftarrow> upd p (set_params timeout (sane_interval (default (g_retry_interval g) retry_interval) g)
                        (default True status) cb) s;
                Some (ZBool True, s)
              })
       }) s)"

definition memcache_get_server_status ::
    "(string \<times> int option) option \<Rightarrow> 'w st \<Rightarrow> (zval \<times> 'w st) option" where
  "memcache_get_server_status args = php_call ''getserverstatus'' ZNull args (\<lambda>(host, port) s.
     need_pool False (ZBool False) (\<lambda>s. do {
       let s = log_pool s;
       found \<leftarrow> find_host host (default (g_default_port (glob s)) port) (p_servers (pool s)) s;
       (case found of
          None \<Rightarrow> Some (ZBool False, setCode SVR_NT_FOUND (php_error E_WARNING ''Server not found in pool'' s))
        | Some p \<Rightarrow> do { m \<leftarrow> heap s p; Some (ZLong (status_code (mmc_status m)), s) })
     }) s)"

subsection \<open>version, flush, close\<close>

text \<open>With the proxy enabled the proxy is attached, but the direct connection is opened all the same.\<close>

fun get_version_loop :: "'w php_env \<Rightarrow> nat list \<Rightarrow> 'w st \<Rightarrow> (zval \<times> 'w st) option" where
  "get_version_loop env [] s = Some (ZBool False, setCode SVR_OPN_FAILED s)"
| "get_version_loop env (p # ps) s = do {
     s \<leftarrow> (if g_proxy_enabled (glob s) then do {
         (proxy, s) \<leftarrow> mmc_get_proxy env p s;
         upd p (\<lambda>m. m\<lparr>mmc_proxy := proxy\<rparr>) s
       } else Some s);
     ((ok, err), s) \<leftarrow> mmc_open env p True s;
     if ok \<noteq> 0 then do {
       (version, s) \<leftarrow> mmc_get_version env p s;
       (case version of
          Some v \<Rightarrow> Some (ZString v, s)
        | None \<Rightarrow> do {
            (_, s) \<leftarrow> mmc_server_failure env p s;
            get_version_loop env ps s
          })
     } else get_version_loop env ps s
   }"

definition memcache_get_version :: "'w php_env \<Rightarrow> unit option \<Rightarrow> 'w st \<Rightarrow> (zval \<times> 'w st) option" where
  "memcache_get_version env args = php_call ''version'' ZNull args (\<lambda>_. need_pool False (ZBool False) (\<lambda>s.
     get_version_loop env (p_servers (pool s)) (log_pool s)))"

fun flush_loop :: "'w php_env \<Rightarrow> int \<Rightarrow> nat list \<Rightarrow> nat \<Rightarrow> 'w st \<Rightarrow> (nat \<times> 'w st) option" where
  "flush_loop env timestamp [] failures s = Some (failures, s)"
| "flush_loop env timestamp (p # ps) failures s = do {
     ((ok, err), s) \<leftarrow> mmc_open env p True s;
     if ok \<noteq> 0 then do {
       (r, s) \<leftarrow> mmc_flush env p timestamp s;
       if r < 0 then do {
         (_, s) \<leftarrow> mmc_server_failure env p s;
         flush_loop env timestamp ps (failures + 1) s
       } else flush_loop env timestamp ps failures s
     } else flush_loop env timestamp ps (failures + 1) s
   }"

definition memcache_flush :: "'w php_env \<Rightarrow> int option option \<Rightarrow> 'w st \<Rightarrow> (zval \<times> 'w st) option" where
  "memcache_flush env args = php_call ''flush'' ZNull args (\<lambda>timestamp. need_pool False (ZBool False) (\<lambda>s. do {
     (failures, s) \<leftarrow> flush_loop env (c_int (default 0 timestamp)) (p_servers (pool s)) 0 (log_pool s);
     if failures \<noteq> 0 \<and> p_num_servers (pool s) \<le> failures then Some (ZBool False, setCode FLUSH_FAILED s)
     else Some (ZBool True, s)
   }))"

definition memcache_close :: "'w php_env \<Rightarrow> unit option \<Rightarrow> 'w st \<Rightarrow> (zval \<times> 'w st) option" where
  "memcache_close env args = php_call ''close'' ZNull args (\<lambda>_. need_pool False (ZBool False) (\<lambda>s. do {
     (r, s) \<leftarrow> mmc_pool_close env (log_pool s);
     if r = 0 then Some (ZBool False, setCode CLOSE_FAILED s) else Some (ZBool True, s)
   }))"

subsection \<open>Settings of the pool\<close>

definition memcache_debug :: "bool option \<Rightarrow> 'w st \<Rightarrow> (zval \<times> 'w st) option" where
  "memcache_debug args s = (case args of
     None \<Rightarrow> Some (ZNull, s)
   | Some onoff \<Rightarrow> Some (ZBool True, s\<lparr>glob := (glob s)\<lparr>g_debug_mode := onoff\<rparr>\<rparr>))"

definition MMC_DEFAULT_SAVINGS :: rat where "MMC_DEFAULT_SAVINGS = 1 / 5"

definition memcache_set_compress_threshold ::
    "(int \<times> rat option) option \<Rightarrow> 'w st \<Rightarrow> (zval \<times> 'w st) option" where
  "memcache_set_compress_threshold args = php_call ''setcompressthreshold'' ZNull args (\<lambda>(threshold, savings).
     need_pool False (ZBool False) (\<lambda>s.
       let s = log_pool s; savings = default MMC_DEFAULT_SAVINGS savings in
       if threshold < 0
       then Some (ZBool False, setCode PARSE_ERROR (php_error E_WARNING ''threshold must be a positive integer'' s))
       else (let s = s\<lparr>pool := (pool s)\<lparr>p_compress_threshold := c_int threshold\<rparr>\<rparr> in
         if savings \<noteq> MMC_DEFAULT_SAVINGS \<and> (savings < 0 \<or> 1 < savings)
         then Some (ZBool False, setCode PARSE_ERROR
                (php_error E_WARNING ''min_savings must be a float in the 0..1 range'' s))
         else Some (ZBool True, s\<lparr>pool := (pool s)\<lparr>p_min_compress_savings := savings\<rparr>\<rparr>))))"

text \<open>\<open>strncasecmp\<close> with the length of the first string, on ASCII letters.\<close>

definition ascii_lower :: "char \<Rightarrow> char" where
  "ascii_lower c = (if CHR ''A'' \<le> c \<and> c \<le> CHR ''Z'' then char_of (of_char c + 32 :: nat) else c)"

definition names_property :: "string \<Rightarrow> string \<Rightarrow> bool" where
  "names_property prop name \<longleftrightarrow> map ascii_lower (cstr prop) = map ascii_lower (take (length prop) name) "

definition set_protocol :: "bool \<Rightarrow> mmc \<Rightarrow> mmc" where
  "set_protocol binary m = m\<lparr>mmc_proxy_str := (mmc_proxy_str m)[0 := (if binary then CHR ''B'' else CHR ''A'')]\<rparr>"

fun upd_all :: "(mmc \<Rightarrow> mmc) \<Rightarrow> nat list \<Rightarrow> 'w st \<Rightarrow> 'w st option" where
  "upd_all f [] s = Some s"
| "upd_all f (p # ps) s = do { s \<leftarrow> upd p f s; upd_all f ps s }"

definition memcache_setproperty :: "(string \<times> zval) option \<Rightarrow> 'w st \<Rightarrow> (zval \<times> 'w st) option" where
  "memcache_setproperty args = php_call ''setproperty'' ZNull args (\<lambda>(prop, val) s.
     if prop = [] then Some (ZBool False, setCode POOL_NT_FOUND s)
     else need_pool False (ZBool False) (\<lambda>s. do {
       let s = log_pool s;
       s \<leftarrow> (case val of
           ZBool b \<Rightarrow> do {
             let s = (if names_property prop ''NullOnKeyMiss''
                      then s\<lparr>pool := (pool s)\<lparr>p_false_on_error := b\<rparr>\<rparr> else s);
             s \<leftarrow> (if names_property prop ''ProtocolBinary''
                  then upd_all (set_protocol b) (p_servers (pool s)) s else Some s);
             Some (if names_property prop ''EnableChecksum''
                   then s\<lparr>pool := (pool s)\<lparr>p_enable_checksum := b\<rparr>\<rparr> else s)
           }
         | _ \<Rightarrow> Some s);
       Some (ZBool True, s)
     }) s)"

definition memcache_enable_proxy :: "bool option \<Rightarrow> 'w st \<Rightarrow> (zval \<times> 'w st) option" where
  "memcache_enable_proxy args = php_call ''enableproxy'' ZNull args (\<lambda>onoff. need_pool False (ZBool False) (\<lambda>s.
     Some (ZBool True, (log_pool s)\<lparr>pool := (pool s)\<lparr>p_proxy_enabled := onoff\<rparr>\<rparr>)))"

definition memcache_setoptimeout :: "int option \<Rightarrow> 'w st \<Rightarrow> (zval \<times> 'w st) option" where
  "memcache_setoptimeout args = php_call ''settimeout'' ZNull args (\<lambda>timeoutms. need_pool False (ZBool False) (\<lambda>s. do {
     let timeoutms = (if timeoutms < 1 then g_default_timeout_ms (glob s) else timeoutms);
     s \<leftarrow> upd_all (\<lambda>m. m\<lparr>mmc_timeoutms := c_int timeoutms\<rparr>) (p_servers (pool s)) (log_pool s);
     Some (ZBool True, s)
   }))"

definition memcache_setlogname :: "string option \<Rightarrow> 'w st \<Rightarrow> (zval \<times> 'w st) option" where
  "memcache_setlogname args = php_call ''setlogname'' ZNull args (\<lambda>log_name. need_pool False (ZBool False) (\<lambda>s.
     Some (ZBool True, log_pool (s\<lparr>pool := (pool s)\<lparr>p_log_name := cstr log_name\<rparr>\<rparr>))))"

end
