(* ===== verification/Key_Handlers.thy ===== *)
theory Key_Handlers
  imports Multi_Get Pool_Handlers
begin

text \<open>
  The functions of the PHP class on keys (memcache.cpp 4362-4431, 4472-4640, 4896-4935,
  5452-5513, 5575-5675, 5719-5751, 6372-6524, 6902-7113). An argument passed by reference is
  given with its value and returned with its value after the call; None is an argument not given.
\<close>

subsection \<open>get\<close>

definition zarray :: "(string \<times> zval) list \<Rightarrow> zval" where
  "zarray xs = ZArray (map (\<lambda>(k, v). (KStr k, v)) xs)"

record get_out =
  out_value :: zval
  out_status :: "zval option"
  out_flags :: "zval option"
  out_cas :: "zval option"

definition php_mmc_get ::
    "'w php_env \<Rightarrow> zval \<Rightarrow> bool \<Rightarrow> get_out \<Rightarrow> 'w st \<Rightarrow> (get_out \<times> 'w st) option" where
  "php_mmc_get env zkey return_corrupted out s = (case zkey of
     ZArray arr \<Rightarrow>
       if arr = [] then Some (out\<lparr>out_value := ZBool False\<rparr>, s)
       else do {
         ((result, v), s) \<leftarrow> mmc_exec_retrieval_cmd_multi env (map snd arr) (out_status out \<noteq> None)
           (out_flags out \<noteq> None) (out_cas out \<noteq> None) s;
         Some (\<lparr>out_value = (if result < 0 then ZBool False else zarray (g_rv v)),
                out_status = map_option zarray (g_status v), out_flags = map_option zarray (g_flags v),
                out_cas = map_option zarray (g_cas v)\<rparr>, s)
       }
   | _ \<Rightarrow> do {
       ((r, key), s) \<leftarrow> mmc_prepare_key env MMC_KEY_MAX_SIZE zkey (setCommandType GET s);
       if r \<noteq> MMC_OK then Some (out\<lparr>out_value := ZBool False\<rparr>, s)
       else do {
         ((result, rv, flags, cas), s) \<leftarrow>
           mmc_exec_retrieval_cmd env key (out_cas out \<noteq> None) return_corrupted (out_value out) s;
         Some (out\<lparr>out_value := (if result < 0 then ZBool False else rv),
                   out_flags := map_option (\<lambda>_. ZLong (sint flags)) (out_flags out),
                   out_cas := map_option (\<lambda>c. ZLong (sint c)) cas\<rparr>, s)
       }
     })"

definition no_out :: get_out where
  "no_out = \<lparr>out_value = ZNull, out_status = None, out_flags = None, out_cas = None\<rparr>"

definition memcache_get ::
    "'w php_env \<Rightarrow> (zval \<times> zval option \<times> zval option \<times> bool option) option \<Rightarrow> 'w st \<Rightarrow> (get_out \<times> 'w st) option" where
  "memcache_get env args = php_call ''get'' no_out args (\<lambda>(zkey, flags, cas, return_corrupted) s.
     let out = no_out\<lparr>out_flags := flags, out_cas := cas\<rparr> in
     need_pool True (out\<lparr>out_value := ZBool False\<rparr>)
       (php_mmc_get env zkey (default False return_corrupted) out) s)"

text \<open>
  \<open>get2\<close> returns whether the command succeeded (the status of every key for an array of
  keys) and gives the value through its second argument; \<open>out_value\<close> is that argument.
\<close>

definition get2_result :: "bool \<Rightarrow> get_out \<Rightarrow> zval \<times> get_out" where
  "get2_result false_on_error out =
     (case default ZNull (out_status out) of
        ZArray st \<Rightarrow> (ZArray st, out)
      | _ \<Rightarrow>
          (case out_value out of
             ZBool b \<Rightarrow> (ZBool b, out)
           | ZNull \<Rightarrow> (ZBool True, if \<not> false_on_error then out\<lparr>out_value := ZBool False\<rparr> else out)
           | _ \<Rightarrow> (ZBool True, out)))"

definition memcache_get2 ::
    "'w php_env \<Rightarrow> (zval \<times> zval \<times> zval option \<times> zval option) option \<Rightarrow> 'w st \<Rightarrow>
     ((zval \<times> get_out) \<times> 'w st) option" where
  "memcache_get2 env args = php_call ''get2'' (ZNull, no_out) args (\<lambda>(zkey, zvalue, flags, cas) s.
     let out = no_out\<lparr>out_flags := flags, out_cas := cas\<rparr> in
     need_pool True (ZBool False, out\<lparr>out_value := zvalue\<rparr>) (\<lambda>s. do {
       let s = log_pool s;
       let old = p_false_on_error (pool s);
       (out, s) \<leftarrow> php_mmc_get env zkey False (out\<lparr>out_status := Some ZNull\<rparr>)
         (s\<lparr>pool := (pool s)\<lparr>p_false_on_error := True\<rparr>\<rparr>);
       Some (get2_result old out, s\<lparr>pool := (pool s)\<lparr>p_false_on_error := old\<rparr>\<rparr>)
     }) s)"

definition memcache_getByKey ::
    "'w php_env \<Rightarrow> (zval \<times> zval \<times> zval \<times> zval option \<times> zval option) option \<Rightarrow> 'w st \<Rightarrow>
     ((zval \<times> get_out) \<times> 'w st) option" where
  "memcache_getByKey env args = php_call ''getBykey'' (ZNull, no_out) args (\<lambda>(zkey, zshard, zvalue, flags, cas) s.
     need_pool True (ZBool False, no_out\<lparr>out_value := zvalue, out_flags := flags, out_cas := cas\<rparr>) (\<lambda>s. do {
       ((result, rv, flags, cas), s) \<leftarrow>
         php_mmc_get_by_key env zkey zshard ZNull (flags \<noteq> None) (cas \<noteq> None) (log_pool (setCommandType GET s));
       let out = no_out\<lparr>out_value := rv, out_flags := flags, out_cas := cas\<rparr>;
       Some (if result < 0 then ((ZBool False, out), setCode CMD_FAILED s) else ((ZBool True, out), s))
     }) s)"

definition memcache_findserver :: "'w php_env \<Rightarrow> zval option \<Rightarrow> 'w st \<Rightarrow> (zval \<times> 'w st) option" where
  "memcache_findserver env args = php_call ''findserver'' ZNull args (\<lambda>zkey. need_pool True (ZBool False) (\<lambda>s.
     let s = log_pool s in
     (case zkey of
        ZArray _ \<Rightarrow> Some (ZBool False, setCode INVALID_PARAM s)
      | _ \<Rightarrow> do {
          ((r, key), s) \<leftarrow> mmc_prepare_key env MMC_KEY_MAX_SIZE zkey s;
          if r \<noteq> MMC_OK then Some (ZBool False, setCode PREPARE_KEY_FAILED s)
          else do {
            (mmc, s) \<leftarrow> mmc_pool_find env key s;
            ok \<leftarrow> usable mmc s;
            s \<leftarrow> log_host_of mmc s;
            if \<not> ok then Some (ZBool False, setCode CONNECT_FAILED s)
            else do {
              p \<leftarrow> mmc;
              m \<leftarrow> heap s p;
              Some (ZString (mmc_host m), setCode MC_SUCCESS s)
            }
          }
        })))"

subsection \<open>The store commands\<close>

text \<open>The CAS argument: missing, an integer or a numeric string; anything else is refused.\<close>

definition cas_argument :: "'w php_env \<Rightarrow> zval option \<Rightarrow> u64 option" where
  "cas_argument env z = (case z of
     None \<Rightarrow> Some 0
   | Some (ZLong n) \<Rightarrow> Some (word_of_int n)
   | Some (ZString v) \<Rightarrow> map_option word_of_int (is_numeric_long env v)
   | Some _ \<Rightarrow> None)"

text \<open>
  A by-key command called without a shard key passes an uninitialised pointer. The result is
  the value returned, the CAS argument and the length argument.
\<close>

record store_args =
  sa_key :: string
  sa_value :: zval
  sa_flag :: "int option"
  sa_expire :: "int option"
  sa_cas :: "zval option"
  sa_shard_key :: "string option"
  sa_val_len :: "int option"

definition php_handle_store_command ::
    "'w php_env \<Rightarrow> string \<Rightarrow> bool \<Rightarrow> store_args option \<Rightarrow> 'w st \<Rightarrow>
     ((zval \<times> zval option \<times> int option) \<times> 'w st) option" where
  "php_handle_store_command env command by_key args s =
     (let s = LogManager_begin s in
      case args of
        None \<Rightarrow> Some ((ZNull, None, None), setCode PARSE_ERROR s)
      | Some a \<Rightarrow> do {
          let flag = default 0 (sa_flag a);
          let expire = default 0 (sa_expire a);
          let s = setCommandType SET (setExpiry (take_bit 32 expire) (setFlags (c_int flag)
                    (setCmd (if by_key then command @ ''ByKey'' else command) s)));
          (case cas_argument env (sa_cas a) of
             None \<Rightarrow> Some ((ZBool False, sa_cas a, sa_val_len a),
                          php_error E_NOTICE ''Invalid CAS value'' (setCode PARSE_ERROR s))
           | Some cas \<Rightarrow> do {
               shard_key \<leftarrow> (if by_key then sa_shard_key a else Some []);
               ((r, cas, len), s) \<leftarrow> php_mmc_store env (sa_key a) (sa_value a) (word_of_int flag) (c_int expire)
                                       cas shard_key command by_key s;
               let val_len = (if sa_val_len a = None \<or> len = None then sa_val_len a else len);
               Some (if r \<noteq> 0
                     then ((ZBool True, if cas \<noteq> 0 then map_option (\<lambda>_. ZLong (sint cas)) (sa_cas a) else sa_cas a,
                            val_len), s)
                     else ((ZBool False, sa_cas a, val_len), s))
             })
        })"

definition memcache_add :: "'w php_env \<Rightarrow> store_args option \<Rightarrow> 'w st \<Rightarrow> ((zval \<times> zval option \<times> int option) \<times> 'w st) option" where
  "memcache_add env = php_handle_store_command env ''add'' False"

definition memcache_set :: "'w php_env \<Rightarrow> store_args option \<Rightarrow> 'w st \<Rightarrow> ((zval \<times> zval option \<times> int option) \<times> 'w st) option" where
  "memcache_set env = php_handle_store_command env ''set'' False"

definition memcache_append :: "'w php_env \<Rightarrow> store_args option \<Rightarrow> 'w st \<Rightarrow> ((zval \<times> zval option \<times> int option) \<times> 'w st) option" where
  "memcache_append env = php_handle_store_command env ''append'' False"

definition memcache_prepend :: "'w php_env \<Rightarrow> store_args option \<Rightarrow> 'w st \<Rightarrow> ((zval \<times> zval option \<times> int option) \<times> 'w st) option" where
  "memcache_prepend env = php_handle_store_command env ''prepend'' False"

definition memcache_cas :: "'w php_env \<Rightarrow> store_args option \<Rightarrow> 'w st \<Rightarrow> ((zval \<times> zval option \<times> int option) \<times> 'w st) option" where
  "memcache_cas env = php_handle_store_command env ''cas'' False"

definition memcache_replace :: "'w php_env \<Rightarrow> store_args option \<Rightarrow> 'w st \<Rightarrow> ((zval \<times> zval option \<times> int option) \<times> 'w st) option" where
  "memcache_replace env = php_handle_store_command env ''replace'' False"

definition memcache_setByKey :: "'w php_env \<Rightarrow> store_args option \<Rightarrow> 'w st \<Rightarrow> ((zval \<times> zval option \<times> int option) \<times> 'w st) option" where
  "memcache_setByKey env = php_handle_store_command env ''set'' True"

definition memcache_addByKey :: "'w php_env \<Rightarrow> store_args option \<Rightarrow> 'w st \<Rightarrow> ((zval \<times> zval option \<times> int option) \<times> 'w st) option" where
  "memcache_addByKey env = php_handle_store_command env ''add'' True"

definition memcache_replaceByKey :: "'w php_env \<Rightarrow> store_args option \<Rightarrow> 'w st \<Rightarrow> ((zval \<times> zval option \<times> int option) \<times> 'w st) option" where
  "memcache_replaceByKey env = php_handle_store_command env ''replace'' True"

definition memcache_casByKey :: "'w php_env \<Rightarrow> store_args option \<Rightarrow> 'w st \<Rightarrow> ((zval \<times> zval option \<times> int option) \<times> 'w st) option" where
  "memcache_casByKey env = php_handle_store_command env ''cas'' True"

definition memcache_appendByKey :: "'w php_env \<Rightarrow> store_args option \<Rightarrow> 'w st \<Rightarrow> ((zval \<times> zval option \<times> int option) \<times> 'w st) option" where
  "memcache_appendByKey env = php_handle_store_command env ''append'' True"

definition memcache_prependByKey :: "'w php_env \<Rightarrow> store_args option \<Rightarrow> 'w st \<Rightarrow> ((zval \<times> zval option \<times> int option) \<times> 'w st) option" where
  "memcache_prependByKey env = php_handle_store_command env ''prepend'' True"

subsection \<open>getl and unlock\<close>

text \<open>
  The timeout is parsed as a \<open>long\<close> into an \<open>int\<close> (its low half on the little-endian platforms
  of the code). The result is the value, the flags and the metadata argument.
\<close>

definition memcache_getl ::
    "'w php_env \<Rightarrow> (zval \<times> int option \<times> zval option \<times> zval option) option \<Rightarrow> 'w st \<Rightarrow>
     ((zval \<times> zval option \<times> zval option) \<times> 'w st) option" where
  "memcache_getl env args = php_call ''getl'' (ZNull, None, None) args (\<lambda>(zkey, timeout, zflags, zmetadata).
     need_pool True (ZBool False, zflags, zmetadata) (\<lambda>s. do {
       let s = setCommandType GET (log_pool s);
       let run = (\<lambda>metadata. do {
         ((rv, flags, metadata), s) \<leftarrow> php_mmc_getl env zkey (c_int (default 15 timeout)) metadata s;
         Some ((rv, case flags of None \<Rightarrow> zflags | Some f \<Rightarrow> map_option (\<lambda>_. ZLong (sint f)) zflags,
                case metadata of None \<Rightarrow> zmetadata | Some md \<Rightarrow> map_option (\<lambda>_. ZString md) zmetadata), s)
       });
       (case zmetadata of
          None \<Rightarrow> run None
        | Some (ZString md) \<Rightarrow> run (Some (take MAX_METADATA_LEN md))
        | Some _ \<Rightarrow> Some ((ZBool False, zflags, zmetadata), s))
     }))"

definition memcache_unlock :: "'w php_env \<Rightarrow> (zval \<times> int option) option \<Rightarrow> 'w st \<Rightarrow> (zval \<times> 'w st) option" where
  "memcache_unlock env args = php_call ''unlock'' ZNull args (\<lambda>(zkey, cas). need_pool True (ZBool False) (\<lambda>s. do {
     (rv, s) \<leftarrow> php_mmc_unlock env zkey (word_of_int (default 0 cas)) s;
     Some (rv, log_pool s)
   }))"

subsection \<open>delete, increment, decrement\<close>

definition memcache_delete :: "'w php_env \<Rightarrow> (string \<times> int option) option \<Rightarrow> 'w st \<Rightarrow> (zval \<times> 'w st) option" where
  "memcache_delete env args = php_call ''delete'' ZNull args (\<lambda>(key, time) s.
     need_pool True (ZBool False) (\<lambda>s. do {
       ((r, key_tmp), s) \<leftarrow> mmc_prepare_key_ex MMC_KEY_MAX_SIZE key (log_pool s);
       if r \<noteq> MMC_OK then Some (ZBool False, setCode PREPARE_KEY_FAILED s)
       else do {
         ((result, mmc), s) \<leftarrow> delete_loop env key_tmp key_tmp (c_int (default 0 time)) True s;
         s \<leftarrow> log_outcome mmc s;
         Some (ZBool (0 < result), s)
       }
     }) (setKey (cstr key) s))"

text \<open>The errors of this command are fatal.\<close>

definition memcache_deleteByKey ::
    "'w php_env \<Rightarrow> (string \<times> string \<times> int option) option \<Rightarrow> 'w st \<Rightarrow> (zval \<times> 'w st) option" where
  "memcache_deleteByKey env args = php_call ''deleteByKey'' ZNull args (\<lambda>(key, shard_key, time) s. do {
     let (ok, s) = mmc_get_pool s;
     if \<not> ok \<or> p_num_servers (pool s) = 0 then None
     else do {
       ((r, key_tmp), s) \<leftarrow> mmc_prepare_key_ex MMC_KEY_MAX_SIZE key s;
       if r \<noteq> MMC_OK then None
       else do {
         ((r, shard_tmp), s) \<leftarrow> mmc_prepare_key_ex MMC_KEY_MAX_SIZE shard_key s;
         if r \<noteq> MMC_OK then None
         else do {
           (result, s) \<leftarrow> php_mmc_delete_by_key env key_tmp shard_tmp (c_int (default 0 time)) s;
           Some (ZBool (0 < result), s)
         }
       }
     }
   })"

text \<open>The increment commands log the key after the command, the decrement commands before or after.\<close>

definition incr_decr_command ::
    "'w php_env \<Rightarrow> bool \<Rightarrow> bool \<Rightarrow> (string \<times> int option) \<Rightarrow> 'w st \<Rightarrow> (zval \<times> 'w st) option" where
  "incr_decr_command env incr key_first = (\<lambda>(key, value). need_pool True (ZBool False) (\<lambda>s. do {
     ((r, key_tmp), s) \<leftarrow> mmc_prepare_key_ex MMC_KEY_MAX_SIZE key (log_pool s);
     if r \<noteq> MMC_OK then Some (ZBool False, setCode PREPARE_KEY_FAILED s)
     else do {
       let s = (if key_first then setKey key_tmp s else s);
       (rv, s) \<leftarrow> php_mmc_incr_decr env key_tmp [] (default 1 value) False incr s;
       Some (rv, if key_first then s else setKey key_tmp s)
     }
   }))"

definition incr_decr_by_key_command ::
    "'w php_env \<Rightarrow> bool \<Rightarrow> (string \<times> string \<times> int option) \<Rightarrow> 'w st \<Rightarrow> (zval \<times> 'w st) option" where
  "incr_decr_by_key_command env incr = (\<lambda>(key, shard_key, value). need_pool True (ZBool False) (\<lambda>s. do {
     ((r, key_tmp), s) \<leftarrow> mmc_prepare_key_ex MMC_KEY_MAX_SIZE key (log_pool s);
     if r \<noteq> MMC_OK then Some (ZBool False, setCode PREPARE_KEY_FAILED s)
     else do {
       ((r, shard_tmp), s) \<leftarrow> mmc_prepare_key_ex MMC_KEY_MAX_SIZE shard_key s;
       if r \<noteq> MMC_OK then Some (ZBool False, setCode PREPARE_KEY_FAILED s)
       else do {
         (rv, s) \<leftarrow> php_mmc_incr_decr env key_tmp shard_tmp (default 1 value) True incr s;
         Some (rv, setKey key_tmp s)
       }
     }
   }))"

definition memcache_increment :: "'w php_env \<Rightarrow> (string \<times> int option) option \<Rightarrow> 'w st \<Rightarrow> (zval \<times> 'w st) option" where
  "memcache_increment env args = php_call ''increment'' ZNull args (incr_decr_command env True False)"

definition memcache_decrement :: "'w php_env \<Rightarrow> (string \<times> int option) option \<Rightarrow> 'w st \<Rightarrow> (zval \<times> 'w st) option" where
  "memcache_decrement env args = php_call ''decrement'' ZNull args (incr_decr_command env False True)"

definition memcache_incrementByKey ::
    "'w php_env \<Rightarrow> (string \<times> string \<times> int option) option \<Rightarrow> 'w st \<Rightarrow> (zval \<times> 'w st) option" where
  "memcache_incrementByKey env args = php_call ''incrementbykey'' ZNull args (incr_decr_by_key_command env True)"

definition memcache_decrementByKey ::
    "'w php_env \<Rightarrow> (string \<times> string \<times> int option) option \<Rightarrow> 'w st \<Rightarrow> (zval \<times> 'w st) option" where
  "memcache_decrementByKey env args = php_call ''decrementbykey'' ZNull args (incr_decr_by_key_command env False)"

end
