(* ===== verification/Multi_By_Key.thy ===== *)
theory Multi_By_Key
  imports Multi_Get Key_Handlers
begin

text \<open>
  The commands on arrays of keys with shard keys: the stores and deletes, one key after the
  other (memcache.cpp 4432-4470, 4737-4872, 6524-6566, 6645-6693), and getMultiByKey, which
  groups the keys by server (5073-5450). The array is the list of its keys and values; an
  integer key is a fatal error.
\<close>

subsection \<open>Stores\<close>

text \<open>
  The entries of a value array. The missing \<open>value\<close> and \<open>shardKey\<close> are uninitialised variables;
  \<open>flag\<close>, \<open>expire\<close> and \<open>cas\<close> are read as integers whatever their type: only for integers and
  booleans is that the value.
\<close>

definition lval :: "zval \<Rightarrow> int option" where
  "lval z = (case z of ZLong i \<Rightarrow> Some i | ZBool b \<Rightarrow> Some (if b then 1 else 0) | _ \<Rightarrow> None)"

definition entry_lval :: "string \<Rightarrow> (hkey \<times> zval) list \<Rightarrow> int option" where
  "entry_lval name arr = (case map_of arr (KStr name) of None \<Rightarrow> Some 0 | Some z \<Rightarrow> lval z)"

definition log_entry :: "string \<Rightarrow> (hkey \<times> zval) list \<Rightarrow> ('w st \<Rightarrow> 'w st) \<Rightarrow> 'w st \<Rightarrow> 'w st" where
  "log_entry name arr f s = (if map_of arr (KStr name) = None then s else f s)"

definition store_entry ::
    "'w php_env \<Rightarrow> string \<Rightarrow> string \<Rightarrow> (hkey \<times> zval) list \<Rightarrow> 'w st \<Rightarrow> ((int \<times> int option) \<times> 'w st) option" where
  "store_entry env command key arr s = do {
     zshard \<leftarrow> map_of arr (KStr ''shardKey'');
     ((r, shard_key), s) \<leftarrow> mmc_prepare_key env MMC_KEY_MAX_SIZE zshard s;
     flag \<leftarrow> entry_lval ''flag'' arr;
     let s = log_entry ''flag'' arr (setFlags (c_int flag)) s;
     expire \<leftarrow> entry_lval ''expire'' arr;
     let s = log_entry ''expire'' arr (setExpiry (take_bit 32 (c_int expire))) s;
     cas \<leftarrow> entry_lval ''cas'' arr;
     val \<leftarrow> map_of arr (KStr ''value'');
     if r \<noteq> MMC_OK then None
     else do {
       ((result, cas, len), s) \<leftarrow> php_mmc_store env key val (word_of_int flag) (c_int expire) (word_of_int cas)
                                   shard_key command True s;
       Some ((result, len), s)
     }
   }"

text \<open>
  The results by key and, when asked for, the lengths of the stored values. The record of a
  key gets the name of the command after the store.
\<close>

fun store_multi_loop ::
    "'w php_env \<Rightarrow> string \<Rightarrow> (hkey \<times> zval) list \<Rightarrow> (hkey \<times> zval) list \<Rightarrow> (hkey \<times> zval) list option \<Rightarrow> 'w st \<Rightarrow>
     (((hkey \<times> zval) list \<times> (hkey \<times> zval) list option) \<times> 'w st) option" where
  "store_multi_loop env command [] rv lens s = Some ((rv, lens), s)"
| "store_multi_loop env command ((k, data) # xs) rv lens s =
     (case (k, data) of
        (KStr key, ZArray arr) \<Rightarrow> do {
          let s = setKey (cstr key) (LogManager_begin s);
          ((result, len), s) \<leftarrow> store_entry env command key arr s;
          let name = symtable_key env (cstr key);
          lens \<leftarrow> (if result \<noteq> 0 \<and> lens \<noteq> None
             then (case len of None \<Rightarrow> None | Some n \<Rightarrow> Some (map_option (assoc_add name (ZLong n)) lens))
             else Some lens);
          store_multi_loop env command xs (assoc_add name (ZBool (result \<noteq> 0)) rv) lens
            (setCmd (command @ ''MultiByKey'') s)
        }
      | _ \<Rightarrow> None)"

definition php_mmc_store_multi_by_key ::
    "'w php_env \<Rightarrow> (hkey \<times> zval) list \<Rightarrow> string \<Rightarrow> bool \<Rightarrow> 'w st \<Rightarrow>
     (((hkey \<times> zval) list \<times> (hkey \<times> zval) list option) \<times> 'w st) option" where
  "php_mmc_store_multi_by_key env keys command want_len s = do {
     (r, s) \<leftarrow> store_multi_loop env command keys [] (if want_len then Some [] else None) (mmc_init_multi s);
     s \<leftarrow> mmc_free_multi env s;
     Some (r, s)
   }"

text \<open>The result is the array of results and the array for the second argument.\<close>

definition php_handle_multi_store_command ::
    "'w php_env \<Rightarrow> string \<Rightarrow> (zval \<times> zval option) option \<Rightarrow> 'w st \<Rightarrow> ((zval \<times> zval option) \<times> 'w st) option" where
  "php_handle_multi_store_command env command args s = (case args of
     None \<Rightarrow> Some ((ZNull, None), s)
   | Some (ZArray keys, val_len) \<Rightarrow> do {
       ((rv, lens), s) \<leftarrow> php_mmc_store_multi_by_key env keys command (val_len \<noteq> None) s;
       Some ((ZArray rv, map_option ZArray lens), s)
     }
   | _ \<Rightarrow> None)"

definition memcache_setMultiByKey ::
    "'w php_env \<Rightarrow> (zval \<times> zval option) option \<Rightarrow> 'w st \<Rightarrow> ((zval \<times> zval option) \<times> 'w st) option" where
  "memcache_setMultiByKey env = php_handle_multi_store_command env ''set''"

definition memcache_addMultiByKey ::
    "'w php_env \<Rightarrow> (zval \<times> zval option) option \<Rightarrow> 'w st \<Rightarrow> ((zval \<times> zval option) \<times> 'w st) option" where
  "memcache_addMultiByKey env = php_handle_multi_store_command env ''add''"

definition memcache_replaceMultiByKey ::
    "'w php_env \<Rightarrow> (zval \<times> zval option) option \<Rightarrow> 'w st \<Rightarrow> ((zval \<times> zval option) \<times> 'w st) option" where
  "memcache_replaceMultiByKey env = php_handle_multi_store_command env ''replace''"

definition memcache_casMultiByKey ::
    "'w php_env \<Rightarrow> (zval \<times> zval option) option \<Rightarrow> 'w st \<Rightarrow> ((zval \<times> zval option) \<times> 'w st) option" where
  "memcache_casMultiByKey env = php_handle_multi_store_command env ''cas''"

subsection \<open>Deletes\<close>

text \<open>A shard key that cannot be prepared leaves the buffer of the key uninitialised.\<close>

fun delete_multi_loop ::
    "'w php_env \<Rightarrow> int \<Rightarrow> (hkey \<times> zval) list \<Rightarrow> (hkey \<times> zval) list \<Rightarrow> 'w st \<Rightarrow>
     ((hkey \<times> zval) list \<times> 'w st) option" where
  "delete_multi_loop env time [] rv s = Some (rv, s)"
| "delete_multi_loop env time ((k, data) # xs) rv s =
     (case k of
        KInt i \<Rightarrow> None
      | KStr key \<Rightarrow> do {
          let s = log_pool (setCmd ''deleteMultiByKey'' (LogManager_begin s));
          ((r, shard_key), s) \<leftarrow> mmc_prepare_key env MMC_KEY_MAX_SIZE data (setKey (cstr key) s);
          if r \<noteq> MMC_OK then None
          else do {
            (result, s) \<leftarrow> php_mmc_delete_by_key env key shard_key time s;
            delete_multi_loop env time xs (assoc_add (symtable_key env (cstr key)) (ZBool (0 < result)) rv)
              (setCode (if 0 < result then MC_DELETED else CMD_FAILED) s)
          }
        })"

definition memcache_deleteMultiByKey ::
    "'w php_env \<Rightarrow> (zval \<times> int option) option \<Rightarrow> 'w st \<Rightarrow> (zval \<times> 'w st) option" where
  "memcache_deleteMultiByKey env args s = (case args of
     None \<Rightarrow> Some (ZNull, s)
   | Some (keys, time) \<Rightarrow>
       (let (ok, s) = mmc_get_pool s in
        if \<not> ok \<or> p_num_servers (pool s) = 0 then None
        else (case keys of
          ZArray xs \<Rightarrow> do {
            (rv, s) \<leftarrow> delete_multi_loop env (c_int (default 0 time)) xs [] s;
            Some (ZArray rv, s)
          }
        | _ \<Rightarrow> None)))"

subsection \<open>getMultiByKey\<close>

text \<open>
  The result has an array of fields for every key. \<open>b_queued\<close> holds the keys whose value is
  queued for unserializing: replacing it would leave a dangling pointer in the queue.
\<close>

record by_key =
  b_rv :: "(string \<times> (string \<times> zval) list) list"
  b_retry_hash :: "string list"
  b_requests :: "nat list"
  b_serialized :: "(string \<times> string \<times> u32 \<times> nat) mmc_queue"
  b_queued :: "string list"

definition set_field :: "string \<Rightarrow> string \<Rightarrow> zval \<Rightarrow> by_key \<Rightarrow> by_key" where
  "set_field key name z v = (case map_of (b_rv v) key of
     None \<Rightarrow> v | Some arr \<Rightarrow> v\<lparr>b_rv := assoc_add key (assoc_add name z arr) (b_rv v)\<rparr>)"

definition get_field :: "string \<Rightarrow> string \<Rightarrow> by_key \<Rightarrow> zval option" where
  "get_field key name v = (case map_of (b_rv v) key of None \<Rightarrow> None | Some arr \<Rightarrow> map_of arr name)"

definition update_multibykey_result_array ::
    "by_key \<Rightarrow> string \<Rightarrow> int \<Rightarrow> 'w st \<Rightarrow> (by_key \<times> 'w st) option" where
  "update_multibykey_result_array v line res_code s = do {
     (ts, rest) \<leftarrow> tokenize_command line MAX_TOKENS;
     Some (fold (\<lambda>t (v, s). if map_of (b_rv v) t = None then (v, s)
                  else (set_field t ''status'' (ZBool False) v,
                        log_upd_key t (\<lambda>l. l\<lparr>lg_res_code := res_code\<rparr>) s))
             (drop 1 ts) (v, s))
   }"

definition bykey_schedule ::
    "'w php_env \<Rightarrow> string \<Rightarrow> string \<Rightarrow> by_key \<Rightarrow> 'w st \<Rightarrow> (by_key \<times> 'w st) option" where
  "bykey_schedule env key shard_key v s = do {
     (mmc, s) \<leftarrow> mmc_pool_find env shard_key s;
     ok \<leftarrow> usable mmc s;
     if ok then do {
       p \<leftarrow> mmc;
       m \<leftarrow> heap s p;
       let v = (if mmc_outbuf m = [] then v\<lparr>b_requests := b_requests v @ [p]\<rparr> else v);
       s \<leftarrow> upd p (\<lambda>m. m\<lparr>mmc_outbuf := (if mmc_outbuf m = [] then ''gets'' else mmc_outbuf m) @ '' '' @ key\<rparr>)
              (setHost (mmc_host m) s);
       Some (v, s)
     } else do {
       s \<leftarrow> log_host_of mmc s;
       Some (set_field key ''status'' (ZBool False) v, setCode CONNECT_FAILED s)
     }
   }"

definition bykey_new_field :: "string \<Rightarrow> by_key \<Rightarrow> 'w st \<Rightarrow> by_key \<times> 'w st" where
  "bykey_new_field key v s =
     (if map_of (b_rv v) key = None
      then (v\<lparr>b_rv := b_rv v @ [(key, [(''status'', ZBool True), (''value'', ZNull)])]\<rparr>, setCode MC_SUCCESS s)
      else (v, s))"

text \<open>
  A key is scheduled in the first round, when its value is missing during failover, or when
  its value had a bad checksum.
\<close>

fun bykey_first_pass ::
    "'w php_env \<Rightarrow> nat \<Rightarrow> bool \<Rightarrow> bool \<Rightarrow> (hkey \<times> zval) list \<Rightarrow> by_key \<Rightarrow> 'w st \<Rightarrow> (by_key \<times> 'w st) option" where
  "bykey_first_pass env i do_failover chksum_failed [] v s = Some (v, s)"
| "bykey_first_pass env i do_failover chksum_failed ((k, zshard) # xs) v s =
     (case k of
        KInt _ \<Rightarrow> None
      | KStr input_key \<Rightarrow> do {
          ((r, key), s) \<leftarrow> mmc_prepare_key_ex MMC_KEY_MAX_SIZE (cstr input_key) s;
          (v, s) \<leftarrow> (if r \<noteq> MMC_OK then Some (v, s)
            else do {
              s \<leftarrow> createLogger key s;
              let s = log_pool (setCmd ''getMultiByKey'' (setLogger key s));
              let (v, s) = bykey_new_field key v s;
              ((r, shard_key), s) \<leftarrow> mmc_prepare_key env MMC_KEY_MAX_SIZE zshard s;
              if r \<noteq> MMC_OK then Some (set_field key ''status'' (ZBool False) v, s)
              else do {
                let v = (if i = 0 \<or> get_field key ''shardKey'' v = None
                         then set_field key ''shardKey'' zshard v else v);
                if i = 0 \<or> do_failover \<and> get_field key ''value'' v = Some ZNull
                   \<or> chksum_failed \<and> key \<in> set (b_retry_hash v)
                then bykey_schedule env key shard_key v s
                else Some (v, s)
              }
            });
          bykey_first_pass env i do_failover chksum_failed xs v s
        })"

fun bykey_second_pass ::
    "'w php_env \<Rightarrow> nat list \<Rightarrow> int \<Rightarrow> by_key \<Rightarrow> 'w st \<Rightarrow> ((string list \<times> int \<times> by_key) \<times> 'w st) option" where
  "bykey_second_pass env [] result_status v s = Some (([], result_status, v), s)"
| "bykey_second_pass env (p # ps) result_status v s = do {
     m \<leftarrow> heap s p;
     let line = mmc_outbuf m;
     (result, s) \<leftarrow> mmc_sendcmd env p line s;
     (line, result_status, v, s) \<leftarrow> (if result < 0 then do {
         (_, s) \<leftarrow> mmc_server_failure env p s;
         (v, s) \<leftarrow> update_multibykey_result_array v line WRITE_TO_SERVER_FAILED s;
         Some (tokenized line, result, v, s)
       } else Some (line, result_status, v, s));
     ((lines, result_status, v), s) \<leftarrow> bykey_second_pass env ps result_status v s;
     Some ((line # lines, result_status, v), s)
   }"

text \<open>A value that was read for the key \<open>key\<close> of the result.\<close>

definition bykey_value ::
    "nat \<Rightarrow> int \<Rightarrow> string \<Rightarrow> read_out \<Rightarrow> by_key \<Rightarrow> 'w st \<Rightarrow> (by_key \<times> 'w st) option" where
  "bykey_value p result key ro v s =
     (let flags = h_flags (o_header ro); fail = set_field key ''status'' (ZBool False) in
      if result = - 2 then Some (fail v, log_upd_key key (\<lambda>l. l\<lparr>lg_res_code := UNCOMPRESS_FAILED\<rparr>) s)
      else if result = CHKSUM_MISMATCH_DETECTED then do {
        _ \<leftarrow> efree (o_value ro);
        Some (fail (v\<lparr>b_retry_hash := List.insert key (b_retry_hash v)\<rparr>),
              log_upd_key key (\<lambda>l. l\<lparr>lg_res_code := DI_CHECKSUM_GET_FAILED_GET\<rparr>) s)
      } else do {
        val \<leftarrow> buf_read (o_value ro);
        cas \<leftarrow> h_cas (o_header ro);
        v \<leftarrow> (if serialized flags then
            (if get_field key ''value'' v = Some ZNull then do {
               q \<leftarrow> mmc_queue_push (b_serialized v) (Some (val, key, flags, p));
               Some (set_field key ''value'' (ZString val) (v\<lparr>b_serialized := q, b_queued := key # b_queued v\<rparr>))
             } else Some v)
          else if key \<in> set (b_queued v) then None
          else Some (set_field key ''value'' (ZString val) v));
        let s = setCas cas (setFlags (sint flags) (setResLen (o_value_len ro) (setLogger key s)));
        Some (set_field key ''cas'' (ZLong (sint cas)) (set_field key ''flag'' (ZLong (sint flags))
                (set_field key ''status'' (ZBool True) v)), s)
      })"

text \<open>A value for a key that was not asked for is skipped.\<close>

partial_function (option) bykey_read ::
    "'w php_env \<Rightarrow> nat \<Rightarrow> by_key \<Rightarrow> 'w st \<Rightarrow> ((int \<times> by_key) \<times> 'w st) option" where
  "bykey_read env p v s = do {
     ((result, ro), s) \<leftarrow> mmc_read_value env p True True (get_vars (Some 0)) (setLogger ''TMP_KEY'' s);
     if result \<le> 0 \<and> result \<noteq> - 2 \<and> result \<noteq> CHKSUM_MISMATCH_DETECTED then Some ((result, v), s)
     else do {
       key \<leftarrow> h_key (o_header ro);
       (v, s) \<leftarrow> (if map_of (b_rv v) key = None then Some (v, s) else bykey_value p result key ro v s);
       bykey_read env p v s
     }
   }"

declare bykey_read.simps [code]

fun bykey_third_pass ::
    "'w php_env \<Rightarrow> (nat \<times> string) list \<Rightarrow> int \<Rightarrow> by_key \<Rightarrow> 'w st \<Rightarrow> ((int \<times> by_key) \<times> 'w st) option" where
  "bykey_third_pass env [] result_status v s = Some ((result_status, v), s)"
| "bykey_third_pass env ((p, line) # reqs) result_status v s = do {
     m \<leftarrow> heap s p;
     (result_status, v, s) \<leftarrow> (if mmc_status m = STATUS_FAILED then Some (result_status, v, s)
       else do {
         ((result, v), s) \<leftarrow> bykey_read env p v s;
         if result < 0 then do {
           (_, s) \<leftarrow> mmc_server_failure env p s;
           (v, s) \<leftarrow> update_multibykey_result_array v line (getCode s) s;
           Some (result, v, s)
         } else Some (result_status, v, s)
       });
     s \<leftarrow> upd p (\<lambda>m. m\<lparr>mmc_outbuf := []\<rparr>) s;
     bykey_third_pass env reqs result_status v s
   }"

definition bykey_round ::
    "'w php_env \<Rightarrow> (hkey \<times> zval) list \<Rightarrow> nat \<Rightarrow> bool \<Rightarrow> bool \<Rightarrow> by_key \<Rightarrow> 'w st \<Rightarrow> ((int \<times> by_key) \<times> 'w st) option" where
  "bykey_round env keys i do_failover chksum_failed v s = do {
     (v, s) \<leftarrow> bykey_first_pass env i do_failover chksum_failed keys (v\<lparr>b_requests := []\<rparr>) s;
     ((lines, result_status, v), s) \<leftarrow> bykey_second_pass env (b_requests v) 0 v s;
     s \<leftarrow> createLogger ''TMP_KEY'' s;
     bykey_third_pass env (zip (b_requests v) lines) result_status (v\<lparr>b_retry_hash := []\<rparr>) s
   }"

partial_function (option) bykey_rounds ::
    "'w php_env \<Rightarrow> (hkey \<times> zval) list \<Rightarrow> nat \<Rightarrow> int \<Rightarrow> bool \<Rightarrow> bool \<Rightarrow> by_key \<Rightarrow> 'w st \<Rightarrow> (by_key \<times> 'w st) option" where
  "bykey_rounds env keys i retry_count do_failover chksum_failed v s = do {
     ((result_status, v), s) \<leftarrow> bykey_round env keys i do_failover chksum_failed v s;
     let retry_count = (if b_retry_hash v \<noteq> [] then retry_count + 1 else retry_count);
     let chksum_failed = (b_retry_hash v \<noteq> [] \<and> retry_count < g_integrity_error_retry_count (glob s));
     let do_failover = (result_status < 0 \<and> g_allow_failover (glob s) \<and> int i \<le> g_max_failover_attempts (glob s));
     if do_failover \<or> chksum_failed
     then bykey_rounds env keys (i + 1) retry_count do_failover chksum_failed v s
     else Some (v, s)
   }"

declare bykey_rounds.simps [code]

text \<open>Without igbinary support the queued string is freed and stays in the result.\<close>

function bykey_post :: "'w php_env \<Rightarrow> by_key \<Rightarrow> 'w st \<Rightarrow> (by_key \<times> 'w st) option" where
  "bykey_post env v s =
     (case mmc_queue_pop (b_serialized v) of
        None \<Rightarrow> None
      | Some (None, q) \<Rightarrow> Some (v\<lparr>b_serialized := mmc_queue_free q\<rparr>, s)
      | Some (Some (val, key, flags, p), q) \<Rightarrow>
          if q_len q < q_len (b_serialized v) then do {
            m \<leftarrow> heap s p;
            if flags AND MMC_SERIALIZED = 0 \<and> \<not> have_igbinary env then None
            else do {
              ((ok, z), s) \<leftarrow> mmc_postprocess_value env flags (ZString val) val (setLogger key s);
              let v = set_field key ''value'' z (v\<lparr>b_serialized := q\<rparr>);
              let (v, s) = (if ok = 0 then (set_field key ''status'' (ZBool False) v, setCode UNSERIALIZE_FAILED s)
                            else (v, s));
              bykey_post env v s
            }
          } else None)"
  by pat_completeness auto
termination
  by (relation "measure (\<lambda>(env, v, s). q_len (b_serialized v))")
    (auto simp: set_field_def split: if_splits option.splits)

declare bykey_post.simps [simp del]

definition php_mmc_get_multi_by_key ::
    "'w php_env \<Rightarrow> (hkey \<times> zval) list \<Rightarrow> 'w st \<Rightarrow> (zval \<times> 'w st) option" where
  "php_mmc_get_multi_by_key env keys s = do {
     let v = \<lparr>b_rv = [], b_retry_hash = [], b_requests = [], b_serialized = mmc_queue_release, b_queued = []\<rparr>;
     (v, s) \<leftarrow> bykey_rounds env keys 0 0 False False v (mmc_init_multi (setMultiLogger s));
     (v, s) \<leftarrow> (if q_len (b_serialized v) \<noteq> 0 then bykey_post env v s else Some (v, s));
     s \<leftarrow> mmc_free_multi env s;
     Some (ZArray (map (\<lambda>(k, arr). (KStr k, zarray arr)) (b_rv v)), s)
   }"

definition memcache_getMultiByKey :: "'w php_env \<Rightarrow> zval option \<Rightarrow> 'w st \<Rightarrow> (zval \<times> 'w st) option" where
  "memcache_getMultiByKey env args s =
     (let s = LogManager_begin s in
      case args of
        None \<Rightarrow> Some (ZNull, s)
      | Some (ZArray keys) \<Rightarrow>
          (let (ok, s) = mmc_get_pool s in
           if \<not> ok \<or> p_num_servers (pool s) = 0 then Some (ZBool False, s)
           else php_mmc_get_multi_by_key env keys s)
      | Some _ \<Rightarrow> None)"

end
