(* ===== verification/Cas_Frame.thy ===== *)
theory Cas_Frame
  imports Cas_Memory Multi_By_Key
begin

text \<open>
  The commands that are no locks and no stores leave the CAS values alone: whatever the servers
  answer and however often a command is repeated, a lock that was taken before them can still be
  released or stored under with its CAS.
\<close>

subsection \<open>Commands on one key\<close>

lemma keeps_log_no_server [keeps]: "mem s = a \<Longrightarrow> keeps1 a (log_no_server r s)"
  by (auto simp: log_no_server_def Let_def split: option.split intro!: keeps)

lemma keeps_delete_reply [keeps]: "mem s = a \<Longrightarrow> keeps a (delete_reply env p n s)"
  by (auto simp: delete_reply_def intro!: keeps)

lemma keeps_delete [keeps]: "mem s = a \<Longrightarrow> keeps a (mmc_delete env p key t s)"
  by (auto simp: mmc_delete_def intro!: keeps)

lemma keeps_flush [keeps]: "mem s = a \<Longrightarrow> keeps a (mmc_flush env p t s)"
  by (cases "t = 0") (auto simp: mmc_flush_def intro!: keeps)

lemma keeps_incr_decr_reply [keeps]: "mem s = a \<Longrightarrow> keeps a (incr_decr_reply env p n number s)"
  by (auto simp: incr_decr_reply_def intro!: keeps)

lemma keeps_incr_decr [keeps]: "mem s = a \<Longrightarrow> keeps a (mmc_incr_decr env p incr key n number s)"
  by (auto simp: mmc_incr_decr_def intro!: keeps)

lemma keeps_deliver [keeps]: "mem s = a \<Longrightarrow> keeps a (deliver env ro result rv s)"
  by (auto simp: deliver_def intro!: keeps)

lemma keeps_retrieval_result [keeps]: "mem s = a \<Longrightarrow> keeps a (retrieval_result env p c result ro rv s)"
  by (auto simp: retrieval_result_def intro!: keeps)

lemma incr_decr_loop_keeps: "incr_decr_loop env find_key key n incr number s = Some y \<Longrightarrow> mem (snd y) = mem s"
  apply (erule incr_decr_loop.raw_induct [where P = "\<lambda>env find_key key n incr number s y. mem (snd y) = mem s", rotated])
  subgoal premises prems for loop env find_key key n incr number s y
  proof -
    have again: "mem s = a \<Longrightarrow> keeps a (loop env find_key key n incr number s)" for a env find_key key n incr number s
      by (rule keeps_loopI) (rule prems(1))
    show ?thesis by (rule keepsD [OF _ prems(2)]) (auto intro!: keeps again)
  qed
  done

lemma keeps_incr_decr_loop [keeps]: "mem s = a \<Longrightarrow> keeps a (incr_decr_loop env find_key key n incr number s)"
  by (rule keeps_loopI [OF incr_decr_loop_keeps])

lemma delete_loop_keeps: "delete_loop env find_key key t lf s = Some y \<Longrightarrow> mem (snd y) = mem s"
  apply (erule delete_loop.raw_induct [where P = "\<lambda>env find_key key t lf s y. mem (snd y) = mem s", rotated])
  subgoal premises prems for loop env find_key key t lf s y
  proof -
    have again: "mem s = a \<Longrightarrow> keeps a (loop env find_key key t lf s)" for a env find_key key t lf s
      by (rule keeps_loopI) (rule prems(1))
    show ?thesis by (rule keepsD [OF _ prems(2)]) (auto intro!: keeps again)
  qed
  done

lemma keeps_delete_loop [keeps]: "mem s = a \<Longrightarrow> keeps a (delete_loop env find_key key t lf s)"
  by (rule keeps_loopI [OF delete_loop_keeps])

lemma retrieval_loop_keeps: "retrieval_loop env key cmd wc c retry ro rv s = Some y \<Longrightarrow> mem (snd y) = mem s"
  apply (erule retrieval_loop.raw_induct [where P = "\<lambda>env key cmd wc c retry ro rv s y. mem (snd y) = mem s", rotated])
  subgoal premises prems for loop env key cmd wc c retry ro rv s y
  proof -
    have again: "mem s = a \<Longrightarrow> keeps a (loop env key cmd wc c retry ro rv s)" for a env key cmd wc c retry ro rv s
      by (rule keeps_loopI) (rule prems(1))
    show ?thesis by (rule keepsD [OF _ prems(2)]) (auto intro!: keeps again)
  qed
  done

lemma keeps_retrieval_loop [keeps]: "mem s = a \<Longrightarrow> keeps a (retrieval_loop env key cmd wc c retry ro rv s)"
  by (rule keeps_loopI [OF retrieval_loop_keeps])

lemma get_by_key_loop_keeps: "get_by_key_loop env key cmd wc retry ro rv s = Some y \<Longrightarrow> mem (snd y) = mem s"
  apply (erule get_by_key_loop.raw_induct [where P = "\<lambda>env key cmd wc retry ro rv s y. mem (snd y) = mem s", rotated])
  subgoal premises prems for loop env key cmd wc retry ro rv s y
  proof -
    have again: "mem s = a \<Longrightarrow> keeps a (loop env key cmd wc retry ro rv s)" for a env key cmd wc retry ro rv s
      by (rule keeps_loopI) (rule prems(1))
    show ?thesis by (rule keepsD [OF _ prems(2)]) (auto intro!: keeps again)
  qed
  done

lemma keeps_get_by_key_loop [keeps]: "mem s = a \<Longrightarrow> keeps a (get_by_key_loop env key cmd wc retry ro rv s)"
  by (rule keeps_loopI [OF get_by_key_loop_keeps])

lemma keeps_prepare_key_ex [keeps]: "mem s = a \<Longrightarrow> keeps a (mmc_prepare_key_ex cap key s)"
  by (auto simp: mmc_prepare_key_ex_def Let_def)

lemma keeps_prepare_key [keeps]: "mem s = a \<Longrightarrow> keeps a (mmc_prepare_key env cap z s)"
  by (auto simp: mmc_prepare_key_def split: zval.split intro!: keeps)

lemma keeps_retrieval [keeps]: "mem s = a \<Longrightarrow> keeps a (mmc_exec_retrieval_cmd env key wc c rv s)"
  by (auto simp: mmc_exec_retrieval_cmd_def intro!: keeps)

lemma keeps_php_incr_decr [keeps]: "mem s = a \<Longrightarrow> keeps a (php_mmc_incr_decr env key shard n by_key incr s)"
  by (auto simp: php_mmc_incr_decr_def intro!: keeps keeps_value [where c = "c :: int option" for c])

lemma keeps_delete_by_key [keeps]: "mem s = a \<Longrightarrow> keeps a (php_mmc_delete_by_key env key shard t s)"
  by (auto simp: php_mmc_delete_by_key_def intro!: keeps)

lemma keeps_get_by_key [keeps]: "mem s = a \<Longrightarrow> keeps a (php_mmc_get_by_key env zkey zshard rv flags wc s)"
  by (auto simp: php_mmc_get_by_key_def intro!: keeps)

subsection \<open>Commands on several keys\<close>

lemma keeps_free_multi [keeps]: "mem s = a \<Longrightarrow> keeps1 a (mmc_free_multi env s)"
proof -
  have "mem s = a \<Longrightarrow> keeps1 a (mmc_free_multi_loop env xs s)" for xs s
    by (induction xs arbitrary: s) (auto intro!: keeps)
  then show "mem s = a \<Longrightarrow> keeps1 a (mmc_free_multi env s)" by (auto simp: mmc_free_multi_def intro!: keeps)
qed

lemma keeps_init_multi [simp]: "mem (mmc_init_multi s) = mem s" "mem (setMultiLogger s) = mem s" "mem (LogManager_begin s) = mem s"
  by (simp_all add: mmc_init_multi_def setMultiLogger_def LogManager_begin_def)

lemma keeps_setLogger [simp]: "mem (setLogger key s) = mem s"
  by (simp add: setLogger_def split: option.split)

lemma keeps_createLogger [keeps]: "mem s = a \<Longrightarrow> keeps1 a (createLogger key s)"
  by (auto simp: createLogger_def keeps1_def)

lemma keeps_log_host_of [keeps]: "mem s = a \<Longrightarrow> keeps1 a (log_host_of r s)"
  by (auto simp: log_host_of_def split: option.split intro!: keeps)

lemma mark_tokens_mem: "mark_tokens ts code arr s = (arr', s') \<Longrightarrow> mem s' = mem s"
  by (induction ts arbitrary: arr s) auto

lemma keeps_update_result_array [keeps]: "mem s = a \<Longrightarrow> keeps a (update_result_array st line code s)"
  by (auto simp: update_result_array_def split: option.split prod.split dest!: mark_tokens_mem
      intro!: keeps_value)

lemma keeps_schedule_key [keeps]: "mem s = a \<Longrightarrow> keeps a (schedule_key env wc fr key v s)"
  by (auto simp: schedule_key_def intro!: keeps)

lemma keeps_first_pass [keeps]: "mem s = a \<Longrightarrow> keeps a (multi_first_pass env wc fr ch ks v s)"
  by (induction ks arbitrary: v s) (auto intro!: keeps)

text \<open>Two results beside the state.\<close>

lemma keeps_bind3:
  "keeps a (map_option (\<lambda>(x, y, s). ((x, y), s)) c) \<Longrightarrow> (\<And>x y s. mem s = a \<Longrightarrow> keeps a (f (x, y, s))) \<Longrightarrow>
    keeps a (Option.bind c f)"
  by (cases c) auto

lemma map_bind: "map_option g (Option.bind c f) = Option.bind c (\<lambda>x. map_option g (f x))"
  by (cases c) simp_all

lemma keeps_second_pass [keeps]: "mem s = a \<Longrightarrow> keeps a (multi_second_pass env ps r v s)"
  by (induction ps arbitrary: r v s) (auto simp: map_bind intro!: keeps keeps_bind3)

lemma keeps_multi_value [keeps]: "mem s = a \<Longrightarrow> keeps a (multi_value env p result ro v s)"
  by (auto simp: multi_value_def intro!: keeps keeps_value [where c = "c :: (string \<times> string \<times> u32 \<times> nat) mmc_queue option" for c])

lemma multi_read_keeps: "multi_read env wc p v s = Some y \<Longrightarrow> mem (snd y) = mem s"
  apply (erule multi_read.raw_induct [where P = "\<lambda>env wc p v s y. mem (snd y) = mem s", rotated])
  subgoal premises prems for loop env wc p v s y
  proof -
    have again: "mem s = a \<Longrightarrow> keeps a (loop env wc p v s)" for a env wc p v s
      by (rule keeps_loopI) (rule prems(1))
    show ?thesis by (rule keepsD [OF _ prems(2)]) (auto intro!: keeps again)
  qed
  done

lemma keeps_multi_read [keeps]: "mem s = a \<Longrightarrow> keeps a (multi_read env wc p v s)"
  by (rule keeps_loopI [OF multi_read_keeps])

lemma keeps_third_pass [keeps]: "mem s = a \<Longrightarrow> keeps a (multi_third_pass env wc rs r v s)"
  by (induction rs arbitrary: r v s) (auto simp: map_bind intro!: keeps keeps_bind3)

lemma keeps_multi_round [keeps]: "mem s = a \<Longrightarrow> keeps a (multi_round env wc ks i fo cf v s)"
  by (auto simp: multi_round_def intro!: keeps)

lemma multi_rounds_keeps: "multi_rounds env wc ks i rc fo cf v s = Some y \<Longrightarrow> mem (snd y) = mem s"
  apply (erule multi_rounds.raw_induct [where P = "\<lambda>env wc ks i rc fo cf v s y. mem (snd y) = mem s", rotated])
  subgoal premises prems for loop env wc ks i rc fo cf v s y
  proof -
    have again: "mem s = a \<Longrightarrow> keeps a (loop env wc ks i rc fo cf v s)" for a env wc ks i rc fo cf v s
      by (rule keeps_loopI) (rule prems(1))
    show ?thesis by (rule keepsD [OF _ prems(2)]) (auto intro!: keeps again)
  qed
  done

lemma keeps_multi_rounds [keeps]: "mem s = a \<Longrightarrow> keeps a (multi_rounds env wc ks i rc fo cf v s)"
  by (rule keeps_loopI [OF multi_rounds_keeps])

lemma keeps_multi_post [keeps]: "mem s = a \<Longrightarrow> keeps a (multi_post env v s)"
proof (induction "q_len (g_serialized v)" arbitrary: a v s rule: less_induct)
  case less
  show ?case
    by (subst multi_post.simps) (auto simp: set_status_def less.prems split: option.split if_split intro!: keeps less.hyps)
qed

lemma keeps_exec_multi [keeps]: "mem s = a \<Longrightarrow> keeps a (mmc_exec_retrieval_cmd_multi env ks st fl ca s)"
  by (auto simp: mmc_exec_retrieval_cmd_multi_def intro!: keeps)


subsection \<open>Commands on keys with shard keys\<close>

lemma keeps_log_pool [simp]: "mem (log_pool s) = mem s"
  by (simp add: log_pool_def)

lemma keeps_delete_multi [keeps]: "mem s = a \<Longrightarrow> keeps a (delete_multi_loop env t xs rv s)"
  by (induction xs arbitrary: rv s) (auto split: hkey.split intro!: keeps)

lemma bykey_result_mem:
  "mem (snd (fold (\<lambda>t (v, s). if map_of (b_rv v) t = None then (v, s)
     else (set_field t f z v, log_upd_key t g s)) ts (v, s))) = mem s"
  by (induction ts arbitrary: v s) simp_all

lemma keeps_bykey_result [keeps]: "mem s = a \<Longrightarrow> keeps a (update_multibykey_result_array v line code s)"
  unfolding update_multibykey_result_array_def
  by (rule keeps_value) (auto simp: keeps_def bykey_result_mem dest!: arg_cong [where f = snd])

lemma keeps_bykey_schedule [keeps]: "mem s = a \<Longrightarrow> keeps a (bykey_schedule env key shard v s)"
  by (auto simp: bykey_schedule_def intro!: keeps)

lemma keeps_bykey_new_field: "bykey_new_field key v s = (v', s') \<Longrightarrow> mem s' = mem s"
  by (auto simp: bykey_new_field_def split: if_splits)

lemma keeps_bykey_first_pass [keeps]: "mem s = a \<Longrightarrow> keeps a (bykey_first_pass env i fo cf xs v s)"
proof (induction xs arbitrary: v s)
  case (Cons x xs)
  then show ?case
    by (cases x) (auto split: hkey.split prod.split dest!: keeps_bykey_new_field intro!: keeps)
qed simp

lemma keeps_bind4:
  "keeps a (map_option (\<lambda>(x, y, z, s). ((x, y, z), s)) c) \<Longrightarrow> (\<And>x y z s. mem s = a \<Longrightarrow> keeps a (f (x, y, z, s))) \<Longrightarrow>
    keeps a (Option.bind c f)"
  by (cases c) auto

lemma keeps_bykey_second_pass [keeps]: "mem s = a \<Longrightarrow> keeps a (bykey_second_pass env ps r v s)"
  by (induction ps arbitrary: r v s) (auto simp: map_bind intro!: keeps keeps_bind4)

lemma keeps_bykey_value [keeps]: "mem s = a \<Longrightarrow> keeps a (bykey_value p result key ro v s)"
  by (auto simp: bykey_value_def Let_def intro!: keeps keeps_value [where c = "c :: by_key option" for c])

lemma bykey_read_keeps: "bykey_read env p v s = Some y \<Longrightarrow> mem (snd y) = mem s"
  apply (erule bykey_read.raw_induct [where P = "\<lambda>env p v s y. mem (snd y) = mem s", rotated])
  subgoal premises prems for loop env p v s y
  proof -
    have again: "mem s = a \<Longrightarrow> keeps a (loop env p v s)" for a env p v s
      by (rule keeps_loopI) (rule prems(1))
    show ?thesis by (rule keepsD [OF _ prems(2)]) (auto intro!: keeps again)
  qed
  done

lemma keeps_bykey_read [keeps]: "mem s = a \<Longrightarrow> keeps a (bykey_read env p v s)"
  by (rule keeps_loopI [OF bykey_read_keeps])

lemma keeps_bykey_third_pass [keeps]: "mem s = a \<Longrightarrow> keeps a (bykey_third_pass env rs r v s)"
  by (induction rs arbitrary: r v s) (auto simp: map_bind intro!: keeps keeps_bind3)

lemma keeps_bykey_round [keeps]: "mem s = a \<Longrightarrow> keeps a (bykey_round env ks i fo cf v s)"
  by (auto simp: bykey_round_def intro!: keeps)

lemma bykey_rounds_keeps: "bykey_rounds env ks i rc fo cf v s = Some y \<Longrightarrow> mem (snd y) = mem s"
  apply (erule bykey_rounds.raw_induct [where P = "\<lambda>env ks i rc fo cf v s y. mem (snd y) = mem s", rotated])
  subgoal premises prems for loop env ks i rc fo cf v s y
  proof -
    have again: "mem s = a \<Longrightarrow> keeps a (loop env ks i rc fo cf v s)" for a env ks i rc fo cf v s
      by (rule keeps_loopI) (rule prems(1))
    show ?thesis by (rule keepsD [OF _ prems(2)]) (auto intro!: keeps again)
  qed
  done

lemma keeps_bykey_rounds [keeps]: "mem s = a \<Longrightarrow> keeps a (bykey_rounds env ks i rc fo cf v s)"
  by (rule keeps_loopI [OF bykey_rounds_keeps])

lemma b_serialized_set_field [simp]: "b_serialized (set_field k f z v) = b_serialized v"
  by (simp add: set_field_def split: option.split)

lemma keeps_bykey_post [keeps]: "mem s = a \<Longrightarrow> keeps a (bykey_post env v s)"
proof (induction "q_len (b_serialized v)" arbitrary: a v s rule: less_induct)
  case less
  show ?case
    by (subst bykey_post.simps) (auto simp: less.prems split: option.split if_split intro!: keeps less.hyps)
qed

lemma keeps_get_multi_by_key [keeps]: "mem s = a \<Longrightarrow> keeps a (php_mmc_get_multi_by_key env ks s)"
  by (auto simp: php_mmc_get_multi_by_key_def intro!: keeps)

subsection \<open>Locks are kept until they are used\<close>

text \<open>One command that is no getl, no store and no unlock.\<close>

inductive plain_command :: "'w php_env \<Rightarrow> 'w st \<Rightarrow> 'w st \<Rightarrow> bool" for env where
  plain_get: "mmc_exec_retrieval_cmd env key wc corrupted rv s = Some (r, s') \<Longrightarrow> plain_command env s s'"
| plain_get_by_key: "php_mmc_get_by_key env zkey zshard rv flags wc s = Some (r, s') \<Longrightarrow> plain_command env s s'"
| plain_get_multi: "mmc_exec_retrieval_cmd_multi env zkeys st flags wc s = Some (r, s') \<Longrightarrow> plain_command env s s'"
| plain_get_multi_by_key: "php_mmc_get_multi_by_key env keys s = Some (r, s') \<Longrightarrow> plain_command env s s'"
| plain_incr_decr: "php_mmc_incr_decr env key shard n by_key incr s = Some (r, s') \<Longrightarrow> plain_command env s s'"
| plain_delete: "delete_loop env find_key key t log_failed s = Some (r, s') \<Longrightarrow> plain_command env s s'"
| plain_delete_by_key: "php_mmc_delete_by_key env key shard t s = Some (r, s') \<Longrightarrow> plain_command env s s'"
| plain_delete_multi: "delete_multi_loop env t keys rv s = Some (r, s') \<Longrightarrow> plain_command env s s'"
| plain_flush: "mmc_flush env p t s = Some (r, s') \<Longrightarrow> plain_command env s s'"

lemma plain_command_mem: "plain_command env s s' \<Longrightarrow> mem s' = mem s"
  by (induction rule: plain_command.induct)
    (auto dest!: keepsD [OF keeps_retrieval [OF refl]] keepsD [OF keeps_get_by_key [OF refl]] keepsD [OF keeps_exec_multi [OF refl]]
      keepsD [OF keeps_get_multi_by_key [OF refl]] keepsD [OF keeps_php_incr_decr [OF refl]] keepsD [OF keeps_delete_loop [OF refl]]
      keepsD [OF keeps_delete_by_key [OF refl]] keepsD [OF keeps_delete_multi [OF refl]] keepsD [OF keeps_flush [OF refl]])

lemma plain_commands_mem: "(plain_command env)\<^sup>*\<^sup>* s s' \<Longrightarrow> mem s' = mem s"
  by (induction rule: rtranclp_induct) (auto dest: plain_command_mem)



end
