(* ===== verification/Multi_Schedule.thy ===== *)
theory Multi_Schedule
  imports Multi_Get Lifecycle
begin

text \<open>
  The first pass of a get of several keys: which server gets which keys. The lookups between two
  keys open, negotiate with and fail servers, but leave alone what the commands already hold.
\<close>

subsection \<open>What a lookup leaves alone\<close>

type_synonym view = "(nat \<Rightarrow> string option) \<times> bool \<times> mmc_globals \<times> (hash_state \<Rightarrow> mmc_pool)"

definition view :: "'w st \<Rightarrow> view" where
  "view s = ((\<lambda>q. map_option mmc_outbuf (heap s q)), log_map s = None, glob s, \<lambda>h. (pool s)\<lparr>p_hash_state := h\<rparr>)"

definition views :: "view \<Rightarrow> ('a \<times> 'w st) option \<Rightarrow> bool" where
  "views a c \<longleftrightarrow> (\<forall>r s. c = Some (r, s) \<longrightarrow> view s = a)"

definition views1 :: "view \<Rightarrow> 'w st option \<Rightarrow> bool" where
  "views1 a c \<longleftrightarrow> (\<forall>s. c = Some s \<longrightarrow> view s = a)"

named_theorems views "operations that keep the view"

lemma views_basic [simp]:
  "views a None" "views1 a None" "views a (Some (r, s)) = (view s = a)" "views1 a (Some s) = (view s = a)"
  "views a (Let x f) = views a (f x)" "views1 a (Let x g) = views1 a (g x)"
  by (simp_all add: views_def views1_def Let_def)

lemma views_bind [views]:
  "views a c \<Longrightarrow> (\<And>r s. view s = a \<Longrightarrow> views a (f (r, s))) \<Longrightarrow> views a (Option.bind c f)"
  "views a c \<Longrightarrow> (\<And>r s. view s = a \<Longrightarrow> views1 a (g (r, s))) \<Longrightarrow> views1 a (Option.bind c g)"
  "views1 a d \<Longrightarrow> (\<And>s. view s = a \<Longrightarrow> views a (h s)) \<Longrightarrow> views a (Option.bind d h)"
  "views1 a d \<Longrightarrow> (\<And>s. view s = a \<Longrightarrow> views1 a (i s)) \<Longrightarrow> views1 a (Option.bind d i)"
  by (fastforce simp: views_def views1_def bind_eq_Some_conv)+

lemma views_value: "(\<And>x. views a (f x)) \<Longrightarrow> views a (Option.bind c f)" "(\<And>x. views1 a (g x)) \<Longrightarrow> views1 a (Option.bind c g)"
  by (fastforce simp: views_def views1_def bind_eq_Some_conv)+

lemmas views_values [views] =
  views_value(1) [where c = "c :: mmc option" for c] views_value(2) [where c = "c :: mmc option" for c]
  views_value(1) [where c = "c :: nat option" for c] views_value(2) [where c = "c :: nat option" for c]
  views_value(1) [where c = "c :: bool option" for c] views_value(2) [where c = "c :: bool option" for c]
  views_value(1) [where c = "c :: mmc_consistent_state option" for c]
  views_value(1) [where c = "c :: (nat option \<times> string) option" for c]
  views_value(1) [where c = "c :: (u32 \<times> nat) option" for c]

lemma view_simps [simp]:
  "view (s\<lparr>world := w\<rparr>) = view s" "view (s\<lparr>pool := (pool s)\<lparr>p_hash_state := h\<rparr>\<rparr>) = view s"
  "view (log_upd f s) = view s" "view (php_error l x s) = view s"
  by (auto simp: view_def log_upd_def php_error_def split: option.split)

lemma view_upd: "heap s p = Some m \<Longrightarrow> mmc_outbuf (f m) = mmc_outbuf m \<Longrightarrow> view (s\<lparr>heap := (heap s)(p \<mapsto> f m)\<rparr>) = view s"
  by (auto simp: view_def)

lemma views_upd [views]: "view s = a \<Longrightarrow> (\<And>m. mmc_outbuf (f m) = mmc_outbuf m) \<Longrightarrow> views1 a (upd p f s)"
  by (auto simp: views1_def view_upd elim!: updE)

lemma views_seterror [views]: "view s = a \<Longrightarrow> views1 a (mmc_server_seterror p e n s)"
  by (auto simp: mmc_server_seterror_def split: option.split intro!: views)

lemma view_stream_timeout [simp]: "view (stream_timeout env h m s) = view s"
  by (simp add: stream_timeout_def)

lemma views_sendcmd [views]: "view s = a \<Longrightarrow> views a (mmc_sendcmd env p cmd s)"
  by (auto simp: mmc_sendcmd_def split: prod.split intro!: views)

lemma view_readline_loop: "mmc_readline_loop env h k n s = (r, n', s') \<Longrightarrow> view s' = view s"
  by (induction env h k n s rule: mmc_readline_loop.induct) (auto simp: Let_def split: prod.splits option.splits if_splits)

lemma views_readline [views]: "view s = a \<Longrightarrow> views a (mmc_readline env p s)"
  by (auto simp: mmc_readline_def split: option.split prod.split dest!: view_readline_loop intro!: views)

lemma views_send_request [views]: "view s = a \<Longrightarrow> views a (send_request env p r s)"
  by (auto simp: send_request_def split: prod.split intro!: views)

lemma view_report_failure [simp]: "view (report_failure env m s) = view s"
  by (simp add: report_failure_def split: option.split)

lemma views_disconnect [views]: "view s = a \<Longrightarrow> views1 a (mmc_server_disconnect env p s)"
  by (auto simp: mmc_server_disconnect_def split: option.split intro!: views)

lemma views_deactivate [views]: "view s = a \<Longrightarrow> views1 a (mmc_server_deactivate env p s)"
  by (auto simp: mmc_server_deactivate_def split: prod.split intro!: views)

lemma views_failure [views]: "view s = a \<Longrightarrow> views a (mmc_server_failure env p s)"
  by (auto simp: mmc_server_failure_def split: option.split mmc_status.split intro!: views)

lemma views_get_version [views]: "view s = a \<Longrightarrow> views a (mmc_get_version env p s)"
  by (auto simp: mmc_get_version_def intro!: views)

lemma view_open_attempts: "open_attempts env h k tv n s = (r, s') \<Longrightarrow> view s' = view s"
proof (induction env h k tv n s rule: open_attempts.induct)
  case (1 env h k tv n s)
  then show ?case
    by (subst (asm) (2) open_attempts.simps) (fastforce simp: Let_def split: prod.splits if_splits)
qed

lemma views_open_conn [views]: "view s = a \<Longrightarrow> views a (mmc_open_conn env p s)"
  by (auto simp: mmc_open_conn_def open_result_def split: option.split prod.split
      dest!: view_open_attempts intro!: views)

lemma views_open [views]: "view s = a \<Longrightarrow> views a (mmc_open env p force s)"
  by (auto simp: mmc_open_def split: mmc_status.split prod.split intro!: views)

lemma views_should_failover [views]: "view s = a \<Longrightarrow> views a (should_failover env p q s)"
  by (auto simp: should_failover_def split: option.split prod.split intro!: views)

lemma views_failover_loop [views]: "view s = a \<Longrightarrow> views a (failover_loop env next proxy k i hash p s)"
  by (induction k arbitrary: i hash p s) (auto split: prod.split intro!: views)

lemma views_attach [views]: "view s = a \<Longrightarrow> views1 a (attach_proxy env p q s)"
  by (auto simp: attach_proxy_def intro!: views)

lemma views_standard_find [views]: "view s = a \<Longrightarrow> views a (mmc_standard_find_server env st key False s)"
  by (auto simp: mmc_standard_find_server_def split: option.split intro!: views)

lemma views_consistent_find [views]: "view s = a \<Longrightarrow> views a (mmc_consistent_find_server env st key False s)"
  by (auto simp: mmc_consistent_find_server_def consistent_result_def split: option.split intro!: views)

lemma views_strategy_find [views]: "view s = a \<Longrightarrow> views a (strategy_find_server env key False s)"
  by (auto simp: strategy_find_server_def split: hash_state.split intro!: views)

lemma views_get_options [views]: "view s = a \<Longrightarrow> views a (get_options env p s)"
  by (auto simp: get_options_def intro!: views)

lemma views_negotiate [views]: "view s = a \<Longrightarrow> views1 a (negotiate_options env p s)"
  by (auto simp: negotiate_options_def intro!: views)

lemma views_pool_find: "view s = a \<Longrightarrow> \<not> p_proxy_enabled (pool s) \<Longrightarrow> views a (mmc_pool_find env key s)"
  by (auto simp: mmc_pool_find_def split: option.split intro!: views)

subsection \<open>States in which lookups are defined\<close>

definition servable :: "'w st \<Rightarrow> bool" where
  "servable s \<longleftrightarrow> pool_wf s \<and> conn_ok s \<and> \<not> p_proxy_enabled (pool s) \<and>
     length (options_command (pool s) (glob s)) < MAX_OPTIONS_LEN \<and> log_map s \<noteq> None"

lemma view_same:
  assumes "view s' = view s"
  shows "p_proxy_enabled (pool s') = p_proxy_enabled (pool s)" "p_servers (pool s') = p_servers (pool s)"
    "options_command (pool s') (glob s') = options_command (pool s) (glob s)" "(log_map s' = None) = (log_map s = None)"
    "map_option mmc_outbuf (heap s' q) = map_option mmc_outbuf (heap s q)"
proof -
  have h: "(pool s')\<lparr>p_hash_state := h\<rparr> = (pool s)\<lparr>p_hash_state := h\<rparr>" for h
    using assms by (simp add: view_def fun_eq_iff)
  show "p_proxy_enabled (pool s') = p_proxy_enabled (pool s)" "p_servers (pool s') = p_servers (pool s)"
    using arg_cong [OF h, of p_proxy_enabled] arg_cong [OF h, of p_servers] by simp_all
  show "options_command (pool s') (glob s') = options_command (pool s) (glob s)"
    using arg_cong [OF h, of p_enable_checksum] assms by (simp add: options_command_def view_def)
  show "(log_map s' = None) = (log_map s = None)" "map_option mmc_outbuf (heap s' q) = map_option mmc_outbuf (heap s q)"
    using assms by (auto simp: view_def fun_eq_iff)
qed

lemma lookup_round:
  assumes "qsort_ok env" "servable s"
  obtains r s1 where "mmc_pool_find env key s = Some (r, s1)" "servable s1" "view s1 = view s"
    "\<And>p. r = Some p \<Longrightarrow> p \<in> set (p_servers (pool s)) \<and> heap s1 p \<noteq> None"
proof -
  obtain r s1 where r: "mmc_pool_find env key s = Some (r, s1)" "find_result (set (p_servers (pool s))) r s1"
    using mmc_pool_find_direct [of env s key] assms by (auto simp: servable_def wp_def)
  have v: "view s1 = view s"
    using views_pool_find [OF refl, of s env key] assms(2) r(1) by (simp add: servable_def views_def)
  have "servable s1"
    using r(2) view_same(1,3,4) [OF v] assms(2) by (auto simp: servable_def find_result_def found_def)
  then show ?thesis
    using that [OF r(1) _ v] r(2) by (auto simp: find_result_def found_def ready_def)
qed

lemma servable_log [simp]: "servable (log_upd f s) = servable s"
  by (auto simp: servable_def pool_wf_def log_upd_def conn_ok_def conn_at_def split: option.split)

lemma servable_logger [simp]: "servable (setLogger key s) = servable s"
  by (auto simp: servable_def pool_wf_def setLogger_def conn_ok_def conn_at_def split: option.split)

lemma createLogger_servable:
  "servable s \<Longrightarrow> \<exists>s'. createLogger key s = Some s' \<and> servable s' \<and> heap s' = heap s \<and> pool s' = pool s"
  by (auto simp: servable_def createLogger_def pool_wf_def conn_ok_def conn_at_def)

lemma servable_outbuf:
  assumes "servable s" "heap s p = Some m"
  shows "servable (s\<lparr>heap := (heap s)(p \<mapsto> m\<lparr>mmc_outbuf := x\<rparr>)\<rparr>)"
  using assms by (auto simp: servable_def pool_wf_def conn_ok_def conn_at_def)

subsection \<open>Scheduling\<close>

definition command_for :: "string \<Rightarrow> (string \<Rightarrow> nat option) \<Rightarrow> string list \<Rightarrow> nat \<Rightarrow> string" where
  "command_for cmd srv ks p = (let own = filter (\<lambda>k. srv k = Some p) ks in if own = [] then [] else words_of cmd own)"

definition scheduled :: "string \<Rightarrow> nat set \<Rightarrow> (string \<Rightarrow> nat option) \<Rightarrow> string list \<Rightarrow> multi \<Rightarrow> 'w st \<Rightarrow> bool" where
  "scheduled cmd S srv ks v s \<longleftrightarrow>
     distinct (g_requests v) \<and> set (g_requests v) = {p. Some p \<in> srv ` set ks} \<and> set (g_requests v) \<subseteq> S \<and>
     (\<forall>p m. heap s p = Some m \<longrightarrow> mmc_outbuf m = command_for cmd srv ks p) \<and>
     (\<forall>st. g_status v = Some st \<longrightarrow>
        (\<forall>k. map_of st k = (if k \<in> set ks then Some (ZBool (srv k \<noteq> None)) else None)))"

lemma command_for_snoc:
  assumes "key \<notin> set ks" "cmd \<noteq> []"
  shows "command_for cmd (srv(key := r)) (ks @ [key]) p =
    (if r = Some p then (if command_for cmd srv ks p = [] then cmd else command_for cmd srv ks p) @ '' '' @ key
     else command_for cmd srv ks p)"
proof -
  have "filter (\<lambda>k. (srv(key := r)) k = Some p) ks = filter (\<lambda>k. srv k = Some p) ks"
    using assms(1) by (auto intro: filter_cong)
  then show ?thesis using assms(2) by (auto simp: command_for_def words_of_def Let_def)
qed

lemma image_snoc: "key \<notin> set ks \<Longrightarrow> (srv(key := r)) ` set (ks @ [key]) = insert r (srv ` set ks)"
  by auto

lemma requests_command:
  assumes "scheduled cmd S srv ks v s" "cmd \<noteq> []" "heap s p = Some m"
  shows "(mmc_outbuf m = []) = (p \<notin> set (g_requests v))"
proof -
  have "mmc_outbuf m = command_for cmd srv ks p" "p \<in> set (g_requests v) \<longleftrightarrow> (\<exists>k \<in> set ks. srv k = Some p)"
    using assms(1,3) by (auto simp: scheduled_def image_iff intro: sym)
  then show ?thesis using assms(2) by (auto simp: command_for_def words_of_def Let_def filter_empty_conv)
qed

lemma scheduled_view: "view s' = view s \<Longrightarrow> scheduled cmd S srv ks v s \<Longrightarrow> scheduled cmd S srv ks v s'"
  unfolding scheduled_def using view_same(5) [of s' s] by (metis (no_types, lifting) option.map_disc_iff option.map_sel option.sel option.distinct(1) option.exhaust_sel)

lemma scheduled_skip:
  assumes "scheduled cmd S srv ks v s" "key \<notin> set ks" "cmd \<noteq> []"
  shows "scheduled cmd S (srv(key := None)) (ks @ [key]) (set_status key False v) s"
proof -
  have "{p. Some p \<in> (srv(key := None)) ` set (ks @ [key])} = {p. Some p \<in> srv ` set ks}"
    unfolding image_snoc [OF assms(2)] by simp
  then show ?thesis using assms(1,2)
    unfolding scheduled_def command_for_snoc [OF assms(2,3)]
    by (auto simp: set_status_def map_of_assoc_add)
qed

lemma scheduled_append:
  assumes "scheduled cmd S srv ks v s" "key \<notin> set ks" "cmd \<noteq> []" "p \<in> S" "heap s p = Some m"
  shows "scheduled cmd S (srv(key := Some p)) (ks @ [key])
    (set_status key True (if mmc_outbuf m = [] then v\<lparr>g_requests := g_requests v @ [p]\<rparr> else v))
    (s\<lparr>heap := (heap s)(p \<mapsto> m\<lparr>mmc_outbuf := (if mmc_outbuf m = [] then cmd else mmc_outbuf m) @ '' '' @ key\<rparr>)\<rparr>)"
proof -
  have req: "{q. Some q \<in> (srv(key := Some p)) ` set (ks @ [key])} = insert p {q. Some q \<in> srv ` set ks}"
    unfolding image_snoc [OF assms(2)] by auto
  have new: "(mmc_outbuf m = []) = (p \<notin> set (g_requests v))"
    by (rule requests_command [OF assms(1,3,5)])
  have out: "mmc_outbuf m = command_for cmd srv ks p" using assms(1,5) by (simp add: scheduled_def)
  show ?thesis using assms(1,2,4) new out
    unfolding scheduled_def command_for_snoc [OF assms(2,3)] req
    by (auto simp: set_status_def map_of_assoc_add)
qed

lemma log_upd_heap: "(log_upd f s)\<lparr>heap := h\<rparr> = log_upd f (s\<lparr>heap := h\<rparr>)"
  by (simp add: log_upd_def split: option.split)

lemma scheduled_log [simp]: "scheduled cmd S srv ks v (log_upd f s) = scheduled cmd S srv ks v s"
  by (simp add: scheduled_def)

lemma schedule_step:
  assumes "qsort_ok env" "servable s" "scheduled cmd (set (p_servers (pool s))) srv ks v s" "key \<notin> set ks"
    and "cmd = (if want_cas then ''gets'' else ''get'')"
  shows "\<exists>r v' s'. schedule_key env want_cas True key v s = Some (v', s') \<and> servable s' \<and> p_servers (pool s') = p_servers (pool s) \<and>
    (g_status v' = None) = (g_status v = None) \<and> scheduled cmd (set (p_servers (pool s))) (srv(key := r)) (ks @ [key]) v' s'"
proof -
  have cmd: "cmd \<noteq> []" using assms(5) by simp
  obtain r s1 where r: "mmc_pool_find env key s = Some (r, s1)" "servable s1" "view s1 = view s"
    "\<And>p. r = Some p \<Longrightarrow> p \<in> set (p_servers (pool s)) \<and> heap s1 p \<noteq> None"
    using lookup_round [OF assms(1,2)] by blast
  have sch: "scheduled cmd (set (p_servers (pool s))) srv ks v s1" by (rule scheduled_view [OF r(3) assms(3)])
  have sv: "p_servers (pool s1) = p_servers (pool s)" by (rule view_same(2) [OF r(3)])
  show ?thesis
  proof (cases "usable r s1 = Some True")
    case True
    then obtain p m where p: "r = Some p" "heap s1 p = Some m"
      by (auto simp: usable_def bind_eq_Some_conv split: option.splits)
    let ?s2 = "s1\<lparr>heap := (heap s1)(p \<mapsto> m\<lparr>mmc_outbuf := (if mmc_outbuf m = [] then cmd else mmc_outbuf m) @ '' '' @ key\<rparr>)\<rparr>"
    have "scheduled cmd (set (p_servers (pool s))) (srv(key := Some p)) (ks @ [key])
      (set_status key True (if mmc_outbuf m = [] then v\<lparr>g_requests := g_requests v @ [p]\<rparr> else v)) ?s2"
      using scheduled_append [OF sch assms(4) cmd _ p(2)] r(4) p(1) by blast
    then show ?thesis
      using r(1) True p servable_outbuf [OF r(2) p(2)] sv assms(5)
      by (intro exI [of _ "Some p"]) (auto simp: schedule_key_def setHost_def setCode_def log_upd_heap set_status_def)
  next
    case False
    then have "usable r s1 = Some False" and "\<exists>s2. log_host_of r (setCode CONNECT_FAILED s1) = Some s2 \<and> view s2 = view s1 \<and> servable s2"
      using r(2,4) by (cases r; auto simp: usable_def log_host_of_def setHost_def setCode_def)+
    then obtain s2 where s2: "usable r s1 = Some False" "log_host_of r (setCode CONNECT_FAILED s1) = Some s2" "view s2 = view s1" "servable s2"
      by blast
    have "scheduled cmd (set (p_servers (pool s))) (srv(key := None)) (ks @ [key]) (set_status key False v) s2"
      by (rule scheduled_skip [OF scheduled_view [OF s2(3) sch] assms(4) cmd])
    then show ?thesis
      using r(1) s2 view_same(2) [OF s2(3)] sv by (intro exI [of _ None]) (auto simp: schedule_key_def set_status_def)
  qed
qed

subsection \<open>The whole pass\<close>

definition key_ok :: "string \<Rightarrow> bool" where
  "key_ok k \<longleftrightarrow> k \<noteq> [] \<and> length k < MMC_KEY_MAX_SIZE \<and> map key_char k = k"

lemma prepare_key_ok: "key_ok k \<Longrightarrow> mmc_prepare_key env MMC_KEY_MAX_SIZE (ZString k) s = Some ((MMC_OK, k), s)"
  by (simp add: key_ok_def mmc_prepare_key_def mmc_prepare_key_ex_def)

lemma first_pass_scheduled:
  assumes "qsort_ok env" "cmd = (if want_cas then ''gets'' else ''get'')"
  shows "servable s \<Longrightarrow> scheduled cmd (set (p_servers (pool s))) srv ks v s \<Longrightarrow> distinct (ks @ keys) \<Longrightarrow> \<forall>k \<in> set keys. key_ok k \<Longrightarrow>
    \<exists>srv' v' s'. multi_first_pass env want_cas True chosen (map ZString keys) v s = Some (v', s') \<and> servable s' \<and>
      p_servers (pool s') = p_servers (pool s) \<and> (g_status v' = None) = (g_status v = None) \<and>
      scheduled cmd (set (p_servers (pool s))) srv' (ks @ keys) v' s'"
proof (induction keys arbitrary: srv ks v s)
  case (Cons key keys)
  obtain s1 where s1: "createLogger key s = Some s1" "servable s1" "heap s1 = heap s" "pool s1 = pool s"
    using createLogger_servable [OF Cons.prems(1)] by blast
  let ?s = "setLogName (p_log_name (pool s1)) (setCmd ''getMulti'' (setLogger key s1))"
  have h: "heap (setLogger key s1) = heap s" "pool (setLogger key s1) = pool s"
    using s1(3,4) by (simp_all add: setLogger_def split: option.split)
  have s: "servable ?s" "heap ?s = heap s" "pool ?s = pool s"
    using s1(2) h by (simp_all add: setLogName_def setCmd_def)
  have sch: "scheduled cmd (set (p_servers (pool ?s))) srv ks v ?s"
    using Cons.prems(2) unfolding scheduled_def s(2,3) .
  have new: "key \<notin> set ks" using Cons.prems(3) by simp
  obtain r v2 s2 where st: "schedule_key env want_cas True key v ?s = Some (v2, s2)" "servable s2" "p_servers (pool s2) = p_servers (pool s)"
    "(g_status v2 = None) = (g_status v = None)" "scheduled cmd (set (p_servers (pool s2))) (srv(key := r)) (ks @ [key]) v2 s2"
    using schedule_step [OF assms(1) s(1) sch new assms(2)] h(2) by (auto simp: s1(4))
  have k: "mmc_prepare_key env MMC_KEY_MAX_SIZE (ZString key) s = Some ((MMC_OK, key), s)"
    using Cons.prems(4) by (simp add: prepare_key_ok)
  have step: "multi_first_pass env want_cas True chosen (map ZString (key # keys)) v s = multi_first_pass env want_cas True chosen (map ZString keys) v2 s2"
    using k s1(1) st(1) h(2) s1(4) by simp
  show ?case
    unfolding step using Cons.IH [OF st(2,5)] Cons.prems(3,4) st(3,4) by auto
qed auto

text \<open>C4. The first pass of a get of several keys gives every key to one server or to none: with \<open>srv\<close> the server
  the lookup finds for each key, the servers that get a request are those of the keys, once each; the command
  a server gets is \<open>get\<close> (or \<open>gets\<close>) with exactly its keys in the order of the array, although the lookups between
  them open, negotiate with and fail servers; and the status of a key is true if and only if it was given to a server.\<close>
theorem multi_get_schedules:
  assumes "qsort_ok env" "servable s" "\<forall>p m. heap s p = Some m \<longrightarrow> mmc_outbuf m = []"
    and "g_requests v = []" "g_status v = Some []" "distinct keys" "\<forall>k \<in> set keys. key_ok k"
  shows "\<exists>srv v' s' st. multi_first_pass env want_cas True chosen (map ZString keys) v s = Some (v', s') \<and>
    distinct (g_requests v') \<and> set (g_requests v') = {p. \<exists>k \<in> set keys. srv k = Some p} \<and> set (g_requests v') \<subseteq> set (p_servers (pool s)) \<and>
    (\<forall>p \<in> set (g_requests v'). map_option mmc_outbuf (heap s' p) =
       Some (words_of (if want_cas then ''gets'' else ''get'') (filter (\<lambda>k. srv k = Some p) keys))) \<and>
    g_status v' = Some st \<and> (\<forall>k \<in> set keys. map_of st k = Some (ZBool (srv k \<noteq> None)))"
proof -
  let ?cmd = "if want_cas then ''gets'' else ''get''"
  have sch: "scheduled ?cmd (set (p_servers (pool s))) (\<lambda>_. None) [] v s"
    using assms(3-5) by (simp add: scheduled_def command_for_def)
  obtain srv v' s' where *: "multi_first_pass env want_cas True chosen (map ZString keys) v s = Some (v', s')" "servable s'"
    "p_servers (pool s') = p_servers (pool s)" "(g_status v' = None) = (g_status v = None)"
    "scheduled ?cmd (set (p_servers (pool s))) srv keys v' s'"
    using first_pass_scheduled [OF assms(1) refl assms(2) sch, where keys = keys and chosen = chosen] assms(6,7) by auto
  obtain st where st: "g_status v' = Some st" using *(4) assms(5) by auto
  have "map_option mmc_outbuf (heap s' p) = Some (words_of ?cmd (filter (\<lambda>k. srv k = Some p) keys))" if p: "p \<in> set (g_requests v')" for p
  proof -
    have "p \<in> set (p_servers (pool s'))" using p *(3,5) by (auto simp: scheduled_def)
    then obtain m where m: "heap s' p = Some m" using *(2) by (auto simp: servable_def pool_wf_def)
    have "\<exists>k \<in> set keys. srv k = Some p" using p *(5) by (auto simp: scheduled_def image_iff intro: sym)
    then show ?thesis using m *(5) by (auto simp: scheduled_def command_for_def Let_def filter_empty_conv)
  qed
  then show ?thesis using * st
    by (intro exI [of _ srv] exI [of _ v'] exI [of _ s'] exI [of _ st]) (auto simp: scheduled_def image_iff eq_commute)
qed

definition ex_multi :: multi where
  "ex_multi = \<lparr>g_rv = [], g_status = Some [], g_flags = None, g_cas = None, g_retry_hash = [], g_requests = [],
     g_serialized = mmc_queue_release, g_queued_keys = []\<rparr>"

lemma multi_get_schedules_witness:
  "\<exists>v s. multi_first_pass ex_env False True (\<lambda>_ _. False) (map ZString [''foo'', ''bar'', ''baz'']) ex_multi
      (setMultiLogger (ex_state (ex_heap STATUS_CONNECTED (Some 3)) [])) = Some (v, s) \<and> set (g_requests v) \<subseteq> {1, 2}"
proof -
  let ?s = "setMultiLogger (ex_state (ex_heap STATUS_CONNECTED (Some 3)) [])"
  have "pool_wf ?s" "conn_ok ?s"
    by (auto simp: pool_wf_def conn_ok_iff setMultiLogger_def ex_state_def ex_pool_def ex_heap_def ex_server_def hash_wf_def conn_good_def
        split: if_splits)
  then have sv: "servable ?s"
    by (simp add: servable_def setMultiLogger_def ex_state_def ex_pool_def options_command_def CRLF_def MAX_OPTIONS_LEN_def)
  have out: "\<forall>p m. heap ?s p = Some m \<longrightarrow> mmc_outbuf m = []"
    by (auto simp: setMultiLogger_def ex_state_def ex_heap_def ex_server_def split: if_splits)
  have keys: "distinct [''foo'', ''bar'', ''baz'']" "\<forall>k \<in> set [''foo'', ''bar'', ''baz'']. key_ok k" by code_simp+
  show ?thesis
    using multi_get_schedules [OF ex_env_ok(1) sv out _ _ keys, of ex_multi False "\<lambda>_ _. False"]
    by (auto simp: ex_multi_def setMultiLogger_def ex_state_def ex_pool_def)
qed

end
