(* ===== verification/Stats.thy ===== *)
theory Stats
  imports Multi_Get Pool_Handlers
begin

text \<open>
  The statistics of servers (memcache.cpp 3362-3536, 6713-6841): the lines of a \<open>stats\<close> answer
  parsed into a nested PHP array. A region of the buffer from \<open>start\<close> to \<open>end\<close> is the text from
  \<open>start\<close> on and the number \<open>n = end - start\<close>; \<open>php_memnstr\<close> searches the \<open>n\<close> bytes before
  \<open>end\<close>, the byte at \<open>end\<close> is the last one of the line's contents.
\<close>

definition find_in :: "'w php_env \<Rightarrow> string \<Rightarrow> nat \<Rightarrow> int \<Rightarrow> string \<Rightarrow> nat option" where
  "find_in env t from n needle = map_option (\<lambda>i. from + i) (php_memnstr env (drop from (take (nat n) t)) needle)"

definition zlookup :: "hkey \<Rightarrow> (hkey \<times> zval) list \<Rightarrow> zval option" where
  "zlookup k xs = map_of xs k"

text \<open>The key of an existing element for a subkey: its integer index, or the string itself.\<close>

definition subkey :: "'w php_env \<Rightarrow> string \<Rightarrow> (hkey \<times> zval) list \<Rightarrow> hkey option" where
  "subkey env key xs =
     (let index = (case is_numeric_long env key of
           Some i \<Rightarrow> Some i | None \<Rightarrow> if is_numeric_double env key then Some 0 else None) in
      case index of
        Some i \<Rightarrow> if zlookup (KInt i) xs \<noteq> None then Some (KInt i)
                  else if zlookup (KStr key) xs \<noteq> None then Some (KStr key) else None
      | None \<Rightarrow> if zlookup (KStr key) xs \<noteq> None then Some (KStr key) else None)"

text \<open>
  \<open>STAT 6:chunk_size 64\<close>: every subkey before the space is an array of its own. An existing
  element is used as an array without a test of its type. Occurrences reported outside the
  text are outside the contract of \<open>php_memnstr\<close>.
\<close>

function mmc_stats_parse_stat ::
    "'w php_env \<Rightarrow> string \<Rightarrow> int \<Rightarrow> (hkey \<times> zval) list \<Rightarrow> (bool \<times> (hkey \<times> zval) list) option" where
  "mmc_stats_parse_stat env t n result =
     (case find_in env t 0 n '' '' of
        None \<Rightarrow> Some (False, result)
      | Some space \<Rightarrow>
          (case find_in env t 0 (int space - 1) '':'' of
             Some colon \<Rightarrow>
               if length t \<le> colon then None
               else (let key = take colon t; old = subkey env key result;
                         k = default (symtable_key env key) old in
                 case (if old = None then Some (ZArray []) else zlookup k result) of
                   Some (ZArray element) \<Rightarrow> do {
                     (ok, element) \<leftarrow> mmc_stats_parse_stat env (drop (colon + 1) t) (n - int colon - 1) element;
                     Some (ok, assoc_add k (ZArray element) result)
                   }
                 | _ \<Rightarrow> None)
           | None \<Rightarrow>
               Some (True, assoc_add (symtable_key env (take space t))
                             (ZString (take (nat (n - int space)) (drop (space + 1) t))) result)))"
  by pat_completeness auto
termination
  by (relation "measure (\<lambda>(env, t, n, result). length t)") auto

declare mmc_stats_parse_stat.simps [simp del]

text \<open>\<open>ITEM test_key [3 b; 1157099416 s]\<close>: the first word after \<open>[\<close> and after every \<open>;\<close>.\<close>

definition next_index :: "(hkey \<times> zval) list \<Rightarrow> int" where
  "next_index xs = foldr (\<lambda>(k, _) n. case k of KInt i \<Rightarrow> max (i + 1) n | KStr _ \<Rightarrow> n) xs 0"

definition add_next :: "zval \<Rightarrow> (hkey \<times> zval) list \<Rightarrow> (hkey \<times> zval) list" where
  "add_next v xs = xs @ [(KInt (next_index xs), v)]"

text \<open>The \<open>do value++ while\<close> loop.\<close>

function skip_blanks :: "string \<Rightarrow> int \<Rightarrow> nat \<Rightarrow> nat" where
  "skip_blanks t n v =
     (if v + 1 < length t \<and> t ! (v + 1) = CHR '' '' \<and> int (v + 1) \<le> n then skip_blanks t n (v + 1) else v + 1)"
  by pat_completeness auto
termination
  by (relation "measure (\<lambda>(t, n, v). length t - v)") auto

declare skip_blanks.simps [simp del]

lemma skip_blanks_greater: "v < skip_blanks t n v"
proof (induction t n v rule: skip_blanks.induct)
  case (1 t n v)
  then show ?case by (subst skip_blanks.simps) auto
qed

text \<open>The loop over the values: \<open>value\<close> is the position of the last delimiter.\<close>

function item_values :: "'w php_env \<Rightarrow> string \<Rightarrow> int \<Rightarrow> nat option \<Rightarrow> (hkey \<times> zval) list \<Rightarrow> (hkey \<times> zval) list" where
  "item_values env t n delim element =
     (case delim of
        None \<Rightarrow> element
      | Some v \<Rightarrow>
          if n < int v then element
          else (let v = skip_blanks t n v;
                    element = (if int v \<le> n
                      then (case find_in env t v n '' '' of
                              Some e \<Rightarrow> if int e \<le> n then add_next (ZString (take (e - v) (drop v t))) element else element
                            | None \<Rightarrow> element)
                      else element)
                in item_values env t n (find_in env t (v + 1) n '';'') element))"
  by pat_completeness auto
termination
proof (relation "measure (\<lambda>(env, t, n, delim, element). case delim of None \<Rightarrow> 0 | Some v \<Rightarrow> nat (n + 1 - int v))")
  fix env :: "'w php_env" and t n delim element v v' element'
  assume "delim = Some v" "\<not> n < int v" "v' = skip_blanks t n v"
  moreover have "v < skip_blanks t n v" by (rule skip_blanks_greater)
  ultimately show "((env, t, n, find_in env t (v' + 1) n '';'', element'), env, t, n, delim, element) \<in>
      measure (\<lambda>(env, t, n, delim, element). case delim of None \<Rightarrow> 0 | Some v \<Rightarrow> nat (n + 1 - int v))"
    by (auto simp: find_in_def split: option.split)
qed simp

declare item_values.simps [simp del]

definition mmc_stats_parse_item ::
    "'w php_env \<Rightarrow> string \<Rightarrow> int \<Rightarrow> (hkey \<times> zval) list \<Rightarrow> bool \<times> (hkey \<times> zval) list" where
  "mmc_stats_parse_item env t n result =
     (case find_in env t 0 n '' '' of
        None \<Rightarrow> (False, result)
      | Some space \<Rightarrow>
          (True, assoc_add (symtable_key env (take space t))
                   (ZArray (item_values env t n (find_in env t space n ''['') [])) result))"

text \<open>
  Any other line, from the buffer's start; \<open>n\<close> is the position of its last byte before the
  newline. A line of the newline only makes the test for \<open>\r\<close> read before the buffer. A line
  without a space loses its last byte.
\<close>

definition mmc_stats_parse_generic ::
    "'w php_env \<Rightarrow> string \<Rightarrow> int \<Rightarrow> (hkey \<times> zval) list \<Rightarrow> (hkey \<times> zval) list option" where
  "mmc_stats_parse_generic env t n result =
     (if n < 0 then None
      else (let n = (if t ! nat n = CHR 0x0D then n - 1 else n) in
        if 0 \<le> n then
          (case find_in env t 0 n '' '' of
             Some space \<Rightarrow> Some (assoc_add (symtable_key env (take space t))
                                 (ZString (take (nat n - space) (drop (space + 1) t))) result)
           | None \<Rightarrow> Some (add_next (ZString (take (nat n) t)) result))
        else Some result))"

subsection \<open>The command\<close>

definition stats_command :: "string option \<Rightarrow> int \<Rightarrow> int \<Rightarrow> string" where
  "stats_command type slabid limit =
     (if slabid \<noteq> 0
      then ''stats '' @ (case type of None \<Rightarrow> ''(null)'' | Some t \<Rightarrow> cstr t) @ '' '' @ show_int slabid @ '' '' @ show_int limit
      else case type of Some t \<Rightarrow> ''stats '' @ cstr t | None \<Rightarrow> ''stats'')"

text \<open>What one line does: the end of the answer with its result, or the array so far.\<close>

datatype stats_line = Stats_Done "int \<times> zval" | Stats_More "(hkey \<times> zval) list"

definition stats_line :: "'w php_env \<Rightarrow> mmc \<Rightarrow> nat \<Rightarrow> (hkey \<times> zval) list \<Rightarrow> stats_line option" where
  "stats_line env m n result =
     (if reply env m n ''ERROR'' \<or> reply env m n ''CLIENT_ERROR'' \<or> reply env m n ''SERVER_ERROR''
      then Some (Stats_Done (0, ZBool False))
      else if reply env m n ''RESET'' then Some (Stats_Done (1, ZBool True))
      else if reply env m n ''ITEM '' then
        (case mmc_stats_parse_item env (drop 5 (mmc_inbuf m)) (int n - 8) result of
           (ok, result) \<Rightarrow> Some (if ok then Stats_More result else Stats_Done (- 1, ZNull)))
      else if reply env m n ''STAT '' then do {
        (ok, result) \<leftarrow> mmc_stats_parse_stat env (drop 5 (mmc_inbuf m)) (int n - 8) result;
        Some (if ok then Stats_More result else Stats_Done (- 1, ZNull))
      } else if reply env m n ''END'' then Some (Stats_Done (1, ZArray result))
      else map_option Stats_More (mmc_stats_parse_generic env (mmc_inbuf m) (int n - 2) result))"

partial_function (option) stats_loop ::
    "'w php_env \<Rightarrow> nat \<Rightarrow> (hkey \<times> zval) list \<Rightarrow> 'w st \<Rightarrow> ((int \<times> zval) \<times> 'w st) option" where
  "stats_loop env p result s = do {
     (response_len, s) \<leftarrow> mmc_readline env p s;
     if response_len < 0 then Some ((- 1, ZNull), s)
     else do {
       m \<leftarrow> heap s p;
       r \<leftarrow> stats_line env m (nat response_len) result;
       (case r of Stats_Done x \<Rightarrow> Some (x, s) | Stats_More result \<Rightarrow> stats_loop env p result s)
     }
   }"

declare stats_loop.simps [code]

definition mmc_get_stats ::
    "'w php_env \<Rightarrow> nat \<Rightarrow> string option \<Rightarrow> int \<Rightarrow> int \<Rightarrow> 'w st \<Rightarrow> ((int \<times> zval) \<times> 'w st) option" where
  "mmc_get_stats env p type slabid limit s = do {
     (r, s) \<leftarrow> mmc_sendcmd env p (stats_command type slabid limit) s;
     if r < 0 then Some ((- 1, ZNull), s) else stats_loop env p [] s
   }"

subsection \<open>The functions of the class\<close>

definition MMC_DEFAULT_CACHEDUMP_LIMIT :: int where "MMC_DEFAULT_CACHEDUMP_LIMIT = 100"

type_synonym stats_args = "string option \<times> int option \<times> int option"

text \<open>The first server that answers; without one (or without servers) the result is false.\<close>

fun get_stats_loop ::
    "'w php_env \<Rightarrow> string option \<Rightarrow> int \<Rightarrow> int \<Rightarrow> nat list \<Rightarrow> 'w st \<Rightarrow> (zval \<times> 'w st) option" where
  "get_stats_loop env type slabid limit [] s = Some (ZBool False, s)"
| "get_stats_loop env type slabid limit (p # ps) s = do {
     ((ok, err), s) \<leftarrow> mmc_open env p True s;
     if ok \<noteq> 0 then do {
       ((r, result), s) \<leftarrow> mmc_get_stats env p type slabid limit s;
       if r < 0 then do {
         (_, s) \<leftarrow> mmc_server_failure env p s;
         get_stats_loop env type slabid limit ps s
       } else do {
         m \<leftarrow> heap s p;
         Some (result, setHost (mmc_host m) s)
       }
     } else get_stats_loop env type slabid limit ps s
   }"

definition memcache_get_stats :: "'w php_env \<Rightarrow> stats_args option \<Rightarrow> 'w st \<Rightarrow> (zval \<times> 'w st) option" where
  "memcache_get_stats env args = php_call ''getstats'' ZNull args (\<lambda>(type, slabid, limit).
     need_pool False (ZBool False) (\<lambda>s. get_stats_loop env type (c_int (default 0 slabid))
       (c_int (default MMC_DEFAULT_CACHEDUMP_LIMIT limit)) (p_servers (pool s)) (log_pool s)))"

fun extended_stats_loop ::
    "'w php_env \<Rightarrow> string option \<Rightarrow> int \<Rightarrow> int \<Rightarrow> nat list \<Rightarrow> (hkey \<times> zval) list \<Rightarrow> 'w st \<Rightarrow>
     ((hkey \<times> zval) list \<times> 'w st) option" where
  "extended_stats_loop env type slabid limit [] arr s = Some (arr, s)"
| "extended_stats_loop env type slabid limit (p # ps) arr s = do {
     m \<leftarrow> heap s p;
     let hostname = mmc_host m @ '':'' @ show_nat (unat (mmc_port m));
     s \<leftarrow> (if g_proxy_enabled (glob s) then do {
         (proxy, s) \<leftarrow> mmc_get_proxy env p s;
         upd p (\<lambda>m. m\<lparr>mmc_proxy := proxy\<rparr>) s
       } else Some s);
     ((ok, err), s) \<leftarrow> mmc_open env p True s;
     (stats, s) \<leftarrow> (if ok \<noteq> 0 then do {
         ((r, result), s) \<leftarrow> mmc_get_stats env p type slabid limit s;
         if r < 0 then do {
           (_, s) \<leftarrow> mmc_server_failure env p s;
           Some (ZBool False, s)
         } else Some (result, s)
       } else Some (ZBool False, s));
     extended_stats_loop env type slabid limit ps (assoc_add (symtable_key env hostname) stats arr) s
   }"

definition memcache_get_extended_stats :: "'w php_env \<Rightarrow> stats_args option \<Rightarrow> 'w st \<Rightarrow> (zval \<times> 'w st) option" where
  "memcache_get_extended_stats env args = php_call ''getextendedstats'' ZNull args (\<lambda>(type, slabid, limit).
     need_pool False (ZBool False) (\<lambda>s. do {
       (arr, s) \<leftarrow> extended_stats_loop env type (c_int (default 0 slabid))
         (c_int (default MMC_DEFAULT_CACHEDUMP_LIMIT limit)) (p_servers (pool s)) [] (log_pool s);
       Some (ZArray arr, s)
     }))"

end
