(* ===== verification/Stats_Meaning.thy ===== *)
theory Stats_Meaning
  imports Stats Runs
begin

text \<open>
  What a \<open>stats\<close> answer becomes: every line \<open>STAT a:b:c value\<close> puts its value under the path of its
  subkeys, and the values of an answer can be read back from the array under their paths.
\<close>

subsection \<open>Arrays and paths\<close>

text \<open>What PHP says of array keys: a string of a canonical integer is that integer as a key.\<close>

definition symtable_ok :: "'w php_env \<Rightarrow> bool" where
  "symtable_ok env \<longleftrightarrow> (\<forall>x. symtable_key env x = (case is_numeric_long env x of Some i \<Rightarrow> KInt i | None \<Rightarrow> KStr x)) \<and>
     (\<forall>x. \<not> is_numeric_double env x)"

fun put :: "hkey list \<Rightarrow> zval \<Rightarrow> (hkey \<times> zval) list \<Rightarrow> (hkey \<times> zval) list" where
  "put [] z xs = xs"
| "put [k] z xs = assoc_add k z xs"
| "put (k # ks) z xs = assoc_add k (ZArray (put ks z (case zlookup k xs of Some (ZArray e) \<Rightarrow> e | _ \<Rightarrow> []))) xs"

fun get_path :: "hkey list \<Rightarrow> zval \<Rightarrow> zval option" where
  "get_path [] z = Some z"
| "get_path (k # ks) (ZArray xs) = (case zlookup k xs of None \<Rightarrow> None | Some z \<Rightarrow> get_path ks z)"
| "get_path (k # ks) _ = None"

text \<open>No value lies on the way.\<close>

fun open_path :: "hkey list \<Rightarrow> (hkey \<times> zval) list \<Rightarrow> bool" where
  "open_path [] xs = False"
| "open_path [k] xs = True"
| "open_path (k # ks) xs = (case zlookup k xs of None \<Rightarrow> True | Some (ZArray e) \<Rightarrow> open_path ks e | Some _ \<Rightarrow> False)"

text \<open>Array keys as the functions of PHP make them: no canonical integer is a string.\<close>

fun clean :: "'w php_env \<Rightarrow> zval \<Rightarrow> bool" where
  "clean env (ZArray xs) = (\<forall>(k, z) \<in> set xs. (case k of KStr w \<Rightarrow> is_numeric_long env w = None | KInt _ \<Rightarrow> True) \<and> clean env z)"
| "clean env z = True"

lemma open_path_nil: "ks \<noteq> [] \<Longrightarrow> open_path ks []"
  by (cases "(ks, [] :: (hkey \<times> zval) list)" rule: open_path.cases) (simp_all add: zlookup_def)

lemma set_assoc_add: "set (assoc_add k z xs) \<subseteq> insert (k, z) (set xs)"
  by (induction xs) (auto split: if_splits)

lemma zlookup_assoc_add: "zlookup k' (assoc_add k z xs) = (if k' = k then Some z else zlookup k' xs)"
  by (simp add: zlookup_def map_of_assoc_add)

lemma clean_assoc_add:
  "clean env (ZArray xs) \<Longrightarrow> clean env z \<Longrightarrow> symtable_ok env \<Longrightarrow> clean env (ZArray (assoc_add (symtable_key env w) z xs))"
  using set_assoc_add [of "symtable_key env w" z xs] by (fastforce simp: symtable_ok_def split: option.splits)

lemma clean_lookup: "clean env (ZArray xs) \<Longrightarrow> zlookup k xs = Some z \<Longrightarrow> clean env z"
  by (auto simp: zlookup_def dest!: map_of_SomeD)

lemma subkey_symtable:
  assumes "symtable_ok env" "clean env (ZArray xs)"
  shows "subkey env w xs = (if zlookup (symtable_key env w) xs = None then None else Some (symtable_key env w))"
proof (cases "is_numeric_long env w")
  case None
  then show ?thesis using assms(1) by (simp add: subkey_def symtable_ok_def)
next
  case (Some i)
  have "zlookup (KStr w) xs = None"
    using assms(2) Some by (force simp: zlookup_def map_of_eq_None_iff)
  then show ?thesis using assms(1) Some by (simp add: subkey_def symtable_ok_def)
qed

subsection \<open>One line\<close>

definition stat_word :: "string \<Rightarrow> bool" where
  "stat_word w \<longleftrightarrow> w \<noteq> [] \<and> CHR '' '' \<notin> set w \<and> CHR '':'' \<notin> set w"

fun path_text :: "string list \<Rightarrow> string" where
  "path_text [] = []"
| "path_text [w] = w"
| "path_text (w # ws) = w @ '':'' @ path_text ws"

lemma first_occurrence_char: "c \<notin> set a \<Longrightarrow> first_occurrence (a @ c # b) [c] = Some (length a)"
  by (induction a) auto

lemma first_occurrence_no_char: "c \<notin> set a \<Longrightarrow> first_occurrence a [c] = None"
  by (induction a) auto

lemma find_in_char:
  assumes "memnstr_ok env" "c \<notin> set a"
  shows "find_in env (a @ c # b) 0 n [c] = (if int (length a) < n then Some (length a) else None)"
proof -
  have "int (length a) < n \<Longrightarrow> take (nat n) (a @ c # b) = a @ c # take (nat n - length a - 1) b"
    by (cases "nat n - length a") (auto simp: take_Cons')
  moreover have "\<not> int (length a) < n \<Longrightarrow> c \<notin> set (take (nat n) (a @ c # b))"
    using assms(2) by (auto dest: in_set_takeD)
  ultimately show ?thesis
    using assms first_occurrence_char [OF assms(2)] first_occurrence_no_char
    by (auto simp: find_in_def memnstr_ok_def)
qed

lemma path_text_space: "\<forall>w \<in> set ws. stat_word w \<Longrightarrow> CHR '' '' \<notin> set (path_text ws)"
  by (induction ws rule: path_text.induct) (auto simp: stat_word_def)

lemma parse_stat_put:
  assumes "memnstr_ok env" "symtable_ok env" "val \<noteq> []"
  shows "\<forall>w \<in> set ws. stat_word w \<Longrightarrow> open_path (map (symtable_key env) ws) xs \<Longrightarrow> clean env (ZArray xs) \<Longrightarrow>
    mmc_stats_parse_stat env (path_text ws @ '' '' @ val @ rest) (int (length (path_text ws @ '' '' @ val)) - 1) xs =
      Some (True, put (map (symtable_key env) ws) (ZString val) xs) \<and>
    clean env (ZArray (put (map (symtable_key env) ws) (ZString val) xs))"
proof (induction ws arbitrary: xs rule: path_text.induct)
  case 1
  then show ?case by simp
next
  case (2 w)
  have w: "CHR '' '' \<notin> set w" "CHR '':'' \<notin> set w" using 2 by (simp_all add: stat_word_def)
  have sp: "find_in env (w @ CHR '' '' # val @ rest) 0 (1 + int (length w) + int (length val) - 1) '' '' = Some (length w)"
    using find_in_char [OF assms(1) w(1)] assms(3) by simp
  have "CHR '':'' \<notin> set (take (nat (int (length w) - 1)) (w @ CHR '' '' # val @ rest))"
    using w(2) by (auto dest: in_set_takeD)
  then have co: "find_in env (w @ CHR '' '' # val @ rest) 0 (int (length w) - 1) '':'' = None"
    using assms(1) first_occurrence_no_char by (simp add: find_in_def memnstr_ok_def)
  show ?case
    using sp co clean_assoc_add [OF 2(3) _ assms(2), of "ZString val" w]
    by (subst mmc_stats_parse_stat.simps) (simp add: algebra_simps)
next
  case (3 w w' ws)
  let ?pt = "path_text (w' # ws)" and ?k = "symtable_key env w"
  let ?t = "w @ CHR '':'' # ?pt @ CHR '' '' # val @ rest"
  let ?n = "int (length w) + 1 + int (length ?pt) + int (length val)"
  have w: "CHR '':'' \<notin> set w" and sp: "CHR '' '' \<notin> set (w @ CHR '':'' # ?pt)"
    using 3(2) path_text_space [of "w' # ws"] by (auto simp: stat_word_def)
  have pt: "?pt \<noteq> []" using 3(2) by (cases ws) (auto simp: stat_word_def)
  have space: "find_in env ?t 0 ?n '' '' = Some (length w + 1 + length ?pt)"
    using find_in_char [OF assms(1) sp, of "val @ rest" ?n] assms(3) by simp
  have colon: "find_in env ?t 0 (int (length w + 1 + length ?pt) - 1) '':'' = Some (length w)"
    using find_in_char [OF assms(1) w, of "?pt @ CHR '' '' # val @ rest"] pt by simp
  define e where "e = (case zlookup ?k xs of Some (ZArray e) \<Rightarrow> e | _ \<Rightarrow> [])"
  have sub: "subkey env w xs = (if zlookup ?k xs = None then None else Some ?k)"
    by (rule subkey_symtable [OF assms(2) 3(4)])
  have e: "open_path (map (symtable_key env) (w' # ws)) e \<and> clean env (ZArray e) \<and>
    (if zlookup ?k xs = None then Some (ZArray []) else zlookup ?k xs) = Some (ZArray e)"
  proof (cases "zlookup ?k xs")
    case None
    then show ?thesis by (simp add: e_def open_path_nil del: open_path.simps)
  next
    case (Some z)
    then obtain e' where "z = ZArray e'" using 3(3) by (cases z) auto
    then show ?thesis using Some 3(3) clean_lookup [OF 3(4) Some] by (simp add: e_def)
  qed
  have ih: "mmc_stats_parse_stat env (?pt @ CHR '' '' # val @ rest) (int (length ?pt) + int (length val)) e =
      Some (True, put (map (symtable_key env) (w' # ws)) (ZString val) e)"
    "clean env (ZArray (put (map (symtable_key env) (w' # ws)) (ZString val) e))"
    using 3(1) [OF _ e [THEN conjunct1] e [THEN conjunct2, THEN conjunct1]] 3(2) by (simp_all add: algebra_simps)
  have k: "default ?k (subkey env w xs) = ?k" by (simp add: sub default_def)
  have old: "(if subkey env w xs = None then Some (ZArray []) else zlookup ?k xs) = Some (ZArray e)"
    using e by (auto simp: sub split: if_splits)
  have "mmc_stats_parse_stat env ?t ?n xs =
      Some (True, assoc_add ?k (ZArray (put (map (symtable_key env) (w' # ws)) (ZString val) e)) xs)"
    using space colon ih(1) old k
    by (subst mmc_stats_parse_stat.simps) (cases "subkey env w xs"; auto simp: Let_def)
  then show ?case
    using clean_assoc_add [OF 3(4) ih(2) assms(2), of w] by (simp add: e_def algebra_simps)
qed

subsection \<open>Reading back\<close>

lemma get_put:
  "open_path ks xs \<Longrightarrow> get_path ks (ZArray (put ks z xs)) = Some z"
proof (induction ks z xs rule: put.induct)
  case (3 k k' ks z xs)
  then show ?case by (auto simp: zlookup_assoc_add open_path_nil split: option.splits zval.splits)
qed (simp_all add: zlookup_assoc_add)

text \<open>Another path that is no prefix of the one written, and does not go on behind it.\<close>

fun apart :: "hkey list \<Rightarrow> hkey list \<Rightarrow> bool" where
  "apart (k # ks) (k' # ks') = (k \<noteq> k' \<or> apart ks ks')"
| "apart _ _ = False"

lemma zlookup_nil [simp]: "zlookup k [] = None"
  by (simp add: zlookup_def)

lemma get_put_apart: "open_path ks xs \<Longrightarrow> apart js ks \<Longrightarrow> get_path js (ZArray (put ks z xs)) = get_path js (ZArray xs)"
proof (induction ks z xs arbitrary: js rule: put.induct)
  case (3 k k' ks z xs)
  obtain j js' where js: "js = j # js'" using 3(3) by (cases js) auto
  show ?case
  proof (cases "j = k")
    case True
    then have ap: "apart js' (k' # ks)" using 3(3) js by simp
    then obtain i is' where i: "js' = i # is'" by (cases js') auto
    let ?e = "case zlookup k xs of Some (ZArray e) \<Rightarrow> e | _ \<Rightarrow> []"
    have o: "open_path (k' # ks) ?e" using 3(2) by (auto simp: open_path_nil split: option.splits zval.splits)
    have "get_path js (ZArray xs) = get_path js' (ZArray ?e)"
      using 3(2) by (auto simp: js i True split: option.splits zval.splits)
    then show ?thesis using 3(1) [OF o ap] by (simp add: js True zlookup_assoc_add)
  qed (use js in \<open>simp add: zlookup_assoc_add\<close>)
next
  case (2 k z xs)
  then show ?case by (cases js) (auto simp: zlookup_assoc_add elim: apart.elims)
qed simp

lemma open_put_apart: "open_path ks xs \<Longrightarrow> open_path js xs \<Longrightarrow> apart js ks \<Longrightarrow> open_path js (put ks z xs)"
proof (induction ks z xs arbitrary: js rule: put.induct)
  case (3 k k' ks z xs)
  obtain j js' where js: "js = j # js'" using 3(4) by (cases js) auto
  show ?case
  proof (cases "j = k")
    case True
    then have ap: "apart js' (k' # ks)" using 3(4) js by simp
    then obtain i is' where i: "js' = i # is'" by (cases js') auto
    show ?thesis using 3 True js ap i
      by (auto simp: zlookup_assoc_add open_path_nil split: option.splits zval.splits)
  next
    case False
    then show ?thesis using js 3(3) by (cases js') (auto simp: zlookup_assoc_add)
  qed
next
  case (2 k z xs)
  then obtain j js' where js: "js = j # js'" "j \<noteq> k" by (cases js) auto
  then show ?case using 2 by (cases js') (auto simp: zlookup_assoc_add)
qed simp

subsection \<open>A whole answer\<close>

type_synonym stat = "string list \<times> string"

definition stat_text :: "stat \<Rightarrow> string" where
  "stat_text e = ''STAT '' @ path_text (fst e) @ '' '' @ snd e @ CRLF"

definition stat_ok :: "stat \<Rightarrow> bool" where
  "stat_ok e \<longleftrightarrow> fst e \<noteq> [] \<and> (\<forall>w \<in> set (fst e). stat_word w) \<and> snd e \<noteq> []"

definition stat_path :: "'w php_env \<Rightarrow> stat \<Rightarrow> hkey list" where
  "stat_path env e = map (symtable_key env) (fst e)"

definition put_stat :: "'w php_env \<Rightarrow> stat \<Rightarrow> (hkey \<times> zval) list \<Rightarrow> (hkey \<times> zval) list" where
  "put_stat env e = put (stat_path env e) (ZString (snd e))"

text \<open>The lines that the next reads from the connection give.\<close>

inductive reads :: "'w php_env \<Rightarrow> nat \<Rightarrow> string list \<Rightarrow> 'w st \<Rightarrow> 'w st \<Rightarrow> bool" for env p where
  reads_nil: "reads env p [] s s"
| reads_line: "mmc_readline env p s = Some (int (length l), s1) \<Longrightarrow> heap s1 p = Some m \<Longrightarrow> mmc_inbuf m = l \<Longrightarrow>
    reads env p ls s1 s2 \<Longrightarrow> reads env p (l # ls) s s2"

inductive_cases reads_lineE: "reads env p (l # ls) s s2"
inductive_cases reads_nilE: "reads env p [] s s2"

lemma stats_line_stat:
  assumes "memnstr_ok env" "symtable_ok env" "stat_ok e" "open_path (stat_path env e) xs" "clean env (ZArray xs)"
    and "mmc_inbuf m = stat_text e"
  shows "stats_line env m (length (stat_text e)) xs = Some (Stats_More (put_stat env e xs)) \<and> clean env (ZArray (put_stat env e xs))"
proof -
  have p: "mmc_stats_parse_stat env (path_text (fst e) @ '' '' @ snd e @ CRLF) (int (length (path_text (fst e) @ '' '' @ snd e)) - 1) xs =
      Some (True, put_stat env e xs) \<and> clean env (ZArray (put_stat env e xs))"
    using parse_stat_put [OF assms(1,2), of "snd e" "fst e" xs CRLF] assms(3-5)
    by (simp add: stat_ok_def stat_path_def put_stat_def del: append.simps)
  have d: "drop 5 (stat_text e) = path_text (fst e) @ '' '' @ snd e @ CRLF"
    "int (length (stat_text e)) - 8 = int (length (path_text (fst e) @ '' '' @ snd e)) - 1"
    by (simp_all add: stat_text_def CRLF_def)
  have t: "take k (stat_text e) = take k (''STAT '' @ drop 5 (stat_text e))" for k by (simp add: stat_text_def)
  show ?thesis
    using p unfolding stats_line_def assms(6) d
    by (simp add: mmc_str_left_iff [OF assms(1)] assms(6) stat_text_def)
qed

lemma stats_line_end:
  assumes "memnstr_ok env" "mmc_inbuf m = ''END'' @ CRLF"
  shows "stats_line env m 5 xs = Some (Stats_Done (1, ZArray xs))"
  by (simp add: stats_line_def mmc_str_left_iff [OF assms(1)] assms(2))

lemma stats_loop_lines:
  assumes "memnstr_ok env" "symtable_ok env"
  shows "reads env p (map stat_text es @ [''END'' @ CRLF]) s s' \<Longrightarrow> \<forall>e \<in> set es. stat_ok e \<and> open_path (stat_path env e) xs \<Longrightarrow>
    clean env (ZArray xs) \<Longrightarrow> distinct es \<Longrightarrow> \<forall>a \<in> set es. \<forall>b \<in> set es. a \<noteq> b \<longrightarrow> apart (stat_path env a) (stat_path env b) \<Longrightarrow>
    stats_loop env p xs s = Some ((1, ZArray (fold (put_stat env) es xs)), s')"
proof (induction es arbitrary: xs s)
  case Nil
  then obtain s1 m where "mmc_readline env p s = Some (5, s1)" "heap s1 p = Some m" "mmc_inbuf m = ''END'' @ CRLF" "s' = s1"
    by (auto simp: CRLF_def elim!: reads_lineE reads_nilE)
  then show ?case using stats_line_end [OF assms(1)] by (subst stats_loop.simps) simp
next
  case (Cons e es)
  obtain s1 m where s1: "mmc_readline env p s = Some (int (length (stat_text e)), s1)" "heap s1 p = Some m" "mmc_inbuf m = stat_text e"
    "reads env p (map stat_text es @ [''END'' @ CRLF]) s1 s'"
    using Cons.prems(1) by (auto elim!: reads_lineE)
  have l: "stats_line env m (length (stat_text e)) xs = Some (Stats_More (put_stat env e xs))" "clean env (ZArray (put_stat env e xs))"
    using stats_line_stat [OF assms _ _ Cons.prems(3) s1(3)] Cons.prems(2) by simp_all
  have "\<forall>a \<in> set es. stat_ok a \<and> open_path (stat_path env a) (put_stat env e xs)"
    using Cons.prems(2,4,5) by (auto simp: put_stat_def intro!: open_put_apart)
  from Cons.IH [OF s1(4) this l(2)] Cons.prems(4,5)
  show ?case using s1 l by (subst stats_loop.simps) simp
qed

lemma fold_put_other:
  "\<forall>e \<in> set es. open_path (stat_path env e) xs \<and> apart js (stat_path env e) \<Longrightarrow> distinct es \<Longrightarrow>
    \<forall>a \<in> set es. \<forall>b \<in> set es. a \<noteq> b \<longrightarrow> apart (stat_path env a) (stat_path env b) \<Longrightarrow>
    get_path js (ZArray (fold (put_stat env) es xs)) = get_path js (ZArray xs)"
proof (induction es arbitrary: xs)
  case (Cons e es)
  have "\<forall>a \<in> set es. open_path (stat_path env a) (put_stat env e xs) \<and> apart js (stat_path env a)"
    using Cons.prems by (auto simp: put_stat_def intro!: open_put_apart)
  then show ?case using Cons.IH Cons.prems by (simp add: put_stat_def get_put_apart)
qed simp

lemma fold_put_get:
  "\<forall>e \<in> set es. open_path (stat_path env e) xs \<Longrightarrow> distinct es \<Longrightarrow>
    \<forall>a \<in> set es. \<forall>b \<in> set es. a \<noteq> b \<longrightarrow> apart (stat_path env a) (stat_path env b) \<Longrightarrow> e \<in> set es \<Longrightarrow>
    get_path (stat_path env e) (ZArray (fold (put_stat env) es xs)) = Some (ZString (snd e))"
proof (induction es arbitrary: xs)
  case (Cons a es)
  have op: "\<forall>b \<in> set es. open_path (stat_path env b) (put_stat env a xs)"
    using Cons.prems by (auto simp: put_stat_def intro!: open_put_apart)
  show ?case
  proof (cases "e = a")
    case True
    have "get_path (stat_path env a) (ZArray (fold (put_stat env) es (put_stat env a xs))) = get_path (stat_path env a) (ZArray (put_stat env a xs))"
      by (rule fold_put_other) (use op Cons.prems in auto)
    also have "\<dots> = Some (ZString (snd a))" using Cons.prems(1) by (simp add: put_stat_def get_put)
    finally show ?thesis using True by simp
  next
    case False
    then show ?thesis using Cons.IH [OF op] Cons.prems by simp
  qed
qed simp


lemma reads_script:
  "ex_conn s m (ls @ xs) \<Longrightarrow> \<forall>l \<in> set ls. length l < 4096 \<Longrightarrow> \<exists>s'. reads ex_env 1 ls s s'"
proof (induction ls arbitrary: s m)
  case Nil
  then show ?case using reads_nil by blast
next
  case (Cons l ls)
  obtain s1 where s1: "mmc_readline ex_env 1 s = Some (int (length l), s1)" "ex_conn s1 (m\<lparr>mmc_inbuf := l\<rparr>) (ls @ xs)"
    using ex_readline [of s m l "ls @ xs"] Cons.prems by auto
  obtain s2 where "reads ex_env 1 ls s1 s2" using Cons.IH [OF s1(2)] Cons.prems(2) by auto
  moreover have "heap s1 1 = Some (m\<lparr>mmc_inbuf := l\<rparr>)" using s1(2) by (simp add: ex_conn_def)
  ultimately show ?case using reads_line [OF s1(1)] by (metis mmc.select_convs(2) mmc.surjective mmc.update_convs(2))
qed

definition ex_stats :: "stat list" where
  "ex_stats = [([''pid''], ''7''), ([''items'', ''1'', ''number''], ''3''), ([''items'', ''1'', ''age''], ''20'')]"


end
