(* ===== verification/Strategy.thy ===== *)
theory Strategy
  imports Lifecycle
begin

text \<open>
  The interface \<open>mmc_hash_t\<close> between the pool and a hash strategy (php_memcache.h: the
  function pointers \<open>create_state\<close>, \<open>add_server\<close> and \<open>find_server\<close>), as a locale: the laws a
  strategy promises, and what the pool gets from them. Both strategies are instances.
\<close>

locale hash_strategy =
  fixes create :: "'c \<Rightarrow> 'h"
    and add :: "'w php_env \<Rightarrow> 'h \<Rightarrow> nat \<Rightarrow> nat \<Rightarrow> 'w st \<Rightarrow> 'h option"
    and search :: "'w php_env \<Rightarrow> 'h \<Rightarrow> string \<Rightarrow> 'w st \<Rightarrow> ((nat option \<times> 'h) \<times> 'w st) option"
    and serves :: "nat set \<Rightarrow> 'h \<Rightarrow> bool"
  assumes serves_create: "serves {} (create f)"
    and serves_add: "serves S h \<Longrightarrow> heap s p \<noteq> None \<Longrightarrow> 0 < weight \<Longrightarrow>
      \<exists>h'. add env h p weight s = Some h' \<and> serves (insert p S) h'"
    and search_serves: "qsort_ok env \<Longrightarrow> serves S h \<Longrightarrow> S \<noteq> {} \<Longrightarrow> \<forall>q \<in> S. heap s q \<noteq> None \<Longrightarrow> conn_ok s \<Longrightarrow>
      wp (search env h key s) (\<lambda>((r, h'), s'). find_frame s s' \<and> found S r s' \<and> serves S h')"
    and add_heap: "heap s' = heap s \<Longrightarrow> add env h p weight s' = add env h p weight s"
begin

fun add_all :: "'w php_env \<Rightarrow> (nat \<times> nat) list \<Rightarrow> 'h \<Rightarrow> 'w st \<Rightarrow> 'h option" where
  "add_all env [] h s = Some h"
| "add_all env ((p, weight) # ps) h s = do { h \<leftarrow> add env h p weight s; add_all env ps h s }"

lemma add_all_heap: "heap s' = heap s \<Longrightarrow> add_all env ps h s' = add_all env ps h s"
proof (induction ps arbitrary: h)
  case (Cons x ps)
  then show ?case by (cases x) (simp add: add_heap [OF Cons.prems])
qed simp

lemma add_all_serves:
  assumes "serves S h" "\<forall>(p, weight) \<in> set ps. heap s p \<noteq> None \<and> 0 < weight"
  shows "\<exists>h'. add_all env ps h s = Some h' \<and> serves (fst ` set ps \<union> S) h'"
  using assms
proof (induction ps arbitrary: S h)
  case (Cons x ps)
  obtain p weight where x: "x = (p, weight)" by (cases x)
  obtain h1 where h1: "add env h p weight s = Some h1" "serves (insert p S) h1"
    using serves_add [of S h s p weight env] Cons.prems x by auto
  obtain h2 where "add_all env ps h1 s = Some h2" "serves (fst ` set ps \<union> insert p S) h2"
    using Cons.IH [OF h1(2)] Cons.prems(2) by auto
  then show ?case using h1 x by simp
qed simp

text \<open>A lookup in a state built from nothing by adding servers.\<close>

lemma built_search:
  assumes "qsort_ok env" "conn_ok s" "ps \<noteq> []" "\<forall>(p, weight) \<in> set ps. heap s p \<noteq> None \<and> 0 < weight"
  shows "wp (do { h \<leftarrow> add_all env ps (create c) s; search env h key s })
    (\<lambda>((r, h'), s'). find_frame s s' \<and> found (fst ` set ps) r s' \<and> serves (fst ` set ps) h')"
proof -
  obtain h where h: "add_all env ps (create c) s = Some h" "serves (fst ` set ps) h"
    using add_all_serves [OF serves_create assms(4)] by auto
  have "fst ` set ps \<noteq> {}" "\<forall>q \<in> fst ` set ps. heap s q \<noteq> None" using assms(3,4) by auto
  from search_serves [OF assms(1) h(2) this assms(2)] show ?thesis using h(1) by simp
qed

end

text \<open>The two strategies of the extension.\<close>

definition standard_search :: "'w php_env \<Rightarrow> mmc_standard_state \<Rightarrow> string \<Rightarrow> 'w st \<Rightarrow> ((nat option \<times> mmc_standard_state) \<times> 'w st) option" where
  "standard_search env h key s = do { (r, s) \<leftarrow> mmc_standard_find_server env h key False s; Some ((r, h), s) }"

interpretation standard: hash_strategy mmc_standard_create_state "\<lambda>env h p weight s. Some (mmc_standard_add_server h p weight)"
  standard_search "\<lambda>S h. hash_wf S (Standard_State h)"
proof
  fix env :: "'w php_env" and S h and s :: "'w st" and key
  assume *: "hash_wf S (Standard_State h)" "S \<noteq> {}" "\<forall>q \<in> S. heap s q \<noteq> None" "conn_ok s"
  then have b: "s_buckets h \<noteq> []" "set (s_buckets h) = S" by (auto simp: hash_wf_def)
  show "wp (standard_search env h key s) (\<lambda>((r, h'), s'). find_frame s s' \<and> found S r s' \<and> hash_wf S (Standard_State h'))"
    unfolding standard_search_def
    by (rule wp_bindI [OF standard_find_direct [OF b(1)]]) (use * b in \<open>auto simp: wp_simps\<close>)
qed (auto simp: hash_wf_def mmc_standard_create_state_def mmc_standard_add_server_def)

interpretation consistent: hash_strategy mmc_consistent_create_state mmc_consistent_add_server
  "\<lambda>env h key s. mmc_consistent_find_server env h key False s" "\<lambda>S h. hash_wf S (Consistent_State h)"
proof
  fix env :: "'w php_env" and S h and s :: "'w st" and key
  assume *: "qsort_ok env" "hash_wf S (Consistent_State h)" "S \<noteq> {}" "\<forall>q \<in> S. heap s q \<noteq> None" "conn_ok s"
  then have "c_points h \<noteq> []" by (auto simp: hash_wf_def)
  then show "wp (mmc_consistent_find_server env h key False s)
      (\<lambda>((r, h'), s'). find_frame s s' \<and> found S r s' \<and> hash_wf S (Consistent_State h'))"
    by (rule consistent_find_direct [OF *(1) _ *(2,4,5)])
next
  fix env :: "'w php_env" and S h and s :: "'w st" and p weight :: nat
  assume *: "hash_wf S (Consistent_State h)" "heap s p \<noteq> None" "0 < weight"
  then have "0 < weight * MMC_CONSISTENT_POINTS" by (simp add: MMC_CONSISTENT_POINTS_def)
  then have "(\<lambda>_. p) ` {0..<weight * MMC_CONSISTENT_POINTS} = {p}" by (auto simp: image_constant_conv)
  then show "\<exists>h'. mmc_consistent_add_server env h p weight s = Some h' \<and> hash_wf (insert p S) (Consistent_State h')"
    using * by (auto simp: mmc_consistent_add_server_def Let_def hash_wf_def image_image image_Un)
qed (auto simp: hash_wf_def mmc_consistent_create_state_def mmc_consistent_add_server_def)


subsection \<open>The dispatch of the pool\<close>

text \<open>The pool reaches the functions of its strategy through the \<open>mmc_hash_t\<close> it was made with.\<close>

definition strategy_search :: "'w php_env \<Rightarrow> hash_state \<Rightarrow> string \<Rightarrow> 'w st \<Rightarrow> ((nat option \<times> hash_state) \<times> 'w st) option" where
  "strategy_search env hs key s = (case hs of
     Standard_State h \<Rightarrow> do { ((r, h), s) \<leftarrow> standard_search env h key s; Some ((r, Standard_State h), s) }
   | Consistent_State h \<Rightarrow> do { ((r, h), s) \<leftarrow> mmc_consistent_find_server env h key False s; Some ((r, Consistent_State h), s) })"

interpretation dispatch: hash_strategy mmc_pool_init_hash strategy_add_server strategy_search hash_wf
proof
  fix g
  show "hash_wf {} (mmc_pool_init_hash g)"
    using standard.serves_create consistent.serves_create by (auto simp: mmc_pool_init_hash_def split: hash_strategy.split)
next
  fix S hs and s :: "'w st" and p weight :: nat and env :: "'w php_env"
  assume "hash_wf S hs" "heap s p \<noteq> None" "0 < weight"
  then show "\<exists>h'. strategy_add_server env hs p weight s = Some h' \<and> hash_wf (insert p S) h'"
    using standard.serves_add [of S _ s p weight] consistent.serves_add [of S _ s p weight env]
    by (cases hs) (fastforce simp: strategy_add_server_def)+
next
  fix env :: "'w php_env" and S hs and s :: "'w st" and key
  assume *: "qsort_ok env" "hash_wf S hs" "S \<noteq> {}" "\<forall>q \<in> S. heap s q \<noteq> None" "conn_ok s"
  show "wp (strategy_search env hs key s) (\<lambda>((r, h'), s'). find_frame s s' \<and> found S r s' \<and> hash_wf S h')"
  proof (cases hs)
    case (Standard_State h)
    show ?thesis unfolding strategy_search_def Standard_State hash_state.case
      by (rule wp_bindI [OF standard.search_serves [OF *(1) *(2) [unfolded Standard_State] *(3-5)]]) (auto simp: wp_simps)
  next
    case (Consistent_State h)
    show ?thesis unfolding strategy_search_def Consistent_State hash_state.case
      by (rule wp_bindI [OF consistent.search_serves [OF *(1) *(2) [unfolded Consistent_State] *(3-5)]]) (auto simp: wp_simps)
  qed
next
  fix env :: "'w php_env" and s s' :: "'w st" and hs and p weight :: nat
  assume "heap s' = heap s"
  then show "strategy_add_server env hs p weight s' = strategy_add_server env hs p weight s"
    using consistent.add_heap [of s' s env _ p weight] by (simp add: strategy_add_server_def split: hash_state.split)
qed

text \<open>Adding servers to the pool, each with its weight.\<close>

fun pool_adds :: "'w php_env \<Rightarrow> (nat \<times> nat) list \<Rightarrow> 'w st \<Rightarrow> 'w st option" where
  "pool_adds env [] s = Some s"
| "pool_adds env ((p, weight) # ps) s = do { s \<leftarrow> mmc_pool_add env p weight s; pool_adds env ps s }"

lemma pool_adds_eq:
  "pool_adds env ps s = map_option (\<lambda>hs. s\<lparr>pool := (pool s)\<lparr>p_servers := p_servers (pool s) @ map fst ps, p_hash_state := hs\<rparr>\<rparr>)
     (dispatch.add_all env ps (p_hash_state (pool s)) s)"
proof (induction ps arbitrary: s)
  case (Cons x ps)
  obtain p weight where x: "x = (p, weight)" by (cases x)
  let ?s = "\<lambda>hs. s\<lparr>pool := (pool s)\<lparr>p_servers := p_servers (pool s) @ [p], p_hash_state := hs\<rparr>\<rparr>"
  have "strategy_add_server env hs p weight (s\<lparr>pool := (pool s)\<lparr>p_servers := p_servers (pool s) @ [p]\<rparr>\<rparr>) =
      strategy_add_server env hs p weight s" for hs
    by (rule dispatch.add_heap) simp
  then have add: "mmc_pool_add env p weight s = map_option ?s (strategy_add_server env (p_hash_state (pool s)) p weight s)"
    by (cases "strategy_add_server env (p_hash_state (pool s)) p weight s") (simp_all add: mmc_pool_add_def)
  have "dispatch.add_all env ps h (?s hs) = dispatch.add_all env ps h s" for h hs
    by (rule dispatch.add_all_heap) simp
  then show ?case
    using Cons.IH by (cases "strategy_add_server env (p_hash_state (pool s)) p weight s") (simp_all add: x add)
qed simp



end
