(* ===== verification/Multi_Lock.thy ===== *)
theory Multi_Lock
  imports Multi_By_Key
begin

text \<open>
  Locking and unlocking several keys with shard keys: \<open>php_mmc_getl_multi_by_key\<close> (memcache.cpp
  5776-6143) and \<open>php_mmc_unlock_multi_by_key\<close> (6182-6370) with their PHP functions (5515-5573,
  5677-5717). The commands of one server are joined in its \<open>outbuf\<close>; a second line per server,
  found through \<open>mmc->index\<close>, holds its keys. Integer keys of the array are skipped.
\<close>

definition nul :: string where "nul = [CHR 0x00]"

text \<open>\<open>efree\<close> of a pointer that may be NULL, which it ignores.\<close>

definition efree_null :: "buf \<Rightarrow> buf option" where
  "efree_null b = (if b = Null then Some Null else efree b)"

text \<open>
  The shared parts of the two commands: the requests with their lines, and the status array.
  \<open>l_shard\<close> is the buffer of the shard key (None while uninitialised), \<open>l_mmc\<close> the variable
  \<open>mmc\<close> of the first pass, \<open>l_last\<close> the last value array element, which \<open>data\<close> points to.
\<close>

record locks =
  l_status :: "(string \<times> zval) list"
  l_requests :: "nat list"
  l_lines :: "string list"
  l_shard :: "string option"
  l_mmc :: "nat option option"
  l_last :: "zval option"

definition lock_status :: "string \<Rightarrow> bool \<Rightarrow> 'a locks_scheme \<Rightarrow> 'a locks_scheme" where
  "lock_status key b v = v\<lparr>l_status := assoc_add key (ZBool b) (l_status v)\<rparr>"

text \<open>
  A command for \<open>key\<close> joins the server's \<open>outbuf\<close>; through the proxy every command after the
  first is preceded by the proxy string.
\<close>

definition lock_append ::
    "string \<Rightarrow> string \<Rightarrow> string \<Rightarrow> nat \<Rightarrow> 'a locks_scheme \<Rightarrow> 'w st \<Rightarrow> ('a locks_scheme \<times> 'w st) option" where
  "lock_append name key command p v s = do {
     m \<leftarrow> heap s p;
     (v, s) \<leftarrow> (if mmc_outbuf m \<noteq> [] then do {
         s \<leftarrow> upd p (\<lambda>m. m\<lparr>mmc_outbuf := mmc_outbuf m @ CRLF
                @ (if mmc_proxy m \<noteq> None \<and> mmc_proxy_str m \<noteq> [] then mmc_proxy_str m else [])\<rparr>) s;
         Some (v, s)
       } else do {
         s \<leftarrow> upd p (\<lambda>m. m\<lparr>mmc_index := length (l_requests v)\<rparr>) s;
         Some (v\<lparr>l_requests := l_requests v @ [p], l_lines := l_lines v @ [name]\<rparr>, s)
       });
     m \<leftarrow> heap s p;
     s \<leftarrow> upd p (\<lambda>m. m\<lparr>mmc_outbuf := mmc_outbuf m @ command\<rparr>) s;
     if mmc_index m < length (l_lines v)
     then Some (v\<lparr>l_lines := (l_lines v)[mmc_index m := l_lines v ! mmc_index m @ '' '' @ key]\<rparr>, s)
     else None
   }"

text \<open>The shard key of an element, in the buffer; a failed preparation leaves the buffer.\<close>

definition prepare_shard :: "'w php_env \<Rightarrow> zval \<Rightarrow> 'a locks_scheme \<Rightarrow> 'w st \<Rightarrow> ((int \<times> 'a locks_scheme) \<times> 'w st) option" where
  "prepare_shard env z v s = do {
     ((r, k), s) \<leftarrow> mmc_prepare_key env MMC_KEY_MAX_SIZE z s;
     Some ((r, if r = MMC_OK then v\<lparr>l_shard := Some k\<rparr> else v), s)
   }"

definition lock_unreachable :: "string \<Rightarrow> nat option \<Rightarrow> 'a locks_scheme \<Rightarrow> 'w st \<Rightarrow> ('a locks_scheme \<times> 'w st) option" where
  "lock_unreachable key mmc v s = do {
     s \<leftarrow> log_host_of mmc (setCode CONNECT_FAILED s);
     Some (lock_status key False v, s)
   }"

text \<open>
  The second pass. The status of the keys of a server that cannot be written to is marked
  through its line, which is cut by that.
\<close>

fun lock_send :: "'w php_env \<Rightarrow> bool \<Rightarrow> nat list \<Rightarrow> string list \<Rightarrow> int \<Rightarrow> 'a locks_scheme \<Rightarrow> 'w st \<Rightarrow>
     ((string list \<times> int \<times> 'a locks_scheme) \<times> 'w st) option" where
  "lock_send env reset_index (p # ps) (line # lines) result v s = do {
     m \<leftarrow> heap s p;
     (result, s) \<leftarrow> mmc_sendcmd env p (mmc_outbuf m) s;
     (line, v, s) \<leftarrow> (if result < 0 then do {
         (_, s) \<leftarrow> mmc_server_failure env p s;
         (st, s) \<leftarrow> update_result_array (Some (l_status v)) line WRITE_TO_SERVER_FAILED s;
         s \<leftarrow> (if reset_index then upd p (\<lambda>m. m\<lparr>mmc_index := 0\<rparr>) s else Some s);
         Some (tokenized line, v\<lparr>l_status := default [] st\<rparr>, s)
       } else Some (line, v, s));
     ((lines, result, v), s) \<leftarrow> lock_send env reset_index ps lines result v s;
     Some ((line # lines, result, v), s)
   }"
| "lock_send env reset_index ps lines result v s = Some (([], result, v), s)"

text \<open>The keys of a line; the loops over them read the first one without a test.\<close>

definition line_keys :: "string \<Rightarrow> string list option" where
  "line_keys line = do {
     (ts, rest) \<leftarrow> tokenize_command line MAX_TOKENS;
     Some (drop 1 ts)
   }"

definition fail_keys :: "string list \<Rightarrow> 'a locks_scheme \<Rightarrow> 'w st \<Rightarrow> 'a locks_scheme \<times> 'w st" where
  "fail_keys ts v s = fold (\<lambda>t (v, s). (lock_status t False v,
      log_upd_key t (\<lambda>l. l\<lparr>lg_res_code := READ_FROM_SERVER_FAILED\<rparr>) s)) ts (v, s)"

subsection \<open>getlMultiByKey\<close>

record getls = locks +
  l_rv :: "(string \<times> zval) list"
  l_flags :: "(string \<times> zval) list option"
  l_cas :: "(string \<times> zval) list option"
  l_metadata :: "(string \<times> zval) list option"
  l_retry_hash :: "string list"
  l_serialized :: "(string \<times> string \<times> u32 \<times> nat) mmc_queue"
  l_queued :: "string list"

text \<open>The timeout of an element, as it is printed; other types leave the default.\<close>

definition getl_multi_timeout :: "(hkey \<times> zval) list \<Rightarrow> string" where
  "getl_multi_timeout arr = (case map_of arr (KStr ''timeout'') of
     Some (ZLong i) \<Rightarrow> show_int (c_int i) | Some (ZString t) \<Rightarrow> t | _ \<Rightarrow> ''15'')"

text \<open>
  The parameters of an element: the lock metadata and the timeout, with the shard key in the
  buffer. None inside says that the element is skipped.
\<close>

definition getl_element ::
    "'w php_env \<Rightarrow> string \<Rightarrow> zval \<Rightarrow> getls \<Rightarrow> 'w st \<Rightarrow> (((string \<times> string) option \<times> getls) \<times> 'w st) option" where
  "getl_element env key data v s = (case data of
     ZArray arr \<Rightarrow>
       (case map_of arr (KStr ''shardKey'') of
          None \<Rightarrow> Some ((None, v), setCode VALUE_NOT_FOUND s)
        | Some z \<Rightarrow> do {
            ((_, v), s) \<leftarrow> prepare_shard env z v s;
            (md, s) \<leftarrow> (case map_of arr (KStr ''lockMetaData'') of
                None \<Rightarrow> Some ([], s)
              | Some z \<Rightarrow> do {
                  ((r, md), s) \<leftarrow> mmc_prepare_key env (MAX_METADATA_LEN + 1) z s;
                  Some (if r = MMC_OK then md else [], s)
                });
            Some ((Some (md, getl_multi_timeout arr), v), s)
          })
   | _ \<Rightarrow> do {
       ((r, v), s) \<leftarrow> prepare_shard env data v s;
       if r \<noteq> MMC_OK
       then Some ((None, v\<lparr>l_rv := assoc_add key (ZBool False) (l_rv v)\<rparr>), setCode VALUE_NOT_FOUND s)
       else Some ((Some ([], ''15''), v), s)
     })"

text \<open>
  In a retry round the key is unlocked first, on the server that the variable \<open>mmc\<close> still
  holds, and with key lengths one too long, so that the remembered CAS is not found.
\<close>

definition getl_schedule ::
    "'w php_env \<Rightarrow> bool \<Rightarrow> bool \<Rightarrow> string \<Rightarrow> string \<Rightarrow> string \<Rightarrow> getls \<Rightarrow> 'w st \<Rightarrow> (getls \<times> 'w st) option" where
  "getl_schedule env first chksum_failed key md timeout v s = do {
     shard_key \<leftarrow> l_shard v;
     s \<leftarrow> (if chksum_failed then do {
         mmc \<leftarrow> l_mmc v;
         (_, s) \<leftarrow> mmc_exec_unl_cmd_by_key env mmc (key @ nul) (shard_key @ nul) s;
         Some s
       } else Some s);
     (mmc, s) \<leftarrow> mmc_pool_find env shard_key s;
     let v = v\<lparr>l_mmc := Some mmc\<rparr>;
     ok \<leftarrow> usable mmc s;
     if ok then do {
       p \<leftarrow> mmc;
       (v, s) \<leftarrow> lock_append ''getl'' key (''getl '' @ key @ '' '' @ timeout @ (if md = [] then [] else '' '' @ md)) p v s;
       m \<leftarrow> heap s p;
       Some (if first then lock_status key True v else v, setCode MC_SUCCESS (setHost (mmc_host m) s))
     } else lock_unreachable key mmc v s
   }"

fun getl_first_pass ::
    "'w php_env \<Rightarrow> bool \<Rightarrow> bool \<Rightarrow> (hkey \<times> zval) list \<Rightarrow> getls \<Rightarrow> 'w st \<Rightarrow> (getls \<times> 'w st) option" where
  "getl_first_pass env first chksum_failed [] v s = Some (v, s)"
| "getl_first_pass env first chksum_failed ((KInt i, data) # xs) v s = getl_first_pass env first chksum_failed xs v s"
| "getl_first_pass env first chksum_failed ((KStr key, data) # xs) v s = do {
     s \<leftarrow> createLogger key s;
     let s = log_pool (setCmd ''getlMultiByKey'' (setLogger key s));
     ((el, v), s) \<leftarrow> getl_element env key data (v\<lparr>l_last := Some data\<rparr>) s;
     (v, s) \<leftarrow> (case el of
         None \<Rightarrow> Some (v, s)
       | Some (md, timeout) \<Rightarrow>
           if first \<or> chksum_failed \<and> key \<in> set (l_retry_hash v)
           then getl_schedule env first chksum_failed key md timeout v s
           else Some (v, s));
     getl_first_pass env first chksum_failed xs v s
   }"

text \<open>A key without a value: a lock error with its metadata, a missing key (status true), or a failure.\<close>

definition getl_no_value ::
    "'w php_env \<Rightarrow> nat \<Rightarrow> string \<Rightarrow> read_out \<Rightarrow> getls \<Rightarrow> 'w st \<Rightarrow> ((bool \<times> getls) \<times> 'w st) option" where
  "getl_no_value env p t ro v s = do {
     _ \<leftarrow> (if h_key (o_header ro) \<noteq> None then None else Some ());
     _ \<leftarrow> efree_null (o_value ro);
     m \<leftarrow> heap s p;
     let line = cstr (mmc_inbuf m);
     let v = lock_status t False v;
     if mmc_str_left env line ''LOCK_ERROR'' (length line)
     then Some ((True, if 13 < length line
            then v\<lparr>l_metadata := map_option (assoc_add t (ZString (take (length line - 13) (drop 11 line)))) (l_metadata v)\<rparr>
            else v), setCode MC_LOCK_ERROR s)
     else if mmc_str_left env line ''NOT_FOUND'' (length line)
     then Some ((True, lock_status t True v), setCode MC_NOT_FOUND s)
     else Some ((False, v), s)
   }"

text \<open>What is done with the value of a key: stored, queued for unserializing, or marked as failed.\<close>

definition getl_value ::
    "'w php_env \<Rightarrow> nat \<Rightarrow> int \<Rightarrow> string \<Rightarrow> read_out \<Rightarrow> getls \<Rightarrow> 'w st \<Rightarrow> (getls \<times> 'w st) option" where
  "getl_value env p result key ro v s =
     (let flags = h_flags (o_header ro) in
      if result = - 2
      then Some (lock_status key False v, log_upd_key key (\<lambda>l. l\<lparr>lg_res_code := UNCOMPRESS_FAILED\<rparr>) s)
      else if result = CHKSUM_MISMATCH_DETECTED then do {
        _ \<leftarrow> efree (o_value ro);
        Some (lock_status key False (v\<lparr>l_retry_hash := List.insert key (l_retry_hash v)\<rparr>),
              log_upd_key key (\<lambda>l. l\<lparr>lg_res_code := DI_CHECKSUM_GET_FAILED_GET\<rparr>) s)
      } else do {
        val \<leftarrow> buf_read (o_value ro);
        v \<leftarrow> (if serialized flags then
            (if map_of (l_rv v) key = None then do {
               q \<leftarrow> mmc_queue_push (l_serialized v) (Some (val, key, flags, p));
               Some (v\<lparr>l_rv := assoc_add key (ZString val) (l_rv v), l_serialized := q, l_queued := key # l_queued v\<rparr>)
             } else Some v)
          else if key \<in> set (l_queued v) then None
          else Some (v\<lparr>l_rv := assoc_add key (ZString val) (l_rv v)\<rparr>));
        Some (v, s)
      })"

text \<open>
  The CAS of the value is remembered under the key and its shard key, which is found again in
  the array of the call: in an element when the last element of the array was one, else as
  the value itself. A shard key that cannot be prepared leaves a stale buffer.
\<close>

definition remember_cas ::
    "'w php_env \<Rightarrow> (hkey \<times> zval) list \<Rightarrow> string \<Rightarrow> u64 \<Rightarrow> getls \<Rightarrow> 'w st \<Rightarrow> (getls \<times> 'w st) option" where
  "remember_cas env keys t cas v s = do {
     z \<leftarrow> map_of keys (KStr t);
     zlast \<leftarrow> l_last v;
     zshard \<leftarrow> (case zlast of
         ZArray _ \<Rightarrow> (case z of ZArray arr \<Rightarrow> map_of arr (KStr ''shardKey'') | _ \<Rightarrow> None)
       | _ \<Rightarrow> Some z);
     ((r, v), s) \<leftarrow> prepare_shard env zshard v s;
     shard_key \<leftarrow> (if r = MMC_OK then l_shard v else None);
     Some (v, s\<lparr>pool := (pool s)\<lparr>p_cas_array := (p_cas_array (pool s))(t @ shard_key \<mapsto> cas)\<rparr>\<rparr>)
   }"

definition getl_found ::
    "'w php_env \<Rightarrow> (hkey \<times> zval) list \<Rightarrow> nat \<Rightarrow> int \<Rightarrow> string \<Rightarrow> read_out \<Rightarrow> getls \<Rightarrow> 'w st \<Rightarrow> (getls \<times> 'w st) option" where
  "getl_found env keys p result t ro v s = do {
     key \<leftarrow> h_key (o_header ro);
     let flags = h_flags (o_header ro);
     cas \<leftarrow> h_cas (o_header ro);
     (v, s) \<leftarrow> getl_value env p result key ro v s;
     let s = log_upd_key key (\<lambda>l. l\<lparr>lg_res_len := o_value_len ro, lg_flags := sint flags, lg_cas := cas\<rparr>) s;
     (v, s) \<leftarrow> remember_cas env keys t cas v s;
     Some (v\<lparr>l_flags := add_long key (sint flags) (l_flags v), l_cas := add_long key (sint cas) (l_cas v)\<rparr>, s)
   }"

text \<open>
  The answers of one server, one per key of its line. The key is copied with its NUL into the
  buffer of 250 bytes. After a value the \<open>END\<close> line must follow, also after the result 0; the
  key of a value without one was allocated with \<open>emalloc\<close> and is released with \<open>free\<close>.
\<close>

fun getl_read ::
    "'w php_env \<Rightarrow> (hkey \<times> zval) list \<Rightarrow> nat \<Rightarrow> string list \<Rightarrow> int \<Rightarrow> getls \<Rightarrow> 'w st \<Rightarrow> ((int \<times> getls) \<times> 'w st) option" where
  "getl_read env keys p [] result v s = Some ((result, v), s)"
| "getl_read env keys p (t # ts) result v s =
     (if MMC_KEY_MAX_SIZE \<le> length t then None
      else do {
        let v = v\<lparr>l_shard := Some t\<rparr>;
        ((result, ro), s) \<leftarrow> mmc_read_value env p True True (get_vars (Some 0)) (setLogger t s);
        if result = - 2 \<or> result = CHKSUM_MISMATCH_DETECTED then do {
          (v, s) \<leftarrow> getl_found env keys p result t ro v s;
          getl_read env keys p ts result v s
        } else if result < 0 then do {
          ((go_on, v), s) \<leftarrow> getl_no_value env p t ro v s;
          if go_on then getl_read env keys p ts 0 v s else Some ((result, v), s)
        } else do {
          (ok, s) \<leftarrow> read_end env p s;
          if \<not> ok then (if h_key (o_header ro) \<noteq> None then None else Some ((- 1, v), s))
          else do {
            (v, s) \<leftarrow> getl_found env keys p result t ro v s;
            getl_read env keys p ts result v s
          }
        }
      })"

fun getl_third_pass ::
    "'w php_env \<Rightarrow> (hkey \<times> zval) list \<Rightarrow> (nat \<times> string) list \<Rightarrow> getls \<Rightarrow> 'w st \<Rightarrow> (getls \<times> 'w st) option" where
  "getl_third_pass env keys [] v s = Some (v, s)"
| "getl_third_pass env keys ((p, line) # reqs) v s = do {
     m \<leftarrow> heap s p;
     (v, s) \<leftarrow> (if mmc_status m = STATUS_FAILED then Some (v, s)
       else do {
         ts \<leftarrow> line_keys line;
         if ts = [] then None
         else do {
           ((result, v), s) \<leftarrow> getl_read env keys p ts 0 v s;
           if result < 0 then do {
             (_, s) \<leftarrow> mmc_server_failure env p s;
             Some (fail_keys ts v s)
           } else Some (v, s)
         }
       });
     s \<leftarrow> upd p (\<lambda>m. m\<lparr>mmc_outbuf := []\<rparr>) s;
     getl_third_pass env keys reqs v s
   }"

partial_function (option) getl_rounds ::
    "'w php_env \<Rightarrow> (hkey \<times> zval) list \<Rightarrow> bool \<Rightarrow> int \<Rightarrow> bool \<Rightarrow> getls \<Rightarrow> 'w st \<Rightarrow> (getls \<times> 'w st) option" where
  "getl_rounds env keys first retry_count chksum_failed v s = do {
     (v, s) \<leftarrow> getl_first_pass env first chksum_failed keys (v\<lparr>l_requests := [], l_lines := []\<rparr>) s;
     ((lines, _, v), s) \<leftarrow> lock_send env True (l_requests v) (l_lines v) 0 v s;
     (v, s) \<leftarrow> getl_third_pass env keys (zip (l_requests v) lines) (v\<lparr>l_retry_hash := []\<rparr>) s;
     let retry_count = (if l_retry_hash v \<noteq> [] then retry_count + 1 else retry_count);
     if l_retry_hash v \<noteq> [] \<and> retry_count < g_integrity_error_retry_count (glob s)
     then getl_rounds env keys False retry_count True v s
     else Some (v, s)
   }"

declare getl_rounds.simps [code]

function getl_post :: "'w php_env \<Rightarrow> getls \<Rightarrow> 'w st \<Rightarrow> (getls \<times> 'w st) option" where
  "getl_post env v s =
     (case mmc_queue_pop (l_serialized v) of
        None \<Rightarrow> None
      | Some (None, q) \<Rightarrow> Some (v\<lparr>l_serialized := mmc_queue_free q\<rparr>, s)
      | Some (Some (val, key, flags, p), q) \<Rightarrow>
          if q_len q < q_len (l_serialized v) then do {
            m \<leftarrow> heap s p;
            if flags AND MMC_SERIALIZED = 0 \<and> \<not> have_igbinary env then None
            else do {
              ((ok, z), s) \<leftarrow> mmc_postprocess_value env flags (ZString val) val (setLogger key s);
              let v = v\<lparr>l_serialized := q, l_rv := assoc_add key z (l_rv v)\<rparr>;
              let (v, s) = (if ok = 0 then (lock_status key False v, setCode UNSERIALIZE_FAILED s) else (v, s));
              getl_post env v s
            }
          } else None)"
  by pat_completeness auto
termination
  by (relation "measure (\<lambda>(env, v, s). q_len (l_serialized v))") (auto simp: lock_status_def split: if_splits)

declare getl_post.simps [simp del]

definition no_locks :: getls where
  "no_locks = \<lparr>l_status = [], l_requests = [], l_lines = [], l_shard = None, l_mmc = None, l_last = None,
     l_rv = [], l_flags = None, l_cas = None, l_metadata = None, l_retry_hash = [],
     l_serialized = mmc_queue_release, l_queued = []\<rparr>"

definition php_mmc_getl_multi_by_key ::
    "'w php_env \<Rightarrow> (hkey \<times> zval) list \<Rightarrow> bool \<Rightarrow> bool \<Rightarrow> bool \<Rightarrow> 'w st \<Rightarrow> (getls \<times> 'w st) option" where
  "php_mmc_getl_multi_by_key env keys want_flags want_cas want_metadata s = do {
     let arr = (\<lambda>b. if b then Some [] else None);
     let v = no_locks\<lparr>l_flags := arr want_flags, l_cas := arr want_cas, l_metadata := arr want_metadata\<rparr>;
     (v, s) \<leftarrow> getl_rounds env keys True 0 False v (mmc_init_multi (setMultiLogger s));
     (v, s) \<leftarrow> (if q_len (l_serialized v) \<noteq> 0 then getl_post env v s else Some (v, s));
     s \<leftarrow> mmc_free_multi env s;
     Some (v, s)
   }"

text \<open>The PHP function: the status array is returned, the other arrays are its arguments.\<close>

definition memcache_getlMultiByKey ::
    "'w php_env \<Rightarrow> (zval \<times> zval \<times> zval option \<times> zval option) option \<Rightarrow> 'w st \<Rightarrow>
     ((zval \<times> zval \<times> zval option \<times> zval option) \<times> 'w st) option" where
  "memcache_getlMultiByKey env args = php_call ''getlMultiByKey'' (ZNull, ZNull, None, None) args
     (\<lambda>(keys, zvalue, zflags, zmetadata). case keys of
        ZArray xs \<Rightarrow> need_pool True (ZBool False, zvalue, zflags, zmetadata) (\<lambda>s. do {
          (v, s) \<leftarrow> php_mmc_getl_multi_by_key env xs (zflags \<noteq> None) False (zmetadata \<noteq> None)
                     (setCommandType GET (log_pool s));
          Some ((zarray (l_status v), zarray (l_rv v), map_option zarray (l_flags v),
                 map_option zarray (l_metadata v)), s)
        })
      | _ \<Rightarrow> (\<lambda>s. None))"

subsection \<open>unlockMultiByKey\<close>

text \<open>
  A CAS given in an element is never used: its type is tested on the element. The remembered
  CAS is printed with \<open>%d\<close>, so its low 32 bits, and forgotten. An element without a shard key
  makes the loop skip the next one.
\<close>

definition unlock_schedule ::
    "'w php_env \<Rightarrow> string \<Rightarrow> unit locks_scheme \<Rightarrow> 'w st \<Rightarrow> (unit locks_scheme \<times> 'w st) option" where
  "unlock_schedule env key v s = do {
     shard_key \<leftarrow> l_shard v;
     (mmc, s) \<leftarrow> mmc_pool_find env shard_key s;
     ok \<leftarrow> usable mmc s;
     if \<not> ok then lock_unreachable key mmc v s
     else do {
       p \<leftarrow> mmc;
       m \<leftarrow> heap s p;
       let s = setHost (mmc_host m) s;
       (case p_cas_array (pool s) (key @ shard_key) of
          None \<Rightarrow> Some (lock_status key False v, setCode VALUE_NOT_FOUND s)
        | Some cas \<Rightarrow> do {
            let s = s\<lparr>pool := (pool s)\<lparr>p_cas_array := (p_cas_array (pool s))(key @ shard_key := None)\<rparr>\<rparr>;
            (v, s) \<leftarrow> lock_append ''unl'' key (''unl '' @ key @ '' '' @ show_int (c_int (uint cas))) p v s;
            Some (lock_status key True v, setCode MC_SUCCESS s)
          })
     }
   }"

definition unlock_element ::
    "'w php_env \<Rightarrow> string \<Rightarrow> zval \<Rightarrow> unit locks_scheme \<Rightarrow> 'w st \<Rightarrow> ((bool \<times> unit locks_scheme) \<times> 'w st) option" where
  "unlock_element env key data v s = (case data of
     ZArray arr \<Rightarrow>
       (case map_of arr (KStr ''shardKey'') of
          None \<Rightarrow> Some ((True, v), setCode VALUE_NOT_FOUND s)
        | Some z \<Rightarrow> do {
            ((_, v), s) \<leftarrow> prepare_shard env z v s;
            (v, s) \<leftarrow> unlock_schedule env key v s;
            Some ((False, v), s)
          })
   | _ \<Rightarrow> do {
       ((r, v), s) \<leftarrow> prepare_shard env data v s;
       (v, s) \<leftarrow> (if r \<noteq> MMC_OK then Some (lock_status key False v, setCode VALUE_NOT_FOUND s)
                  else unlock_schedule env key v s);
       Some ((False, v), s)
     })"

function unlock_first_pass ::
    "'w php_env \<Rightarrow> (hkey \<times> zval) list \<Rightarrow> unit locks_scheme \<Rightarrow> 'w st \<Rightarrow> (unit locks_scheme \<times> 'w st) option" where
  "unlock_first_pass env [] v s = Some (v, s)"
| "unlock_first_pass env ((KInt i, data) # xs) v s = unlock_first_pass env xs v s"
| "unlock_first_pass env ((KStr key, data) # xs) v s = do {
     s \<leftarrow> createLogger key s;
     let s = log_pool (setCmd ''unlockMultiByKey'' (setLogger key s));
     ((skip, v), s) \<leftarrow> unlock_element env key data v s;
     unlock_first_pass env (if skip then drop 1 xs else xs) v s
   }"
  by pat_completeness auto
termination
  by (relation "measure (\<lambda>(env, xs, v, s). length xs)") auto

text \<open>The answers of one server; without one the rest of its keys is not read.\<close>

fun unlock_read ::
    "'w php_env \<Rightarrow> nat \<Rightarrow> string list \<Rightarrow> int \<Rightarrow> unit locks_scheme \<Rightarrow> 'w st \<Rightarrow> ((int \<times> unit locks_scheme) \<times> 'w st) option" where
  "unlock_read env p [] result v s = Some ((result, v), s)"
| "unlock_read env p (t # ts) result v s = do {
     (response_len, s) \<leftarrow> mmc_readline env p (setLogger t s);
     if response_len < 0 then Some ((- 2, v), setCode READLINE_FAILED s)
     else do {
       m \<leftarrow> heap s p;
       if reply env m (nat response_len) ''UNLOCKED''
       then unlock_read env p ts result (lock_status t True v) (setCode MC_UNLOCKED s)
       else unlock_read env p ts result (lock_status t False v) (setCode CMD_FAILED s)
     }
   }"

text \<open>\<open>result\<close> is that of the last write until an answer is missing: it is not reset for a server.\<close>

fun unlock_third_pass ::
    "'w php_env \<Rightarrow> (nat \<times> string) list \<Rightarrow> int \<Rightarrow> unit locks_scheme \<Rightarrow> 'w st \<Rightarrow> (unit locks_scheme \<times> 'w st) option" where
  "unlock_third_pass env [] result v s = Some (v, s)"
| "unlock_third_pass env ((p, line) # reqs) result v s = do {
     m \<leftarrow> heap s p;
     (result, v, s) \<leftarrow> (if mmc_status m = STATUS_FAILED then Some (result, v, s)
       else do {
         ts \<leftarrow> line_keys line;
         if ts = [] then None
         else do {
           ((result, v), s) \<leftarrow> unlock_read env p ts result v s;
           if result < 0 then do {
             (_, s) \<leftarrow> mmc_server_failure env p s;
             let (v, s) = fail_keys ts v s;
             Some (result, v, s)
           } else Some (result, v, s)
         }
       });
     s \<leftarrow> upd p (\<lambda>m. m\<lparr>mmc_outbuf := []\<rparr>) s;
     unlock_third_pass env reqs result v s
   }"

definition php_mmc_unlock_multi_by_key ::
    "'w php_env \<Rightarrow> (hkey \<times> zval) list \<Rightarrow> 'w st \<Rightarrow> ((string \<times> zval) list \<times> 'w st) option" where
  "php_mmc_unlock_multi_by_key env keys s = do {
     let v = \<lparr>l_status = [], l_requests = [], l_lines = [], l_shard = None, l_mmc = None, l_last = None\<rparr>;
     (v, s) \<leftarrow> unlock_first_pass env keys v (mmc_init_multi (setMultiLogger s));
     ((lines, result, v), s) \<leftarrow> lock_send env False (l_requests v) (l_lines v) 0 v s;
     (v, s) \<leftarrow> unlock_third_pass env (zip (l_requests v) lines) result v s;
     s \<leftarrow> mmc_free_multi env s;
     Some (l_status v, s)
   }"

definition memcache_unlockMultiByKey :: "'w php_env \<Rightarrow> zval option \<Rightarrow> 'w st \<Rightarrow> (zval \<times> 'w st) option" where
  "memcache_unlockMultiByKey env args = php_call ''unlockMultiByKey'' ZNull args (\<lambda>keys. case keys of
      ZArray xs \<Rightarrow> need_pool True (ZBool False) (\<lambda>s. do {
        (status, s) \<leftarrow> php_mmc_unlock_multi_by_key env xs s;
        Some (zarray status, s)
      })
    | _ \<Rightarrow> (\<lambda>s. None))"

end
