(* ===== verification/Rule_Parser.thy ===== *)
theory Rule_Parser
  imports Mmc_State
begin

text \<open>
  The filter rules of the request log (parse.cpp, include/parser.h): a rule is a line of words,
  \<open>exprParser\<close> builds its expression tree with an operator and an operand stack, and
  \<open>evaluateTree\<close> decides with it whether a log record is written.
\<close>

subsection \<open>Operators, fields and tokens\<close>

text \<open>The operators in the order of \<open>oprType\<close>, which is their order of precedence.\<close>

datatype oprType = OR_op | AND_op | PM_op | EQ_op | NEQ_op | CTN_op | GT_op | LT_op | SEQ_op | BrcsStr | BrcsStp

fun opr_rank :: "oprType \<Rightarrow> nat" where
  "opr_rank OR_op = 0" | "opr_rank AND_op = 1" | "opr_rank PM_op = 2" | "opr_rank EQ_op = 3"
| "opr_rank NEQ_op = 4" | "opr_rank CTN_op = 5" | "opr_rank GT_op = 6" | "opr_rank LT_op = 7"
| "opr_rank SEQ_op = 8" | "opr_rank BrcsStr = 9" | "opr_rank BrcsStp = 10"

lemma opr_rank_inject: "opr_rank a = opr_rank b \<Longrightarrow> a = b"
  by (cases a; cases b) simp_all

instantiation oprType :: linorder
begin
definition less_eq_oprType :: "oprType \<Rightarrow> oprType \<Rightarrow> bool" where "a \<le> b \<longleftrightarrow> opr_rank a \<le> opr_rank b"
definition less_oprType :: "oprType \<Rightarrow> oprType \<Rightarrow> bool" where "a < b \<longleftrightarrow> opr_rank a < opr_rank b"
instance
  by standard (auto simp: less_eq_oprType_def less_oprType_def dest: opr_rank_inject)
end

definition strType :: "oprType \<Rightarrow> bool" where
  "strType op \<longleftrightarrow> op \<in> {CTN_op, SEQ_op, PM_op}"

text \<open>The fields of a log record that a rule can name (\<open>RULE_FIELDS\<close>); the first three are strings.\<close>

datatype field = F_host | F_key | F_command | F_flags | F_res_code | F_res_time | F_res_len | F_serial_time | F_expiry

definition is_string_field :: "field \<Rightarrow> bool" where
  "is_string_field f \<longleftrightarrow> f \<in> {F_host, F_key, F_command}"

datatype rule_token = T_Opr oprType | T_Field field | T_Value string

definition field_names :: "(string \<times> field) list" where
  "field_names = [(''host'', F_host), (''key'', F_key), (''command'', F_command), (''flags'', F_flags),
     (''statuscode'', F_res_code), (''restime'', F_res_time), (''reslen'', F_res_len), (''sertime'', F_serial_time),
     (''expiry'', F_expiry)]"

definition opr_names :: "(string \<times> oprType) list" where
  "opr_names = [(''>'', GT_op), (''<'', LT_op), (''&'', AND_op), (''|'', OR_op), (''('', BrcsStr), ('')'', BrcsStp),
     (''='', EQ_op), (''eq'', SEQ_op), (''EQ'', SEQ_op), (''prefix'', PM_op), (''PREFIX'', PM_op),
     (''contains'', CTN_op), (''CONTAINS'', CTN_op)]"

definition getNextToken :: "string \<Rightarrow> rule_token" where
  "getNextToken w = (case map_of field_names w of
     Some f \<Rightarrow> T_Field f
   | None \<Rightarrow> (case map_of opr_names w of Some op \<Rightarrow> T_Opr op | None \<Rightarrow> T_Value w))"

text \<open>The words of the rule, as \<open>istream_iterator<string>\<close> splits its C string.\<close>

function split_words :: "string \<Rightarrow> string list" where
  "split_words x = (let x = skip_space x in
     if x = [] then [] else takeWhile (\<lambda>c. \<not> is_space c) x # split_words (dropWhile (\<lambda>c. \<not> is_space c) x))"
  by pat_completeness auto
termination
proof (relation "measure length")
  fix x y :: string
  assume y: "y = skip_space x" "y \<noteq> []"
  then have "\<not> is_space (hd y)" unfolding skip_space_def by (metis hd_dropWhile)
  then have "length (dropWhile (\<lambda>c. \<not> is_space c) y) < length y"
    using y(2) by (cases y) (simp_all add: le_imp_less_Suc length_dropWhile_le)
  also have "\<dots> \<le> length x" unfolding y(1) skip_space_def by (rule length_dropWhile_le)
  finally show "(dropWhile (\<lambda>c. \<not> is_space c) y, x) \<in> measure length" by simp
qed simp

declare split_words.simps [simp del]

definition rule_words :: "string \<Rightarrow> string list" where
  "rule_words str = split_words (cstr str)"

subsection \<open>Building the tree\<close>

datatype genNode = Leaf_Field field | Leaf_Value string | NonLeaf oprType genNode genNode

fun is_leaf :: "genNode \<Rightarrow> bool" where
  "is_leaf (NonLeaf op l r) = False"
| "is_leaf n = True"

text \<open>A string operator over a tree fails an assertion: None. A left value leaf has no type.\<close>

definition checkInvalidOpr :: "oprType \<Rightarrow> genNode \<Rightarrow> genNode \<Rightarrow> bool option" where
  "checkInvalidOpr op l r =
     (if strType op then
        (case l of
           NonLeaf _ _ _ \<Rightarrow> None
         | Leaf_Value _ \<Rightarrow> Some False
         | Leaf_Field f \<Rightarrow> Some (is_string_field f \<and> is_leaf r))
      else
        (case l of
           NonLeaf _ _ _ \<Rightarrow> Some (\<not> is_leaf r)
         | Leaf_Value _ \<Rightarrow> Some False
         | Leaf_Field f \<Rightarrow> Some (op \<noteq> OR_op \<and> op \<noteq> AND_op \<and> is_leaf r)))"

text \<open>
  The result of building is None for a failed assertion, and otherwise the tree or its
  rejection. \<open>close_group\<close> is the loop at a closing parenthesis, \<open>finish\<close> the one at the end.
\<close>

definition reduce :: "oprType \<Rightarrow> genNode list \<Rightarrow> genNode list option option" where
  "reduce op opnds = (case opnds of
     r # l # rest \<Rightarrow> map_option (\<lambda>ok. if ok then Some (NonLeaf op l r # rest) else None) (checkInvalidOpr op l r)
   | _ \<Rightarrow> Some None)"

fun close_group :: "oprType list \<Rightarrow> genNode list \<Rightarrow> (oprType list \<times> genNode list) option option" where
  "close_group [] opnds = Some (Some ([], opnds))"
| "close_group (op # oprs) opnds =
     (if op = BrcsStr \<or> length opnds \<le> 1 then Some (Some (op # oprs, opnds))
      else (case reduce op opnds of
              Some (Some opnds) \<Rightarrow> close_group oprs opnds | Some None \<Rightarrow> Some None | None \<Rightarrow> None))"

fun finish :: "oprType list \<Rightarrow> genNode list \<Rightarrow> genNode option option" where
  "finish [] opnds = Some (case opnds of [NonLeaf op l r] \<Rightarrow> Some (NonLeaf op l r) | _ \<Rightarrow> None)"
| "finish (op # oprs) opnds =
     (case reduce op opnds of
        Some (Some opnds) \<Rightarrow> finish oprs opnds | Some None \<Rightarrow> Some None | None \<Rightarrow> None)"

text \<open>
  The loop over the tokens. An operator that binds weaker than the top of the stack reduces
  the stack once, not until the top binds weaker.
\<close>

fun build :: "rule_token list \<Rightarrow> oprType list \<Rightarrow> genNode list \<Rightarrow> genNode option option" where
  "build [] oprs opnds = finish oprs opnds"
| "build (T_Field f # ts) oprs opnds = build ts oprs (Leaf_Field f # opnds)"
| "build (T_Value v # ts) oprs opnds = build ts oprs (Leaf_Value v # opnds)"
| "build (T_Opr op # ts) oprs opnds =
     (if op = BrcsStp then
        (case close_group oprs opnds of
           Some (Some (BrcsStr # oprs, opnds)) \<Rightarrow> build ts oprs opnds | Some _ \<Rightarrow> Some None | None \<Rightarrow> None)
      else if oprs = [] \<or> hd oprs \<le> op \<or> hd oprs = BrcsStr then build ts (op # oprs) opnds
      else (case reduce (hd oprs) opnds of
              Some (Some opnds) \<Rightarrow> build ts (op # tl oprs) opnds | Some None \<Rightarrow> Some None | None \<Rightarrow> None))"

definition buildTree :: "string \<Rightarrow> genNode option option" where
  "buildTree str = build (map getNextToken (rule_words str)) [] []"

subsection \<open>Evaluation\<close>

text \<open>The record with the times that the log manager adds when it publishes it.\<close>

record rule_data = mc_logger +
  rd_res_time :: int
  rd_serial_time :: int

fun string_field :: "field \<Rightarrow> 'a rule_data_scheme \<Rightarrow> string option option" where
  "string_field F_host d = Some (lg_host d)"
| "string_field F_key d = Some (lg_key d)"
| "string_field F_command d = Some (lg_command d)"
| "string_field f d = None"

fun int_field :: "field \<Rightarrow> 'a rule_data_scheme \<Rightarrow> int option" where
  "int_field F_flags d = Some (lg_flags d)"
| "int_field F_res_code d = Some (lg_res_code d)"
| "int_field F_res_time d = Some (c_int (rd_res_time d))"
| "int_field F_res_len d = Some (c_int (lg_res_len d))"
| "int_field F_serial_time d = Some (c_int (rd_serial_time d))"
| "int_field F_expiry d = Some (c_int (lg_expiry d))"
| "int_field f d = None"

text \<open>The two \<open>eval\<close> methods of the operators; the one on integers is not defined for string operators.\<close>

fun eval_int :: "oprType \<Rightarrow> int \<Rightarrow> int \<Rightarrow> bool option" where
  "eval_int EQ_op a b = Some (a = b)"
| "eval_int GT_op a b = Some (b < a)"
| "eval_int LT_op a b = Some (a < b)"
| "eval_int AND_op a b = Some (a AND b \<noteq> 0)"
| "eval_int OR_op a b = Some (a OR b \<noteq> 0)"
| "eval_int BrcsStr a b = Some False"
| "eval_int BrcsStp a b = Some False"
| "eval_int op a b = None"

fun eval_string :: "oprType \<Rightarrow> string option \<Rightarrow> string \<Rightarrow> bool option" where
  "eval_string CTN_op a b = Some (case a of None \<Rightarrow> False | Some a \<Rightarrow> first_occurrence (cstr a) b \<noteq> None)"
| "eval_string SEQ_op a b = Some (case a of None \<Rightarrow> False | Some a \<Rightarrow> cstr a = b)"
| "eval_string PM_op a b = Some (case a of None \<Rightarrow> False | Some a \<Rightarrow> take (length b) (cstr a) = b)"
| "eval_string op a b = None"

text \<open>
  A comparison of leaves. The text of a field on the right is empty, its number is not
  initialised; a string field read as an \<open>int\<close> is a part of a pointer: undefined here.
\<close>

fun leaf_string :: "genNode \<Rightarrow> string option" where
  "leaf_string (Leaf_Value v) = Some v"
| "leaf_string (Leaf_Field f) = Some []"
| "leaf_string (NonLeaf op l r) = None"

fun leaf_int :: "genNode \<Rightarrow> int option" where
  "leaf_int (Leaf_Value v) = Some (atoi v)"
| "leaf_int n = None"

definition eval_leaves :: "oprType \<Rightarrow> genNode \<Rightarrow> genNode \<Rightarrow> 'a rule_data_scheme \<Rightarrow> bool option" where
  "eval_leaves op l r d = (case l of
     Leaf_Field f \<Rightarrow>
       if strType op then do { a \<leftarrow> string_field f d; b \<leftarrow> leaf_string r; eval_string op a b }
       else do { a \<leftarrow> int_field f d; b \<leftarrow> leaf_int r; eval_int op a b }
   | _ \<Rightarrow> None)"

definition shortcircuit :: "oprType \<Rightarrow> bool \<Rightarrow> bool" where
  "shortcircuit op result = (if result then op = OR_op else op = AND_op)"

fun evaluateTree :: "genNode \<Rightarrow> 'a rule_data_scheme \<Rightarrow> bool option" where
  "evaluateTree (NonLeaf op l r) d =
     (if is_leaf l then eval_leaves op l r d
      else do {
        result1 \<leftarrow> evaluateTree l d;
        if shortcircuit op result1 then Some result1
        else do {
          result2 \<leftarrow> evaluateTree r d;
          eval_int op (of_bool result1) (of_bool result2)
        }
      })"
| "evaluateTree n d = None"

subsection \<open>The trees that are built\<close>

text \<open>
  A tree that passed the checks: comparisons of a field with a leaf, of the field's kind for
  string operators, and numeric operators over two trees.
\<close>

fun tree_ok :: "genNode \<Rightarrow> bool" where
  "tree_ok (NonLeaf op l r) \<longleftrightarrow> op \<noteq> NEQ_op \<and>
     (if is_leaf l then is_leaf r \<and> checkInvalidOpr op l r = Some True
      else \<not> is_leaf r \<and> \<not> strType op \<and> tree_ok l \<and> tree_ok r)"
| "tree_ok n \<longleftrightarrow> True"

text \<open>Numeric comparisons are between a numeric field and a value.\<close>

fun values_compared :: "genNode \<Rightarrow> bool" where
  "values_compared (NonLeaf op (Leaf_Field f) r) \<longleftrightarrow> strType op \<or> \<not> is_string_field f \<and> (\<exists>v. r = Leaf_Value v)"
| "values_compared (NonLeaf op l r) \<longleftrightarrow> values_compared l \<and> values_compared r"
| "values_compared n \<longleftrightarrow> True"

abbreviation trees_ok :: "genNode list \<Rightarrow> bool" where
  "trees_ok opnds \<equiv> \<forall>n \<in> set opnds. tree_ok n"

lemma checked_ok:
  "checkInvalidOpr op l r = Some True \<Longrightarrow> op \<noteq> NEQ_op \<Longrightarrow> tree_ok l \<Longrightarrow> tree_ok r \<Longrightarrow> tree_ok (NonLeaf op l r)"
  by (auto simp: checkInvalidOpr_def split: if_splits genNode.splits)

lemma reduce_ok: "reduce op opnds = Some (Some opnds') \<Longrightarrow> op \<noteq> NEQ_op \<Longrightarrow> trees_ok opnds \<Longrightarrow> trees_ok opnds'"
  by (auto simp: reduce_def split: list.splits if_splits intro: checked_ok simp del: tree_ok.simps)

lemma finish_ok:
  "finish oprs opnds = Some (Some t) \<Longrightarrow> NEQ_op \<notin> set oprs \<Longrightarrow> trees_ok opnds \<Longrightarrow> tree_ok t \<and> \<not> is_leaf t"
  by (induction oprs opnds rule: finish.induct) (auto split: list.splits genNode.splits option.splits dest: reduce_ok)

lemma close_group_ok:
  "close_group oprs opnds = Some (Some (oprs', opnds')) \<Longrightarrow> NEQ_op \<notin> set oprs \<Longrightarrow> trees_ok opnds \<Longrightarrow>
    NEQ_op \<notin> set oprs' \<and> trees_ok opnds'"
  by (induction oprs opnds rule: close_group.induct) (auto split: option.splits if_splits dest: reduce_ok)

lemma build_ok:
  "build ts oprs opnds = Some (Some t) \<Longrightarrow> T_Opr NEQ_op \<notin> set ts \<Longrightarrow> NEQ_op \<notin> set oprs \<Longrightarrow> trees_ok opnds \<Longrightarrow>
    tree_ok t \<and> \<not> is_leaf t"
proof (induction ts oprs opnds rule: build.induct)
  case (4 op ts oprs opnds)
  show ?case
  proof (cases "op = BrcsStp")
    case True
    with "4.prems"(1) obtain oprs' opnds' where c: "close_group oprs opnds = Some (Some (BrcsStr # oprs', opnds'))"
      "build ts oprs' opnds' = Some (Some t)"
      by (auto split: option.splits list.splits oprType.splits)
    show ?thesis
      using "4.IH"(1) [OF True c(1) refl refl refl refl c(2)] close_group_ok [OF c(1) "4.prems"(3,4)] "4.prems"(2) by simp
  next
    case False
    have "NEQ_op \<notin> set (op # tl oprs)" using "4.prems"(2,3) by (cases oprs) auto
    moreover have "oprs \<noteq> [] \<Longrightarrow> hd oprs \<noteq> NEQ_op" using "4.prems"(3) by (cases oprs) auto
    ultimately show ?thesis using False "4.prems" "4.IH"(2,3) by (auto split: option.splits if_splits dest: reduce_ok)
  qed
qed (simp_all add: finish_ok)

lemma getNextToken_known: "getNextToken w \<noteq> T_Opr NEQ_op"
proof -
  have "map_of opr_names w \<noteq> Some NEQ_op" by (simp add: opr_names_def)
  then show ?thesis by (auto simp: getNextToken_def split: option.split)
qed

lemma eval_leaves_defined:
  assumes "tree_ok (NonLeaf op l r)" "is_leaf l" "values_compared (NonLeaf op l r)"
  shows "eval_leaves op l r d \<noteq> None"
proof -
  from assms obtain f where l: "l = Leaf_Field f" by (auto simp: checkInvalidOpr_def split: genNode.splits if_splits)
  show ?thesis
  proof (cases "strType op")
    case True
    then show ?thesis using assms unfolding l
      by (cases f; cases r) (auto simp: eval_leaves_def strType_def checkInvalidOpr_def is_string_field_def)
  next
    case False
    then show ?thesis using assms unfolding l
      by (cases f; cases op) (auto simp: eval_leaves_def strType_def checkInvalidOpr_def is_string_field_def)
  qed
qed

lemma eval_int_defined: "\<not> strType op \<Longrightarrow> op \<noteq> NEQ_op \<Longrightarrow> eval_int op a b \<noteq> None"
  by (cases op) (simp_all add: strType_def)

lemma evaluate_defined: "tree_ok t \<Longrightarrow> \<not> is_leaf t \<Longrightarrow> values_compared t \<Longrightarrow> evaluateTree t d \<noteq> None"
proof (induction t)
  case (NonLeaf op l r)
  show ?case
  proof (cases "is_leaf l")
    case True
    then show ?thesis using eval_leaves_defined [OF NonLeaf.prems(1) True NonLeaf.prems(3)] by simp
  next
    case False
    then have "values_compared l \<and> values_compared r" using NonLeaf.prems(3) by (cases l) simp_all
    then show ?thesis using False NonLeaf eval_int_defined [of op] by (auto split: if_splits)
  qed
qed simp_all

text \<open>C18. A rule that is accepted has a well-formed tree: every operator has two leaves or two trees
  below it, a comparison has a field on its left, of string type for the string operators, and no string
  operator is above trees, so that no evaluation takes a tree for a leaf or compares trees as strings. If
  moreover its numeric comparisons are of a numeric field with a value, its evaluation is defined for every record.\<close>
theorem buildTree_sound:
  assumes "buildTree rule = Some (Some t)"
  shows "tree_ok t \<and> \<not> is_leaf t \<and> (values_compared t \<longrightarrow> evaluateTree t d \<noteq> None)"
proof -
  have "T_Opr NEQ_op \<notin> set (map getNextToken (rule_words rule))"
    using getNextToken_known by (metis ex_map_conv)
  then show ?thesis using build_ok [OF assms [unfolded buildTree_def]] evaluate_defined by auto
qed

definition ex_record :: rule_data where
  "ex_record = \<lparr>lg_host = None, lg_key = Some ''user:1'', lg_command = Some ''get'', lg_flags = 5, lg_res_code = 3,
     lg_res_len = 0, lg_expiry = 0, lg_log_name = [], lg_cas = 0, lg_ctype = OTHERS, rd_res_time = 0, rd_serial_time = 0\<rparr>"

lemma buildTree_sound_witness:
  "\<exists>t. buildTree ''flags > 3'' = Some (Some t) \<and> tree_ok t \<and> evaluateTree t ex_record \<noteq> None"
proof -
  have b: "buildTree ''flags > 3'' = Some (Some (NonLeaf GT_op (Leaf_Field F_flags) (Leaf_Value ''3'')))" by code_simp
  show ?thesis using buildTree_sound [OF b] b by (simp add: is_string_field_def)
qed

end
