(* ===== verification/Rule_Meaning.thy ===== *)
theory Rule_Meaning
  imports Rule_Parser
begin

text \<open>
  What rules mean: a rule written with parentheses around the operands of \<open>&\<close> and \<open>|\<close> is
  parsed into the tree of its formula, whose evaluation is the formula's truth value. Without
  parentheses the operators do not bind as in C.
\<close>

subsection \<open>Words\<close>

fun join_words :: "string list \<Rightarrow> string" where
  "join_words [] = []"
| "join_words [w] = w"
| "join_words (w # ws) = w @ '' '' @ join_words ws"

definition plain_word :: "string \<Rightarrow> bool" where
  "plain_word w \<longleftrightarrow> w \<noteq> [] \<and> (\<forall>c \<in> set w. \<not> is_space c \<and> c \<noteq> CHR 0x00)"

lemma split_words_cons:
  assumes "plain_word w" "r = [] \<or> (\<exists>r'. r = CHR '' '' # r')"
  shows "split_words (w @ r) = w # split_words r"
proof -
  have w: "\<forall>c \<in> set w. \<not> is_space c" "w \<noteq> []" using assms(1) by (auto simp: plain_word_def)
  have r: "takeWhile (\<lambda>c. \<not> is_space c) r = []" "dropWhile (\<lambda>c. \<not> is_space c) r = r"
    using assms(2) by (auto simp: is_space_def)
  have "skip_space (w @ r) = w @ r" using w by (cases w) (simp_all add: skip_space_def)
  then show ?thesis using w r by (subst split_words.simps) (simp add: Let_def)
qed

lemma split_words_space: "split_words (CHR '' '' # x) = split_words x"
  by (subst (1 2) split_words.simps) (simp add: skip_space_def is_space_def)

lemma split_words_join: "\<forall>w \<in> set ws. plain_word w \<Longrightarrow> split_words (join_words ws) = ws"
proof (induction ws rule: join_words.induct)
  case 1
  show ?case by (simp add: split_words.simps skip_space_def)
next
  case (2 w)
  have "split_words [] = []" by (simp add: split_words.simps skip_space_def)
  then show ?case using split_words_cons [of w "[]"] 2 by simp
next
  case (3 w v ws)
  then show ?case using split_words_cons [of w "'' '' @ join_words (v # ws)"] by (simp add: split_words_space)
qed

lemma rule_words_join:
  assumes "\<forall>w \<in> set ws. plain_word w"
  shows "rule_words (join_words ws) = ws"
proof -
  have "CHR 0x00 \<notin> set (join_words ws)" using assms
    by (induction ws rule: join_words.induct) (auto simp: plain_word_def)
  then show ?thesis using split_words_join [OF assms] by (simp add: rule_words_def)
qed

subsection \<open>Formulas\<close>

datatype formula = Cmp field oprType string | Both formula formula | Either formula formula

fun formula_ok :: "formula \<Rightarrow> bool" where
  "formula_ok (Cmp f op v) \<longleftrightarrow> op \<in> (if is_string_field f then {CTN_op, SEQ_op, PM_op} else {EQ_op, GT_op, LT_op}) \<and>
     plain_word v \<and> getNextToken v = T_Value v"
| "formula_ok (Both a b) \<longleftrightarrow> formula_ok a \<and> formula_ok b"
| "formula_ok (Either a b) \<longleftrightarrow> formula_ok a \<and> formula_ok b"

definition field_word :: "field \<Rightarrow> string" where
  "field_word f = fst (hd (filter (\<lambda>(w, g). g = f) field_names))"

definition opr_word :: "oprType \<Rightarrow> string" where
  "opr_word op = fst (hd (filter (\<lambda>(w, g). g = op) opr_names))"

fun rule_text :: "formula \<Rightarrow> string list" where
  "rule_text (Cmp f op v) = [field_word f, opr_word op, v]"
| "rule_text (Both a b) = [''(''] @ rule_text a @ ['')'', ''&'', ''(''] @ rule_text b @ ['')'']"
| "rule_text (Either a b) = [''(''] @ rule_text a @ ['')'', ''|'', ''(''] @ rule_text b @ ['')'']"

fun rule_tokens :: "formula \<Rightarrow> rule_token list" where
  "rule_tokens (Cmp f op v) = [T_Field f, T_Opr op, T_Value v]"
| "rule_tokens (Both a b) = [T_Opr BrcsStr] @ rule_tokens a @ [T_Opr BrcsStp, T_Opr AND_op, T_Opr BrcsStr]
     @ rule_tokens b @ [T_Opr BrcsStp]"
| "rule_tokens (Either a b) = [T_Opr BrcsStr] @ rule_tokens a @ [T_Opr BrcsStp, T_Opr OR_op, T_Opr BrcsStr]
     @ rule_tokens b @ [T_Opr BrcsStp]"

fun tree_of :: "formula \<Rightarrow> genNode" where
  "tree_of (Cmp f op v) = NonLeaf op (Leaf_Field f) (Leaf_Value v)"
| "tree_of (Both a b) = NonLeaf AND_op (tree_of a) (tree_of b)"
| "tree_of (Either a b) = NonLeaf OR_op (tree_of a) (tree_of b)"

text \<open>The truth value of a formula in a record.\<close>

definition compare_field :: "field \<Rightarrow> oprType \<Rightarrow> string \<Rightarrow> 'a rule_data_scheme \<Rightarrow> bool" where
  "compare_field f op v d = (case string_field f d of
     Some a \<Rightarrow> eval_string op a v = Some True
   | None \<Rightarrow> (case int_field f d of Some i \<Rightarrow> eval_int op i (atoi v) = Some True | None \<Rightarrow> False))"

fun meaning :: "formula \<Rightarrow> 'a rule_data_scheme \<Rightarrow> bool" where
  "meaning (Cmp f op v) d = compare_field f op v d"
| "meaning (Both a b) d = (meaning a d \<and> meaning b d)"
| "meaning (Either a b) d = (meaning a d \<or> meaning b d)"

lemma field_word_token: "getNextToken (field_word f) = T_Field f"
  by (cases f) (simp_all add: getNextToken_def field_word_def field_names_def)

lemma opr_word_token: "op \<noteq> NEQ_op \<Longrightarrow> getNextToken (opr_word op) = T_Opr op"
  by (cases op) (simp_all add: getNextToken_def opr_word_def opr_names_def field_names_def)

lemma sign_tokens:
  "getNextToken ''('' = T_Opr BrcsStr" "getNextToken '')'' = T_Opr BrcsStp"
  "getNextToken ''&'' = T_Opr AND_op" "getNextToken ''|'' = T_Opr OR_op"
  by (simp_all add: getNextToken_def opr_names_def field_names_def)

lemmas getNextToken_words = field_word_token opr_word_token sign_tokens

lemma rule_text_tokens: "formula_ok f \<Longrightarrow> map getNextToken (rule_text f) = rule_tokens f"
  by (induction f) (auto simp: getNextToken_words split: if_splits)

lemma field_word_plain: "plain_word (field_word f)"
  by (cases f) (simp_all add: plain_word_def field_word_def field_names_def is_space_def)

lemma opr_word_plain: "op \<noteq> NEQ_op \<Longrightarrow> plain_word (opr_word op)"
  by (cases op) (simp_all add: plain_word_def opr_word_def opr_names_def is_space_def)

lemma signs_plain: "plain_word ''(''" "plain_word '')''" "plain_word ''&''" "plain_word ''|''"
  by (simp_all add: plain_word_def is_space_def)

lemmas plain_words = field_word_plain opr_word_plain signs_plain

lemma rule_text_plain: "formula_ok f \<Longrightarrow> \<forall>w \<in> set (rule_text f). plain_word w"
  by (induction f) (auto simp: plain_words split: if_splits)

subsection \<open>Parsing a formula\<close>

lemma tree_of_inner [simp]: "\<not> is_leaf (tree_of f)"
  by (cases f) simp_all

lemma checked_formula:
  "formula_ok (Cmp f op v) \<Longrightarrow> checkInvalidOpr op (Leaf_Field f) (Leaf_Value v) = Some True"
  "op \<in> {AND_op, OR_op} \<Longrightarrow> \<not> is_leaf l \<Longrightarrow> \<not> is_leaf r \<Longrightarrow> checkInvalidOpr op l r = Some True"
  by (auto simp: checkInvalidOpr_def strType_def split: if_splits genNode.splits)

lemma reduce_inner [simp]:
  "op \<in> {AND_op, OR_op} \<Longrightarrow> reduce op (tree_of b # tree_of a # opnds) = Some (Some (NonLeaf op (tree_of a) (tree_of b) # opnds))"
  by (simp add: reduce_def checked_formula)

lemma reduce_cmp:
  "formula_ok (Cmp f op v) \<Longrightarrow>
    reduce op (Leaf_Value v # Leaf_Field f # opnds) = Some (Some (NonLeaf op (Leaf_Field f) (Leaf_Value v) # opnds))"
  by (simp add: reduce_def checked_formula del: formula_ok.simps)

text \<open>The steps of the loop at an operator, as the parses below take them.\<close>

lemma build_push:
  "op \<noteq> BrcsStp \<Longrightarrow> oprs = [] \<or> hd oprs \<le> op \<or> hd oprs = BrcsStr \<Longrightarrow>
    build (T_Opr op # ts) oprs opnds = build ts (op # oprs) opnds"
  by simp

lemma below_open: "op \<noteq> BrcsStp \<Longrightarrow> op \<le> BrcsStr"
  by (cases op) (simp_all add: less_eq_oprType_def)

lemma build_open:
  "BrcsStp \<notin> set oprs \<Longrightarrow> build (T_Opr BrcsStr # ts) oprs opnds = build ts (BrcsStr # oprs) opnds"
  using below_open by (cases oprs) auto

lemma build_close:
  "op \<noteq> BrcsStr \<Longrightarrow> reduce op (r # l # opnds) = Some (Some (n # opnds)) \<Longrightarrow>
    build (T_Opr BrcsStp # ts) (op # BrcsStr # oprs) (r # l # opnds) = build ts oprs (n # opnds)"
  by simp

lemma formula_opr: "formula_ok (Cmp f op v) \<Longrightarrow> op \<noteq> BrcsStr \<and> op \<noteq> BrcsStp \<and> op \<noteq> NEQ_op \<and> \<not> op \<le> AND_op \<and> \<not> op \<le> OR_op"
  by (auto simp: less_eq_oprType_def split: if_splits)

declare build.simps(4) [simp del] formula_ok.simps(1) [simp del]

lemma build_cmp:
  assumes "formula_ok (Cmp f op v)" "oprs = [] \<or> hd oprs \<in> {AND_op, OR_op, BrcsStr}"
  shows "build (rule_tokens (Cmp f op v) @ ts) oprs opnds = build ts (op # oprs) (Leaf_Value v # Leaf_Field f # opnds)"
proof -
  have "oprs = [] \<or> hd oprs \<le> op \<or> hd oprs = BrcsStr" "op \<noteq> BrcsStp"
    using assms(2) formula_opr [OF assms(1)] by (auto simp: less_eq_oprType_def)
  then show ?thesis by (simp add: build_push)
qed

lemma build_group:
  assumes "formula_ok f" "BrcsStp \<notin> set oprs"
  shows "build (T_Opr BrcsStr # rule_tokens f @ T_Opr BrcsStp # ts) oprs opnds = build ts oprs (tree_of f # opnds)"
  using assms
proof (induction f arbitrary: ts oprs opnds)
  case (Cmp f op v)
  then show ?case using build_cmp [OF Cmp(1), of "BrcsStr # oprs"]
    by (simp add: build_open build_close reduce_cmp formula_opr [OF Cmp(1)] del: rule_tokens.simps)
next
  case (Both a b)
  then show ?case by (simp add: build_open [of oprs] build_push [of AND_op] build_close)
next
  case (Either a b)
  then show ?case by (simp add: build_open [of oprs] build_push [of OR_op] build_close)
qed

lemma finish_one: "reduce op opnds = Some (Some [NonLeaf op l r]) \<Longrightarrow> finish [op] opnds = Some (Some (NonLeaf op l r))"
  by simp

lemma build_formula:
  assumes "formula_ok f"
  shows "build (rule_tokens f) [] [] = Some (Some (tree_of f))"
proof (cases f)
  case (Cmp x op v)
  then show ?thesis using build_cmp [of x op v "[]" "[]" "[]"] assms by (simp add: reduce_cmp del: rule_tokens.simps)
next
  case (Both a b)
  then show ?thesis
    using assms build_group [of a "[]" "T_Opr AND_op # T_Opr BrcsStr # rule_tokens b @ [T_Opr BrcsStp]" "[]"]
      build_group [of b "[AND_op]" "[]" "[tree_of a]"] by (simp add: build_push)
next
  case (Either a b)
  then show ?thesis
    using assms build_group [of a "[]" "T_Opr OR_op # T_Opr BrcsStr # rule_tokens b @ [T_Opr BrcsStp]" "[]"]
      build_group [of b "[OR_op]" "[]" "[tree_of a]"] by (simp add: build_push)
qed

lemma evaluate_formula: "formula_ok f \<Longrightarrow> evaluateTree (tree_of f) d = Some (meaning f d)"
proof (induction f)
  case (Cmp f op v)
  then show ?case
    by (cases f) (auto simp: formula_ok.simps eval_leaves_def strType_def is_string_field_def compare_field_def)
qed (auto simp: shortcircuit_def)

text \<open>C6. A rule whose \<open>&\<close> and \<open>|\<close> have their operands in parentheses is accepted, and evaluating
  its tree gives the truth value of the formula in every record: the stack parser, the checks,
  the field access and the short circuit together implement the logic.\<close>
theorem rule_meaning:
  assumes "formula_ok f"
  shows "\<exists>t. buildTree (join_words (rule_text f)) = Some (Some t) \<and> (\<forall>d :: 'a rule_data_scheme. evaluateTree t d = Some (meaning f d))"
  using assms rule_words_join [OF rule_text_plain [OF assms]] rule_text_tokens [OF assms] build_formula evaluate_formula
  by (auto simp: buildTree_def)

lemma rule_meaning_witness:
  "\<exists>t. buildTree ''( key prefix user ) & ( flags > 3 )'' = Some (Some t) \<and> evaluateTree t ex_record = Some True"
proof -
  let ?f = "Both (Cmp F_key PM_op ''user'') (Cmp F_flags GT_op ''3'')"
  have ok: "formula_ok ?f" by code_simp
  have m: "meaning ?f ex_record" by code_simp
  have r: "join_words (rule_text ?f) = ''( key prefix user ) & ( flags > 3 )''" by code_simp
  obtain t where "buildTree (join_words (rule_text ?f)) = Some (Some t)" "evaluateTree t ex_record = Some (meaning ?f ex_record)"
    using rule_meaning [OF ok] by blast
  then show ?thesis unfolding r using m by (simp only: simp_thms ex_simps) blast
qed

text \<open>Three comparisons without parentheses.\<close>

definition flat_rule :: "formula \<Rightarrow> string \<Rightarrow> formula \<Rightarrow> string \<Rightarrow> formula \<Rightarrow> string" where
  "flat_rule a x b y c = join_words (rule_text a @ x # rule_text b @ y # rule_text c)"

lemma build_weaker:
  "formula_ok (Cmp f op v) \<Longrightarrow> w \<in> {AND_op, OR_op} \<Longrightarrow>
    build (T_Opr w # ts) (op # oprs) (Leaf_Value v # Leaf_Field f # opnds) =
    build ts (w # oprs) (tree_of (Cmp f op v) # opnds)"
  using formula_opr [of f op v] by (auto simp: build.simps(4) reduce_cmp)

lemma buildTree_flat:
  assumes "formula_ok (Cmp f1 o1 v1)" "formula_ok (Cmp f2 o2 v2)" "formula_ok (Cmp f3 o3 v3)"
  shows "buildTree (flat_rule (Cmp f1 o1 v1) ''&'' (Cmp f2 o2 v2) ''|'' (Cmp f3 o3 v3)) =
      Some (Some (tree_of (Both (Cmp f1 o1 v1) (Either (Cmp f2 o2 v2) (Cmp f3 o3 v3)))))"
proof -
  let ?a = "Cmp f1 o1 v1" and ?b = "Cmp f2 o2 v2" and ?c = "Cmp f3 o3 v3"
  let ?ws = "rule_text ?a @ ''&'' # rule_text ?b @ ''|'' # rule_text ?c"
  have p: "\<forall>w \<in> set ?ws. plain_word w"
    using rule_text_plain [OF assms(1)] rule_text_plain [OF assms(2)] rule_text_plain [OF assms(3)] signs_plain
    by (simp only: set_append list.set ball_Un ball_simps)
  have "map getNextToken ?ws = rule_tokens ?a @ T_Opr AND_op # rule_tokens ?b @ T_Opr OR_op # rule_tokens ?c"
    using assms by (simp only: map_append list.map rule_text_tokens sign_tokens)
  then have "buildTree (flat_rule ?a ''&'' ?b ''|'' ?c) =
      build (rule_tokens ?a @ T_Opr AND_op # rule_tokens ?b @ T_Opr OR_op # rule_tokens ?c @ []) [] []"
    by (simp only: buildTree_def flat_rule_def rule_words_join [OF p] append_Nil2)
  also have "\<dots> = build (rule_tokens ?c @ []) [OR_op, AND_op] [tree_of ?b, tree_of ?a]"
    using assms by (simp add: build_cmp build_weaker del: rule_tokens.simps tree_of.simps append_Nil2)
  also have "\<dots> = finish [o3, OR_op, AND_op] [Leaf_Value v3, Leaf_Field f3, tree_of ?b, tree_of ?a]"
    using build_cmp [OF assms(3), of "[OR_op, AND_op]"] by simp
  also have "\<dots> = finish [OR_op, AND_op] [tree_of ?c, tree_of ?b, tree_of ?a]"
    using assms by (simp add: reduce_cmp)
  also have "\<dots> = Some (Some (tree_of (Both ?a (Either ?b ?c))))"
    using reduce_inner [of OR_op ?c ?b "[tree_of ?a]"] reduce_inner [of AND_op "Either ?b ?c" ?a "[]"] by simp
  finally show ?thesis .
qed

text \<open>C32. Without parentheses \<open>a & b | c\<close> is read as \<open>a & (b | c)\<close>: when the weaker operator comes the
  parser reduces its stack once, and the \<open>|\<close> takes the right operand of the \<open>&\<close>. In every record the rule
  is true as \<open>a & (b | c)\<close>, not as \<open>(a & b) | c\<close>.\<close>
theorem rule_precedence:
  assumes "formula_ok (Cmp f1 o1 v1)" "formula_ok (Cmp f2 o2 v2)" "formula_ok (Cmp f3 o3 v3)"
  shows "\<exists>t. buildTree (flat_rule (Cmp f1 o1 v1) ''&'' (Cmp f2 o2 v2) ''|'' (Cmp f3 o3 v3)) = Some (Some t) \<and>
    (\<forall>d :: 'a rule_data_scheme. evaluateTree t d =
       Some (compare_field f1 o1 v1 d \<and> (compare_field f2 o2 v2 d \<or> compare_field f3 o3 v3 d)))"
  using buildTree_flat [OF assms]
    evaluate_formula [of "Both (Cmp f1 o1 v1) (Either (Cmp f2 o2 v2) (Cmp f3 o3 v3))"] assms
  by (metis formula_ok.simps(2,3) meaning.simps)

lemma rule_precedence_witness:
  "\<exists>t. buildTree ''flags = 1 & flags > 3 | reslen < 7'' = Some (Some t) \<and> evaluateTree t ex_record = Some False"
proof -
  let ?a = "Cmp F_flags EQ_op ''1''" and ?b = "Cmp F_flags GT_op ''3''" and ?c = "Cmp F_res_len LT_op ''7''"
  have ok: "formula_ok ?a" "formula_ok ?b" "formula_ok ?c" by code_simp+
  have m: "\<not> compare_field F_flags EQ_op ''1'' ex_record" by code_simp
  have r: "flat_rule ?a ''&'' ?b ''|'' ?c = ''flags = 1 & flags > 3 | reslen < 7''" by code_simp
  obtain t where "buildTree (flat_rule ?a ''&'' ?b ''|'' ?c) = Some (Some t)"
    "evaluateTree t ex_record = Some (compare_field F_flags EQ_op ''1'' ex_record \<and>
       (compare_field F_flags GT_op ''3'' ex_record \<or> compare_field F_res_len LT_op ''7'' ex_record))"
    using rule_precedence [OF ok] by blast
  then show ?thesis unfolding r using m by (simp only: simp_thms ex_simps) blast
qed

end
