(* ===== verification/Log_Output.thy ===== *)
theory Log_Output
  imports Rule_Parser "HOL-Library.Sublist"
begin

text \<open>
  Where log lines go (log.cpp, include/log.h) and the request's own line (\<open>RequestLogger\<close> of
  include/logger.h). Files, syslog and the clocks are the fields of \<open>log_env\<close>, acting on a
  world of any type.
\<close>

subsection \<open>The state of the log\<close>

datatype syslogType = PECL_TYPE | APACHE_TYPE
datatype log_mode = ERRORLOG_STDERR | ERRORLOG_FILE

text \<open>The two subclasses of \<open>logOutPut\<close>: a file with its descriptor and mode, and syslog.\<close>

datatype logOutPut = fileOut int log_mode | syslogOut syslogType

text \<open>A parsed rule with its output (\<open>exprParser\<close>), and the requests' accounting.\<close>

record exprParser =
  ep_root :: genNode
  ep_out :: "logOutPut option"

record RequestLogger =
  rl_enabled :: bool
  rl_out :: "logOutPut option"
  rl_pid :: int
  rl_count :: u64
  rl_getTime :: u64
  rl_setTime :: u64
  rl_otherTime :: u64
  rl_startTime :: timeval
  rl_endTime :: timeval

text \<open>
  \<open>exprMap\<close> is the \<open>std::map\<close> of class \<open>logger\<close>, kept sorted by name; \<open>fileStat_ctime\<close> and
  \<open>lastTime\<close> are the static variables of \<open>statConfigNotChanged\<close>.
\<close>

record 'v log_st =
  exprMap :: "(string \<times> exprParser) list"
  request_logger :: RequestLogger
  errorString :: string
  fileStat_ctime :: int
  lastTime :: int
  log_world :: 'v

text \<open>
  \<open>fd_open\<close> opens a file for appending (-1 when it cannot), \<open>log_prefix\<close> is the time printed by
  \<open>strftime\<close>, \<open>stat_ctime\<close> the change time of a file, when \<open>stat\<close> finds it, \<open>read_file\<close> the
  contents of a file, when it can be opened.
\<close>

record 'v log_env =
  fd_open :: "string \<Rightarrow> 'v \<Rightarrow> int \<times> 'v"
  fd_close :: "int \<Rightarrow> 'v \<Rightarrow> 'v"
  fd_write :: "int \<Rightarrow> string \<Rightarrow> 'v \<Rightarrow> 'v"
  os_openlog :: "'v \<Rightarrow> 'v"
  os_closelog :: "'v \<Rightarrow> 'v"
  os_syslog :: "syslogType \<Rightarrow> string \<Rightarrow> 'v \<Rightarrow> 'v"
  log_prefix :: "'v \<Rightarrow> string \<times> 'v"
  gettimeofday :: "'v \<Rightarrow> timeval \<times> 'v"
  stat_ctime :: "string \<Rightarrow> 'v \<Rightarrow> int option \<times> 'v"
  read_file :: "string \<Rightarrow> 'v \<Rightarrow> string option \<times> 'v"

subsection \<open>Outputs\<close>

definition MAX_LOGBUF_LEN :: nat where "MAX_LOGBUF_LEN = 4096"
definition STDERR_FILENO :: int where "STDERR_FILENO = 2"

text \<open>The message that a failed open prints to stderr is not modelled; the file then is stderr.\<close>

definition fileOut_open :: "'v log_env \<Rightarrow> string option \<Rightarrow> int \<Rightarrow> log_mode \<Rightarrow> 'v \<Rightarrow> int \<times> logOutPut \<times> 'v" where
  "fileOut_open env logFile fd mode w =
     (let (fd, mode, w) = (case (logFile, mode) of
            (Some f, ERRORLOG_FILE) \<Rightarrow>
              (let (fd, w) = fd_open env f w in (fd, if fd = -1 then ERRORLOG_STDERR else mode, w))
          | _ \<Rightarrow> (fd, mode, w));
          fd = (if mode = ERRORLOG_STDERR then STDERR_FILENO else fd)
      in (0, fileOut fd mode, w))"

definition log_open :: "'v log_env \<Rightarrow> logOutPut \<Rightarrow> string \<Rightarrow> 'v \<Rightarrow> int \<times> logOutPut \<times> 'v" where
  "log_open env out p w = (case out of
     fileOut fd mode \<Rightarrow> fileOut_open env (Some (cstr p)) fd mode w
   | syslogOut t \<Rightarrow> (0, syslogOut t, os_openlog env w))"

definition log_close :: "'v log_env \<Rightarrow> logOutPut \<Rightarrow> 'v \<Rightarrow> 'v" where
  "log_close env out w = (case out of
     fileOut fd mode \<Rightarrow> if mode = ERRORLOG_FILE \<and> fd \<noteq> -1 then fd_close env fd w else w
   | syslogOut t \<Rightarrow> os_closelog env w)"

text \<open>
  A line in the static buffer of \<open>MAX_LOGBUF_LEN\<close> bytes. \<open>vsnprintf\<close> leaves room for the line
  end and returns the length of the whole text; the file output adds it without a limit and
  writes the line end there: None when that is behind the buffer.
\<close>

definition fileOut_write :: "'v log_env \<Rightarrow> int \<Rightarrow> string \<Rightarrow> 'v \<Rightarrow> (int \<times> 'v) option" where
  "fileOut_write env fd text w =
     (let (stamp, w) = log_prefix env w;
          used = length stamp + length text;
          buf = stamp @ take (MAX_LOGBUF_LEN - length stamp - 3) text
      in if MAX_LOGBUF_LEN \<le> used + 1 then None
         else Some (0, fd_write env fd (buf @ replicate (used - length buf) (CHR 0x00) @ [CHR 0x0A]) w))"

definition syslog_line :: "string \<Rightarrow> string" where
  "syslog_line text = (let buf = take (MAX_LOGBUF_LEN - 3) text; used = min (length text) (MAX_LOGBUF_LEN - 2)
     in cstr (buf @ replicate (used - length buf) (CHR 0x00) @ [CHR 0x0A]))"

definition syslogOut_write :: "'v log_env \<Rightarrow> syslogType \<Rightarrow> string \<Rightarrow> 'v \<Rightarrow> (int \<times> 'v) option" where
  "syslogOut_write env t text w = Some (0, os_syslog env t (syslog_line text) w)"

definition log_write :: "'v log_env \<Rightarrow> logOutPut \<Rightarrow> string \<Rightarrow> 'v \<Rightarrow> (int \<times> 'v) option" where
  "log_write env out text w = (case out of
     fileOut fd mode \<Rightarrow> fileOut_write env fd text w
   | syslogOut t \<Rightarrow> syslogOut_write env t text w)"

subsection \<open>The request's line\<close>

definition diffTime :: "timeval \<Rightarrow> timeval \<Rightarrow> u32" where
  "diffTime s e = of_int ((fst e - fst s) * 1000 * 1000 + (snd e - snd s))"

definition addTime :: "cmd_type \<Rightarrow> u64 \<Rightarrow> RequestLogger \<Rightarrow> RequestLogger" where
  "addTime c t r = (case c of
     GET \<Rightarrow> r\<lparr>rl_getTime := rl_getTime r + t\<rparr>
   | SET \<Rightarrow> r\<lparr>rl_setTime := rl_setTime r + t\<rparr>
   | _ \<Rightarrow> r\<lparr>rl_otherTime := rl_otherTime r + t\<rparr>)"

definition rl_initialize :: "'v log_env \<Rightarrow> 'v log_st \<Rightarrow> 'v log_st" where
  "rl_initialize env s =
     (let r = (request_logger s)\<lparr>rl_count := rl_count (request_logger s) + 1\<rparr>
      in if \<not> rl_enabled r then s\<lparr>request_logger := r\<rparr>
         else let (t, w) = gettimeofday env (log_world s)
              in s\<lparr>request_logger := r\<lparr>rl_startTime := t, rl_otherTime := 0, rl_getTime := 0, rl_setTime := 0\<rparr>,
                   log_world := w\<rparr>)"

definition getID :: "RequestLogger \<Rightarrow> string" where
  "getID r = show_int (rl_pid r) @ '':'' @ show_nat (unat (rl_count r))"

text \<open>\<open>%s\<close> prints NULL as glibc does.\<close>

definition show_cstr :: "string option \<Rightarrow> string" where
  "show_cstr p = (case p of None \<Rightarrow> ''(null)'' | Some x \<Rightarrow> cstr x)"

definition publishApacheRecord :: "'v log_env \<Rightarrow> string option \<Rightarrow> 'v log_st \<Rightarrow> 'v log_st option" where
  "publishApacheRecord env uri s =
     (let r = request_logger s in
      case rl_out r of
        None \<Rightarrow> Some s
      | Some out \<Rightarrow> do {
          (n, w) \<leftarrow> log_write env out (getID r @ '' '' @ show_nat (unat (rl_getTime r)) @ '' '' @ show_nat (unat (rl_setTime r)) @ '' ''
             @ show_nat (unat (rl_getTime r + rl_setTime r + rl_otherTime r)) @ '' ''
             @ show_int (sint (diffTime (rl_startTime r) (rl_endTime r))) @ '' '' @ take 1024 (show_cstr uri)) (log_world s);
          Some (s\<lparr>log_world := w\<rparr>)
        })"

definition rl_finalize :: "'v log_env \<Rightarrow> string option \<Rightarrow> 'v log_st \<Rightarrow> 'v log_st option" where
  "rl_finalize env p s =
     (if rl_enabled (request_logger s) then
        (let (t, w) = gettimeofday env (log_world s)
         in publishApacheRecord env p (s\<lparr>request_logger := (request_logger s)\<lparr>rl_endTime := t\<rparr>, log_world := w\<rparr>))
      else Some s)"

definition rl_setLogOutPut :: "logOutPut \<Rightarrow> 'v log_st \<Rightarrow> 'v log_st" where
  "rl_setLogOutPut out s = s\<lparr>request_logger := (request_logger s)\<lparr>rl_enabled := True, rl_out := Some out\<rparr>\<rparr>"

definition rl_flushConfig :: "'v log_env \<Rightarrow> 'v log_st \<Rightarrow> 'v log_st" where
  "rl_flushConfig env s = s\<lparr>request_logger := (request_logger s)\<lparr>rl_enabled := False, rl_out := None\<rparr>,
     log_world := (case rl_out (request_logger s) of None \<Rightarrow> log_world s | Some out \<Rightarrow> log_close env out (log_world s))\<rparr>"

subsection \<open>The rules by log name\<close>

definition insertExprTree :: "string \<Rightarrow> exprParser \<Rightarrow> 'v log_st \<Rightarrow> bool \<times> 'v log_st" where
  "insertExprTree mc p s =
     (if map_of (exprMap s) mc \<noteq> None then (False, s)
      else (True, s\<lparr>exprMap := insort_key fst (mc, p) (exprMap s)\<rparr>))"

definition getExprTree :: "string \<Rightarrow> 'v log_st \<Rightarrow> exprParser option" where
  "getExprTree mc s = map_of (exprMap s) mc"

text \<open>Deleting a rule closes its output.\<close>

definition delete_rule :: "'v log_env \<Rightarrow> exprParser \<Rightarrow> 'v \<Rightarrow> 'v" where
  "delete_rule env p w = (case ep_out p of None \<Rightarrow> w | Some out \<Rightarrow> log_close env out w)"

definition logger_flushConfig :: "'v log_env \<Rightarrow> 'v log_st \<Rightarrow> 'v log_st" where
  "logger_flushConfig env s = s\<lparr>exprMap := [], log_world := fold (\<lambda>(k, p). delete_rule env p) (exprMap s) (log_world s)\<rparr>"

subsection \<open>Publishing a record\<close>

definition record_line :: "string \<Rightarrow> rule_data \<Rightarrow> string" where
  "record_line ident d = cstr (lg_log_name d) @ '' '' @ show_cstr (lg_host d) @ '' '' @ cstr ident @ '' ''
     @ show_cstr (lg_command d) @ '' '' @ show_cstr (lg_key d) @ '' '' @ show_int (c_int (lg_res_len d)) @ '' ''
     @ show_int (lg_res_code d) @ '' '' @ show_int (lg_flags d) @ '' '' @ show_int (c_int (lg_expiry d)) @ '' ''
     @ show_nat (unat (lg_cas d)) @ '' '' @ show_int (c_int (rd_res_time d)) @ '' '' @ show_int (c_int (rd_serial_time d))"

definition logPublishRecord :: "'v log_env \<Rightarrow> rule_data \<Rightarrow> 'v log_st \<Rightarrow> 'v log_st option" where
  "logPublishRecord env d s = (case getExprTree (cstr (lg_log_name d)) s of
     None \<Rightarrow> Some s
   | Some p \<Rightarrow> do {
       hit \<leftarrow> evaluateTree (ep_root p) d;
       case (hit, ep_out p) of
         (True, Some out) \<Rightarrow> do {
           (n, w) \<leftarrow> log_write env out (record_line (getID (request_logger s)) d) (log_world s);
           Some (s\<lparr>log_world := w\<rparr>)
         }
       | _ \<Rightarrow> Some s
     })"

text \<open>
  The destructor of \<open>LogManager\<close>: the time of the command goes to the request's account, and
  the records of a multi command, or else the current record, are published with it. The
  serialisation times of the records are an argument.
\<close>

definition rule_record :: "(string option \<Rightarrow> int) \<Rightarrow> u32 \<Rightarrow> string option \<Rightarrow> mc_logger \<Rightarrow> rule_data" where
  "rule_record ser t k l = mc_logger.extend l \<lparr>rd_res_time = uint t, rd_serial_time = ser k\<rparr>"

definition current_record :: "'w st \<Rightarrow> mc_logger" where
  "current_record s = (case (log_cur s, log_map s) of
     (Some k, Some mp) \<Rightarrow> (case map_of mp k of Some l \<Rightarrow> l | None \<Rightarrow> logger s)
   | _ \<Rightarrow> logger s)"

fun publish_all :: "'v log_env \<Rightarrow> rule_data list \<Rightarrow> 'v log_st \<Rightarrow> 'v log_st option" where
  "publish_all env [] s = Some s"
| "publish_all env (d # ds) s = do { s \<leftarrow> logPublishRecord env d s; publish_all env ds s }"

definition LogManager_end :: "'v log_env \<Rightarrow> (string option \<Rightarrow> int) \<Rightarrow> timeval \<Rightarrow> 'w st \<Rightarrow> 'v log_st \<Rightarrow> 'v log_st option" where
  "LogManager_end env ser startTime s l =
     (let (endTime, w) = gettimeofday env (log_world l);
          tmp = diffTime startTime endTime;
          l = l\<lparr>log_world := w, request_logger := addTime (lg_ctype (current_record s)) (ucast tmp) (request_logger l)\<rparr>
      in case log_map s of
           Some mp \<Rightarrow> publish_all env (map (\<lambda>(k, d). rule_record ser tmp (Some k) d) mp) l
         | None \<Rightarrow> logPublishRecord env (rule_record ser tmp None (current_record s)) l)"

subsection \<open>Bounds of the line buffer\<close>

lemma cstr_append_nul: "cstr (x @ CHR 0x00 # y) = cstr x"
  by (induction x) (simp_all add: cstr_def)


subsection \<open>A concrete system\<close>

text \<open>Files cannot be opened for writing; the world lists what syslog got.\<close>

definition ex_log_env :: "string \<Rightarrow> string list log_env" where
  "ex_log_env config = \<lparr>fd_open = (\<lambda>_ w. (- 1, w)), fd_close = (\<lambda>_ w. w), fd_write = (\<lambda>_ x w. w @ [x]), os_openlog = (\<lambda>w. w),
     os_closelog = (\<lambda>w. w), os_syslog = (\<lambda>_ x w. w @ [x]), log_prefix = (\<lambda>w. (''[now] '', w)),
     gettimeofday = (\<lambda>w. ((0, 0), w)), stat_ctime = (\<lambda>_ w. (Some 1, w)), read_file = (\<lambda>_ w. (Some config, w))\<rparr>"

definition ex_log :: "string list log_st" where
  "ex_log = \<lparr>exprMap = [], request_logger = \<lparr>rl_enabled = False, rl_out = None, rl_pid = 7, rl_count = 1, rl_getTime = 0,
     rl_setTime = 0, rl_otherTime = 0, rl_startTime = (0, 0), rl_endTime = (0, 0)\<rparr>, errorString = [],
     fileStat_ctime = 0, lastTime = 0, log_world = []\<rparr>"

end
