(* ===== verification/Rule_Loader.thy ===== *)
theory Rule_Loader
  imports Rule_Meaning Log_Output Pool_Handlers
begin

text \<open>
  Loading the log rules (loader.cpp): the file named by \<open>memcache.log_conf\<close> holds entries of
  three lines, the log name, the rule and the output.
\<close>

subsection \<open>Lines\<close>

text \<open>
  An input file stream with the string that \<open>getline\<close> reads into. A stream that met the end
  of the file is not good; on such a stream \<open>getline\<close> leaves the string as it is.
\<close>

record cfg_stream =
  cs_rest :: string
  cs_good :: bool
  cs_str :: string

definition getline :: "cfg_stream \<Rightarrow> cfg_stream" where
  "getline c = (if \<not> cs_good c then c
     else let l = takeWhile (\<lambda>x. x \<noteq> CHR 0x0A) (cs_rest c); r = dropWhile (\<lambda>x. x \<noteq> CHR 0x0A) (cs_rest c)
          in \<lparr>cs_rest = tl r, cs_good = (r \<noteq> []), cs_str = l\<rparr>)"

text \<open>\<open>sscanf\<close> of one word into 100 bytes: None when it does not fit.\<close>

definition scan_word :: "string \<Rightarrow> string option" where
  "scan_word str = (let w = takeWhile (\<lambda>c. \<not> is_space c) (skip_space (cstr str))
     in if length w < 100 then Some w else None)"

definition DEFAULT_APACHE_LOG_NAME :: string where
  "DEFAULT_APACHE_LOG_NAME = ''apacheRequestLog''"

subsection \<open>One entry\<close>

definition add_error :: "string \<Rightarrow> 'v log_st \<Rightarrow> 'v log_st" where
  "add_error e s = s\<lparr>errorString := errorString s @ e @ [CHR 0x0A]\<rparr>"

text \<open>The rule: whether it was inserted under its name, and \<open>apacheLog\<close>. A second rule of a
  name is dropped.\<close>

definition load_rule :: "string \<Rightarrow> string \<Rightarrow> 'v log_st \<Rightarrow> (bool \<times> bool \<times> 'v log_st) option" where
  "load_rule name str s =
     (if str = [] then Some (False, False, s)
      else if name = DEFAULT_APACHE_LOG_NAME then
        (if str = ''true'' then Some (False, True, s)
         else if str = ''false'' then Some (False, False, s)
         else Some (False, False, add_error (''Invalid rule'' @ str) s))
      else (case buildTree str of
          None \<Rightarrow> None
        | Some None \<Rightarrow> Some (False, False, add_error str s)
        | Some (Some t) \<Rightarrow> (let (ok, s) = insertExprTree name \<lparr>ep_root = t, ep_out = None\<rparr> s in Some (ok, False, s))))"

fun set_rule_out :: "string \<Rightarrow> logOutPut \<Rightarrow> (string \<times> exprParser) list \<Rightarrow> (string \<times> exprParser) list" where
  "set_rule_out k out [] = []"
| "set_rule_out k out ((k', p) # xs) = (if k = k' then (k', p\<lparr>ep_out := Some out\<rparr>) # xs else (k', p) # set_rule_out k out xs)"

definition is_syslog :: "string \<Rightarrow> bool" where
  "is_syslog str \<longleftrightarrow> map ascii_lower (take 6 (cstr str)) = ''syslog''"

text \<open>The output. \<open>open\<close> always returns 0, so its failure branch (which frees the output) is
  not reached; it is kept as the code has it.\<close>

definition load_output :: "'v log_env \<Rightarrow> string \<Rightarrow> bool \<Rightarrow> bool \<Rightarrow> string \<Rightarrow> 'v log_st \<Rightarrow> 'v log_st" where
  "load_output env name ptr apacheLog str s =
     (if ptr \<or> apacheLog then
        (if str \<noteq> [] then
           (let p = (if is_syslog str then syslogOut (if apacheLog then APACHE_TYPE else PECL_TYPE)
                     else fileOut (- 1) ERRORLOG_FILE);
                (rc, p, w) = log_open env p str (log_world s);
                s = s\<lparr>log_world := w\<rparr>
            in if rc = 0 then
                 (if apacheLog then rl_setLogOutPut p s else s\<lparr>exprMap := set_rule_out name p (exprMap s)\<rparr>)
               else add_error (''Not able to open the file : '' @ str) s)
         else add_error ''Not a valid log output '' s)
      else s)"

subsection \<open>The file\<close>

text \<open>Every line takes the end of line away or meets the end of the file.\<close>

definition cfg_size :: "cfg_stream \<Rightarrow> nat" where
  "cfg_size c = (if cs_good c then Suc (length (cs_rest c)) else 0)"

lemma getline_decr: "cs_good c \<Longrightarrow> cfg_size (getline c) < cfg_size c"
proof -
  assume good: "cs_good c"
  have "length (dropWhile (\<lambda>x. x \<noteq> CHR 0x0A) (cs_rest c)) \<le> length (cs_rest c)"
    by (rule length_dropWhile_le)
  moreover have "dropWhile (\<lambda>x. x \<noteq> CHR 0x0A) (cs_rest c) \<noteq> [] \<Longrightarrow>
      length (tl (dropWhile (\<lambda>x. x \<noteq> CHR 0x0A) (cs_rest c))) < length (dropWhile (\<lambda>x. x \<noteq> CHR 0x0A) (cs_rest c))"
    by (cases "dropWhile (\<lambda>x. x \<noteq> CHR 0x0A) (cs_rest c)") simp_all
  ultimately show ?thesis using good by (auto simp: getline_def cfg_size_def Let_def)
qed

lemma getline_le: "cfg_size (getline c) \<le> cfg_size c"
  by (cases "cs_good c") (simp_all add: getline_decr less_imp_le, simp add: getline_def)

lemma getline_decr3: "cs_good c \<Longrightarrow> cfg_size (getline (getline (getline c))) < cfg_size c"
  using getline_decr getline_le by (meson le_less_trans)

function load_entries :: "'v log_env \<Rightarrow> cfg_stream \<Rightarrow> 'v log_st \<Rightarrow> 'v log_st option" where
  "load_entries env c s =
     (if \<not> cs_good c then Some s
      else let c1 = getline c in
        (case scan_word (cs_str c1) of
           None \<Rightarrow> None
         | Some name \<Rightarrow>
             if name = [] then load_entries env c1 s
             else let c2 = getline c1; c3 = getline c2 in
               (case load_rule name (cs_str c2) s of
                  None \<Rightarrow> None
                | Some (ptr, apacheLog, s) \<Rightarrow>
                    load_entries env c3 (load_output env name ptr apacheLog (cs_str c3) s))))"
  by pat_completeness auto

termination
  by (relation "measure (\<lambda>(env, c, s). cfg_size c)") (auto simp: getline_decr getline_decr3)

declare load_entries.simps [simp del]

text \<open>\<open>stat\<close> of NULL fails; a failed \<open>stat\<close> leaves the static buffer as it was.\<close>

definition statConfigNotChanged :: "'v log_env \<Rightarrow> string option \<Rightarrow> 'v log_st \<Rightarrow> bool \<times> 'v log_st" where
  "statConfigNotChanged env file s =
     (let (ct, w) = (case file of None \<Rightarrow> (None, log_world s) | Some f \<Rightarrow> stat_ctime env f (log_world s));
          s = s\<lparr>fileStat_ctime := (case ct of Some t \<Rightarrow> t | None \<Rightarrow> fileStat_ctime s), log_world := w\<rparr>
      in if fileStat_ctime s \<noteq> lastTime s then (False, s\<lparr>lastTime := fileStat_ctime s\<rparr>) else (True, s))"

text \<open>The result is the error text, when there is one.\<close>

definition checkAndLoadConfig :: "'v log_env \<Rightarrow> string option \<Rightarrow> 'v log_st \<Rightarrow> (string option \<times> 'v log_st) option" where
  "checkAndLoadConfig env file s =
     (let (same, s) = statConfigNotChanged env file s in
      if same then Some (None, s)
      else let s = rl_flushConfig env (logger_flushConfig env s) in
        (case file of
           None \<Rightarrow> Some (None, s)
         | Some f \<Rightarrow> do {
             let (text, w) = read_file env f (log_world s);
             let s = s\<lparr>log_world := w, errorString := []\<rparr>;
             s \<leftarrow> (case text of None \<Rightarrow> Some s
                   | Some text \<Rightarrow> load_entries env \<lparr>cs_rest = text, cs_good = True, cs_str = []\<rparr> s);
             Some (if errorString s \<noteq> [] then Some (cstr (errorString s)) else None, s)
           }))"


subsection \<open>The start and the end of a request\<close>

text \<open>\<open>PHP_RINIT_FUNCTION\<close> and \<open>PHP_RSHUTDOWN_FUNCTION\<close>.\<close>

definition php_rinit :: "'v log_env \<Rightarrow> string option \<Rightarrow> 'w st \<Rightarrow> 'v log_st \<Rightarrow> ('w st \<times> 'v log_st) option" where
  "php_rinit env log_conf s l = do {
     let s = s\<lparr>glob := (glob s)\<lparr>g_debug_mode := False, g_in_multi := False, g_proxy_connect_failed := False\<rparr>\<rparr>;
     (err, l) \<leftarrow> checkAndLoadConfig env log_conf l;
     let s = (if err \<noteq> None then php_error E_WARNING ''Error in expr parsing %s in file %s. Please fix the error to logging to work'' s
              else s);
     Some (s, rl_initialize env l)
   }"

definition php_rshutdown :: "'v log_env \<Rightarrow> string option \<Rightarrow> 'v log_st \<Rightarrow> 'v log_st option" where
  "php_rshutdown env request_uri l = rl_finalize env request_uri l"

subsection \<open>Loading a well-formed file\<close>

abbreviation nl :: char where "nl \<equiv> CHR 0x0A"

lemma getline_line:
  "nl \<notin> set l \<Longrightarrow> getline \<lparr>cs_rest = l @ nl # r, cs_good = True, cs_str = x\<rparr> = \<lparr>cs_rest = r, cs_good = True, cs_str = l\<rparr>"
proof -
  assume l: "nl \<notin> set l"
  then have t: "takeWhile (\<lambda>x. x \<noteq> nl) (l @ nl # r) = l" "dropWhile (\<lambda>x. x \<noteq> nl) (l @ nl # r) = nl # r"
    by (induction l) auto
  show ?thesis by (simp add: getline_def t)
qed

lemma getline_last:
  assumes "nl \<notin> set l"
  shows "getline \<lparr>cs_rest = l, cs_good = True, cs_str = x\<rparr> = \<lparr>cs_rest = [], cs_good = False, cs_str = l\<rparr>"
proof -
  have "takeWhile (\<lambda>x. x \<noteq> nl) l = l" "dropWhile (\<lambda>x. x \<noteq> nl) l = []" using assms by (induction l) auto
  then show ?thesis by (simp add: getline_def del: takeWhile_eq_all_conv dropWhile_eq_Nil_conv)
qed

definition line_ok :: "string \<Rightarrow> bool" where
  "line_ok l \<longleftrightarrow> l \<noteq> [] \<and> nl \<notin> set l"

definition name_ok :: "string \<Rightarrow> bool" where
  "name_ok n \<longleftrightarrow> plain_word n \<and> length n < 100 \<and> n \<noteq> DEFAULT_APACHE_LOG_NAME"

lemma plain_word_line: "plain_word w \<Longrightarrow> line_ok w"
  by (auto simp: plain_word_def line_ok_def is_space_def)

lemma scan_word_plain: "plain_word w \<Longrightarrow> length w < 100 \<Longrightarrow> scan_word w = Some w"
proof -
  assume w: "plain_word w" "length w < 100"
  have "CHR 0x00 \<notin> set w" using w(1) by (auto simp: plain_word_def)
  moreover have "skip_space w = w" using w(1) by (cases w) (auto simp: plain_word_def skip_space_def)
  moreover have "takeWhile (\<lambda>c. \<not> is_space c) w = w" using w(1) by (auto simp: plain_word_def takeWhile_eq_all_conv)
  ultimately have "takeWhile (\<lambda>c. \<not> is_space c) (skip_space (cstr w)) = w" by simp
  then show ?thesis using w(2) by (simp add: scan_word_def)
qed

lemma join_words_line: "\<forall>w \<in> set ws. plain_word w \<Longrightarrow> nl \<notin> set (join_words ws)"
  by (induction ws rule: join_words.induct) (auto simp: plain_word_def is_space_def)

lemma join_words_nul: "\<forall>w \<in> set ws. plain_word w \<Longrightarrow> CHR 0x00 \<notin> set (join_words ws)"
  by (induction ws rule: join_words.induct) (auto simp: plain_word_def)

lemma rule_text_line: "formula_ok f \<Longrightarrow> line_ok (join_words (rule_text f))"
proof -
  assume ok: "formula_ok f"
  have "rule_text f \<noteq> []" by (cases f) simp_all
  moreover have "\<forall>w \<in> set (rule_text f). plain_word w" by (rule rule_text_plain [OF ok])
  ultimately have "join_words (rule_text f) \<noteq> []"
    by (cases "rule_text f" rule: join_words.cases) (auto simp: plain_word_def)
  then show ?thesis using join_words_line [OF rule_text_plain [OF ok]] by (simp add: line_ok_def)
qed

definition entry_text :: "string \<Rightarrow> formula \<Rightarrow> string \<Rightarrow> string" where
  "entry_text n f out = n @ nl # join_words (rule_text f) @ nl # out @ [nl]"

definition config_text :: "(string \<times> formula \<times> string) list \<Rightarrow> string" where
  "config_text es = concat (map (\<lambda>(n, f, out). entry_text n f out) es)"

lemma buildTree_formula: "formula_ok f \<Longrightarrow> buildTree (join_words (rule_text f)) = Some (Some (tree_of f))"
  by (simp add: buildTree_def rule_words_join [OF rule_text_plain] rule_text_tokens build_formula)

lemma load_rule_formula:
  assumes "formula_ok f" "name_ok n" "map_of (exprMap s) n = None"
  shows "load_rule n (join_words (rule_text f)) s =
    Some (True, False, s\<lparr>exprMap := insort_key fst (n, \<lparr>ep_root = tree_of f, ep_out = None\<rparr>) (exprMap s)\<rparr>)"
  using assms rule_text_line [OF assms(1)]
  by (simp add: load_rule_def insertExprTree_def buildTree_formula name_ok_def line_ok_def)

definition load_one :: "'v log_env \<Rightarrow> string \<Rightarrow> formula \<Rightarrow> string \<Rightarrow> 'v log_st \<Rightarrow> 'v log_st" where
  "load_one env n f out s = load_output env n True False out
     (s\<lparr>exprMap := insort_key fst (n, \<lparr>ep_root = tree_of f, ep_out = None\<rparr>) (exprMap s)\<rparr>)"

lemma load_entries_step:
  assumes "formula_ok f" "name_ok n" "map_of (exprMap s) n = None" "line_ok out"
  shows "load_entries env \<lparr>cs_rest = entry_text n f out @ r, cs_good = True, cs_str = x\<rparr> s =
    load_entries env \<lparr>cs_rest = r, cs_good = True, cs_str = out\<rparr> (load_one env n f out s)"
proof -
  have n: "plain_word n" "nl \<notin> set n" "n \<noteq> []" "scan_word n = Some n"
    using assms(2) plain_word_line [of n] scan_word_plain [of n] by (simp_all add: name_ok_def line_ok_def plain_word_def)
  have l: "nl \<notin> set (join_words (rule_text f))" "nl \<notin> set out"
    using rule_text_line [OF assms(1)] assms(4) by (simp_all add: line_ok_def)
  show ?thesis
    by (subst load_entries.simps)
      (simp add: entry_text_def getline_line n l load_rule_formula [OF assms(1-3)] load_one_def)
qed

lemma load_entries_stop: "\<not> cs_good c \<Longrightarrow> load_entries env c s = Some s"
  by (subst load_entries.simps) simp

lemma load_entries_end: "load_entries env \<lparr>cs_rest = [], cs_good = True, cs_str = x\<rparr> s = Some s"
  by (subst load_entries.simps) (simp add: getline_def scan_word_def skip_space_def cstr_def load_entries_stop)

lemma map_of_insort: "n \<notin> fst ` set m \<Longrightarrow> map_of (insort_key fst (n, p) m) = (map_of m)(n \<mapsto> p)"
  by (induction m) (auto simp: fun_eq_iff)

lemma map_of_set_out: "map_of m n = Some p \<Longrightarrow> map_of (set_rule_out n out m) = (map_of m)(n \<mapsto> p\<lparr>ep_out := Some out\<rparr>)"
  by (induction m) (auto simp: fun_eq_iff)

lemma load_one_shape:
  assumes "line_ok out"
  shows "\<exists>p w. load_one env n f out s = s\<lparr>exprMap :=
      set_rule_out n p (insort_key fst (n, \<lparr>ep_root = tree_of f, ep_out = None\<rparr>) (exprMap s)), log_world := w\<rparr> \<and>
    (is_syslog out \<longrightarrow> p = syslogOut PECL_TYPE)"
proof -
  obtain rc p w where o: "log_open env (if is_syslog out then syslogOut PECL_TYPE else fileOut (- 1) ERRORLOG_FILE) out (log_world s) = (rc, p, w)"
    by (metis prod_cases3)
  then have "rc = 0" "is_syslog out \<longrightarrow> p = syslogOut PECL_TYPE"
    by (auto simp: log_open_def fileOut_open_def Let_def split: if_splits prod.splits)
  then show ?thesis using assms o by (cases "is_syslog out"; intro exI [of _ p] exI [of _ w]) (simp_all add: load_one_def load_output_def line_ok_def Let_def)
qed

text \<open>A rule in the map as its entry says.\<close>

definition loaded :: "string \<Rightarrow> formula \<Rightarrow> string \<Rightarrow> 'v log_st \<Rightarrow> bool" where
  "loaded n f out s \<longleftrightarrow> (case map_of (exprMap s) n of
     None \<Rightarrow> False
   | Some p \<Rightarrow> ep_root p = tree_of f \<and> ep_out p \<noteq> None \<and> (is_syslog out \<longrightarrow> ep_out p = Some (syslogOut PECL_TYPE)))"

lemma load_one_map:
  assumes "map_of (exprMap s) n = None" "line_ok out"
  shows "loaded n f out (load_one env n f out s)" "n' \<noteq> n \<Longrightarrow> map_of (exprMap (load_one env n f out s)) n' = map_of (exprMap s) n'"
    "errorString (load_one env n f out s) = errorString s"
proof -
  have n: "n \<notin> fst ` set (exprMap s)" using assms(1) by (simp add: map_of_eq_None_iff)
  obtain p w where o: "load_one env n f out s = s\<lparr>exprMap :=
      set_rule_out n p (insort_key fst (n, \<lparr>ep_root = tree_of f, ep_out = None\<rparr>) (exprMap s)), log_world := w\<rparr>"
    "is_syslog out \<longrightarrow> p = syslogOut PECL_TYPE"
    using load_one_shape [OF assms(2), where env = env and n = n and f = f and s = s] by metis
  show "loaded n f out (load_one env n f out s)" "errorString (load_one env n f out s) = errorString s"
    "n' \<noteq> n \<Longrightarrow> map_of (exprMap (load_one env n f out s)) n' = map_of (exprMap s) n'"
    using o by (simp_all add: loaded_def map_of_insort [OF n] map_of_set_out)
qed

lemma loaded_other: "map_of (exprMap s') n = map_of (exprMap s) n \<Longrightarrow> loaded n f out s' = loaded n f out s"
  by (simp add: loaded_def)

definition entry_ok :: "string \<times> formula \<times> string \<Rightarrow> bool" where
  "entry_ok e \<longleftrightarrow> name_ok (fst e) \<and> formula_ok (fst (snd e)) \<and> line_ok (snd (snd e))"

lemma load_config_text:
  assumes "\<forall>e \<in> set es. entry_ok e" "distinct (map fst es)" "\<forall>n \<in> set (map fst es). map_of (exprMap s) n = None"
  shows "\<exists>s'. load_entries env \<lparr>cs_rest = config_text es, cs_good = True, cs_str = x\<rparr> s = Some s' \<and>
    errorString s' = errorString s \<and> (\<forall>(n, f, out) \<in> set es. loaded n f out s') \<and>
    (\<forall>n. n \<notin> set (map fst es) \<longrightarrow> map_of (exprMap s') n = map_of (exprMap s) n)"
  using assms
proof (induction es arbitrary: s x)
  case Nil
  then show ?case by (simp add: config_text_def load_entries_end)
next
  case (Cons e es)
  obtain n f out where e: "e = (n, f, out)" by (cases e)
  with Cons.prems have ok: "formula_ok f" "name_ok n" "map_of (exprMap s) n = None" "line_ok out"
    by (simp_all add: entry_ok_def)
  let ?s = "load_one env n f out s"
  note one = load_one_map [OF ok(3,4), where f = f and env = env]
  have fresh: "\<forall>n \<in> set (map fst es). map_of (exprMap ?s) n = None"
  proof
    fix n' assume n': "n' \<in> set (map fst es)"
    with Cons.prems(2) e have "n' \<noteq> n" by auto
    then have "map_of (exprMap ?s) n' = map_of (exprMap s) n'" by (rule one(2))
    then show "map_of (exprMap ?s) n' = None" using Cons.prems(3) n' by auto
  qed
  from Cons.IH [OF _ _ fresh, where x = out] Cons.prems obtain s' where
    s': "load_entries env \<lparr>cs_rest = config_text es, cs_good = True, cs_str = out\<rparr> ?s = Some s'"
    "errorString s' = errorString ?s" "\<forall>(n, f, out) \<in> set es. loaded n f out s'"
    "\<forall>n. n \<notin> set (map fst es) \<longrightarrow> map_of (exprMap s') n = map_of (exprMap ?s) n"
    by auto
  have "n \<notin> set (map fst es)" using Cons.prems(2) e by simp
  then have "loaded n f out s'" using s'(4) one(1) loaded_other by metis
  moreover have "load_entries env \<lparr>cs_rest = config_text (e # es), cs_good = True, cs_str = x\<rparr> s = Some s'"
    using load_entries_step [OF ok] s'(1) by (simp add: config_text_def e)
  ultimately show ?case using s' one(2,3) e by auto
qed

lemma publish_loaded:
  assumes "loaded n f out s" "is_syslog out" "formula_ok f" "cstr (lg_log_name d) = n"
  shows "logPublishRecord env d s = Some (if meaning f d then s\<lparr>log_world := os_syslog env PECL_TYPE
    (syslog_line (record_line (getID (request_logger s)) d)) (log_world s)\<rparr> else s)"
proof -
  obtain p where "map_of (exprMap s) n = Some p" "ep_root p = tree_of f" "ep_out p = Some (syslogOut PECL_TYPE)"
    using assms(1,2) by (auto simp: loaded_def split: option.splits)
  then show ?thesis
    using evaluate_formula [OF assms(3), of d] assms(4)
    by (simp add: logPublishRecord_def getExprTree_def log_write_def syslogOut_write_def)
qed

text \<open>C11. From the file to the log: a changed file of entries with distinct names is loaded without an
  error, and then a record with the name of an entry that goes to syslog is written there exactly when the
  formula of the entry is true of the record.\<close>
theorem config_decides:
  assumes "\<forall>e \<in> set es. entry_ok e" "distinct (map fst es)" "(n, f, out) \<in> set es" "is_syslog out"
    and "fst (stat_ctime env file (log_world s)) = Some t" "t \<noteq> lastTime s"
    and "\<forall>w. fst (read_file env file w) = Some (config_text es)"
    and "cstr (lg_log_name d) = n"
  shows "\<exists>l. checkAndLoadConfig env (Some file) s = Some (None, l) \<and>
    logPublishRecord env d l = Some (if meaning f d then l\<lparr>log_world := os_syslog env PECL_TYPE
      (syslog_line (record_line (getID (request_logger l)) d)) (log_world l)\<rparr> else l)"
proof -
  obtain w where w: "stat_ctime env file (log_world s) = (Some t, w)" using assms(5) by (metis prod.collapse)
  define s1 where "s1 = rl_flushConfig env (logger_flushConfig env (s\<lparr>fileStat_ctime := t, log_world := w, lastTime := t\<rparr>))"
  obtain w2 where w2: "read_file env file (log_world s1) = (Some (config_text es), w2)" using assms(7) by (metis prod.collapse)
  have "exprMap s1 = []" by (simp add: s1_def rl_flushConfig_def logger_flushConfig_def)
  then obtain l where l:
    "load_entries env \<lparr>cs_rest = config_text es, cs_good = True, cs_str = []\<rparr> (s1\<lparr>log_world := w2, errorString := []\<rparr>) = Some l"
    "errorString l = []" "\<forall>(n, f, out) \<in> set es. loaded n f out l"
    using load_config_text [OF assms(1,2), where s = "s1\<lparr>log_world := w2, errorString := []\<rparr>" and env = env and x = "[]"] by auto
  have "checkAndLoadConfig env (Some file) s = Some (None, l)"
    using assms(6) w2 l(1,2) by (simp add: checkAndLoadConfig_def statConfigNotChanged_def w s1_def)
  moreover have "loaded n f out l" "formula_ok f" using l(3) assms(1,3) by (auto simp: entry_ok_def)
  ultimately show ?thesis using publish_loaded [OF _ assms(4) _ assms(8), of f l env] by blast
qed

definition ex_entries :: "(string \<times> formula \<times> string) list" where
  "ex_entries = [(''slow'', Cmp F_res_time GT_op ''100'', ''SYSLOG''), (''users'', Cmp F_key PM_op ''user'', ''SYSLOG'')]"

lemma config_decides_witness:
  "\<exists>l line. checkAndLoadConfig (ex_log_env (config_text ex_entries)) (Some ''log.conf'') ex_log = Some (None, l) \<and>
    logPublishRecord (ex_log_env (config_text ex_entries)) (ex_record\<lparr>lg_log_name := ''users''\<rparr>) l =
      Some (l\<lparr>log_world := log_world l @ [line]\<rparr>)"
proof -
  have m: "meaning (Cmp F_key PM_op ''user'') (ex_record\<lparr>lg_log_name := ''users''\<rparr>)" by code_simp
  have ok: "\<forall>e \<in> set ex_entries. entry_ok e" "distinct (map fst ex_entries)"
    "(''users'', Cmp F_key PM_op ''user'', ''SYSLOG'') \<in> set ex_entries" "is_syslog ''SYSLOG''"
    by code_simp+
  show ?thesis
    using config_decides [OF ok, of "ex_log_env (config_text ex_entries)" "''log.conf''" ex_log 1 "ex_record\<lparr>lg_log_name := ''users''\<rparr>"] m
    by (auto simp: ex_log_env_def ex_log_def ex_record_def cstr_def simp del: meaning.simps)
qed

text \<open>C35. A file that ends after a rule, without an end of line, does not miss its output: \<open>getline\<close>
  leaves the rule in its string, and the log goes to a file that has the rule as its name.\<close>
theorem loader_takes_rule_as_output:
  assumes "formula_ok f" "name_ok n" "map_of (exprMap s) n = None" "\<not> is_syslog (join_words (rule_text f))"
    and "fd_open env (join_words (rule_text f)) (log_world s) = (fd, w)" "fd \<noteq> - 1"
  shows "\<exists>l p. load_entries env \<lparr>cs_rest = n @ nl # join_words (rule_text f), cs_good = True, cs_str = x\<rparr> s = Some l \<and>
    getExprTree n l = Some p \<and> ep_root p = tree_of f \<and> ep_out p = Some (fileOut fd ERRORLOG_FILE)"
proof -
  have n: "plain_word n" "nl \<notin> set n" "n \<noteq> []" "scan_word n = Some n"
    using assms(2) plain_word_line [of n] scan_word_plain [of n] by (simp_all add: name_ok_def line_ok_def plain_word_def)
  have r: "nl \<notin> set (join_words (rule_text f))" "join_words (rule_text f) \<noteq> []"
    using rule_text_line [OF assms(1)] by (simp_all add: line_ok_def)
  have g: "getline \<lparr>cs_rest = join_words (rule_text f), cs_good = True, cs_str = n\<rparr> =
      \<lparr>cs_rest = [], cs_good = False, cs_str = join_words (rule_text f)\<rparr>"
    by (rule getline_last [OF r(1)])
  have e: "getline \<lparr>cs_rest = [], cs_good = False, cs_str = y\<rparr> = \<lparr>cs_rest = [], cs_good = False, cs_str = y\<rparr>" for y
    by (simp add: getline_def)
  have c: "cstr (join_words (rule_text f)) = join_words (rule_text f)"
    using join_words_nul [OF rule_text_plain [OF assms(1)]] by simp
  have m: "n \<notin> fst ` set (exprMap s)" using assms(3) by (simp add: map_of_eq_None_iff)
  let ?l = "s\<lparr>exprMap := set_rule_out n (fileOut fd ERRORLOG_FILE)
      (insort_key fst (n, \<lparr>ep_root = tree_of f, ep_out = None\<rparr>) (exprMap s)), log_world := w\<rparr>"
  have "load_output env n True False (join_words (rule_text f))
      (s\<lparr>exprMap := insort_key fst (n, \<lparr>ep_root = tree_of f, ep_out = None\<rparr>) (exprMap s)\<rparr>) = ?l"
    using assms(4-6) r by (simp add: load_output_def log_open_def fileOut_open_def c Let_def)
  then have "load_entries env \<lparr>cs_rest = n @ nl # join_words (rule_text f), cs_good = True, cs_str = x\<rparr> s = Some ?l"
    by (subst load_entries.simps) (simp add: getline_line n g e load_rule_formula [OF assms(1-3)] load_entries_stop)
  then show ?thesis by (simp add: getExprTree_def map_of_set_out map_of_insort [OF m])
qed

lemma loader_takes_rule_as_output_witness:
  "\<exists>l p. load_entries ((ex_log_env [])\<lparr>fd_open := \<lambda>_ w. (3, w)\<rparr>)
      \<lparr>cs_rest = ''slow'' @ nl # ''restime > 100'', cs_good = True, cs_str = []\<rparr> ex_log = Some l \<and>
    getExprTree ''slow'' l = Some p \<and> ep_out p = Some (fileOut 3 ERRORLOG_FILE)"
proof -
  have r: "join_words (rule_text (Cmp F_res_time GT_op ''100'')) = ''restime > 100''" by code_simp
  have ok: "formula_ok (Cmp F_res_time GT_op ''100'')" "name_ok ''slow''" "\<not> is_syslog ''restime > 100''" by code_simp+
  have m: "map_of (exprMap ex_log) ''slow'' = None" by (simp add: ex_log_def)
  show ?thesis
    using loader_takes_rule_as_output [OF ok(1,2) m, unfolded r, OF ok(3), of "(ex_log_env [])\<lparr>fd_open := \<lambda>_ w. (3, w)\<rparr>" 3 "[]" "[]"]
    by (auto simp: ex_log_def)
qed

end
