(* ===== verification/Session.thy ===== *)
theory Session
  imports Key_Handlers
begin

text \<open>
  The session handler (memcache_session.c). Its module data is a pool of its own: the pool of
  the state here, with \<open>connection\<close> for whether the pointer is set. The URL parser, the parser
  of its query, the conversions of PHP values and the \<open>session.gc_maxlifetime\<close> setting belong to PHP:
  they are the fields of \<open>session_env\<close>.

  The functions that send commands write to the record of \<open>LogManager::getLogger()\<close>, but the session
  handler does not make a \<open>LogManager\<close>; \<open>live\<close> says whether one is alive. Without one the first
  write to the record goes through a NULL or dangling pointer.
\<close>

record php_url =
  url_scheme :: "string option"
  url_host :: "string option"
  url_port :: u16
  url_path :: "string option"
  url_query :: "string option"

record session_env =
  php_url_parse :: "string \<Rightarrow> php_url option"
  treat_data :: "string \<Rightarrow> string \<Rightarrow> zval option"
  to_boolean :: "zval \<Rightarrow> bool"
  to_long :: "zval \<Rightarrow> int"
  gc_maxlifetime :: int

definition MMC_DEFAULT_TIMEOUT :: int where "MMC_DEFAULT_TIMEOUT = 10000"
definition MMC_DEFAULT_RETRY :: int where "MMC_DEFAULT_RETRY = 15"

definition PS_SET_MOD_DATA :: "bool \<Rightarrow> 'w st \<Rightarrow> 'w st" where
  "PS_SET_MOD_DATA present s = s\<lparr>connection := (if present then Pool_Connection else No_Connection)\<rparr>"

definition PS_GET_MOD_DATA :: "'w st \<Rightarrow> bool" where
  "PS_GET_MOD_DATA s \<longleftrightarrow> connection s = Pool_Connection"

subsection \<open>Opening\<close>

text \<open>The parameters of a URL: \<open>int\<close> variables with their defaults.\<close>

record url_params =
  u_persistent :: bool
  u_weight :: int
  u_timeout :: int
  u_retry_interval :: int

definition url_params :: "session_env \<Rightarrow> string option \<Rightarrow> url_params" where
  "url_params se query =
     (let param = (\<lambda>name. case query of None \<Rightarrow> None | Some q \<Rightarrow> treat_data se q name);
          int_param = (\<lambda>name d. case param name of None \<Rightarrow> d | Some v \<Rightarrow> c_int (to_long se v))
      in \<lparr>u_persistent = (case param ''persistent'' of None \<Rightarrow> False | Some v \<Rightarrow> to_boolean se v),
          u_weight = int_param ''weight'' 1, u_timeout = int_param ''timeout'' MMC_DEFAULT_TIMEOUT,
          u_retry_interval = int_param ''retry_interval'' MMC_DEFAULT_RETRY\<rparr>)"

definition session_server ::
    "'w php_env \<Rightarrow> url_params \<Rightarrow> string \<Rightarrow> nat \<Rightarrow> u16 \<Rightarrow> 'w st \<Rightarrow> (nat \<times> 'w st) option" where
  "session_server env u host host_len port s =
     (if u_persistent u then mmc_find_persistent env host host_len (uint port) (u_timeout u) (u_retry_interval u) False s
      else Some (mmc_server_new host host_len port False (u_timeout u) (u_retry_interval u) False s))"

text \<open>One server: None of the inner option when the URL is refused.\<close>

definition url_server ::
    "'w php_env \<Rightarrow> session_env \<Rightarrow> php_url \<Rightarrow> 'w st \<Rightarrow> ('w st option) option" where
  "url_server env se url s = do {
     let u = url_params se (url_query url);
     (case (url_scheme url = Some ''file'', url_path url) of
        (True, Some path) \<Rightarrow> do {
          let host = ''unix://'' @ path;
          let host_len = (if drop (length host - 2) host = '':0'' then length host - 2 else length host);
          (mmc, s) \<leftarrow> session_server env u host host_len 0 s;
          s \<leftarrow> mmc_pool_add env mmc (nat (take_bit 32 (u_weight u))) s;
          Some (Some s)
        }
      | _ \<Rightarrow> (case url_host url of
          None \<Rightarrow> Some None
        | Some host \<Rightarrow>
            if u_weight u \<le> 0 \<or> u_timeout u \<le> 0 then Some None
            else do {
              (mmc, s) \<leftarrow> session_server env u host (length host) (url_port url) s;
              s \<leftarrow> mmc_pool_add env mmc (nat (take_bit 32 (u_weight u))) s;
              Some (Some s)
            }))
   }"

definition separator :: "char \<Rightarrow> bool" where
  "separator c \<longleftrightarrow> is_space c \<or> c = CHR '',''"

definition session_url :: "session_env \<Rightarrow> string \<Rightarrow> php_url option" where
  "session_url se word =
     (if take 5 word = ''unix:'' then php_url_parse se (''file:'' @ drop 5 word) else php_url_parse se word)"

definition open_failed :: "'w php_env \<Rightarrow> 'w st \<Rightarrow> (bool \<times> 'w st) option" where
  "open_failed env s = do { s \<leftarrow> mmc_pool_free env s; Some (False, PS_SET_MOD_DATA False s) }"

lemma open_rest_shorter:
  "path \<noteq> [] \<Longrightarrow> length (dropWhile P (dropWhile separator path)) - Suc 0 < length path"
  by (metis One_nat_def Suc_pred diff_less length_dropWhile_le length_greater_0_conv less_Suc_eq_le le_trans
      less_imp_diff_less nat_less_le zero_less_one)

text \<open>The loop over the words of \<open>save_path\<close>, on the text that is left.\<close>

function open_loop :: "'w php_env \<Rightarrow> session_env \<Rightarrow> string \<Rightarrow> 'w st \<Rightarrow> (bool \<times> 'w st) option" where
  "open_loop env se path s =
     (if path = [] then
        (if p_num_servers (pool s) \<noteq> 0 then Some (True, PS_SET_MOD_DATA True s) else open_failed env s)
      else let path = dropWhile separator path;
               word = takeWhile (\<lambda>c. \<not> separator c) path;
               rest = tl (dropWhile (\<lambda>c. \<not> separator c) path)
           in if word = [] then open_loop env se rest s
              else (case session_url se word of
                None \<Rightarrow> open_failed env
                  (php_error E_WARNING ''Failed to parse session.save_path (error at offset %d, url was '%s')'' s)
              | Some url \<Rightarrow> (case url_server env se url s of
                  None \<Rightarrow> None
                | Some None \<Rightarrow> open_failed env s
                | Some (Some s) \<Rightarrow> open_loop env se rest s)))"
  by pat_completeness auto

termination
  by (relation "measure (\<lambda>(env, se, path, s). length path)") (auto simp: open_rest_shorter)

declare open_loop.simps [simp del]

definition ps_open :: "'w php_env \<Rightarrow> session_env \<Rightarrow> string \<Rightarrow> 'w st \<Rightarrow> (bool \<times> 'w st) option" where
  "ps_open env se save_path s = open_loop env se (cstr save_path) (s\<lparr>pool := mmc_pool_new (glob s)\<rparr>)"

subsection \<open>Closing, reading, writing, destroying\<close>

definition ps_close :: "'w php_env \<Rightarrow> 'w st \<Rightarrow> (bool \<times> 'w st) option" where
  "ps_close env s =
     (if PS_GET_MOD_DATA s then do { s \<leftarrow> mmc_pool_free env s; Some (True, PS_SET_MOD_DATA False s) }
      else Some (True, s))"

text \<open>The session data read, None for \<open>FAILURE\<close>.\<close>

definition ps_read :: "'w php_env \<Rightarrow> bool \<Rightarrow> string \<Rightarrow> 'w st \<Rightarrow> (string option \<times> 'w st) option" where
  "ps_read env live key s =
     (if \<not> PS_GET_MOD_DATA s then Some (None, s)
      else do {
        ((r, key_tmp), s) \<leftarrow> mmc_prepare_key_ex MMC_KEY_MAX_SIZE (cstr key) s;
        if r \<noteq> MMC_OK then Some (None, s)
        else if \<not> live then None
        else do {
          ((result, rv, _), s) \<leftarrow> mmc_exec_retrieval_cmd env key_tmp False False ZNull s;
          Some (case rv of ZString v \<Rightarrow> if result \<le> 0 then None else Some v | _ \<Rightarrow> None, s)
        }
      })"

text \<open>Any result of the store that is not 0 is a success, also the -1 of a failure.\<close>

definition ps_write :: "'w php_env \<Rightarrow> session_env \<Rightarrow> bool \<Rightarrow> string \<Rightarrow> string \<Rightarrow> 'w st \<Rightarrow> (bool \<times> 'w st) option" where
  "ps_write env se live key val s =
     (if \<not> PS_GET_MOD_DATA s then Some (False, s)
      else do {
        ((r, key_tmp), s) \<leftarrow> mmc_prepare_key_ex MMC_KEY_MAX_SIZE (cstr key) s;
        if r \<noteq> MMC_OK then Some (False, s)
        else if \<not> live then None
        else do {
          ((result, _), s) \<leftarrow> mmc_pool_store_wrapper env ''set'' key_tmp 0 (c_int (gc_maxlifetime se)) 0 val False [] s;
          Some (result \<noteq> 0, s)
        }
      })"

text \<open>
  \<open>mmc_delete\<close> writes only the code of the record; a code that it never sets shows whether it
  wrote one.
\<close>

definition session_delete :: "'w php_env \<Rightarrow> bool \<Rightarrow> nat \<Rightarrow> string \<Rightarrow> 'w st \<Rightarrow> (int \<times> 'w st) option" where
  "session_delete env live p key s =
     (if live then mmc_delete env p key 0 s
      else do {
        (r, s') \<leftarrow> mmc_delete env p key 0 (setCode (- 1) (LogManager_begin s));
        if getCode s' \<noteq> - 1 then None else Some (r, s')
      })"

text \<open>The loop has no test for a failed server: it may not end.\<close>

partial_function (option) destroy_loop :: "'w php_env \<Rightarrow> bool \<Rightarrow> string \<Rightarrow> 'w st \<Rightarrow> (int \<times> 'w st) option" where
  "destroy_loop env live key s = do {
     (mmc, s) \<leftarrow> mmc_pool_find env key s;
     (case mmc of
        None \<Rightarrow> Some (- 1, s)
      | Some p \<Rightarrow> do {
          (result, s) \<leftarrow> session_delete env live p key s;
          if result < 0 then do {
            (_, s) \<leftarrow> mmc_server_failure env p s;
            destroy_loop env live key s
          } else Some (result, s)
        })
   }"

declare destroy_loop.simps [code]

definition ps_destroy :: "'w php_env \<Rightarrow> bool \<Rightarrow> string \<Rightarrow> 'w st \<Rightarrow> (bool \<times> 'w st) option" where
  "ps_destroy env live key s =
     (if \<not> PS_GET_MOD_DATA s then Some (False, s)
      else do {
        ((r, key_tmp), s) \<leftarrow> mmc_prepare_key_ex MMC_KEY_MAX_SIZE (cstr key) s;
        if r \<noteq> MMC_OK then Some (False, s)
        else do {
          (result, s) \<leftarrow> destroy_loop env live key_tmp s;
          Some (0 \<le> result, s)
        }
      })"

definition ps_gc :: "'w st \<Rightarrow> bool \<times> 'w st" where
  "ps_gc s = (True, s)"

subsection \<open>What opening builds\<close>

text \<open>A word that names a server of its own connection.\<close>

definition plain_url :: "session_env \<Rightarrow> string \<Rightarrow> string \<Rightarrow> bool" where
  "plain_url se word host \<longleftrightarrow> word \<noteq> [] \<and> (\<forall>c \<in> set word. \<not> separator c \<and> c \<noteq> CHR 0x00) \<and>
     (case session_url se word of
        None \<Rightarrow> False
      | Some u \<Rightarrow> url_host u = Some host \<and> url_scheme u \<noteq> Some ''file'' \<and> \<not> u_persistent (url_params se (url_query u)) \<and>
          0 < u_weight (url_params se (url_query u)) \<and> 0 < u_timeout (url_params se (url_query u)))"

text \<open>The pool of the loop: standard strategy, servers below the next address, with these hosts.\<close>

definition opened_hosts :: "string list \<Rightarrow> 'w st \<Rightarrow> bool" where
  "opened_hosts hosts s \<longleftrightarrow> (\<exists>st. p_hash_state (pool s) = Standard_State st) \<and>
     (\<forall>p \<in> set (p_servers (pool s)). p < next_addr s) \<and>
     map (\<lambda>p. map_option mmc_host (heap s p)) (p_servers (pool s)) = map Some hosts"

lemma url_server_added:
  assumes "plain_url se word host" "session_url se word = Some u" "opened_hosts hosts s"
  shows "\<exists>s'. url_server env se u s = Some (Some s') \<and> opened_hosts (hosts @ [cstr host]) s'"
proof -
  obtain st where st: "p_hash_state (pool s) = Standard_State st" using assms(3) by (auto simp: opened_hosts_def)
  have u: "url_host u = Some host" "url_scheme u \<noteq> Some ''file''" "\<not> u_persistent (url_params se (url_query u))"
    "0 < u_weight (url_params se (url_query u))" "0 < u_timeout (url_params se (url_query u))"
    using assms(1,2) by (simp_all add: plain_url_def)
  obtain s1 m where new: "mmc_server_new host (length host) (url_port u) False (u_timeout (url_params se (url_query u)))
      (u_retry_interval (url_params se (url_query u))) False s = (next_addr s, s1)"
    "heap s1 = (heap s)(next_addr s \<mapsto> m)" "mmc_host m = cstr host" "next_addr s1 = Suc (next_addr s)" "pool s1 = pool s"
    by (simp add: mmc_server_new_def Let_def)
  let ?hs = "Standard_State (mmc_standard_add_server st (next_addr s) (nat (take_bit 32 (u_weight (url_params se (url_query u))))))"
  let ?s = "s1\<lparr>pool := (pool s)\<lparr>p_servers := p_servers (pool s) @ [next_addr s], p_hash_state := ?hs\<rparr>\<rparr>"
  have "url_server env se u s = Some (Some ?s)"
    using u by (cases "url_path u") (simp_all add: url_server_def session_server_def new mmc_pool_add_def strategy_add_server_def st)
  moreover have "\<forall>p \<in> set (p_servers (pool s)). p < next_addr s \<and> heap s1 p = heap s p"
    using assms(3) by (auto simp: opened_hosts_def new)
  then have "opened_hosts (hosts @ [cstr host]) ?s"
    using assms(3) by (auto simp: opened_hosts_def new(2-5) less_Suc_eq cong: map_cong)
  ultimately show ?thesis by blast
qed

lemma split_word:
  assumes "\<forall>c \<in> set w. \<not> separator c" "separator c" "w \<noteq> []"
  shows "dropWhile separator (w @ c # r) = w @ c # r" "takeWhile (\<lambda>c. \<not> separator c) (w @ c # r) = w"
    "tl (dropWhile (\<lambda>c. \<not> separator c) (w @ c # r)) = r"
proof -
  show "dropWhile separator (w @ c # r) = w @ c # r" using assms by (cases w) auto
  show "takeWhile (\<lambda>c. \<not> separator c) (w @ c # r) = w" using assms by (induction w) auto
  show "tl (dropWhile (\<lambda>c. \<not> separator c) (w @ c # r)) = r" using assms(1,2) by (induction w) auto
qed

definition save_path_of :: "(string \<times> char) list \<Rightarrow> string" where
  "save_path_of ws = concat (map (\<lambda>(w, c). w @ [c]) ws)"

lemma open_loop_words:
  assumes "\<forall>(w, c) \<in> set ws. separator c" "list_all2 (\<lambda>(w, c) h. plain_url se w h) ws hs"
    and "opened_hosts hosts s" "hosts @ hs \<noteq> []"
  shows "\<exists>s'. open_loop env se (save_path_of ws) s = Some (True, PS_SET_MOD_DATA True s') \<and> opened_hosts (hosts @ map cstr hs) s'"
  using assms(2,1,3,4)
proof (induction ws hs arbitrary: hosts s rule: list_all2_induct)
  case Nil
  then have "p_servers (pool s) \<noteq> []" by (auto simp: opened_hosts_def)
  then show ?case using Nil by (subst open_loop.simps) (auto simp: save_path_of_def p_num_servers_def)
next
  case (Cons x ws h hs)
  obtain w c where x: "x = (w, c)" by (cases x)
  have w: "plain_url se w h" "separator c" using Cons.hyps(1) Cons.prems(1) x by auto
  then obtain u where u: "session_url se w = Some u" by (auto simp: plain_url_def split: option.splits)
  obtain s1 where s1: "url_server env se u s = Some (Some s1)" "opened_hosts (hosts @ [cstr h]) s1"
    using url_server_added [OF w(1) u Cons.prems(2)] by blast
  have ws: "\<forall>c \<in> set w. \<not> separator c" "w \<noteq> []" using w(1) by (auto simp: plain_url_def)
  have "open_loop env se (save_path_of (x # ws)) s = open_loop env se (save_path_of ws) s1"
    using ws(2) u s1(1)
    by (subst open_loop.simps) (simp add: save_path_of_def x split_word [OF ws(1) w(2) ws(2)] Let_def)
  then show ?case using Cons.IH [OF _ s1(2)] Cons.prems(1) by simp
qed


text \<open>A PHP for the witnesses: every word is the host of a URL without parameters.\<close>

definition ex_session :: session_env where
  "ex_session = \<lparr>php_url_parse = (\<lambda>w. Some \<lparr>url_scheme = Some ''tcp'', url_host = Some w, url_port = 11211, url_path = None,
     url_query = None\<rparr>), treat_data = (\<lambda>_ _. None), to_boolean = (\<lambda>_. False), to_long = (\<lambda>_. 0), gc_maxlifetime = 1440\<rparr>"


subsection \<open>Failures\<close>

lemma prepare_key_short:
  "key \<noteq> [] \<Longrightarrow> length key < MMC_KEY_MAX_SIZE \<Longrightarrow>
    mmc_prepare_key_ex MMC_KEY_MAX_SIZE key s = Some ((MMC_OK, map key_char key), s)"
  by (simp add: mmc_prepare_key_ex_def Let_def)


text \<open>The pool of the witnesses: one server that is down.\<close>

definition ex_down :: "wire st" where
  "ex_down = (let s = ex_state (ex_heap STATUS_FAILED None) []
     in s\<lparr>pool := (pool s)\<lparr>p_hash_state := Standard_State \<lparr>s_num_servers = 1, s_buckets = [1], s_hash = HASH_FNV1A\<rparr>\<rparr>\<rparr>)"

lemma ex_down_find:
  "mmc_pool_find ex_env key ex_down = Some (Some 1, ex_down)"
  by (simp add: mmc_pool_find_def strategy_find_server_def ex_down_def ex_pool_def mmc_standard_find_server_def
     ex_state_def ex_heap_def ex_server_def mmc_open_def attach_proxy_def ex_env_simps fun_upd_idem_iff Let_def) (simp add: fun_upd_twist)


text \<open>C33. Destroying a session whose server is down goes through a NULL stream: unlike the delete
  functions, the loop does not test the server that it gets before it sends the command.\<close>
theorem session_destroy_crashes:
  assumes "PS_GET_MOD_DATA s" "cstr key \<noteq> []" "length (cstr key) < MMC_KEY_MAX_SIZE"
    and "mmc_pool_find env (map key_char (cstr key)) s = Some (Some p, s1)"
    and "heap s1 p = Some m" "mmc_stream m = None" "mmc_proxy m = None"
  shows "ps_destroy env live key s = None"
proof -
  have "session_delete env live p (map key_char (cstr key)) s1 = None"
    using assms(5-7) by (simp add: session_delete_def mmc_delete_def mmc_sendcmd_def mmc_channel_def setCode_def LogManager_begin_def)
  then have "destroy_loop env live (map key_char (cstr key)) s = None"
    using assms(4) by (subst destroy_loop.simps) simp
  then show ?thesis using assms(1) prepare_key_short [OF assms(2,3), of s] by (simp add: ps_destroy_def)
qed

lemma session_destroy_crashes_witness: "ps_destroy ex_env True ''abc'' ex_down = None"
proof -
  have c: "cstr ''abc'' = ''abc''" by code_simp
  show ?thesis
    by (rule session_destroy_crashes [where m = "ex_server STATUS_FAILED None", OF _ _ _ ex_down_find])
      (simp_all add: c ex_down_def ex_state_def PS_GET_MOD_DATA_def MMC_KEY_MAX_SIZE_def ex_heap_def ex_server_def Let_def)
qed

end
