(* ===== verification/Config.thy ===== *)
theory Config
  imports Pool_Handlers
begin

text \<open>
  The module globals: their initial values and the INI settings with their handlers
  (memcache.cpp 374-552, 590-609). The handlers of PHP itself are used as documented: \<open>OnUpdateLong\<close>
  stores \<open>zend_atol\<close> of the text as a C \<open>long\<close>, \<open>OnUpdateBool\<close> its truth value, \<open>OnUpdateString\<close> the
  pointer; the two conversions are the fields of \<open>ini_env\<close>.
\<close>

record ini_env =
  zend_atol :: "string \<Rightarrow> int"
  ini_bool :: "string \<Rightarrow> bool"

text \<open>The globals with \<open>log_conf\<close>, and the warnings given.\<close>

record ini_st =
  ini_g :: mmc_globals
  log_conf :: "string option"
  ini_diags :: "string list"

definition DI_CHKSUM_CRC_STR :: string where "DI_CHKSUM_CRC_STR = ''crc32''"
definition DI_CHKSUM_OFF_STR :: string where "DI_CHKSUM_OFF_STR = ''none''"

abbreviation ini_set :: "(mmc_globals \<Rightarrow> mmc_globals) \<Rightarrow> ini_st \<Rightarrow> bool \<times> ini_st" where
  "ini_set f s \<equiv> (True, s\<lparr>ini_g := f (ini_g s)\<rparr>)"

abbreviation ini_fail :: "string \<Rightarrow> ini_st \<Rightarrow> bool \<times> ini_st" where
  "ini_fail msg s \<equiv> (False, s\<lparr>ini_diags := ini_diags s @ [msg]\<rparr>)"

subsection \<open>The handlers\<close>

text \<open>Each is applied to the new text; the value stored is given by the setting.\<close>

definition OnUpdateChunkSize :: "ini_env \<Rightarrow> string \<Rightarrow> ini_st \<Rightarrow> bool \<times> ini_st" where
  "OnUpdateChunkSize ie x s =
     (if strtol 10 x \<le> 0 then ini_fail ''memcache.chunk_size must be a positive integer ('%s' given)'' s
      else ini_set (\<lambda>g. g\<lparr>g_chunk_size := zend_atol ie x\<rparr>) s)"

definition OnUpdateFailoverAttempts :: "ini_env \<Rightarrow> string \<Rightarrow> ini_st \<Rightarrow> bool \<times> ini_st" where
  "OnUpdateFailoverAttempts ie x s =
     (if strtol 10 x \<le> 0 then ini_fail ''memcache.max_failover_attempts must be a positive integer ('%s' given)'' s
      else ini_set (\<lambda>g. g\<lparr>g_max_failover_attempts := zend_atol ie x\<rparr>) s)"

definition strcasecmp_eq :: "string \<Rightarrow> string \<Rightarrow> bool" where
  "strcasecmp_eq a b \<longleftrightarrow> map ascii_lower a = map ascii_lower b"

definition OnUpdateHashStrategy :: "string \<Rightarrow> ini_st \<Rightarrow> bool \<times> ini_st" where
  "OnUpdateHashStrategy x s =
     (if strcasecmp_eq x ''standard'' then ini_set (\<lambda>g. g\<lparr>g_hash_strategy := STANDARD_HASH\<rparr>) s
      else if strcasecmp_eq x ''consistent'' then ini_set (\<lambda>g. g\<lparr>g_hash_strategy := CONSISTENT_HASH\<rparr>) s
      else ini_fail ''memcache.hash_strategy must be in set {standard, consistent} ('%s' given)'' s)"

definition OnUpdateHashFunction :: "string \<Rightarrow> ini_st \<Rightarrow> bool \<times> ini_st" where
  "OnUpdateHashFunction x s =
     (if strcasecmp_eq x ''crc32'' then ini_set (\<lambda>g. g\<lparr>g_hash_function := HASH_CRC32\<rparr>) s
      else if strcasecmp_eq x ''fnv'' then ini_set (\<lambda>g. g\<lparr>g_hash_function := HASH_FNV1A\<rparr>) s
      else ini_fail ''memcache.hash_function must be in set {crc32, fnv} ('%s' given)'' s)"

definition OnUpdateDefaultTimeout :: "string \<Rightarrow> ini_st \<Rightarrow> bool \<times> ini_st" where
  "OnUpdateDefaultTimeout x s =
     (let lval = strtol 10 x in
      if lval \<le> 0
      then ini_fail ''memcache.default_timeout must be a positive number greater than or equal to 1 ('%s' given)'' s
      else ini_set (\<lambda>g. g\<lparr>g_default_timeout_ms := lval\<rparr>) s)"

definition OnUpdateCompressionLevel :: "string \<Rightarrow> ini_st \<Rightarrow> bool \<times> ini_st" where
  "OnUpdateCompressionLevel x s =
     (let lval = strtol 10 x in
      if lval < 0 \<or> 9 < lval then ini_fail ''memcache.compression_level must be >= 0 and <= 9 '' s
      else ini_set (\<lambda>g. g\<lparr>g_compression_level := lval\<rparr>) s)"

definition OnUpdateRetryInterval :: "string \<Rightarrow> ini_st \<Rightarrow> bool \<times> ini_st" where
  "OnUpdateRetryInterval x s =
     (let lval = c_int (strtol 10 x) in
      if lval < 3 \<or> 30 < lval then ini_fail ''memcache.retry_interval must be >= 3 and <= 30 '' s
      else ini_set (\<lambda>g. g\<lparr>g_retry_interval := lval\<rparr>) s)"

definition OnUpdateProxyHost :: "string option \<Rightarrow> ini_st \<Rightarrow> bool \<times> ini_st" where
  "OnUpdateProxyHost val s = (case val of
     None \<Rightarrow> (True, s)
   | Some x \<Rightarrow> ini_set (\<lambda>g. g\<lparr>g_proxy_hostlen := length (cstr x), g_proxy_host := Some (cstr x)\<rparr>) s)"

definition OnUpdateLogConf :: "string option \<Rightarrow> ini_st \<Rightarrow> bool \<times> ini_st" where
  "OnUpdateLogConf val s = (case val of None \<Rightarrow> (True, s) | Some x \<Rightarrow> (True, s\<lparr>log_conf := Some x\<rparr>))"

text \<open>Declared, but the table below does not name it.\<close>

definition OnUpdateIntegrityRetryCount :: "string \<Rightarrow> ini_st \<Rightarrow> bool \<times> ini_st" where
  "OnUpdateIntegrityRetryCount x s =
     (let lval = c_int (strtol 10 x) in
      if lval < 0 \<or> 3 < lval then ini_fail ''memcache.integrity_error_retry_count must be >= 0 and <= 3 '' s
      else ini_set (\<lambda>g. g\<lparr>g_integrity_error_retry_count := lval\<rparr>) s)"

definition OnUpdateIntegrityAlgo :: "string option \<Rightarrow> ini_st \<Rightarrow> bool \<times> ini_st" where
  "OnUpdateIntegrityAlgo val s = (case val of
     None \<Rightarrow> (True, s)
   | Some x \<Rightarrow>
       if x = DI_CHKSUM_CRC_STR \<or> x = DI_CHKSUM_OFF_STR then ini_set (\<lambda>g. g\<lparr>g_integrity_algo := x\<rparr>) s
       else ini_fail ''memcache.integrity_algo must be one of {\"%s\", \"%s\"}, will continue to use %s '' s)"

text \<open>
  \<open>OnUpdateLong\<close> writes eight bytes. \<open>connection_retry_count\<close> is an \<open>int\<close>, followed by the \<open>int\<close>
  \<open>retry_interval\<close>: the write (little-endian, eight-byte \<open>long\<close>) puts its high half there.
\<close>

definition long_over_ints :: "int \<Rightarrow> mmc_globals \<Rightarrow> mmc_globals" where
  "long_over_ints v g = g\<lparr>g_connection_retry_count := c_int v, g_retry_interval := c_int (v div 2 ^ 32)\<rparr>"

subsection \<open>The table\<close>

datatype ini_entry = Allow_Failover | Max_Failover_Attempts | Default_Port | Chunk_Size | Hash_Strategy | Hash_Function
  | Default_Timeout_Ms | Compression_Level | Tcp_Nodelay | Null_On_Keymiss | Proxy_Enabled | Proxy_Host | Proxy_Port
  | Connection_Retry_Count | Retry_Interval | Log_Conf | Integrity_Error_Retry_Count | Integrity_Algo | Log_Max_Multi_Op

definition ini_table :: "(ini_entry \<times> string option) list" where
  "ini_table = [(Allow_Failover, Some ''0''), (Max_Failover_Attempts, Some ''20''), (Default_Port, Some ''11211''),
     (Chunk_Size, Some ''8192''), (Hash_Strategy, Some ''standard''), (Hash_Function, Some ''crc32''),
     (Default_Timeout_Ms, Some ''10000''), (Compression_Level, Some ''0''), (Tcp_Nodelay, Some ''1''),
     (Null_On_Keymiss, Some ''0''), (Proxy_Enabled, Some ''0''), (Proxy_Host, None), (Proxy_Port, Some ''0''),
     (Connection_Retry_Count, Some ''0''), (Retry_Interval, Some ''15''), (Log_Conf, None),
     (Integrity_Error_Retry_Count, Some ''3''), (Integrity_Algo, Some ''crc32''), (Log_Max_Multi_Op, Some ''50'')]"

text \<open>A new value; a NULL text is only for the three settings whose handlers test for it.\<close>

definition ini_update :: "ini_env \<Rightarrow> ini_entry \<Rightarrow> string option \<Rightarrow> ini_st \<Rightarrow> (bool \<times> ini_st) option" where
  "ini_update ie e val s = (case e of
     Proxy_Host \<Rightarrow> Some (OnUpdateProxyHost val s)
   | Log_Conf \<Rightarrow> Some (OnUpdateLogConf val s)
   | Integrity_Algo \<Rightarrow> Some (OnUpdateIntegrityAlgo val s)
   | _ \<Rightarrow> do {
       x \<leftarrow> val;
       let x = cstr x;
       Some (case e of
          Allow_Failover \<Rightarrow> ini_set (\<lambda>g. g\<lparr>g_allow_failover := zend_atol ie x \<noteq> 0\<rparr>) s
        | Max_Failover_Attempts \<Rightarrow> OnUpdateFailoverAttempts ie x s
        | Default_Port \<Rightarrow> ini_set (\<lambda>g. g\<lparr>g_default_port := zend_atol ie x\<rparr>) s
        | Chunk_Size \<Rightarrow> OnUpdateChunkSize ie x s
        | Hash_Strategy \<Rightarrow> OnUpdateHashStrategy x s
        | Hash_Function \<Rightarrow> OnUpdateHashFunction x s
        | Default_Timeout_Ms \<Rightarrow> OnUpdateDefaultTimeout x s
        | Compression_Level \<Rightarrow> OnUpdateCompressionLevel x s
        | Tcp_Nodelay \<Rightarrow> ini_set (\<lambda>g. g\<lparr>g_tcp_nodelay := ini_bool ie x\<rparr>) s
        | Null_On_Keymiss \<Rightarrow> ini_set (\<lambda>g. g\<lparr>g_false_on_error := ini_bool ie x\<rparr>) s
        | Proxy_Enabled \<Rightarrow> ini_set (\<lambda>g. g\<lparr>g_proxy_enabled := ini_bool ie x\<rparr>) s
        | Proxy_Port \<Rightarrow> ini_set (\<lambda>g. g\<lparr>g_proxy_port := zend_atol ie x\<rparr>) s
        | Connection_Retry_Count \<Rightarrow> ini_set (long_over_ints (zend_atol ie x)) s
        | Retry_Interval \<Rightarrow> OnUpdateRetryInterval x s
        | Integrity_Error_Retry_Count \<Rightarrow> ini_set (\<lambda>g. g\<lparr>g_integrity_error_retry_count := zend_atol ie x\<rparr>) s
        | _ \<Rightarrow> ini_set (\<lambda>g. g\<lparr>g_log_max_multi_op := zend_atol ie x\<rparr>) s)
     })"

definition php_memcache_init_globals :: "ini_st \<Rightarrow> ini_st" where
  "php_memcache_init_globals s = s\<lparr>ini_g := (ini_g s)\<lparr>g_debug_mode := False, g_num_persistent := 0, g_compression_level := 0,
     g_hash_strategy := STANDARD_HASH, g_hash_function := HASH_CRC32, g_default_timeout_ms := 10000, g_tcp_nodelay := True,
     g_proxy_enabled := False, g_false_on_error := False, g_proxy_host := None, g_proxy_hostlen := 0, g_proxy_port := 0,
     g_connection_retry_count := 0, g_integrity_error_retry_count := 3, g_integrity_algo := DI_CHKSUM_CRC_STR\<rparr>\<rparr>"

text \<open>\<open>REGISTER_INI_ENTRIES\<close> applies the defaults in the order of the table.\<close>

fun register_entries :: "ini_env \<Rightarrow> (ini_entry \<times> string option) list \<Rightarrow> ini_st \<Rightarrow> ini_st option" where
  "register_entries ie [] s = Some s"
| "register_entries ie ((e, v) # es) s = do { (_, s) \<leftarrow> ini_update ie e v s; register_entries ie es s }"

definition module_start :: "ini_env \<Rightarrow> ini_st \<Rightarrow> ini_st option" where
  "module_start ie s = register_entries ie ini_table (php_memcache_init_globals s)"

subsection \<open>The settings that can be reached\<close>

text \<open>The start of the module, and then any settings of the user. \<open>tuned\<close> says whether one of them
  was \<open>connection_retry_count\<close>.\<close>

inductive configured :: "ini_env \<Rightarrow> bool \<Rightarrow> ini_st \<Rightarrow> bool" for ie where
  configured_start: "module_start ie s0 = Some s \<Longrightarrow> configured ie False s"
| configured_update: "configured ie tuned s \<Longrightarrow> ini_update ie e val s = Some (ok, s') \<Longrightarrow>
    configured ie (tuned \<or> e = Connection_Retry_Count) s'"

definition settings_ok :: "bool \<Rightarrow> mmc_globals \<Rightarrow> bool" where
  "settings_ok tuned g \<longleftrightarrow> 0 \<le> g_compression_level g \<and> g_compression_level g \<le> 9 \<and> 1 \<le> g_default_timeout_ms g \<and>
     g_integrity_algo g \<in> {DI_CHKSUM_CRC_STR, DI_CHKSUM_OFF_STR} \<and>
     (tuned \<or> 3 \<le> g_retry_interval g \<and> g_retry_interval g \<le> 30)"

named_theorems handlers_ok "the handlers keep the settings in their bounds"

lemma OnUpdateChunkSize_ok [handlers_ok]: "settings_ok t (ini_g s) \<Longrightarrow> settings_ok t (ini_g (snd (OnUpdateChunkSize ie x s)))"
  by (simp add: OnUpdateChunkSize_def settings_ok_def Let_def)

lemma OnUpdateFailoverAttempts_ok [handlers_ok]: "settings_ok t (ini_g s) \<Longrightarrow> settings_ok t (ini_g (snd (OnUpdateFailoverAttempts ie x s)))"
  by (simp add: OnUpdateFailoverAttempts_def settings_ok_def Let_def)

lemma OnUpdateHashStrategy_ok [handlers_ok]: "settings_ok t (ini_g s) \<Longrightarrow> settings_ok t (ini_g (snd (OnUpdateHashStrategy x s)))"
  by (simp add: OnUpdateHashStrategy_def settings_ok_def Let_def)

lemma OnUpdateHashFunction_ok [handlers_ok]: "settings_ok t (ini_g s) \<Longrightarrow> settings_ok t (ini_g (snd (OnUpdateHashFunction x s)))"
  by (simp add: OnUpdateHashFunction_def settings_ok_def Let_def)

lemma OnUpdateDefaultTimeout_ok [handlers_ok]: "settings_ok t (ini_g s) \<Longrightarrow> settings_ok t (ini_g (snd (OnUpdateDefaultTimeout x s)))"
  by (simp add: OnUpdateDefaultTimeout_def settings_ok_def Let_def)

lemma OnUpdateCompressionLevel_ok [handlers_ok]: "settings_ok t (ini_g s) \<Longrightarrow> settings_ok t (ini_g (snd (OnUpdateCompressionLevel x s)))"
  by (simp add: OnUpdateCompressionLevel_def settings_ok_def Let_def)

lemma OnUpdateRetryInterval_ok [handlers_ok]: "settings_ok t (ini_g s) \<Longrightarrow> settings_ok t (ini_g (snd (OnUpdateRetryInterval x s)))"
  by (simp add: OnUpdateRetryInterval_def settings_ok_def Let_def)

lemma OnUpdateProxyHost_ok [handlers_ok]: "settings_ok t (ini_g s) \<Longrightarrow> settings_ok t (ini_g (snd (OnUpdateProxyHost v s)))"
  by (simp add: OnUpdateProxyHost_def settings_ok_def Let_def split: option.split)

lemma OnUpdateLogConf_ok [handlers_ok]: "settings_ok t (ini_g s) \<Longrightarrow> settings_ok t (ini_g (snd (OnUpdateLogConf v s)))"
  by (simp add: OnUpdateLogConf_def settings_ok_def Let_def split: option.split)

lemma OnUpdateIntegrityAlgo_ok [handlers_ok]: "settings_ok t (ini_g s) \<Longrightarrow> settings_ok t (ini_g (snd (OnUpdateIntegrityAlgo v s)))"
  by (simp add: OnUpdateIntegrityAlgo_def settings_ok_def Let_def split: option.split)

lemma plain_settings_ok [handlers_ok]:
  "settings_ok t g \<Longrightarrow> settings_ok t (g\<lparr>g_allow_failover := b\<rparr>)" "settings_ok t g \<Longrightarrow> settings_ok t (g\<lparr>g_default_port := i\<rparr>)"
  "settings_ok t g \<Longrightarrow> settings_ok t (g\<lparr>g_tcp_nodelay := b\<rparr>)" "settings_ok t g \<Longrightarrow> settings_ok t (g\<lparr>g_false_on_error := b\<rparr>)"
  "settings_ok t g \<Longrightarrow> settings_ok t (g\<lparr>g_proxy_enabled := b\<rparr>)" "settings_ok t g \<Longrightarrow> settings_ok t (g\<lparr>g_proxy_port := i\<rparr>)"
  "settings_ok t g \<Longrightarrow> settings_ok True (long_over_ints i g)"
  "settings_ok t g \<Longrightarrow> settings_ok t (g\<lparr>g_integrity_error_retry_count := i\<rparr>)"
  "settings_ok t g \<Longrightarrow> settings_ok t (g\<lparr>g_log_max_multi_op := i\<rparr>)"
  by (simp_all add: settings_ok_def long_over_ints_def)

lemma ini_update_ok:
  assumes "ini_update ie e val s = Some (ok, s')" "settings_ok t (ini_g s)"
  shows "settings_ok (t \<or> e = Connection_Retry_Count) (ini_g s')"
proof -
  have s': "s' = snd (the (ini_update ie e val s))" using assms(1) by simp
  show ?thesis
  proof (cases val)
    case None
    then show ?thesis using assms s' by (cases e) (simp_all add: ini_update_def handlers_ok)
  next
    case (Some x)
    show ?thesis unfolding s' Some using assms(2) by (cases e) (simp_all add: ini_update_def handlers_ok)
  qed
qed

lemma register_append:
  "register_entries ie (xs @ ys) s = do { s \<leftarrow> register_entries ie xs s; register_entries ie ys s }"
proof (induction xs arbitrary: s)
  case (Cons x xs)
  then show ?case by (cases x; cases "ini_update ie (fst x) (snd x) s") auto
qed simp

lemma register_ok:
  "register_entries ie es s = Some s' \<Longrightarrow> Connection_Retry_Count \<notin> fst ` set es \<or> tuned \<Longrightarrow> settings_ok tuned (ini_g s) \<Longrightarrow>
    settings_ok tuned (ini_g s')"
proof (induction es arbitrary: s)
  case (Cons x es)
  obtain e v where x: "x = (e, v)" by (cases x)
  with Cons.prems(1) obtain ok s1 where u: "ini_update ie e v s = Some (ok, s1)" "register_entries ie es s1 = Some s'"
    by (auto elim!: bind_SomeE split: prod.splits)
  have "settings_ok tuned (ini_g s1)" using ini_update_ok [OF u(1) Cons.prems(3)] Cons.prems(2) x by auto
  then show ?case using Cons.IH u(2) Cons.prems(2) by auto
qed simp

lemma strtol_show_nat: "stops 10 r \<Longrightarrow> \<forall>c r'. r = c # r' \<longrightarrow> c \<noteq> CHR ''x'' \<and> c \<noteq> CHR ''X'' \<Longrightarrow> n < 2 ^ 31 \<Longrightarrow>
    strtol 10 (show_nat n @ r) = int n"
  by (simp add: strtol_def scan_number_show_nat LONG_MAX_def LONG_MIN_def)

lemma small_numbers: "strtol 10 ''15'' = 15" "strtol 10 ''3'' = 3"
proof -
  have n: "show_nat 15 = ''15''" "show_nat 3 = ''3''" by code_simp+
  show "strtol 10 ''15'' = 15" using strtol_show_nat [of "[]" 15] by (simp add: n stops_def)
  show "strtol 10 ''3'' = 3" using strtol_show_nat [of "[]" 3] by (simp add: n stops_def)
qed

text \<open>The default of the retry interval comes after the one of \<open>connection_retry_count\<close>.\<close>

lemma module_start_ok:
  assumes "module_start ie s0 = Some s"
  shows "settings_ok False (ini_g s)"
proof -
  have t: "ini_table = take 14 ini_table @ [(Retry_Interval, Some ''15'')] @ drop 15 ini_table" by (simp add: ini_table_def)
  obtain s1 s2 where r: "register_entries ie (take 14 ini_table) (php_memcache_init_globals s0) = Some s1"
    "register_entries ie [(Retry_Interval, Some ''15'')] s1 = Some s2" "register_entries ie (drop 15 ini_table) s2 = Some s"
    using assms unfolding module_start_def by (subst (asm) t) (auto simp only: register_append elim!: bind_SomeE)
  have "settings_ok True (ini_g (php_memcache_init_globals s0))"
    by (simp add: settings_ok_def php_memcache_init_globals_def)
  then have s1: "settings_ok True (ini_g s1)" by (rule register_ok [OF r(1), rotated]) simp
  have "cstr ''15'' = ''15''" by code_simp
  then have "s2 = s1\<lparr>ini_g := (ini_g s1)\<lparr>g_retry_interval := 15\<rparr>\<rparr>" using r(2)
    by (simp add: ini_update_def OnUpdateRetryInterval_def small_numbers c_int_id Let_def)
  then have "settings_ok False (ini_g s2)" using s1 by (simp add: settings_ok_def)
  then show ?thesis by (rule register_ok [OF r(3), rotated]) (simp add: ini_table_def)
qed


definition ex_ini :: ini_env where
  "ex_ini = \<lparr>zend_atol = strtol 10, ini_bool = (\<lambda>x. x = ''1'')\<rparr>"

definition ex_config :: ini_st where
  "ex_config = \<lparr>ini_g = ex_glob, log_conf = None, ini_diags = []\<rparr>"

lemma register_defined:
  "\<forall>(e, v) \<in> set es. v \<noteq> None \<or> e \<in> {Proxy_Host, Log_Conf, Integrity_Algo} \<Longrightarrow> \<exists>s'. register_entries ie es s = Some s'"
proof (induction es arbitrary: s)
  case (Cons x es)
  obtain e v where x: "x = (e, v)" by (cases x)
  then have "\<exists>ok s1. ini_update ie e v s = Some (ok, s1)"
    using Cons.prems by (cases e; cases v) (auto simp: ini_update_def prod_eq_iff)
  then show ?case using Cons x by auto
qed simp

lemma module_starts: "\<exists>s'. module_start ie s = Some s'"
  unfolding module_start_def by (rule register_defined) (simp add: ini_table_def)


text \<open>Setting \<open>connection_retry_count\<close> to a small number sets the retry interval of new servers to 0: the
  \<open>int\<close> is written as a \<open>long\<close>, over its neighbour.\<close>
theorem retry_count_clobbers_interval:
  assumes "zend_atol ie (cstr x) = n" "0 \<le> n" "n < 2 ^ 31"
  shows "\<exists>s'. ini_update ie Connection_Retry_Count (Some x) s = Some (True, s') \<and>
    g_connection_retry_count (ini_g s') = n \<and> g_retry_interval (ini_g s') = 0"
  using assms by (simp add: ini_update_def long_over_ints_def c_int_id)

lemma retry_count_clobbers_interval_witness:
  "\<exists>s'. ini_update ex_ini Connection_Retry_Count (Some ''3'') ex_config = Some (True, s') \<and>
    g_connection_retry_count (ini_g s') = 3 \<and> g_retry_interval (ini_g s') = 0"
  by (rule retry_count_clobbers_interval) (simp_all add: ex_ini_def small_numbers)

end
