(* ===== verification/Liveness.thy ===== *)
theory Liveness
  imports Lifecycle Commands
begin

text \<open>
  Commands on a broken network end: with every status of a server a level, and the clock within
  one second, no operation raises the level of a server, and every failed round of a command
  lowers the one it used.
\<close>

subsection \<open>Levels\<close>

fun rank :: "mmc_status \<Rightarrow> nat" where
  "rank STATUS_FAILED = 0"
| "rank STATUS_CONNECTED = 1"
| "rank STATUS_DISCONNECTED = 2"
| "rank STATUS_UNKNOWN = 3"

definition lev :: "nat \<Rightarrow> 'w st \<Rightarrow> nat" where
  "lev p s = (case heap s p of None \<Rightarrow> 0 | Some m \<Rightarrow> rank (mmc_status m))"

text \<open>At time \<open>T\<close>: the retry interval is not 0, and a failed server is not retried yet.\<close>

definition resting :: "int \<Rightarrow> mmc \<Rightarrow> bool" where
  "resting T m \<longleftrightarrow> mmc_retry_interval m \<noteq> 0 \<and>
     (mmc_status m = STATUS_FAILED \<longrightarrow> mmc_retry_interval m < 0 \<or> T < mmc_failed m + mmc_retry_interval m)"

definition calm :: "int \<Rightarrow> nat \<Rightarrow> 'w st \<Rightarrow> bool" where
  "calm T p s \<longleftrightarrow> (\<exists>m. heap s p = Some m \<and> resting T m)"

definition frozen :: "'w php_env \<Rightarrow> int \<Rightarrow> bool" where
  "frozen env T \<longleftrightarrow> (\<forall>w. fst (time_now env w) = T)"

text \<open>No write comes through.\<close>

definition mute :: "'w php_env \<Rightarrow> bool" where
  "mute env \<longleftrightarrow> (\<forall>h x w. fst (stream_write env h x w) \<noteq> int (length x))"

definition sinks :: "int \<Rightarrow> 'w st \<Rightarrow> 'w st \<Rightarrow> bool" where
  "sinks T s s' \<longleftrightarrow> glob s' = glob s \<and> (\<exists>hs. pool s' = (pool s)\<lparr>p_hash_state := hs\<rparr>) \<and>
     (\<forall>q. calm T q s \<longrightarrow> calm T q s' \<and> lev q s' \<le> lev q s)"

lemma pool_same [simp]: "\<exists>hs. pl = pl\<lparr>p_hash_state := hs\<rparr>"
  by (rule exI [of _ "p_hash_state pl"]) simp

lemma sinks_refl [simp]: "sinks T s s"
  by (simp add: sinks_def)

lemma sinks_trans [trans]: "sinks T s s' \<Longrightarrow> sinks T s' s'' \<Longrightarrow> sinks T s s''"
  unfolding sinks_def by (auto intro: order_trans)

lemma lev_simps [simp]:
  "lev p (s\<lparr>world := w\<rparr>) = lev p s" "lev p (log_upd f s) = lev p s" "lev p (php_error l x s) = lev p s"
  "lev p (s\<lparr>pool := pl\<rparr>) = lev p s" "calm T p (s\<lparr>world := w\<rparr>) = calm T p s" "calm T p (log_upd f s) = calm T p s"
  "calm T p (php_error l x s) = calm T p s" "calm T p (s\<lparr>pool := pl\<rparr>) = calm T p s"
  by (simp_all add: lev_def calm_def)

lemma sinks_simps [simp]:
  "sinks T s (s'\<lparr>world := w\<rparr>) = sinks T s s'" "sinks T s (log_upd f s') = sinks T s s'"
  "sinks T s (php_error l x s') = sinks T s s'" "sinks T s (s\<lparr>pool := (pool s)\<lparr>p_hash_state := hs\<rparr>\<rparr>)"
  by (auto simp: sinks_def)

lemma core_resting: "core m' = core m \<Longrightarrow> resting T m' = resting T m"
  using core_fields [of m' m] by (simp add: resting_def)

lemma core_lev: "map_option core (heap s' q) = map_option core (heap s q) \<Longrightarrow> lev q s' = lev q s \<and> calm T q s' = calm T q s"
proof (cases "heap s q")
  case (Some m)
  assume "map_option core (heap s' q) = map_option core (heap s q)"
  then obtain m' where m': "heap s' q = Some m'" "core m' = core m" using Some by auto
  show ?thesis by (simp add: lev_def calm_def m'(1) Some core_fields(2) [OF m'(2)] core_resting [OF m'(2)])
qed (auto simp: lev_def calm_def)

lemma quiet_lev:
  assumes "quiet s s'"
  shows "lev q s' = lev q s \<and> calm T q s' = calm T q s"
proof (rule core_lev)
  show "map_option core (heap s' q) = map_option core (heap s q)" using assms unfolding quiet_def by blast
qed

lemma quiet_sinks:
  assumes "quiet s s'"
  shows "sinks T s s'"
proof -
  have "pool s' = pool s" "glob s' = glob s" using assms by (simp_all add: quiet_def)
  then show ?thesis unfolding sinks_def using quiet_lev [OF assms, of _ T] pool_same by simp
qed

lemma touch_sinks:
  assumes "touch {p} s s'" "calm T p s \<Longrightarrow> calm T p s' \<and> lev p s' \<le> lev p s"
  shows "sinks T s s'"
proof -
  have "calm T q s \<Longrightarrow> calm T q s' \<and> lev q s' \<le> lev q s" for q
  proof (cases "q = p")
    case False
    then have "lev q s' = lev q s \<and> calm T q s' = calm T q s"
      using assms(1) unfolding touch_def by (intro core_lev) blast
    then show "calm T q s \<Longrightarrow> calm T q s' \<and> lev q s' \<le> lev q s" by simp
  qed (use assms(2) in simp)
  moreover have "pool s' = pool s" "glob s' = glob s" using assms(1) by (simp_all add: touch_def)
  ultimately show ?thesis unfolding sinks_def using pool_same by simp
qed

subsection \<open>Connections\<close>

text \<open>The server at \<open>p\<close> after an operation on it: retry interval and proxy kept, and a property.\<close>

definition now_at :: "nat \<Rightarrow> mmc \<Rightarrow> (mmc \<Rightarrow> bool) \<Rightarrow> 'w st \<Rightarrow> bool" where
  "now_at p m Q s \<longleftrightarrow> (\<exists>m'. heap s p = Some m' \<and> mmc_retry_interval m' = mmc_retry_interval m \<and> Q m')"

definition down :: "int \<Rightarrow> mmc \<Rightarrow> bool" where
  "down T m \<longleftrightarrow> mmc_status m = STATUS_FAILED \<and> mmc_failed m = T"

lemma now_at_simps [simp]: "now_at p m Q (s\<lparr>world := w\<rparr>) = now_at p m Q s" "now_at p m Q (php_error l x s) = now_at p m Q s"
  by (simp_all add: now_at_def)

lemma now_at_quiet: "quiet s s' \<Longrightarrow> now_at p m (\<lambda>_. True) s \<Longrightarrow> now_at p m (\<lambda>_. True) s'"
  unfolding now_at_def by (metis core_fields(12) quiet_heap)

lemma disconnect_now:
  "heap s p = Some m \<Longrightarrow> wlp (mmc_server_disconnect env p s) (now_at p m (\<lambda>m'. mmc_status m' = STATUS_DISCONNECTED))"
  by (auto simp: mmc_server_disconnect_def wp_simps now_at_def split: option.split)

lemma report_failure_now [simp]: "now_at p m Q (report_failure env k s) = now_at p m Q s"
  by (simp add: report_failure_def split: option.split)

lemma deactivate_now:
  fixes env :: "'w php_env" and s :: "'w st"
  assumes "frozen env T" "now_at p m (\<lambda>_. True) s"
  shows "wlp (mmc_server_deactivate env p s) (now_at p m (down T))"
proof -
  obtain m1 where m1: "heap s p = Some m1" "mmc_retry_interval m1 = mmc_retry_interval m" using assms(2) by (auto simp: now_at_def)
  have t: "time_now env w = (x, w') \<Longrightarrow> x = T" for w x w' using assms(1) by (metis frozen_def fst_conv)
  show ?thesis
    unfolding mmc_server_deactivate_def
  proof (rule wlp_bindI [OF disconnect_now [OF m1(1)]])
    fix s1 :: "'w st"
    assume "now_at p m1 (\<lambda>m'. mmc_status m' = STATUS_DISCONNECTED) s1"
    then obtain m2 where m2: "heap s1 p = Some m2" "mmc_retry_interval m2 = mmc_retry_interval m" using m1 by (auto simp: now_at_def)
    then show "wlp (do {
        s \<leftarrow> upd p (mmc_status_update (\<lambda>_. STATUS_FAILED)) s1;
        let (now, w) = time_now env (world s);
        s \<leftarrow> upd p (mmc_failed_update (\<lambda>_. now)) (s\<lparr>world := w\<rparr>);
        m \<leftarrow> heap s p;
        Some (report_failure env m s) }) (now_at p m (down T))"
      using t by (auto simp: wp_simps now_at_def [of p m "down T" "_\<lparr>world := _, heap := _\<rparr>"] down_def split: prod.split)
  qed
qed

lemma open_conn_now:
  fixes env :: "'w php_env" and s :: "'w st"
  assumes "frozen env T" "heap s p = Some m"
  shows "wlp (mmc_open_conn env p s) (\<lambda>(_, s'). now_at p m (\<lambda>m'. mmc_status m' = STATUS_CONNECTED \<or> down T m') s')"
proof -
  have dis: "wlp (if mmc_stream m \<noteq> None then mmc_server_disconnect env p s else Some s) (now_at p m (\<lambda>_. True))"
    using disconnect_now [OF assms(2), of env] assms(2) by (auto simp: wp_simps now_at_def wlp_def)
  have res: "wlp (open_result env p tv r s1) (\<lambda>(_, s'). now_at p m (\<lambda>m'. mmc_status m' = STATUS_CONNECTED \<or> down T m') s')"
    if s1: "now_at p m (\<lambda>_. True) s1" for s1 r tv
  proof -
    obtain st errstr err where r: "r = (st, errstr, err)" by (cases r)
    obtain m1 where m1: "heap s1 p = Some m1" "mmc_retry_interval m1 = mmc_retry_interval m" using s1 by (auto simp: now_at_def)
    show ?thesis
    proof (cases st)
      case None
      have set: "wlp (mmc_server_seterror p e n s2) (\<lambda>s3. wlp (mmc_server_deactivate env p s3) (now_at p m (down T)))"
        if "now_at p m (\<lambda>_. True) s2" for e n s2
        by (rule wlp_conseq [OF seterror_quiet_always]) (rule deactivate_now [OF assms(1) now_at_quiet [OF _ that]])
      have d: "now_at p m (down T) s \<Longrightarrow> now_at p m (\<lambda>m'. mmc_status m' = STATUS_CONNECTED \<or> down T m') s" for s
        by (auto simp: now_at_def)
      show ?thesis
        using m1 unfolding open_result_def r None
        by (auto simp: wp_simps now_at_def [of p m "\<lambda>_. True"] intro!: wlp_conseq [OF set] elim!: wlp_conseq intro: d)
    next
      case (Some h)
      then show ?thesis using m1 by (simp add: open_result_def r wp_simps now_at_def Let_def)
    qed
  qed
  show ?thesis
    unfolding mmc_open_conn_def assms(2) bind.simps Let_def
  proof (rule wlp_bindI [OF dis], split prod.split, intro allI impI)
    fix s1 r s2
    assume "now_at p m (\<lambda>_. True) s1" "open_attempts env (connect_hostname m) (if mmc_persistent m then Some (''memcache:'' @ show_int (getpid env) @ '':'' @ connect_hostname m) else None) (connect_timeout m) (g_connection_retry_count (glob s1)) s1 = (r, s2)"
    then have "now_at p m (\<lambda>_. True) s2" using now_at_quiet open_attempts_quiet by blast
    then show "wlp (open_result env p (connect_timeout m) r s2) (\<lambda>(_, s'). now_at p m (\<lambda>m'. mmc_status m' = STATUS_CONNECTED \<or> down T m') s')"
      by (rule res)
  qed
qed

lemma now_at_settled: "now_at p m (down T) s \<Longrightarrow> mmc_retry_interval m \<noteq> 0 \<Longrightarrow> calm T p s \<and> lev p s = 0"
  by (auto simp: now_at_def down_def calm_def resting_def lev_def)

lemma wlp_conj: "wlp c P \<Longrightarrow> wlp c Q \<Longrightarrow> wlp c (\<lambda>y. P y \<and> Q y)"
  by (simp add: wlp_def)

text \<open>Opening a connection that is not forced leaves it failed, connected or unknown.\<close>

lemma open_conn_facts:
  assumes "frozen env T" "heap s p = Some m" "mmc_open_conn env p s = Some (r, s')"
  shows "touch {p} s s'" "now_at p m (\<lambda>m'. mmc_status m' = STATUS_CONNECTED \<or> down T m') s'"
  using wlpD [OF wp_wlp [OF open_conn_touch [OF assms(2)]] assms(3)] wlpD [OF open_conn_now [OF assms(1,2)] assms(3)]
  by (simp_all split: prod.splits)

lemma open_conn_sinks:
  assumes "frozen env T" "heap s p = Some m" "mmc_status m = STATUS_DISCONNECTED \<or> \<not> resting T m"
  shows "wlp (mmc_open_conn env p s) (\<lambda>(r, s'). sinks T s s' \<and> lev p s' \<noteq> 2)"
  unfolding wlp_def
proof (clarify)
  fix a b c s'
  assume "mmc_open_conn env p s = Some ((a, b, c), s')"
  note t = open_conn_facts [OF assms(1,2) this]
  have l: "lev p s' \<le> 1" using t(2) by (auto simp: now_at_def lev_def down_def)
  have "calm T p s \<Longrightarrow> calm T p s' \<and> lev p s' \<le> lev p s"
    using t(2) assms(2,3) l by (auto simp: now_at_def calm_def resting_def down_def lev_def)
  then show "sinks T s s' \<and> lev p s' \<noteq> 2" using touch_sinks [OF t(1)] l by simp
qed

lemma open_sinks:
  fixes env :: "'w php_env" and s :: "'w st"
  assumes "frozen env T"
  shows "wlp (mmc_open env p False s) (\<lambda>(r, s'). sinks T s s' \<and> lev p s' \<noteq> 2)"
proof (cases "heap s p")
  case None
  then show ?thesis by (simp add: mmc_open_def wlp_def)
next
  case (Some m)
  have l: "lev p s = rank (mmc_status m)" by (simp add: lev_def Some)
  show ?thesis
  proof (cases "mmc_status m")
    case STATUS_DISCONNECTED
    then show ?thesis using open_conn_sinks [OF assms Some] Some by (simp add: mmc_open_def)
  next
    case STATUS_FAILED
    obtain now w where n: "time_now env (world s) = (now, w)" by fastforce
    then have T: "now = T" using assms by (metis frozen_def fst_conv)
    have stay: "sinks T s (s\<lparr>world := w\<rparr>) \<and> lev p (s\<lparr>world := w\<rparr>) \<noteq> 2" using l STATUS_FAILED by simp
    have retry: "wlp (mmc_open_conn env p (s\<lparr>world := w\<rparr>)) (\<lambda>(r, s'). sinks T s s' \<and> lev p s' \<noteq> 2)"
      if "mmc_failed m + mmc_retry_interval m \<le> T" "0 \<le> mmc_retry_interval m"
    proof (rule wlp_conseq [OF open_conn_sinks [OF assms, of "s\<lparr>world := w\<rparr>" p m]])
      show "mmc_status m = STATUS_DISCONNECTED \<or> \<not> resting T m" using that STATUS_FAILED by (auto simp: resting_def)
    qed (use Some in \<open>auto simp: sinks_def\<close>)
    show ?thesis using Some STATUS_FAILED n T stay retry l by (auto simp: mmc_open_def wp_simps Let_def)
  qed (use Some l in \<open>simp_all add: mmc_open_def wp_simps\<close>)
qed

text \<open>A hard or a soft failure lowers the level of a connected or unknown server.\<close>

lemma failure_sinks:
  fixes env :: "'w php_env" and s :: "'w st"
  assumes "frozen env T" "heap s p = Some m" "mmc_proxy m = None"
  shows "wlp (mmc_server_failure env p s) (\<lambda>(r, s'). sinks T s s' \<and>
    (calm T p s \<longrightarrow> lev p s \<in> {1, 3} \<longrightarrow> lev p s' < lev p s))"
proof (cases "mmc_status m = STATUS_DISCONNECTED \<or> mmc_status m = STATUS_UNKNOWN")
  case True
  have "touch {p} s (s\<lparr>heap := (heap s)(p \<mapsto> m\<lparr>mmc_status := STATUS_DISCONNECTED\<rparr>)\<rparr>)" by (rule touch_upd [OF assms(2)]) simp
  then have "sinks T s (s\<lparr>heap := (heap s)(p \<mapsto> m\<lparr>mmc_status := STATUS_DISCONNECTED\<rparr>)\<rparr>)"
    by (rule touch_sinks) (use True assms(2) in \<open>auto simp: calm_def lev_def resting_def\<close>)
  then show ?thesis using True assms(2,3) by (auto simp: mmc_server_failure_def wp_simps lev_def)
next
  case False
  have d: "wlp (mmc_server_deactivate env p s) (\<lambda>s'. sinks T s s' \<and> (calm T p s \<longrightarrow> lev p s' = 0))"
  proof (rule wlp_conseq [OF wlp_conj [OF wp_wlp [OF deactivate_touch [OF assms(2)]] deactivate_now [OF assms(1), of p m s]]])
    show "now_at p m (\<lambda>_. True) s" by (simp add: now_at_def assms(2))
    fix s' assume s': "(touch {p} s s' \<and> conn_at p (\<lambda>st x. st = None \<and> x = STATUS_FAILED) s') \<and> now_at p m (down T) s'"
    have z: "calm T p s \<Longrightarrow> calm T p s' \<and> lev p s' = 0" using now_at_settled [of p m T s'] s' assms(2) by (auto simp: calm_def resting_def)
    then show "sinks T s s' \<and> (calm T p s \<longrightarrow> lev p s' = 0)" using touch_sinks [of p s s' T] s' by auto
  qed
  then show ?thesis using False assms(2,3)
    by (cases "mmc_status m") (auto simp: mmc_server_failure_def wp_simps lev_def elim!: wlp_conseq)
qed

subsection \<open>Finding a server\<close>

lemma should_failover_sinks:
  assumes "frozen env T"
  shows "wlp (should_failover env p None s) (\<lambda>(fail, s'). sinks T s s' \<and> lev p s' \<noteq> 2)"
  by (auto simp: should_failover_def wp_simps intro!: wlp_conseq [OF open_sinks [OF assms]])

lemma failover_loop_sinks:
  assumes "frozen env T"
  shows "wlp (failover_loop env next None k i h p s) (\<lambda>(r, s'). sinks T s s' \<and> lev r s' \<noteq> 2)"
proof (induction k arbitrary: i h p s)
  case 0
  show ?case by (auto simp: wp_simps intro!: wlp_conseq [OF should_failover_sinks [OF assms]])
next
  case (Suc k)
  have step: "wlp (failover_loop env next None k j h q s1) (\<lambda>(r, s'). sinks T s s' \<and> lev r s' \<noteq> 2)" if "sinks T s s1" for j h q s1
    by (rule wlp_conseq [OF Suc]) (use sinks_trans [OF that] in auto)
  have again: "wlp (next i h \<bind> (\<lambda>(h, q). failover_loop env next None k (i + 1) h q s1)) (\<lambda>(r, s'). sinks T s s' \<and> lev r s' \<noteq> 2)"
    if "sinks T s s1" for s1
    by (rule wlp_bindI [where P = "\<lambda>_. True"]) (use step [OF that] in \<open>auto simp: wlp_def\<close>)
  show ?case
    unfolding failover_loop.simps
    by (rule wlp_bindI [OF should_failover_sinks [OF assms]]) (use again in \<open>auto simp: wlp_basic(1)\<close>)
qed

lemma attach_sinks: "wlp (attach_proxy env p None s) (\<lambda>s'. sinks T s s' \<and> lev p s' = lev p s \<and>
    (\<exists>m. heap s' p = Some m \<and> mmc_proxy m = None))"
proof (cases "heap s p")
  case (Some m)
  let ?s = "s\<lparr>heap := (heap s)(p \<mapsto> m\<lparr>mmc_proxy := None\<rparr>)\<rparr>"
  have l: "lev q ?s = lev q s" "calm T q ?s = calm T q s" for q
    using Some by (simp_all add: lev_def calm_def resting_def)
  have "sinks T s ?s \<and> lev p ?s = lev p s" unfolding sinks_def l by simp
  then show ?thesis using Some by (simp add: attach_proxy_def wp_simps)
qed (simp add: attach_proxy_def wlp_def)

text \<open>A server is left at a level other than 2.\<close>

definition left_open :: "int \<Rightarrow> 'w st \<Rightarrow> nat option \<Rightarrow> 'w st \<Rightarrow> bool" where
  "left_open T s r s' \<longleftrightarrow> sinks T s s' \<and> (\<forall>p. r = Some p \<longrightarrow> lev p s' \<noteq> 2 \<and>
     (\<exists>m. heap s' p = Some m \<and> mmc_proxy m = None))"

lemma attach_left:
  assumes "sinks T s s1" "lev p s1 \<noteq> 2"
  shows "wlp (attach_proxy env p None s1) (left_open T s (Some p))"
  by (rule wlp_conseq [OF attach_sinks [where T = T]]) (use assms(2) sinks_trans [OF assms(1)] in \<open>simp add: left_open_def\<close>)

lemma choose_left:
  assumes "frozen env T" "\<And>q s'. left_open T s (Some q) s' \<Longrightarrow> wlp (g q s') Q"
  shows "wlp (do { (mmc, s) \<leftarrow> failover_loop env nxt None k i h p s; s \<leftarrow> attach_proxy env mmc None s; g mmc s }) Q"
proof (rule wlp_bindI [OF failover_loop_sinks [OF assms(1)]], clarify)
  fix q s1
  assume "sinks T s s1" "lev q s1 \<noteq> 2"
  from wlp_bindI [OF attach_left [OF this] assms(2)]
  show "wlp (attach_proxy env q None s1 \<bind> g q) Q" .
qed

lemma single_left:
  assumes "frozen env T" "\<And>s'. left_open T s (Some p) s' \<Longrightarrow> wlp (g s') Q"
  shows "wlp (do {
    (fail, s) \<leftarrow> do { (_, s) \<leftarrow> mmc_open env p False s; Some (False, s) };
    if fail then f s else do { s \<leftarrow> attach_proxy env p None s; g s } }) Q"
proof -
  have "wlp (do { (_, s) \<leftarrow> mmc_open env p False s; Some (False, s) }) (\<lambda>(fail, s'). \<not> fail \<and> sinks T s s' \<and> lev p s' \<noteq> 2)"
    by (rule wlp_bindI [OF open_sinks [OF assms(1)]]) (auto simp: wlp_basic(1))
  then show ?thesis
  proof (rule wlp_bindI, clarify)
    fix fail s1
    assume "\<not> fail" and s1: "sinks T s s1" "lev p s1 \<noteq> 2"
    from wlp_bindI [OF attach_left [OF s1] assms(2)] \<open>\<not> fail\<close>
    show "wlp (if fail then f s1 else attach_proxy env p None s1 \<bind> g) Q" by simp
  qed
qed

lemma wlp_any: "(\<And>y. wlp (f y) Q) \<Longrightarrow> wlp (Option.bind c f) Q"
  by (auto simp: wlp_def)

lemma standard_find_left:
  assumes "frozen env T"
  shows "wlp (mmc_standard_find_server env st key False s) (\<lambda>(r, s'). left_open T s r s')"
proof (cases "1 < s_num_servers st")
  case True
  then show ?thesis
    unfolding mmc_standard_find_server_def Let_def if_P [OF True]
    by (simp only: if_False bind.bind_lunit prod.case simp_thms)
      (intro wlp_any choose_left [OF assms], simp add: wlp_basic(1))
next
  case False
  show ?thesis
    unfolding mmc_standard_find_server_def Let_def if_not_P [OF False]
    by (simp only: if_False bind.bind_lunit prod.case simp_thms option.case)
      (intro wlp_any single_left [OF assms], simp add: wlp_basic(1))
qed

lemma result_left:
  assumes "left_open T s (Some p) s1"
  shows "wlp (do { (r, s) \<leftarrow> consistent_result p s1; Some ((r, st), s) }) (\<lambda>((r, st'), s'). left_open T s r s')"
  using assms by (cases "heap s1 p") (simp_all add: consistent_result_def wlp_basic left_open_def)

lemma consistent_find_left:
  assumes "frozen env T"
  shows "wlp (mmc_consistent_find_server env st key False s) (\<lambda>((r, st'), s'). left_open T s r s')"
proof (cases "1 < c_num_servers st")
  case True
  show ?thesis
    unfolding mmc_consistent_find_server_def Let_def if_P [OF True]
    by (simp only: if_False bind.bind_lunit prod.case simp_thms)
      (intro wlp_any choose_left [OF assms] result_left)
next
  case False
  show ?thesis
    unfolding mmc_consistent_find_server_def Let_def if_not_P [OF False]
    by (simp only: if_False bind.bind_lunit prod.case simp_thms option.case)
      (intro wlp_any single_left [OF assms] result_left)
qed

lemma strategy_find_left:
  assumes "frozen env T"
  shows "wlp (strategy_find_server env key False s) (\<lambda>(r, s'). left_open T s r s')"
proof (cases "p_hash_state (pool s)")
  case (Standard_State st)
  then show ?thesis using standard_find_left [OF assms] by (simp add: strategy_find_server_def)
next
  case (Consistent_State st)
  have "left_open T s r (s'\<lparr>pool := (pool s')\<lparr>p_hash_state := hs\<rparr>\<rparr>)" if "left_open T s r s'" for r s' hs
    using that by (auto simp: left_open_def sinks_def)
  then show ?thesis
    unfolding strategy_find_server_def Consistent_State hash_state.case
    by (intro wlp_bindI [OF consistent_find_left [OF assms]]) (auto simp: wlp_basic(1))
qed

subsection \<open>The options of a connection\<close>

text \<open>The same level, and no server higher.\<close>

definition level_kept :: "int \<Rightarrow> nat \<Rightarrow> 'w st \<Rightarrow> 'w st \<Rightarrow> bool" where
  "level_kept T p s s' \<longleftrightarrow> sinks T s s' \<and> lev p s' = lev p s \<and> (\<forall>m. heap s p = Some m \<longrightarrow>
     (\<exists>m'. heap s' p = Some m' \<and> mmc_proxy m' = mmc_proxy m))"

lemma quiet_level_kept:
  assumes "quiet s s'"
  shows "level_kept T p s s'"
  unfolding level_kept_def using quiet_sinks [OF assms] quiet_lev [OF assms] quiet_heap [OF assms] core_fields(3) by metis

lemma level_kept_trans: "level_kept T p s s' \<Longrightarrow> level_kept T p s' s'' \<Longrightarrow> level_kept T p s s''"
  unfolding level_kept_def using sinks_trans by fastforce

lemma upd_level_kept:
  assumes "\<And>m. mmc_status (f m) = mmc_status m \<and> mmc_retry_interval (f m) = mmc_retry_interval m \<and>
    mmc_failed (f m) = mmc_failed m \<and> mmc_proxy (f m) = mmc_proxy m"
  shows "wlp (upd p f s) (level_kept T p s)"
proof (cases "heap s p")
  case None
  then show ?thesis by (simp add: upd_def wlp_def)
next
  case (Some m)
  let ?s = "s\<lparr>heap := (heap s)(p \<mapsto> f m)\<rparr>"
  have l: "lev q ?s = lev q s" "calm T q ?s = calm T q s" for q
    using Some assms by (simp_all add: lev_def calm_def resting_def)
  then have "level_kept T p s ?s" using Some assms by (simp add: level_kept_def sinks_def)
  then show ?thesis using Some by (simp add: wlp_basic)
qed

lemma get_options_kept: "wlp (get_options env p s) (\<lambda>(r, s'). level_kept T p s s')"
proof -
  have upd: "wlp (upd p (\<lambda>m. m\<lparr>mmc_data_integrity_algo := g m\<rparr>) s1) (level_kept T p s)" if "level_kept T p s s1" for s1 g
    by (rule wlp_conseq [OF upd_level_kept [where T = T] level_kept_trans [OF that]]) simp
  have line: "wlp (mmc_readline env p s1) (\<lambda>(n, s'). level_kept T p s s')" if "level_kept T p s s1" for s1
    by (rule wlp_conseq [OF readline_quiet_always]) (use level_kept_trans [OF that quiet_level_kept] in auto)
  have send: "wlp (send_request env p r s) (\<lambda>(n, s'). level_kept T p s s')" for r
    by (rule wlp_conseq [OF send_request_quiet_always]) (use quiet_level_kept in auto)
  have rest: "wlp (do {
      m \<leftarrow> heap s1 p;
      if mmc_str_left env (mmc_inbuf m) ''SERVER_ERROR'' (nat n) then Some (- 1, s1)
      else do {
        s \<leftarrow> upd p (\<lambda>m. m\<lparr>mmc_data_integrity_algo := di_algo_of_reply env (mmc_inbuf m) (nat n)\<rparr>) s1;
        Some (0, s) } }) (\<lambda>(r, s'). level_kept T p s s')" if "level_kept T p s s1" for s1 n
    by (rule wlp_any) (use that upd [OF that] in \<open>auto simp: wlp_basic\<close>)
  show ?thesis
    unfolding get_options_def Let_def wlp_basic(4)
    by (auto simp: wlp_basic(1,2) intro!: wlp_bindI [OF send] wlp_bindI [OF line] rest)
qed

lemma negotiate_sinks:
  fixes env :: "'w php_env" and s :: "'w st"
  assumes "frozen env T" "heap s p = Some m" "mmc_proxy m = None" "\<not> p_proxy_enabled (pool s)"
  shows "wlp (negotiate_options env p s) (\<lambda>s'. sinks T s s' \<and> (lev p s \<noteq> 2 \<longrightarrow> calm T p s \<longrightarrow> lev p s' = 2 \<longrightarrow> lev p s = 3))"
proof -
  let ?Q = "\<lambda>s'. sinks T s s' \<and> (lev p s \<noteq> 2 \<longrightarrow> calm T p s \<longrightarrow> lev p s' = 2 \<longrightarrow> lev p s = 3)"
  have kept: "?Q s'" if "level_kept T p s s'" for s' using that by (simp add: level_kept_def)
  have good: "wlp (upd p (\<lambda>m. m\<lparr>mmc_got_options := True\<rparr>) s1 \<bind> (\<lambda>s. if p_proxy_enabled (pool s) then g s else Some s)) ?Q"
    if s1: "level_kept T p s s1" for s1 g
  proof (rule wlp_bindI [OF upd_level_kept [where T = T]])
    fix s2 assume "level_kept T p s1 s2"
    then have s2: "level_kept T p s s2" by (rule level_kept_trans [OF s1])
    then have "\<not> p_proxy_enabled (pool s2)" using assms(4) by (auto simp: level_kept_def sinks_def)
    then show "wlp (if p_proxy_enabled (pool s2) then g s2 else Some s2) ?Q" using kept [OF s2] by (simp add: wlp_basic)
  qed simp
  have bad: "wlp (mmc_server_failure env p s1 \<bind> (\<lambda>(_, s). Some s)) ?Q" if s1: "level_kept T p s s1" for s1
  proof -
    obtain m1 where m1: "heap s1 p = Some m1" "mmc_proxy m1 = None" using s1 assms(2,3) by (auto simp: level_kept_def)
    have l: "sinks T s s1" "lev p s1 = lev p s" using s1 by (simp_all add: level_kept_def)
    then have c: "calm T p s \<Longrightarrow> calm T p s1" by (simp add: sinks_def)
    show ?thesis
    proof (rule wlp_bindI [OF failure_sinks [OF assms(1) m1]], clarify)
      fix r s2
      assume s2: "sinks T s1 s2" "calm T p s1 \<longrightarrow> lev p s1 \<in> {1, 3} \<longrightarrow> lev p s2 < lev p s1"
      have "calm T p s \<Longrightarrow> lev p s2 \<le> lev p s" using s2(1) c l(2) by (auto simp: sinks_def)
      moreover have "lev p s \<le> 3" using rank.simps by (cases "mmc_status m") (simp_all add: lev_def assms(2))
      ultimately show "wlp (Some s2) ?Q" using sinks_trans [OF l(1) s2(1)] s2(2) c l(2) by (auto simp: wlp_basic(1))
    qed
  qed
  have both: "wlp (get_options env p s \<bind> (\<lambda>(r, s). if 0 \<le> r
         then upd p (\<lambda>m. m\<lparr>mmc_got_options := True\<rparr>) s \<bind> (\<lambda>s. if p_proxy_enabled (pool s) then g s else Some s)
         else mmc_server_failure env p s \<bind> (\<lambda>(_, s). Some s))) ?Q" for g
    by (rule wlp_bindI [OF get_options_kept [where T = T]]) (use good bad in \<open>auto simp del: bind_eq_Some_conv\<close>)
  show ?thesis
  proof (cases "mmc_got_options m")
    case True
    then show ?thesis using assms by (simp add: negotiate_options_def wlp_basic)
  next
    case False
    then show ?thesis using assms(2,4) both by (simp add: negotiate_options_def)
  qed
qed

subsection \<open>Rounds\<close>

definition chosen :: "int \<Rightarrow> 'w st \<Rightarrow> nat option \<Rightarrow> 'w st \<Rightarrow> bool" where
  "chosen T s r s' \<longleftrightarrow> sinks T s s' \<and> (\<forall>p. r = Some p \<longrightarrow> calm T p s \<longrightarrow> lev p s' = 2 \<longrightarrow> lev p s = 3)"

lemma pool_find_chosen:
  fixes env :: "'w php_env" and s :: "'w st"
  assumes "frozen env T" "\<not> p_proxy_enabled (pool s)"
  shows "wlp (mmc_pool_find env key s) (\<lambda>(r, s'). chosen T s r s')"
proof -
  have on: "wlp (do {
      m \<leftarrow> heap s1 p;
      if mmc_status m = STATUS_FAILED \<or> (p_proxy_enabled (pool s1) \<and> mmc_proxy m = None) then Some (Some p, s1)
      else do {
        s \<leftarrow> negotiate_options env p s1;
        s \<leftarrow> upd p (\<lambda>m. m\<lparr>mmc_di_algo_in_use :=
               algo_in_use (p_enable_checksum (pool s)) (mmc_data_integrity_algo m)\<rparr>) s;
        Some (Some p, s) } }) (\<lambda>(r, s'). chosen T s r s')" (is "wlp ?c _")
    if l: "left_open T s (Some p) s1" for p s1
  proof -
    obtain m where m: "heap s1 p = Some m" "mmc_proxy m = None" "lev p s1 \<noteq> 2" "sinks T s s1" using l by (auto simp: left_open_def)
    have px: "\<not> p_proxy_enabled (pool s1)" using m(4) assms(2) by (auto simp: sinks_def)
    have c: "calm T p s \<Longrightarrow> calm T p s1 \<and> lev p s1 \<le> lev p s" using m(4) by (simp add: sinks_def)
    have max: "lev p s \<le> 3" for s :: "'w st"
    proof (cases "heap s p")
      case (Some m)
      then show ?thesis by (cases "mmc_status m") (simp_all add: lev_def)
    qed (simp add: lev_def)
    have fin: "chosen T s (Some p) s3" if "sinks T s1 s2" "calm T p s1 \<longrightarrow> lev p s2 = 2 \<longrightarrow> lev p s1 = 3" "level_kept T p s2 s3" for s2 s3
    proof -
      have "sinks T s s3" using sinks_trans [OF m(4) sinks_trans [OF that(1)]] that(3) by (simp add: level_kept_def)
      moreover have "calm T p s \<Longrightarrow> lev p s3 = 2 \<Longrightarrow> lev p s = 3"
        using c that(2,3) max [of s] by (auto simp: level_kept_def)
      ultimately show ?thesis by (simp add: chosen_def)
    qed
    have "wlp (do {
        s \<leftarrow> negotiate_options env p s1;
        s \<leftarrow> upd p (\<lambda>m. m\<lparr>mmc_di_algo_in_use :=
               algo_in_use (p_enable_checksum (pool s)) (mmc_data_integrity_algo m)\<rparr>) s;
        Some (Some p, s) }) (\<lambda>(r, s'). chosen T s r s')"
    proof (rule wlp_bindI [OF negotiate_sinks [OF assms(1) m(1,2) px]])
      fix s2 assume s2: "sinks T s1 s2 \<and> (lev p s1 \<noteq> 2 \<longrightarrow> calm T p s1 \<longrightarrow> lev p s2 = 2 \<longrightarrow> lev p s1 = 3)"
      show "wlp (upd p (\<lambda>m. m\<lparr>mmc_di_algo_in_use :=
               algo_in_use (p_enable_checksum (pool s2)) (mmc_data_integrity_algo m)\<rparr>) s2 \<bind> (\<lambda>s. Some (Some p, s)))
          (\<lambda>(r, s'). chosen T s r s')"
        by (rule wlp_bindI [OF upd_level_kept [where T = T]]) (use fin s2 m(3) in \<open>auto simp: wlp_basic(1)\<close>)
    qed
    then show ?thesis using m px by (auto simp: wlp_basic chosen_def)
  qed
  have px: "p_proxy_enabled (pool s) = False" using assms(2) by simp
  show ?thesis
    unfolding mmc_pool_find_def px
    by (rule wlp_bindI [OF strategy_find_left [OF assms(1)]])
      (use on in \<open>auto simp: wlp_basic(1) left_open_def chosen_def split: option.split\<close>)
qed

text \<open>What a round needs: a well-formed pool without the proxy, on connections that are all right.\<close>

definition serving :: "'w php_env \<Rightarrow> int \<Rightarrow> nat set \<Rightarrow> 'w st \<Rightarrow> bool" where
  "serving env T S s \<longleftrightarrow> pool_wf s \<and> conn_ok s \<and> \<not> p_proxy_enabled (pool s) \<and> set (p_servers (pool s)) = S \<and>
     length (options_command (pool s) (glob s)) < MAX_OPTIONS_LEN \<and> (\<forall>p \<in> S. calm T p s)"

definition total :: "nat set \<Rightarrow> 'w st \<Rightarrow> nat" where
  "total S s = (\<Sum>p \<in> S. lev p s)"

lemma total_less:
  assumes "finite S" "\<forall>p \<in> S. calm T p s" "sinks T s s'" "p \<in> S" "lev p s' < lev p s"
  shows "total S s' < total S s"
  unfolding total_def by (rule sum_strict_mono_ex1) (use assms in \<open>auto simp: sinks_def\<close>)

lemma options_same: "sinks T s s' \<Longrightarrow> options_command (pool s') (glob s') = options_command (pool s) (glob s) \<and>
    p_proxy_enabled (pool s') = p_proxy_enabled (pool s) \<and> p_servers (pool s') = p_servers (pool s)"
  by (auto simp: sinks_def options_command_def)

lemma serving_sinks:
  assumes "serving env T S s" "sinks T s s'" "pool_wf s'" "conn_ok s'"
  shows "serving env T S s'"
  using assms options_same [OF assms(2)] by (auto simp: serving_def sinks_def)

text \<open>A round on a mute network: no usable server, or a server with a channel whose failure lowers the total.\<close>

lemma find_round:
  assumes "qsort_ok env" "frozen env T" "serving env T S s"
  shows "\<exists>r s1. mmc_pool_find env key s = Some (r, s1) \<and> serving env T S s1 \<and> total S s1 \<le> total S s \<and>
    (usable r s1 = Some False \<or> (\<exists>p m h. r = Some p \<and> p \<in> S \<and> heap s1 p = Some m \<and> mmc_proxy m = None \<and> mmc_stream m = Some h \<and>
       usable r s1 = Some True \<and> (lev p s1 \<in> {1, 3} \<or> total S s1 < total S s)))"
proof -
  have pre: "pool_wf s" "conn_ok s" "\<not> p_proxy_enabled (pool s)" "set (p_servers (pool s)) = S"
    "length (options_command (pool s) (glob s)) < MAX_OPTIONS_LEN" "\<forall>p \<in> S. calm T p s"
    using assms(3) by (simp_all add: serving_def)
  obtain r s1 where f: "mmc_pool_find env key s = Some (r, s1)" "find_result S r s1"
    using mmc_pool_find_direct [OF assms(1) pre(1-3,5), of key] pre(4) by (auto simp: wp_def)
  have c: "chosen T s r s1" using wlpD [OF pool_find_chosen [OF assms(2) pre(3)] f(1)] by simp
  then have sk: "sinks T s s1" by (simp add: chosen_def)
  have fr: "pool_wf s1" "found S r s1" using f(2) by (simp_all add: find_result_def)
  then have sv: "serving env T S s1" using serving_sinks [OF assms(3) sk] by (simp add: found_def)
  have fin: "finite S" using pre(4) by auto
  have le: "total S s1 \<le> total S s" unfolding total_def by (rule sum_mono) (use sk pre(6) in \<open>simp add: sinks_def\<close>)
  have "usable r s1 = Some False \<or> (\<exists>p m h. r = Some p \<and> p \<in> S \<and> heap s1 p = Some m \<and> mmc_proxy m = None \<and> mmc_stream m = Some h \<and>
       usable r s1 = Some True \<and> (lev p s1 \<in> {1, 3} \<or> total S s1 < total S s))"
  proof (cases r)
    case (Some p)
    then obtain m where m: "heap s1 p = Some m" "mmc_proxy m = None" "mmc_status m = STATUS_FAILED \<or> mmc_stream m \<noteq> None" "p \<in> S"
      using fr(2) by (auto simp: found_def ready_def)
    show ?thesis
    proof (cases "mmc_status m = STATUS_FAILED")
      case False
      have "lev p s1 = 2 \<Longrightarrow> lev p s = 3" using c Some pre(6) m(4) by (simp add: chosen_def)
      then have "lev p s1 = 2 \<Longrightarrow> total S s1 < total S s" using total_less [OF fin pre(6) sk m(4)] by simp
      moreover have "lev p s1 \<in> {1, 2, 3}" using False m(1) by (cases "mmc_status m") (simp_all add: lev_def)
      ultimately show ?thesis using False Some m by (auto simp: usable_def)
    qed (use Some m in \<open>simp add: usable_def\<close>)
  qed (simp add: usable_def)
  then show ?thesis using f(1) sv le by blast
qed

text \<open>The failure after the command could not be sent.\<close>

lemma failure_round:
  assumes "frozen env T" "serving env T S s" "quiet s s1" "p \<in> S" "heap s p = Some m" "mmc_proxy m = None"
  shows "\<exists>r s2. mmc_server_failure env p s1 = Some (r, s2) \<and> serving env T S s2 \<and> total S s2 \<le> total S s \<and>
    (lev p s \<in> {1, 3} \<longrightarrow> total S s2 < total S s)"
proof -
  have pre: "pool_wf s" "conn_ok s" "set (p_servers (pool s)) = S" "\<forall>p \<in> S. calm T p s" using assms(2) by (simp_all add: serving_def)
  have fin: "finite S" using pre(3) by auto
  obtain m1 where m1: "heap s1 p = Some m1" "core m1 = core m" by (rule quiet_heap [OF assms(3,5)])
  then have px: "mmc_proxy m1 = None" using core_fields(3) [OF m1(2)] assms(6) by simp
  have t1: "touch {p} s s1" by (rule quiet_touch [OF assms(3)])
  obtain r s2 where f: "mmc_server_failure env p s1 = Some (r, s2)" "touch {p} s1 s2"
    "conn_at p (\<lambda>st x. r = 1 \<and> st = None \<and> x = STATUS_FAILED \<or> r = 0 \<and> st = mmc_stream m1 \<and> x = STATUS_DISCONNECTED) s2"
    using failure_touch [OF m1(1) px, of env] by (auto simp: wp_def)
  have k: "sinks T s1 s2" "calm T p s1 \<longrightarrow> lev p s1 \<in> {1, 3} \<longrightarrow> lev p s2 < lev p s1"
    using wlpD [OF failure_sinks [OF assms(1) m1(1) px] f(1)] by simp_all
  have sk: "sinks T s s2" by (rule sinks_trans [OF quiet_sinks [OF assms(3)] k(1)])
  have t: "touch {p} s s2" by (rule touch_trans [OF t1 f(2)])
  have "conn_at p conn_good s2" using f(3) by (rule conn_at_mono) (auto simp: conn_good_def)
  then have "conn_ok s2" by (rule conn_ok_touch [OF t pre(2)])
  then have "serving env T S s2" using serving_sinks [OF assms(2) sk pool_wf_touch [OF t pre(1)]] by simp
  moreover have "total S s2 \<le> total S s" unfolding total_def by (rule sum_mono) (use sk pre(4) in \<open>simp add: sinks_def\<close>)
  moreover have "lev p s \<in> {1, 3} \<Longrightarrow> lev p s2 < lev p s"
    using k(2) quiet_lev [OF assms(3), of p T] pre(4) assms(4) by simp
  then have "lev p s \<in> {1, 3} \<Longrightarrow> total S s2 < total S s" using total_less [OF fin pre(4) sk assms(4)] by simp
  ultimately show ?thesis using f(1) by blast
qed

subsection \<open>Commands\<close>

lemma mute_sendcmd:
  assumes "mute env" "heap s p = Some m" "mmc_proxy m = None" "mmc_stream m = Some h"
  shows "\<exists>s'. mmc_sendcmd env p cmd s = Some (- 1, s') \<and> quiet s s'"
proof -
  have ch: "mmc_channel p s = Some (Some h, [])" using assms(2-4) by (simp add: mmc_channel_def)
  obtain r s' where r: "mmc_sendcmd env p cmd s = Some (r, s')" "quiet s s'"
    using mmc_sendcmd_quiet [OF ch, of env cmd] by (auto simp: wp_def)
  have "fst (stream_write env h x w) \<noteq> int (length x)" for x w using assms(1) by (simp add: mute_def)
  then have "fst (stream_write env h (cmd @ CRLF) w) \<noteq> int (length (cmd @ CRLF))" for w by blast
  then have "stream_write env h (cmd @ CRLF) w \<noteq> (int (length cmd) + int (length CRLF), w')" for w w'
    by (metis fst_conv length_append of_nat_add)
  then have "r = - 1" using r(1) assms(2) ch by (auto simp: mmc_sendcmd_def Let_def split: prod.splits if_splits)
  then show ?thesis using r by simp
qed

lemma serving_log [simp]: "serving env T S (log_upd f s) = serving env T S s"
  by (simp add: serving_def pool_wf_def)

lemma total_log [simp]: "total S (log_upd f s) = total S s"
  by (simp add: total_def)

lemma usable_log [simp]: "usable r (log_upd f s) = usable r s"
  by (simp add: usable_def split: option.split)

text \<open>The loop of get, by induction on the total of the levels.\<close>

lemma retrieval_loop_ends:
  assumes "qsort_ok env" "frozen env T" "mute env" "serving env T S s" "o_value ro = Null"
  shows "\<exists>mmc s'. retrieval_loop env key command want_cas return_corrupted retry ro rv s = Some ((- 1, mmc, ro, rv), s') \<and>
    usable mmc s' = Some False"
  using assms(4)
proof (induction "total S s" arbitrary: s rule: less_induct)
  case less
  obtain r s1 where f: "mmc_pool_find env key s = Some (r, s1)" "serving env T S s1" "total S s1 \<le> total S s"
    "usable r s1 = Some False \<or> (\<exists>p m h. r = Some p \<and> p \<in> S \<and> heap s1 p = Some m \<and> mmc_proxy m = None \<and> mmc_stream m = Some h \<and>
       usable r s1 = Some True \<and> (lev p s1 \<in> {1, 3} \<or> total S s1 < total S s))"
    using find_round [OF assms(1,2) less.prems, of key] by blast
  show ?case
  proof (cases "usable r s1 = Some False")
    case True
    then show ?thesis using f(1) by (subst retrieval_loop.simps) simp
  next
    case False
    then obtain p m h where p: "r = Some p" "p \<in> S" "heap s1 p = Some m" "mmc_proxy m = None" "mmc_stream m = Some h"
      "usable r s1 = Some True" "lev p s1 \<in> {1, 3} \<or> total S s1 < total S s" using f(4) by blast
    obtain s2 where s2: "mmc_sendcmd env p command s1 = Some (- 1, s2)" "quiet s1 s2"
      using mute_sendcmd [OF assms(3) p(3-5)] by blast
    have ro: "ro\<lparr>o_value := Null\<rparr> = ro" using assms(5) by simp
    have fe: "fetch env l ne True p command want_cas (- 1) retry ro s1 = Some ((- 1, retry, ro), s2)" for l ne
      using s2(1) assms(5) ro by (subst fetch.simps) simp
    have q: "quiet s1 (setCode SVR_OPN_FAILED s2)" using s2(2) by (simp add: setCode_def)
    obtain r' s3 where s3: "mmc_server_failure env p (setCode SVR_OPN_FAILED s2) = Some (r', s3)" "serving env T S s3"
      "total S s3 \<le> total S s1" "lev p s1 \<in> {1, 3} \<longrightarrow> total S s3 < total S s1"
      using failure_round [OF assms(2) f(2) q p(2-4)] by blast
    have "total S s3 < total S s" using s3(3,4) f(3) p(7) by linarith
    from less.hyps [OF this s3(2)] show ?thesis
      using f(1) p(1,6) fe s3(1)
      by (subst retrieval_loop.simps) (simp add: ro retrieval_result_def CHKSUM_MISMATCH_DETECTED_def)
  qed
qed

lemma incr_decr_loop_ends:
  assumes "qsort_ok env" "frozen env T" "mute env" "serving env T S s"
  shows "\<exists>s'. incr_decr_loop env find_key key n incr number s = Some ((- 1, number), s')"
  using assms(4)
proof (induction "total S s" arbitrary: s rule: less_induct)
  case less
  obtain r s1 where f: "mmc_pool_find env find_key s = Some (r, s1)" "serving env T S s1" "total S s1 \<le> total S s"
    "usable r s1 = Some False \<or> (\<exists>p m h. r = Some p \<and> p \<in> S \<and> heap s1 p = Some m \<and> mmc_proxy m = None \<and> mmc_stream m = Some h \<and>
       usable r s1 = Some True \<and> (lev p s1 \<in> {1, 3} \<or> total S s1 < total S s))"
    using find_round [OF assms(1,2) less.prems, of find_key] by blast
  show ?case
  proof (cases "usable r s1 = Some False")
    case True
    then have "\<exists>s'. log_no_server r s1 = Some s'"
      by (cases r) (auto simp: log_no_server_def usable_def setCode_def bind_eq_Some_conv)
    then show ?thesis using f(1) True by (subst incr_decr_loop.simps) auto
  next
    case False
    then obtain p m h where p: "r = Some p" "p \<in> S" "heap s1 p = Some m" "mmc_proxy m = None" "mmc_stream m = Some h"
      "usable r s1 = Some True" "lev p s1 \<in> {1, 3} \<or> total S s1 < total S s" using f(4) by blast
    let ?s = "setHost (mmc_host m) (setCommandType SET s1)"
    have hp: "heap ?s p = Some m" using p(3) by simp
    obtain s2 where s2: "mmc_sendcmd env p ((if incr then ''incr '' else ''decr '') @ cstr key @ '' '' @ show_int (c_int n)) ?s =
        Some (- 1, s2)" "quiet ?s s2"
      using mute_sendcmd [OF assms(3) hp p(4,5)] by blast
    have c: "mmc_incr_decr env p incr key n number s1 = Some ((- 1, number), s2)"
      using s2(1) p(3) by (simp add: mmc_incr_decr_def)
    have q: "quiet s1 s2" using s2(2) by (simp add: setHost_def setCommandType_def)
    obtain r' s3 where s3: "mmc_server_failure env p s2 = Some (r', s3)" "serving env T S s3"
      "total S s3 \<le> total S s1" "lev p s1 \<in> {1, 3} \<longrightarrow> total S s3 < total S s1"
      using failure_round [OF assms(2) f(2) q p(2-4)] by blast
    have "total S s3 < total S s" using s3(3,4) f(3) p(7) by linarith
    from less.hyps [OF this s3(2)] show ?thesis
      using f(1) p(1,6) c s3(1) by (subst incr_decr_loop.simps) simp
  qed
qed


text \<open>For the witness: a network that takes no byte.\<close>

definition mute_env :: "wire php_env" where
  "mute_env = ex_env\<lparr>stream_write := \<lambda>_ _ w. (- 1, w)\<rparr>"


end
