(* ===== verification/Spec2Isabelle.thy ===== *)
theory Spec2Isabelle
  imports Cas_Frame Multi_Schedule Stats_Meaning Strategy Multi_Lock Rule_Loader Session Config Liveness
begin

text \<open>
  A model of the PHP extension memcache in the variant of Zynga (src/memcache.cpp and the files beside
  it): the client of the memcached text protocol with two hash strategies, failover, an optional
  multiplexing proxy, compression, CRC checksums, optimistic locks, multi-key commands with shard keys,
  a rule-driven request log, a session handler and its INI settings. Every function of these parts that
  computes or changes state is a definition here, under the name it has in the C++ code.

  \<^bold>\<open>How the code is modelled.\<close> A function is an HOL function that takes the runtime (\<open>env\<close>), its arguments
  and the state, and returns its result with the new state. The state \<open>'w st\<close> (Mmc_State) has a heap of
  servers (\<open>mmc_t\<close>) by address, because pools, hash states, the persistent list and \<open>mmc->proxy\<close> share
  them; the pool; the module globals; the log record with the records of a multi command; the warnings
  given; and a world of any type \<open>'w\<close>, on which the runtime acts. PHP, its streams, the serialisers, zlib,
  lzo, libbz2 (one call of it at a time), the clock and the sorting routine are not under src/: they are the fields of \<open>php_env\<close>
  (of \<open>log_env\<close>, \<open>session_env\<close>, \<open>ini_env\<close> for files, syslog, URLs, setting conversions), and what a
  theorem needs of them is a hypothesis (\<open>qsort_ok\<close>, \<open>inverse_codec\<close>, \<open>mute\<close>, ...), met by the runtime of
  Example in the witnesses. A function that can meet undefined behaviour (NULL, a freed block, memory not
  initialised, an index out of bounds), a fatal PHP error or a loop without end has an option result,
  and None stands for these; a NULL the code tests is None of an inner option. Integers are words where they
  wrap, \<open>c_int\<close> is the conversion of a C \<open>long\<close> to \<open>int\<close>, and numbers are printed and scanned by the models
  of the printf and strtol families in C_Text. A loop that the code does not bound is a
  \<open>partial_function (option)\<close>, so no fuel is chosen anywhere; the bounded ones are functions with a measure.
  A PHP function takes what \<open>zend_parse_parameters\<close> found, None when it failed, and returns its by-reference
  arguments.

  \<^bold>\<open>The theories, from the bottom.\<close>
  \<^item> Prelude, C_Text: machine integers, C strings, the option monad with weakest preconditions
    (\<open>wp\<close>, \<open>wlp\<close>), printing and scanning of numbers with their round trips.
  \<^item> Mmc_State: the structs of php_memcache.h and include/logger.h, the globals, the log record, and
    \<open>saveLogger\<close>/\<open>restoreLogger\<close>.
  \<^item> Ring_Queue: memcache_queue.c. The locale \<open>fifo\<close> is the contract of a queue; the ring buffer interprets it.
  \<^item> Server: connections (memcache.cpp: \<open>mmc_server_new\<close>, \<open>mmc_open\<close>, \<open>mmc_server_failure\<close>, \<open>mmc_sendcmd\<close>,
    \<open>mmc_readline\<close>, the persistent list, the proxy).
  \<^item> Hashing: CRC-32, FNV-1a and the two strategies (memcache_standard_hash.c, memcache_consistent_hash.c);
    Pool: the pool, the options exchange and \<open>mmc_pool_find\<close>; Strategy: the interface \<open>mmc_hash_t\<close> as the locale
    \<open>hash_strategy\<close>, with both strategies and the dispatch of the pool as interpretations.
  \<^item> Connections, Lifecycle: what every operation of Server and Pool does to the connections; the step
    relation \<open>conn_step\<close> of all of them in any order, and the invariant that a connected server has a stream.
    Liveness: on a mute network the command loops end, by a level for every status of a server.
  \<^item> Protocol, Read_Value: keys, command words, the VALUE header and its round trip, error answers, reading
    a value with its old and new checksums.
  \<^item> Store: compression, checksum header, request and its size, the send loop and the failover loop.
    Commands, Key_Handlers: delete, flush, incr/decr, get and the PHP functions on one key.
    Locking, Cas_Memory, Cas_Frame: getl and unl, and that only getl, stores and unl change the CAS values
    remembered.
  \<^item> Multi_Get, Multi_Schedule, Multi_By_Key, Multi_Lock: the commands on arrays of keys, and how the first pass
    of a multi get distributes them. Stats, Stats_Meaning: statistics, and what their lines mean.
    Pool_Handlers: the PHP functions on pools and servers.
  \<^item> Rule_Parser, Rule_Meaning (parse.cpp, include/parser.h): the operator precedence parser of log rules and
    the formulas it implements. Log_Output (log.cpp, include/log.h, include/logger.h): outputs, the request's
    account, publishing. Rule_Loader (loader.cpp): the configuration file.
  \<^item> Session (memcache_session.c), Config (INI handlers and table, initial globals).
  \<^item> Example, Runs: the scripted network on which the witnesses run.

  \<^bold>\<open>What the theorems show.\<close> Connections: no reachable state has a connected server without a stream, lookups
  give servers of the pool that have failed or can be used, a failed server waits for its retry interval, a
  failure is decided by the status alone. Placement: the binary search and the populated buckets agree with the ring
  successor, weights give shares, a pool that was built answers for every key. Data: what is stored reads back, through
  compression and both checksum layouts; headers round trip; requests fit their blocks; a corrupted value is not
  delivered. Locks: the table of CAS values has exactly what getl entered and what was not yet used, through
  any reads, deletes and lookups in between. The first pass of a multi get gives every key to one
  server or none. Statistics: the lines of \<open>stats\<close> read back from the array. Loops: stores
  repeat a bounded number of times, get and incr/decr end on a dead network. Log: accepted rules are well-formed,
  parenthesised rules mean their formulas, a loaded file decides what is logged. Configuration and sessions: the
  ranges of the settings, the servers of a save path. Where the code does not do what it means to, the theorem
  states what it does: the queue copy, the compressed store that is repeated, long keys and long log lines
  behind their buffers, FNV-1a on bytes from 128 on, operators without parentheses, sessions with a failed server,
  \<open>connection_retry_count\<close>.

  \<^bold>\<open>Not modelled, or modelled with a choice.\<close>
  \<^item> The function and argument tables, MINIT's registrations, MINFO and MSHUTDOWN call the Zend API only.
  \<^item> Array keys that are numeric strings are kept as strings; doubles (the compression savings) are
    rationals; \<open>%s\<close> of NULL prints \<open>(null)\<close> as glibc does; the byte order is little-endian and \<open>long\<close> has 64 bits.
  \<^item> getMultiByKey keeps a pointer to a local that has gone out of scope; the model reads the value
    it pointed to. The serialisation times of log records are an argument of \<open>LogManager_end\<close>, and whether a
    log record is alive during a session call is the argument \<open>live\<close> of the session functions.
  \<^item> Memory that only leaks, debug output, allocation failure and threads are left out; the module is one thread.
\<close>

end
